(* ===== verification/UH_Prelude.thy ===== *)
theory UH_Prelude
  imports Main "HOL-Library.Word" "HOL-Library.Char_ord" "HOL-Library.List_Lexorder"
    "HOL-Library.Product_Lexorder" "HOL-Library.Code_Target_Nat"
begin

text \<open>
  Shared material of the development: the effect type in which fallible stateful code is
  written, the Rust string and number routines the agent uses, and the lemmas and hint
  collections the component theories share.

  Strings and byte buffers are \<open>string\<close> (a list of bytes); the classification of white
  space and letters is the ASCII one.
\<close>

section \<open>Fallible stateful computations\<close>

text \<open>
  A Rust function that may return early with \<open>?\<close> and that changes a state is a function from
  the state to a result (\<open>Inl\<close> the error, \<open>Inr\<close> the value) and the state it leaves. The state
  is returned on the error path too: what was done before the error stays done.
\<close>

type_synonym ('s, 'e, 'a) io = "'s \<Rightarrow> ('e + 'a) \<times> 's"

definition io_return :: "'a \<Rightarrow> ('s, 'e, 'a) io" where
  "io_return x = (\<lambda>s. (Inr x, s))"

definition io_throw :: "'e \<Rightarrow> ('s, 'e, 'a) io" where
  "io_throw e = (\<lambda>s. (Inl e, s))"

definition io_bind :: "('s, 'e, 'a) io \<Rightarrow> ('a \<Rightarrow> ('s, 'e, 'b) io) \<Rightarrow> ('s, 'e, 'b) io" where
  "io_bind m f = (\<lambda>s. case m s of (Inl e, t) \<Rightarrow> (Inl e, t) | (Inr x, t) \<Rightarrow> f x t)"

definition io_then :: "('s, 'e, 'a) io \<Rightarrow> ('s, 'e, 'b) io \<Rightarrow> ('s, 'e, 'b) io" where
  "io_then m n = io_bind m (\<lambda>_. n)"

definition io_lift :: "'e + 'a \<Rightarrow> ('s, 'e, 'a) io" where
  "io_lift r = (\<lambda>s. (r, s))"

definition io_gets :: "('s \<Rightarrow> 'a) \<Rightarrow> ('s, 'e, 'a) io" where
  "io_gets f = (\<lambda>s. (Inr (f s), s))"

text \<open>A reader that may fail.\<close>

definition io_ask :: "('s \<Rightarrow> 'e + 'a) \<Rightarrow> ('s, 'e, 'a) io" where
  "io_ask f = (\<lambda>s. (f s, s))"

definition io_modify :: "('s \<Rightarrow> 's) \<Rightarrow> ('s, 'e, unit) io" where
  "io_modify f = (\<lambda>s. (Inr (), f s))"

text \<open>The conversion \<open>From\<close> that \<open>?\<close> applies to the error.\<close>

definition io_map_err :: "('e \<Rightarrow> 'f) \<Rightarrow> ('s, 'e, 'a) io \<Rightarrow> ('s, 'f, 'a) io" where
  "io_map_err g m = (\<lambda>s. case m s of (Inl e, t) \<Rightarrow> (Inl (g e), t) | (Inr x, t) \<Rightarrow> (Inr x, t))"

definition io_catch :: "('s, 'e, 'a) io \<Rightarrow> ('e \<Rightarrow> ('s, 'f, 'a) io) \<Rightarrow> ('s, 'f, 'a) io" where
  "io_catch m h = (\<lambda>s. case m s of (Inl e, t) \<Rightarrow> h e t | (Inr x, t) \<Rightarrow> (Inr x, t))"

text \<open>Running a computation for its effect and looking at its result without failing.\<close>

definition io_attempt :: "('s, 'e, 'a) io \<Rightarrow> ('s, 'f, 'e + 'a) io" where
  "io_attempt m = (\<lambda>s. case m s of (r, t) \<Rightarrow> (Inr r, t))"

text \<open>Running a computation on a part of the state.\<close>

definition io_zoom :: "('s \<Rightarrow> 't) \<Rightarrow> ('t \<Rightarrow> 's \<Rightarrow> 's) \<Rightarrow> ('t, 'e, 'a) io \<Rightarrow> ('s, 'e, 'a) io" where
  "io_zoom get put m = (\<lambda>s. case m (get s) of (r, t) \<Rightarrow> (r, put t s))"

text \<open>A \<open>for\<close> loop whose body may leave with \<open>?\<close>.\<close>

primrec io_each :: "('a \<Rightarrow> ('s, 'e, unit) io) \<Rightarrow> 'a list \<Rightarrow> ('s, 'e, unit) io" where
  "io_each f [] = io_return ()"
| "io_each f (x # xs) = io_then (f x) (io_each f xs)"

primrec io_collect :: "('a \<Rightarrow> ('s, 'e, 'b) io) \<Rightarrow> 'a list \<Rightarrow> ('s, 'e, 'b list) io" where
  "io_collect f [] = io_return []"
| "io_collect f (x # xs) = io_bind (f x) (\<lambda>y. io_bind (io_collect f xs) (\<lambda>ys. io_return (y # ys)))"

definition res_bind :: "'e + 'a \<Rightarrow> ('a \<Rightarrow> 'e + 'b) \<Rightarrow> 'e + 'b" where
  "res_bind r f = (case r of Inl e \<Rightarrow> Inl e | Inr x \<Rightarrow> f x)"

definition res_map_err :: "('e \<Rightarrow> 'f) \<Rightarrow> 'e + 'a \<Rightarrow> 'f + 'a" where
  "res_map_err g r = (case r of Inl e \<Rightarrow> Inl (g e) | Inr x \<Rightarrow> Inr x)"

definition ok_or :: "'e \<Rightarrow> 'a option \<Rightarrow> 'e + 'a" where
  "ok_or e x = (case x of None \<Rightarrow> Inl e | Some a \<Rightarrow> Inr a)"

definition is_ok :: "'e + 'a \<Rightarrow> bool" where
  "is_ok r = (case r of Inl _ \<Rightarrow> False | Inr _ \<Rightarrow> True)"

text \<open>
  How a computation of the daemon can fail to give a value: it returns an error, it panics, or
  it waits for an event that never comes.
\<close>

datatype 'e stop = Fails 'e | Panics | Blocks

named_theorems io_simps \<open>unfolding of the computations\<close>

declare io_return_def [io_simps] io_throw_def [io_simps] io_bind_def [io_simps]
  io_then_def [io_simps] io_lift_def [io_simps] io_gets_def [io_simps] io_modify_def [io_simps]
  io_ask_def [io_simps]
  io_map_err_def [io_simps] io_catch_def [io_simps] io_attempt_def [io_simps]
  io_zoom_def [io_simps] res_bind_def [io_simps] res_map_err_def [io_simps] ok_or_def [io_simps]

lemma is_ok_simps [simp]: "is_ok (Inl e) = False" "is_ok (Inr x) = True"
  by (simp_all add: is_ok_def)

lemma io_bind_return [simp]: "io_bind (io_return x) f = f x"
  by (simp add: io_simps)

lemma io_bind_throw [simp]: "io_bind (io_throw e) f = io_throw e"
  by (simp add: io_simps)

lemma io_then_return [simp]: "io_then (io_return x) m = m"
  by (simp add: io_then_def)

lemma io_then_throw [simp]: "io_then (io_throw e) m = io_throw e"
  by (simp add: io_then_def)

lemma io_bind_assoc: "io_bind (io_bind m f) g = io_bind m (\<lambda>x. io_bind (f x) g)"
  by (auto simp: io_bind_def split: prod.splits sum.splits)

lemma io_bind_Inr: "m s = (Inr x, t) \<Longrightarrow> io_bind m f s = f x t"
  by (simp add: io_bind_def)

lemma io_bind_Inl: "m s = (Inl e, t) \<Longrightarrow> io_bind m f s = (Inl e, t)"
  by (simp add: io_bind_def)

lemma io_bind_Inr_E:
  assumes "io_bind m f s = (Inr y, u)"
  obtains x t where "m s = (Inr x, t)" "f x t = (Inr y, u)"
  using assms by (auto simp: io_bind_def split: prod.splits sum.splits)

lemma io_then_Inr_E:
  assumes "io_then m n s = (Inr y, u)"
  obtains x t where "m s = (Inr x, t)" "n t = (Inr y, u)"
  using assms unfolding io_then_def by (rule io_bind_Inr_E)

subsection \<open>Frames: what a computation may do to the state\<close>

text \<open>
  \<open>io_rel R m\<close>: every run of \<open>m\<close>, failed ones included, takes a state to an \<open>R\<close>-related one.
  With a preorder \<open>R\<close> the rules below reduce a computation to its primitive effects.
\<close>

definition io_rel :: "('s \<Rightarrow> 's \<Rightarrow> bool) \<Rightarrow> ('s, 'e, 'a) io \<Rightarrow> bool" where
  "io_rel R m \<longleftrightarrow> (\<forall>s. R s (snd (m s)))"

named_theorems frame \<open>frame rules\<close>

lemma io_relI: "(\<And>s r t. m s = (r, t) \<Longrightarrow> R s t) \<Longrightarrow> io_rel R m"
  by (metis io_rel_def prod.collapse)

lemma io_relD: "io_rel R m \<Longrightarrow> m s = (r, t) \<Longrightarrow> R s t"
  by (metis io_rel_def snd_conv)

lemma io_rel_return [frame]: "reflp R \<Longrightarrow> io_rel R (io_return x)"
  by (simp add: io_rel_def io_return_def reflpD)

lemma io_rel_throw [frame]: "reflp R \<Longrightarrow> io_rel R (io_throw e)"
  by (simp add: io_rel_def io_throw_def reflpD)

lemma io_rel_lift [frame]: "reflp R \<Longrightarrow> io_rel R (io_lift r)"
  by (simp add: io_rel_def io_lift_def reflpD)

lemma io_rel_gets [frame]: "reflp R \<Longrightarrow> io_rel R (io_gets f)"
  by (simp add: io_rel_def io_gets_def reflpD)

lemma io_rel_ask [frame]: "reflp R \<Longrightarrow> io_rel R (io_ask f)"
  by (simp add: io_rel_def io_ask_def reflpD)

lemma io_rel_modify: "(\<And>s. R s (f s)) \<Longrightarrow> io_rel R (io_modify f)"
  by (simp add: io_rel_def io_modify_def)

lemma io_rel_bind [frame]:
  assumes "transp R" "io_rel R m" "\<And>x. io_rel R (f x)"
  shows "io_rel R (io_bind m f)"
proof (rule io_relI)
  fix s r t assume eq: "io_bind m f s = (r, t)"
  obtain r0 u where m: "m s = (r0, u)" by fastforce
  have su: "R s u" using assms(2) m by (rule io_relD)
  show "R s t"
  proof (cases r0)
    case (Inl e) with eq m su show ?thesis by (simp add: io_bind_def)
  next
    case (Inr x)
    with eq m have "f x u = (r, t)" by (simp add: io_bind_def)
    with assms(3) have "R u t" by (rule io_relD)
    with assms(1) su show ?thesis by (rule transpD)
  qed
qed

lemma io_rel_then [frame]:
  "transp R \<Longrightarrow> io_rel R m \<Longrightarrow> io_rel R n \<Longrightarrow> io_rel R (io_then m n)"
  unfolding io_then_def by (rule io_rel_bind)

lemma io_rel_map_err [frame]: "io_rel R m \<Longrightarrow> io_rel R (io_map_err g m)"
  by (rule io_relI) (auto simp: io_map_err_def dest: io_relD split: prod.splits sum.splits)

lemma io_rel_attempt [frame]: "io_rel R m \<Longrightarrow> io_rel R (io_attempt m)"
  by (rule io_relI) (auto simp: io_attempt_def dest: io_relD split: prod.splits sum.splits)

lemma io_rel_catch [frame]:
  assumes "transp R" "io_rel R m" "\<And>e. io_rel R (h e)"
  shows "io_rel R (io_catch m h)"
proof (rule io_relI)
  fix s r t assume eq: "io_catch m h s = (r, t)"
  obtain r0 u where m: "m s = (r0, u)" by fastforce
  have su: "R s u" using assms(2) m by (rule io_relD)
  show "R s t"
  proof (cases r0)
    case (Inr x) with eq m su show ?thesis by (simp add: io_catch_def)
  next
    case (Inl e)
    with eq m have "h e u = (r, t)" by (simp add: io_catch_def)
    with assms(3) have "R u t" by (rule io_relD)
    with assms(1) su show ?thesis by (rule transpD)
  qed
qed

lemma io_rel_each [frame]:
  assumes "reflp R" "transp R" "\<And>x. io_rel R (f x)"
  shows "io_rel R (io_each f xs)"
  by (induction xs) (auto intro!: frame assms)

lemma io_rel_collect [frame]:
  assumes "reflp R" "transp R" "\<And>x. io_rel R (f x)"
  shows "io_rel R (io_collect f xs)"
  by (induction xs) (auto intro!: frame assms)

lemma io_rel_zoom:
  assumes "io_rel Q m" "\<And>s t. Q (get s) t \<Longrightarrow> R s (put t s)"
  shows "io_rel R (io_zoom get put m)"
  using assms by (intro io_relI) (auto simp: io_zoom_def dest: io_relD split: prod.splits)

lemma io_rel_if [frame]: "io_rel R m \<Longrightarrow> io_rel R n \<Longrightarrow> io_rel R (if b then m else n)"
  by simp

text \<open>The frame "this observation of the state does not change".\<close>

definition same :: "('s \<Rightarrow> 'a) \<Rightarrow> 's \<Rightarrow> 's \<Rightarrow> bool" where
  "same f s t \<longleftrightarrow> f t = f s"

lemma reflp_same [simp, intro]: "reflp (same f)"
  by (simp add: same_def reflp_def)

lemma transp_same [simp, intro]: "transp (same f)"
  by (simp add: same_def transp_def)

lemma same_refl [simp]: "same f s s"
  by (simp add: same_def)

end
