(* ===== verification/UH_Strings.thy ===== *)
theory UH_Strings
  imports UH_Prelude
begin

text \<open>
  The routines of Rust's \<open>str\<close>, \<open>Path\<close> and integer parsing that the agent calls, on
  byte strings. White space is the ASCII white space; paths are Unix paths.
\<close>

section \<open>Strings\<close>

definition is_ws :: "char \<Rightarrow> bool" where
  "is_ws c \<longleftrightarrow> c = CHR '' '' \<or> (let n = (of_char c :: nat) in 9 \<le> n \<and> n \<le> 13)"

definition newline :: char where
  "newline = CHR 0x0A"

definition carriage_return :: char where
  "carriage_return = CHR 0x0D"

definition dquote :: char where
  "dquote = CHR 0x22"

definition str_trim :: "string \<Rightarrow> string" where
  "str_trim s = rev (dropWhile is_ws (rev (dropWhile is_ws s)))"

fun starts_with :: "string \<Rightarrow> string \<Rightarrow> bool" where
  "starts_with [] s = True"
| "starts_with (p # ps) [] = False"
| "starts_with (p # ps) (c # cs) = (p = c \<and> starts_with ps cs)"

fun strip_prefix :: "string \<Rightarrow> string \<Rightarrow> string option" where
  "strip_prefix [] s = Some s"
| "strip_prefix (p # ps) [] = None"
| "strip_prefix (p # ps) (c # cs) = (if p = c then strip_prefix ps cs else None)"

fun str_contains :: "string \<Rightarrow> string \<Rightarrow> bool" where
  "str_contains p [] = (p = [])"
| "str_contains p (c # cs) = (starts_with p (c # cs) \<or> str_contains p cs)"

text \<open>\<open>split(c)\<close>: one piece more than there are occurrences of \<open>c\<close>.\<close>

fun split_on :: "char \<Rightarrow> string \<Rightarrow> string list" where
  "split_on c [] = [[]]"
| "split_on c (x # xs) =
     (if x = c then [] # split_on c xs
      else (case split_on c xs of [] \<Rightarrow> [[x]] | p # ps \<Rightarrow> (x # p) # ps))"

text \<open>\<open>split_once(c)\<close>; \<open>splitn(2, c)\<close> is its two pieces, or the whole string.\<close>

fun split_once :: "char \<Rightarrow> string \<Rightarrow> (string \<times> string) option" where
  "split_once c [] = None"
| "split_once c (x # xs) =
     (if x = c then Some ([], xs)
      else (case split_once c xs of None \<Rightarrow> None | Some (a, b) \<Rightarrow> Some (x # a, b)))"

definition splitn2 :: "char \<Rightarrow> string \<Rightarrow> string list" where
  "splitn2 c s = (case split_once c s of None \<Rightarrow> [s] | Some (a, b) \<Rightarrow> [a, b])"

text \<open>
  \<open>lines()\<close>: every line ends at a newline, which is dropped with one carriage return before
  it; a last line without a newline counts when it is not empty and is kept as it is.
\<close>

definition strip_cr :: "string \<Rightarrow> string" where
  "strip_cr s = (if s \<noteq> [] \<and> last s = carriage_return then butlast s else s)"

fun line_pieces :: "string list \<Rightarrow> string list" where
  "line_pieces [] = []"
| "line_pieces [p] = (if p = [] then [] else [p])"
| "line_pieces (p # q # ps) = strip_cr p # line_pieces (q # ps)"

definition str_lines :: "string \<Rightarrow> string list" where
  "str_lines s = line_pieces (split_on newline s)"

fun str_words_aux :: "string \<Rightarrow> string \<Rightarrow> string list" where
  "str_words_aux w [] = (if w = [] then [] else [rev w])"
| "str_words_aux w (c # cs) =
     (if is_ws c then (if w = [] then str_words_aux [] cs else rev w # str_words_aux [] cs)
      else str_words_aux (c # w) cs)"

text \<open>\<open>split_whitespace()\<close>.\<close>

definition str_words :: "string \<Rightarrow> string list" where
  "str_words s = str_words_aux [] s"

text \<open>\<open>join(sep)\<close> on a list of strings.\<close>

fun str_join :: "string \<Rightarrow> string list \<Rightarrow> string" where
  "str_join sep [] = []"
| "str_join sep [s] = s"
| "str_join sep (s # t # ss) = s @ sep @ str_join sep (t # ss)"

definition lower_char :: "char \<Rightarrow> char" where
  "lower_char c = (let n = (of_char c :: nat) in
     if 65 \<le> n \<and> n \<le> 90 then char_of (n + 32) else c)"

definition to_lowercase :: "string \<Rightarrow> string" where
  "to_lowercase s = map lower_char s"

section \<open>Numbers in text\<close>

definition digit_char :: "nat \<Rightarrow> char" where
  "digit_char n = char_of (48 + n)"

definition digit_value :: "char \<Rightarrow> nat option" where
  "digit_value c = (let n = (of_char c :: nat) in
     if 48 \<le> n \<and> n \<le> 57 then Some (n - 48) else None)"

fun show_nat :: "nat \<Rightarrow> string" where
  "show_nat n = (if n < 10 then [digit_char n] else show_nat (n div 10) @ [digit_char (n mod 10)])"

declare show_nat.simps [simp del]

definition show_int :: "int \<Rightarrow> string" where
  "show_int i = (if i < 0 then CHR ''-'' # show_nat (nat (- i)) else show_nat (nat i))"

fun digits_value :: "nat \<Rightarrow> nat \<Rightarrow> string \<Rightarrow> nat option" where
  "digits_value base acc [] = Some acc"
| "digits_value base acc (c # cs) = (case digit_value c of None \<Rightarrow> None
     | Some d \<Rightarrow> if d < base then digits_value base (base * acc + d) cs else None)"

text \<open>
  \<open>from_str_radix\<close> of an unsigned type with values up to \<open>limit\<close>: an optional plus sign, at
  least one digit, and no overflow. Only radices up to ten occur.
\<close>

definition parse_unsigned :: "nat \<Rightarrow> nat \<Rightarrow> string \<Rightarrow> nat option" where
  "parse_unsigned base limit s =
     (let ds = (case s of c # cs \<Rightarrow> if c = CHR ''+'' then cs else s | [] \<Rightarrow> [])
      in if ds = [] then None
         else (case digits_value base 0 ds of None \<Rightarrow> None
           | Some v \<Rightarrow> if v \<le> limit then Some v else None))"

definition parse_i64 :: "string \<Rightarrow> int option" where
  "parse_i64 s = (case s of
       c # cs \<Rightarrow> if c = CHR ''-'' then
           (if cs = [] then None
            else map_option (\<lambda>v. - int v)
              (case digits_value 10 0 cs of None \<Rightarrow> None
                | Some v \<Rightarrow> if v \<le> 2 ^ 63 then Some v else None))
         else map_option int (parse_unsigned 10 (2 ^ 63 - 1) s)
     | [] \<Rightarrow> None)"

abbreviation parse_u32 :: "string \<Rightarrow> nat option" where
  "parse_u32 \<equiv> parse_unsigned 10 (2 ^ 32 - 1)"

abbreviation parse_u64 :: "string \<Rightarrow> nat option" where
  "parse_u64 \<equiv> parse_unsigned 10 (2 ^ 64 - 1)"

definition hex_char :: "nat \<Rightarrow> char" where
  "hex_char n = (if n < 10 then char_of (48 + n) else char_of (87 + n))"

section \<open>Paths\<close>

text \<open>\<open>Path::join\<close>: an absolute right side replaces the left one.\<close>

definition path_join :: "string \<Rightarrow> string \<Rightarrow> string" where
  "path_join p q =
     (if starts_with ''/'' q then q
      else if p = [] then q
      else if last p = CHR ''/'' then p @ q
      else p @ ''/'' @ q)"

text \<open>
  \<open>parent\<close>, \<open>file_name\<close> and \<open>with_file_name\<close> on a path without trailing slashes: the last
  component is what follows the last slash. The empty path and the root have neither, and a
  last component \<open>..\<close> is no file name.
\<close>

definition path_split :: "string \<Rightarrow> string \<times> string" where
  "path_split p =
     (let r = rev p in (rev (dropWhile (\<lambda>c. c \<noteq> CHR ''/'') r), rev (takeWhile (\<lambda>c. c \<noteq> CHR ''/'') r)))"

definition path_file_name :: "string \<Rightarrow> string option" where
  "path_file_name p = (let f = snd (path_split p) in if f = [] \<or> f = ''..'' then None else Some f)"

definition path_parent :: "string \<Rightarrow> string option" where
  "path_parent p =
     (if p = [] \<or> p = ''/'' then None
      else (let d = fst (path_split p) in
        if d = [] then Some [] else if d = ''/'' then Some ''/'' else Some (butlast d)))"

definition path_with_file_name :: "string \<Rightarrow> string \<Rightarrow> string" where
  "path_with_file_name p f = fst (path_split p) @ f"

section \<open>Lemmas\<close>

lemma starts_with_iff: "starts_with p s \<longleftrightarrow> (\<exists>r. s = p @ r)"
  by (induction p s rule: starts_with.induct) auto

lemma strip_prefix_iff: "strip_prefix p s = Some r \<longleftrightarrow> s = p @ r"
  by (induction p s rule: strip_prefix.induct) auto

lemma strip_prefix_append [simp]: "strip_prefix p (p @ r) = Some r"
  by (simp add: strip_prefix_iff)

lemma starts_with_append [simp]: "starts_with p (p @ r)"
  by (auto simp: starts_with_iff)

lemma split_on_ne [simp]: "split_on c s \<noteq> []"
  by (induction s) (auto split: list.splits)

lemma split_on_no_sep: "\<forall>p \<in> set (split_on c s). c \<notin> set p"
  by (induction s) (auto split: list.splits)

lemma split_on_join: "str_join [c] (split_on c s) = s"
proof (induction s)
  case (Cons x xs)
  obtain p ps where "split_on c xs = p # ps" by (meson split_on_ne neq_Nil_conv)
  with Cons show ?case by (cases ps) auto
qed simp

lemma split_on_none: "c \<notin> set s \<Longrightarrow> split_on c s = [s]"
  by (induction s) auto

lemma split_on_append: "c \<notin> set a \<Longrightarrow> split_on c (a @ c # b) = a # split_on c b"
  by (induction a) auto

lemma split_once_Some_D: "split_once c s = Some (a, b) \<Longrightarrow> s = a @ c # b \<and> c \<notin> set a"
  by (induction s arbitrary: a) (auto split: if_splits option.splits)

lemma split_once_append: "c \<notin> set a \<Longrightarrow> split_once c (a @ c # b) = Some (a, b)"
  by (induction a) auto

lemma split_once_iff: "split_once c s = Some (a, b) \<longleftrightarrow> s = a @ c # b \<and> c \<notin> set a"
  using split_once_Some_D [of c s a b] split_once_append [of c a b] by blast

lemma split_once_None: "split_once c s = None \<longleftrightarrow> c \<notin> set s"
  by (induction s) (auto split: option.splits)

lemma str_trim_id: "(\<forall>c \<in> set s. \<not> is_ws c) \<Longrightarrow> str_trim s = s"
proof -
  assume a: "\<forall>c \<in> set s. \<not> is_ws c"
  then have "dropWhile is_ws s = s" by (cases s) auto
  moreover have "\<forall>c \<in> set (rev s). \<not> is_ws c" using a by simp
  then have "dropWhile is_ws (rev s) = rev s" by (cases "rev s") auto
  ultimately show ?thesis by (simp add: str_trim_def)
qed

lemma of_char_char_of: "n < 256 \<Longrightarrow> (of_char (char_of n :: char) :: nat) = n"
  by (simp add: of_char_of take_bit_eq_mod)

lemma digit_value_digit_char [simp]: "n < 10 \<Longrightarrow> digit_value (digit_char n) = Some n"
  by (simp add: digit_value_def digit_char_def of_char_char_of)

lemma digits_value_append:
  "digits_value b acc (s @ t) = (case digits_value b acc s of None \<Rightarrow> None | Some v \<Rightarrow> digits_value b v t)"
  by (induction s arbitrary: acc) (auto split: option.splits)

lemma digits_value_show_nat: "digits_value 10 0 (show_nat n) = Some n"
proof (induction n rule: show_nat.induct)
  case (1 n)
  show ?case
  proof (cases "n < 10")
    case True then show ?thesis by (subst show_nat.simps) simp
  next
    case False
    with 1 show ?thesis by (subst show_nat.simps) (simp add: digits_value_append)
  qed
qed

lemma show_nat_ne [simp]: "show_nat n \<noteq> []"
  by (subst show_nat.simps) simp

lemma digit_char_ne_plus: "n < 10 \<Longrightarrow> digit_char n \<noteq> CHR ''+''"
  using digit_value_digit_char [of n] by (auto simp: digit_value_def)

lemma hd_show_nat: "\<exists>d < 10. hd (show_nat n) = digit_char d"
proof (induction n rule: show_nat.induct)
  case (1 n)
  show ?case
  proof (cases "n < 10")
    case True then show ?thesis by (subst show_nat.simps) auto
  next
    case False
    with 1 show ?thesis by (subst show_nat.simps) simp
  qed
qed

lemma show_nat_no_plus: "show_nat n = c # cs \<Longrightarrow> c \<noteq> CHR ''+''"
  using hd_show_nat [of n] digit_char_ne_plus by auto

text \<open>Printing a number and parsing it back.\<close>

lemma parse_unsigned_show_nat: "n \<le> limit \<Longrightarrow> parse_unsigned 10 limit (show_nat n) = Some n"
  using show_nat_no_plus [of n] digits_value_show_nat [of n]
  by (cases "show_nat n") (auto simp: parse_unsigned_def)

lemma parse_unsigned_bound: "parse_unsigned b limit s = Some v \<Longrightarrow> v \<le> limit"
  by (auto simp: parse_unsigned_def Let_def split: if_splits option.splits)

lemma show_nat_inj: "show_nat m = show_nat n \<Longrightarrow> m = n"
  by (metis digits_value_show_nat option.inject)

lemma path_join_inj: "path_join d a = path_join d b \<Longrightarrow> \<not> starts_with ''/'' a \<Longrightarrow> \<not> starts_with ''/'' b \<Longrightarrow> a = b"
  by (auto simp: path_join_def split: if_splits)

end
