(* ===== verification/UH_System.thy ===== *)
theory UH_System
  imports UH_Strings "HOL-Library.AList"
begin

text \<open>
  The machine the agent runs on: files, the clock, the programs it starts and the servers it
  talks to. \<open>sys\<close> is the state of that machine; \<open>env\<close> collects what is not code of the
  repository (programs, servers, crates), each as a function the model is parametric in. Every
  operation of the standard library the agent uses is defined here on \<open>sys\<close>.

  \<open>commands\<close> and \<open>requests\<close> record, oldest first, the programs started and the HTTP requests
  sent. They are set by the wrappers below and not by \<open>env\<close>, so a record is never lost.
  An I/O operation that fails does so before it has an effect.
\<close>

section \<open>Values exchanged with the outside\<close>

datatype json = JNull | JBool bool | JNum int | JFloat string | JStr string | JArr "json list"
  | JObj "(string \<times> json) list"

datatype io_error = NotFound | InvalidInput | OtherIo string

record process_output =
  stdout :: string
  stderr :: string

text \<open>\<open>easy_process::Error\<close>: the program did not run, or it exited with a failure status.\<close>

datatype process_error = ProcIo io_error | ProcFailure nat process_output

datatype http_method = GET | POST

record http_request =
  req_method :: http_method
  req_url :: string
  req_headers :: "(string \<times> string) list"
  req_body :: "json option"

datatype http_error = HttpError string

text \<open>A response arrives in chunks; \<open>broken\<close> is the error that ends the body early, if any.\<close>

record http_response =
  status :: nat
  resp_headers :: "(string \<times> string) list"
  chunks :: "string list"
  broken :: "http_error option"

datatype archive_error = ArchiveIo io_error | ArchiveOther string

text \<open>A node of the file system. Device nodes carry their numbers and the bytes they hold.\<close>

datatype fnode = Regular string | Directory | BlockDev "nat \<times> nat" string | CharDev string

datatype fs_op = FsMeta | FsOpen | FsRead | FsWrite | FsCreate | FsRemove | FsRename | FsMkdir
  | FsList | FsSeek | FsChmod | FsChown

section \<open>The state of the machine\<close>

record sys =
  files :: "(string \<times> fnode) list"
  links :: "(string \<times> string) list"  \<comment> \<open>symbolic links, with the path each resolves to\<close>
  modes :: "(string \<times> nat) list"  \<comment> \<open>permissions set by the agent, latest first\<close>
  owners :: "(string \<times> nat option \<times> nat option) list"  \<comment> \<open>owners set by the agent\<close>
  device :: "string \<Rightarrow> string"  \<comment> \<open>what the external programs store (boot loader, volumes)\<close>
  clock :: int  \<comment> \<open>nanoseconds since the epoch\<close>
  commands :: "string list"
  requests :: "http_request list"

section \<open>What is not code of the repository\<close>

text \<open>An open file: its bytes, the position, and the bytes that may still be read, if limited.\<close>

record handle =
  whole :: string
  cursor :: nat
  read_limit :: "nat option"

text \<open>Chunks of a delta archive with the offsets they are at, and the errors of its readers.\<close>

type_synonym chunk_index = "(string \<times> nat \<times> nat list) list"

datatype delta_error = DeltaIo io_error | DeltaHttp string

record env =
  v1_parsing :: bool  \<comment> \<open>the cargo feature of this name\<close>
  run :: "string \<Rightarrow> sys \<Rightarrow> (process_error + process_output) \<times> sys"
  run_input :: "string \<Rightarrow> string \<Rightarrow> sys \<Rightarrow> (process_error + process_output) \<times> sys"  \<comment> \<open>with bytes on its input\<close>
  io_fault :: "fs_op \<Rightarrow> string \<Rightarrow> sys \<Rightarrow> io_error option"
  readonly :: "string \<Rightarrow> sys \<Rightarrow> bool"
  statvfs_free :: "string \<Rightarrow> sys \<Rightarrow> io_error + 64 word \<times> 64 word"
  in_path :: "string \<Rightarrow> sys \<Rightarrow> bool"  \<comment> \<open>\<open>quale::which\<close>\<close>
  http :: "http_request \<Rightarrow> sys \<Rightarrow> (http_error + http_response) \<times> sys"
  url_ok :: "string \<Rightarrow> bool"  \<comment> \<open>\<open>Url::parse\<close> accepts\<close>
  json_text :: "json \<Rightarrow> string"
  json_parse :: "string \<Rightarrow> string + json"
  toml_parse :: "string \<Rightarrow> string + json"
  ini_parse :: "string \<Rightarrow> string + json"
  time_text :: "int \<Rightarrow> string"  \<comment> \<open>RFC 3339 text of a \<open>DateTime\<close>\<close>
  time_parse :: "string \<Rightarrow> int option"
  duration_parse :: "string \<Rightarrow> int option"  \<comment> \<open>\<open>ms_converter::ms\<close>, milliseconds\<close>
  sha256 :: "string \<Rightarrow> string"
  base64_decode :: "string \<Rightarrow> string + string"
  verify_sha256 :: "string \<Rightarrow> string \<Rightarrow> string \<Rightarrow> string + bool"  \<comment> \<open>key, signature, data\<close>
  archive_entry :: "string \<Rightarrow> string \<Rightarrow> archive_error + string"  \<comment> \<open>archive, entry\<close>
  uncompress :: "string \<Rightarrow> archive_error + string"
  archive_files :: "string \<Rightarrow> archive_error + (string \<times> string) list"
  image_version :: "string \<Rightarrow> handle \<Rightarrow> string option"  \<comment> \<open>\<open>find_binary_version\<close>, by kind\<close>
  pattern_version :: "string \<Rightarrow> nat \<Rightarrow> string \<Rightarrow> string option"  \<comment> \<open>expression, buffer size, bytes\<close>
  take_seek :: "handle \<Rightarrow> nat \<Rightarrow> string"  \<comment> \<open>what a limited handle reads after a seek\<close>
  regex_captures :: "string \<Rightarrow> string \<Rightarrow> (string \<rightharpoonup> string) option"
  delta_init :: "string \<Rightarrow> sys \<Rightarrow> string + string"  \<comment> \<open>the archive at a path or an address, by its bytes\<close>
  delta_source_size :: "string \<Rightarrow> 64 word"  \<comment> \<open>of an archive\<close>
  delta_scan :: "string \<Rightarrow> string \<Rightarrow> (io_error + nat \<times> string \<times> nat) list"  \<comment> \<open>archive, bytes: offset, sum and size of their chunks\<close>
  delta_reorder :: "string \<Rightarrow> chunk_index \<Rightarrow> string \<Rightarrow> io_error + string \<times> chunk_index"  \<comment> \<open>archive, chunks there, bytes: new bytes, chunks left\<close>
  delta_stream :: "string \<Rightarrow> chunk_index \<Rightarrow> (delta_error + string) list"  \<comment> \<open>archive, chunks left: these chunks, compressed\<close>
  delta_decompress :: "string \<Rightarrow> string + string"
  delta_verify :: "string \<Rightarrow> string + string"
  delta_feed :: "chunk_index \<Rightarrow> string \<Rightarrow> string \<Rightarrow> io_error + string \<times> chunk_index"  \<comment> \<open>chunks left, chunk, bytes\<close>
  mount_fs :: "string \<Rightarrow> string \<Rightarrow> string \<Rightarrow> sys \<Rightarrow> (io_error + string) \<times> sys"
  unmount_fs :: "string \<Rightarrow> sys \<Rightarrow> sys"
  mtd_kind :: "string \<Rightarrow> sys \<Rightarrow> io_error + 8 word"
  user_id :: "string \<Rightarrow> nat option"
  group_id :: "string \<Rightarrow> nat option"
  socket_ok :: "string \<Rightarrow> bool"  \<comment> \<open>a \<open>SocketAddr\<close>\<close>
  level_name :: "string \<Rightarrow> string"  \<comment> \<open>the name \<open>slog\<close> gives a level\<close>
  log_time :: "int \<Rightarrow> string"  \<comment> \<open>local time in the log\<close>
  log_enabled :: "string \<Rightarrow> bool"  \<comment> \<open>the levels the logger of the process lets through\<close>
  io_text :: "io_error \<Rightarrow> string"  \<comment> \<open>the \<open>Display\<close> texts of other libraries' errors\<close>
  process_text :: "process_error \<Rightarrow> string"
  http_text :: "http_error \<Rightarrow> string"
  archive_text :: "archive_error \<Rightarrow> string"
  status_text :: "nat \<Rightarrow> string"
  fixed_text :: "string \<Rightarrow> string"

section \<open>The file system\<close>

definition node :: "string \<Rightarrow> sys \<Rightarrow> fnode option" where
  "node p s = map_of (files s) p"

definition set_node :: "string \<Rightarrow> fnode \<Rightarrow> sys \<Rightarrow> sys" where
  "set_node p n s = s\<lparr>files := AList.update p n (files s)\<rparr>"

definition del_node :: "string \<Rightarrow> sys \<Rightarrow> sys" where
  "del_node p s = s\<lparr>files := AList.delete p (files s)\<rparr>"

definition node_bytes :: "fnode \<Rightarrow> string option" where
  "node_bytes n = (case n of Regular b \<Rightarrow> Some b | BlockDev _ b \<Rightarrow> Some b | CharDev b \<Rightarrow> Some b
     | Directory \<Rightarrow> None)"

text \<open>\<open>metadata().len()\<close>: device nodes have no length of their own.\<close>

definition node_len :: "fnode \<Rightarrow> 64 word" where
  "node_len n = (case n of Regular b \<Rightarrow> of_nat (length b) | Directory \<Rightarrow> 4096 | _ \<Rightarrow> 0)"

text \<open>An operation that may be refused by the operating system.\<close>

definition guarded :: "env \<Rightarrow> fs_op \<Rightarrow> string \<Rightarrow> (sys, io_error, 'a) io \<Rightarrow> (sys, io_error, 'a) io" where
  "guarded E op p m = (\<lambda>s. case io_fault E op p s of Some e \<Rightarrow> (Inl e, s) | None \<Rightarrow> m s)"

text \<open>\<open>Path::exists\<close>: false also when the metadata cannot be read.\<close>

definition fs_exists :: "env \<Rightarrow> string \<Rightarrow> sys \<Rightarrow> bool" where
  "fs_exists E p s \<longleftrightarrow> io_fault E FsMeta p s = None \<and> node p s \<noteq> None"

definition fs_metadata :: "env \<Rightarrow> string \<Rightarrow> (sys, io_error, fnode) io" where
  "fs_metadata E p = guarded E FsMeta p
     (\<lambda>s. case node p s of None \<Rightarrow> (Inl NotFound, s) | Some n \<Rightarrow> (Inr n, s))"

definition fs_read :: "env \<Rightarrow> string \<Rightarrow> (sys, io_error, string) io" where
  "fs_read E p = guarded E FsRead p
     (\<lambda>s. case node p s of None \<Rightarrow> (Inl NotFound, s)
        | Some n \<Rightarrow> (case node_bytes n of None \<Rightarrow> (Inl (OtherIo ''is a directory''), s)
            | Some b \<Rightarrow> (Inr b, s)))"

definition dir_present :: "string \<Rightarrow> sys \<Rightarrow> bool" where
  "dir_present p s \<longleftrightarrow> (case path_parent p of None \<Rightarrow> True
     | Some d \<Rightarrow> d = [] \<or> d = ''/'' \<or> node d s = Some Directory)"

text \<open>\<open>fs::write\<close> and a file opened with create and truncate: the old content is gone.\<close>

definition fs_write :: "env \<Rightarrow> string \<Rightarrow> string \<Rightarrow> (sys, io_error, unit) io" where
  "fs_write E p b = guarded E FsWrite p
     (\<lambda>s. case node p s of
        None \<Rightarrow> if dir_present p s then (Inr (), set_node p (Regular b) s) else (Inl NotFound, s)
      | Some (Regular _) \<Rightarrow> (Inr (), set_node p (Regular b) s)
      | Some Directory \<Rightarrow> (Inl (OtherIo ''is a directory''), s)
      | Some (BlockDev n _) \<Rightarrow> (Inr (), set_node p (BlockDev n b) s)
      | Some (CharDev _) \<Rightarrow> (Inr (), set_node p (CharDev b) s))"

definition fs_remove :: "env \<Rightarrow> string \<Rightarrow> (sys, io_error, unit) io" where
  "fs_remove E p = guarded E FsRemove p
     (\<lambda>s. case node p s of None \<Rightarrow> (Inl NotFound, s)
        | Some Directory \<Rightarrow> (Inl (OtherIo ''is a directory''), s)
        | Some _ \<Rightarrow> (Inr (), del_node p s))"

definition fs_rename :: "env \<Rightarrow> string \<Rightarrow> string \<Rightarrow> (sys, io_error, unit) io" where
  "fs_rename E p q = guarded E FsRename p
     (\<lambda>s. case node p s of None \<Rightarrow> (Inl NotFound, s)
        | Some n \<Rightarrow> (Inr (), set_node q n (del_node p s)))"

text \<open>\<open>create_dir_all\<close>: every missing directory on the way to \<open>p\<close>, outermost first.\<close>

fun mkdirs :: "nat \<Rightarrow> string \<Rightarrow> sys \<Rightarrow> sys" where
  "mkdirs 0 p s = s"
| "mkdirs (Suc fuel) p s =
     (case path_parent p of None \<Rightarrow> s
      | Some d \<Rightarrow> let t = mkdirs fuel d s in
          if p = [] \<or> node p t \<noteq> None then t else set_node p Directory t)"

definition fs_create_dir_all :: "env \<Rightarrow> string \<Rightarrow> (sys, io_error, unit) io" where
  "fs_create_dir_all E p = guarded E FsMkdir p
     (\<lambda>s. case node p s of
        None \<Rightarrow> (Inr (), mkdirs (Suc (length p)) p s)
      | Some Directory \<Rightarrow> (Inr (), s)
      | Some _ \<Rightarrow> (Inl (OtherIo ''file exists''), s))"

text \<open>The entries of a directory, as full paths.\<close>

definition dir_entries :: "string \<Rightarrow> sys \<Rightarrow> string list" where
  "dir_entries d s = remdups (filter (\<lambda>p. path_parent p = Some d) (map fst (files s)))"

text \<open>\<open>canonicalize\<close>: the path a link resolves to, when something is there.\<close>

definition canonicalize :: "string \<Rightarrow> sys \<Rightarrow> string option" where
  "canonicalize p s = (let q = (case map_of (links s) p of None \<Rightarrow> p | Some q \<Rightarrow> q) in
     if node q s = None then None else Some q)"

text \<open>A file truncated when it is opened for writing; a device keeps its bytes.\<close>

definition fs_open_truncate :: "env \<Rightarrow> string \<Rightarrow> (sys, io_error, unit) io" where
  "fs_open_truncate E p = (\<lambda>s. case node p s of
      Some (BlockDev _ _) \<Rightarrow> guarded E FsOpen p (io_return ()) s
    | Some (CharDev _) \<Rightarrow> guarded E FsOpen p (io_return ()) s
    | _ \<Rightarrow> fs_write E p [] s)"

definition fs_chmod :: "env \<Rightarrow> string \<Rightarrow> nat \<Rightarrow> (sys, io_error, unit) io" where
  "fs_chmod E p m = guarded E FsChmod p
     (\<lambda>s. if node p s = None then (Inl NotFound, s) else (Inr (), s\<lparr>modes := (p, m) # modes s\<rparr>))"

definition fs_chown :: "env \<Rightarrow> string \<Rightarrow> nat option \<Rightarrow> nat option \<Rightarrow> (sys, io_error, unit) io" where
  "fs_chown E p u g = guarded E FsChown p
     (\<lambda>s. if node p s = None then (Inl NotFound, s) else (Inr (), s\<lparr>owners := (p, u, g) # owners s\<rparr>))"

section \<open>Programs and servers\<close>

text \<open>\<open>easy_process::run\<close>.\<close>

definition exec :: "env \<Rightarrow> string \<Rightarrow> (sys, process_error, process_output) io" where
  "exec E c = (\<lambda>s. case run E c s of
     (r, t) \<Rightarrow> (r, t\<lparr>commands := commands s @ [c], requests := requests s\<rparr>))"

text \<open>\<open>easy_process::run_with_stdin\<close>: the program starts before its input is produced.\<close>

definition exec_input :: "env \<Rightarrow> string \<Rightarrow> string \<Rightarrow> (sys, process_error, process_output) io" where
  "exec_input E c i = (\<lambda>s. case run_input E c i s of
     (r, t) \<Rightarrow> (r, t\<lparr>commands := commands s @ [c], requests := requests s\<rparr>))"

definition http_send :: "env \<Rightarrow> http_request \<Rightarrow> (sys, http_error, http_response) io" where
  "http_send E q = (\<lambda>s. case http E q s of
     (r, t) \<Rightarrow> (r, t\<lparr>commands := commands s, requests := requests s @ [q]\<rparr>))"

definition utc_now :: "sys \<Rightarrow> int" where
  "utc_now s = clock s"

section \<open>Laws\<close>

lemma node_bytes_simps [simp]:
  "node_bytes (Regular b) = Some b" "node_bytes (BlockDev i b) = Some b"
  "node_bytes (CharDev b) = Some b" "node_bytes Directory = None"
  by (simp_all add: node_bytes_def)

lemma node_set [simp]: "node q (set_node p n s) = (if q = p then Some n else node q s)"
  by (simp add: node_def set_node_def update_conv')

lemma node_del [simp]: "node q (del_node p s) = (if q = p then None else node q s)"
  by (simp add: node_def del_node_def delete_conv')

lemma set_node_simps [simp]:
  "device (set_node p n s) = device s" "clock (set_node p n s) = clock s"
  "commands (set_node p n s) = commands s" "requests (set_node p n s) = requests s"
  by (simp_all add: set_node_def)

lemma del_node_simps [simp]:
  "device (del_node p s) = device s" "clock (del_node p s) = clock s"
  "commands (del_node p s) = commands s" "requests (del_node p s) = requests s"
  by (simp_all add: del_node_def)

lemma mkdirs_simps [simp]:
  "device (mkdirs n p s) = device s" "clock (mkdirs n p s) = clock s"
  "commands (mkdirs n p s) = commands s" "requests (mkdirs n p s) = requests s"
  by (induction n p s rule: mkdirs.induct) (auto simp: Let_def split: option.splits)

lemma mkdirs_keeps: "node q s = Some n \<Longrightarrow> node q (mkdirs fuel p s) = Some n"
  by (induction fuel p s rule: mkdirs.induct) (auto simp: Let_def split: option.splits)

lemma mkdirs_longer: "length p < length q \<Longrightarrow> node q (mkdirs fuel p s) = node q s"
proof (induction fuel p s rule: mkdirs.induct)
  case (2 fuel p s)
  have "length d < length p" if "path_parent p = Some d" for d
  proof -
    have le: "length (dropWhile (\<lambda>c. c \<noteq> CHR ''/'') (rev p)) \<le> length p"
      using length_dropWhile_le [of _ "rev p"] by simp
    show ?thesis using that le
      by (cases p) (auto simp: path_parent_def path_split_def Let_def split: if_splits)
  qed
  then show ?case using 2 by (auto simp: Let_def split: option.splits)
qed simp

lemma mkdirs_dir: "node p s = None \<Longrightarrow> path_parent p = Some d \<Longrightarrow> p \<noteq> [] \<Longrightarrow>
   node p (mkdirs (Suc n) p s) \<noteq> None"
  by (auto simp: Let_def)

text \<open>
  \<open>no_commands R\<close>-style frames: file operations start no program and send no request.
\<close>

definition quiet :: "sys \<Rightarrow> sys \<Rightarrow> bool" where
  "quiet s t \<longleftrightarrow> commands t = commands s \<and> requests t = requests s \<and> device t = device s \<and> clock t = clock s"

lemma reflp_quiet [simp, intro]: "reflp quiet"
  by (simp add: quiet_def reflp_def)

lemma transp_quiet [simp, intro]: "transp quiet"
  by (simp add: quiet_def transp_def)

lemma io_rel_guarded [frame]: "reflp R \<Longrightarrow> io_rel R m \<Longrightarrow> io_rel R (guarded E op p m)"
  by (auto simp: io_rel_def guarded_def reflpD split: option.splits)

lemma quiet_fs [frame]:
  "io_rel quiet (fs_metadata E p)" "io_rel quiet (fs_read E p)" "io_rel quiet (fs_write E p b)"
  "io_rel quiet (fs_remove E p)" "io_rel quiet (fs_rename E p q)" "io_rel quiet (fs_create_dir_all E p)"
  unfolding fs_metadata_def fs_read_def fs_write_def fs_remove_def fs_rename_def fs_create_dir_all_def
  by (auto simp: guarded_def io_rel_def quiet_def Let_def split: option.splits fnode.splits)

lemma fs_read_unchanged: "fs_read E p s = (r, t) \<Longrightarrow> t = s"
  by (auto simp: fs_read_def guarded_def split: option.splits)

lemma fs_metadata_unchanged: "fs_metadata E p s = (r, t) \<Longrightarrow> t = s"
  by (auto simp: fs_metadata_def guarded_def split: option.splits)

lemma fs_write_Inr:
  "fs_write E p b s = (Inr u, t) \<Longrightarrow> \<exists>n. node p t = Some n \<and> node_bytes n = Some b"
  by (auto simp: fs_write_def guarded_def split: option.splits fnode.splits if_splits)

lemma fs_write_other: "fs_write E p b s = (r, t) \<Longrightarrow> q \<noteq> p \<Longrightarrow> node q t = node q s"
  by (auto simp: fs_write_def guarded_def split: option.splits fnode.splits if_splits)

lemma fs_write_Inl: "fs_write E p b s = (Inl e, t) \<Longrightarrow> t = s"
  by (auto simp: fs_write_def guarded_def split: option.splits fnode.splits if_splits)

lemma fs_read_after:
  "node p s = Some n \<Longrightarrow> node_bytes n = Some b \<Longrightarrow> io_fault E FsRead p s = None \<Longrightarrow>
   fs_read E p s = (Inr b, s)"
  by (simp add: fs_read_def guarded_def)

lemma exec_commands: "exec E c s = (r, t) \<Longrightarrow> commands t = commands s @ [c]"
  by (auto simp: exec_def split: prod.splits)

lemma exec_result: "fst (exec E c s) = fst (run E c s)"
  by (simp add: exec_def split: prod.splits)

text \<open>Programs only ever add to the two logs.\<close>

definition logs_grow :: "sys \<Rightarrow> sys \<Rightarrow> bool" where
  "logs_grow s t \<longleftrightarrow> (\<exists>cs. commands t = commands s @ cs) \<and> (\<exists>qs. requests t = requests s @ qs)"

lemma reflp_logs_grow [simp, intro]: "reflp logs_grow"
  by (simp add: logs_grow_def reflp_def)

lemma transp_logs_grow [simp, intro]: "transp logs_grow"
  by (auto simp: logs_grow_def transp_def)

lemma logs_grow_exec [frame]: "io_rel logs_grow (exec E c)" "io_rel logs_grow (exec_input E c i)"
  "io_rel logs_grow (http_send E q)"
  by (auto simp: io_rel_def logs_grow_def exec_def exec_input_def http_send_def split: prod.splits)

lemma quiet_logs_grow: "io_rel quiet m \<Longrightarrow> io_rel logs_grow m"
  by (simp add: io_rel_def quiet_def logs_grow_def)

section \<open>A machine for examples\<close>

text \<open>
  A machine with no files, on which every program succeeds without output, every operation is
  permitted and no server answers: the examples that show a hypothesis can hold start from it
  and set the parts they need.
\<close>

definition example_sys :: sys where
  "example_sys = \<lparr>files = [], links = [], modes = [], owners = [], device = (\<lambda>_. []), clock = 0, commands = [], requests = []\<rparr>"

definition example_env :: env where
  "example_env = \<lparr>v1_parsing = False, run = (\<lambda>c s. (Inr \<lparr>stdout = [], stderr = []\<rparr>, s)),
     run_input = (\<lambda>c i s. (Inr \<lparr>stdout = [], stderr = []\<rparr>, s)),
     io_fault = (\<lambda>_ _ _. None), readonly = (\<lambda>_ _. False), statvfs_free = (\<lambda>_ _. Inr (1, 0)),
     in_path = (\<lambda>_ _. True), http = (\<lambda>_ s. (Inl (HttpError ''unreachable''), s)),
     url_ok = (\<lambda>_. True), json_text = (\<lambda>_. ''json''), json_parse = (\<lambda>_. Inl ''no value''),
     toml_parse = (\<lambda>_. Inl ''no value''), ini_parse = (\<lambda>_. Inl ''no value''),
     time_text = (\<lambda>_. ''time''), time_parse = (\<lambda>_. Some 0), duration_parse = (\<lambda>_. None),
     sha256 = (\<lambda>b. b), base64_decode = Inr, verify_sha256 = (\<lambda>_ _ _. Inr True),
     archive_entry = (\<lambda>_ _. Inl (ArchiveIo NotFound)), uncompress = Inr,
     archive_files = (\<lambda>_. Inr []), image_version = (\<lambda>_ _. None), pattern_version = (\<lambda>_ _ _. None),
     take_seek = (\<lambda>h k. drop k (whole h)),
     regex_captures = (\<lambda>_ _. None), delta_init = (\<lambda>_ _. Inr []), delta_source_size = (\<lambda>_. 0),
     delta_scan = (\<lambda>_ b. if b = [] then [] else [Inr (0, b, length b)]), delta_reorder = (\<lambda>_ i b. Inr (b, i)),
     delta_stream = (\<lambda>_ _. []), delta_decompress = Inr, delta_verify = Inr,
     delta_feed = (\<lambda>i v b. Inr (b @ v, i)), mount_fs = (\<lambda>_ _ _ s. (Inr ''/mnt'', s)),
     unmount_fs = (\<lambda>_ s. s), mtd_kind = (\<lambda>_ _. Inr 4), user_id = (\<lambda>_. Some 0),
     group_id = (\<lambda>_. Some 0), socket_ok = (\<lambda>_. True), level_name = id, log_time = (\<lambda>_. ''now''), log_enabled = (\<lambda>_. True),
     io_text = (\<lambda>_. ''io''), process_text = (\<lambda>_. ''process''), http_text = (\<lambda>_. ''http''),
     archive_text = (\<lambda>_. ''archive''), status_text = show_nat, fixed_text = id\<rparr>"

end
