(* ===== verification/UH_Serde.thy ===== *)
theory UH_Serde
  imports UH_System "HOL-Library.Monad_Syntax"
begin

text \<open>
  What \<open>serde\<close>'s derived \<open>Deserialize\<close> implementations do on a JSON value, for the shapes the
  repository derives: structs with named fields (from an object, or positionally from an array),
  optional and defaulted fields, unit and newtype variants.
\<close>

section \<open>Decoders\<close>

fun dec_str :: "json \<Rightarrow> string option" where
  "dec_str (JStr s) = Some s"
| "dec_str _ = None"

fun dec_bool :: "json \<Rightarrow> bool option" where
  "dec_bool (JBool b) = Some b"
| "dec_bool _ = None"

fun dec_nat :: "nat \<Rightarrow> json \<Rightarrow> nat option" where
  "dec_nat limit (JNum n) = (if 0 \<le> n \<and> n \<le> int limit then Some (nat n) else None)"
| "dec_nat limit _ = None"

definition dec_u64 :: "json \<Rightarrow> 64 word option" where
  "dec_u64 j = map_option of_nat (dec_nat (2 ^ 64 - 1) j)"

fun dec_opt :: "(json \<Rightarrow> 'a option) \<Rightarrow> json \<Rightarrow> 'a option option" where
  "dec_opt d JNull = Some None"
| "dec_opt d j = map_option Some (d j)"

fun dec_list :: "(json \<Rightarrow> 'a option) \<Rightarrow> json \<Rightarrow> 'a list option" where
  "dec_list d (JArr js) = those (map d js)"
| "dec_list d _ = None"

text \<open>A unit variant is its name, or an object with the name as its only key and null.\<close>

fun dec_unit_variant :: "(string \<times> 'a) list \<Rightarrow> json \<Rightarrow> 'a option" where
  "dec_unit_variant vs (JStr s) = map_of vs s"
| "dec_unit_variant vs (JObj [(k, JNull)]) = map_of vs k"
| "dec_unit_variant vs _ = None"

text \<open>
  The fields of a struct: known names at most once; with \<open>deny_unknown_fields\<close> no other name.
\<close>

definition struct_fields :: "bool \<Rightarrow> string list \<Rightarrow> json \<Rightarrow> (string \<rightharpoonup> json) option" where
  "struct_fields deny names j = (case j of
      JObj kvs \<Rightarrow>
        let known = filter (\<lambda>kv. fst kv \<in> set names) kvs in
        if distinct (map fst known) \<and> (deny \<longrightarrow> length known = length kvs)
        then Some (map_of known) else None
    | JArr vs \<Rightarrow> if length vs = length names then Some (map_of (zip names vs)) else None
    | _ \<Rightarrow> None)"

definition field :: "(string \<rightharpoonup> json) \<Rightarrow> string \<Rightarrow> (json \<Rightarrow> 'a option) \<Rightarrow> 'a option" where
  "field m k d = Option.bind (m k) d"

definition opt_field :: "(string \<rightharpoonup> json) \<Rightarrow> string \<Rightarrow> (json \<Rightarrow> 'a option) \<Rightarrow> 'a option option" where
  "opt_field m k d = (case m k of None \<Rightarrow> Some None | Some j \<Rightarrow> dec_opt d j)"

definition default_field :: "(string \<rightharpoonup> json) \<Rightarrow> string \<Rightarrow> (json \<Rightarrow> 'a option) \<Rightarrow> 'a \<Rightarrow> 'a option" where
  "default_field m k d x = (case m k of None \<Rightarrow> Some x | Some j \<Rightarrow> d j)"

text \<open>A field left out when it is \<open>None\<close> (\<open>skip_serializing_if\<close>).\<close>

definition skip_none :: "string \<Rightarrow> ('a \<Rightarrow> json) \<Rightarrow> 'a option \<Rightarrow> (string \<times> json) list" where
  "skip_none k f x = (case x of None \<Rightarrow> [] | Some a \<Rightarrow> [(k, f a)])"

definition enc_u64 :: "64 word \<Rightarrow> json" where
  "enc_u64 w = JNum (int (unat w))"

lemma dec_enc_u64 [simp]: "dec_u64 (enc_u64 w) = Some w"
proof -
  have "uint w < 2 ^ LENGTH(64)" by (rule unsigned_less)
  then have "uint w \<le> 2 ^ 64 - 1" by simp
  then show ?thesis by (simp add: dec_u64_def enc_u64_def)
qed

lemma dec_nat_bound: "dec_nat n j = Some v \<Longrightarrow> v \<le> n"
  by (cases j) (auto split: if_splits)

end
