(* ===== verification/UH_Schema.thy ===== *)
theory UH_Schema
  imports UH_Serde
begin

text \<open>
  \<open>updatehub-package-schema\<close>: the metadata of an update package, one record per install mode,
  and the way each is read from JSON. Records that share fields share a parent record, so a
  selector such as \<open>sha256sum\<close> reads every kind of object; sizes and offsets are 64-bit words.
\<close>

section \<open>Definitions\<close>

datatype filesystem = Btrfs | Ext2 | Ext3 | Ext4 | Vfat | F2fs | Jffs2 | UbifsFs | Xfs

fun filesystem_name :: "filesystem \<Rightarrow> string" where
  "filesystem_name Btrfs = ''btrfs''"
| "filesystem_name Ext2 = ''ext2''"
| "filesystem_name Ext3 = ''ext3''"
| "filesystem_name Ext4 = ''ext4''"
| "filesystem_name Vfat = ''vfat''"
| "filesystem_name F2fs = ''f2fs''"
| "filesystem_name Jffs2 = ''jffs2''"
| "filesystem_name UbifsFs = ''ubifs''"
| "filesystem_name Xfs = ''xfs''"

definition all_filesystems :: "filesystem list" where
  "all_filesystems = [Btrfs, Ext2, Ext3, Ext4, Vfat, F2fs, Jffs2, UbifsFs, Xfs]"

definition dec_filesystem :: "json \<Rightarrow> filesystem option" where
  "dec_filesystem = dec_unit_variant (map (\<lambda>f. (filesystem_name f, f)) all_filesystems)"

datatype chunk_size = ChunkSize "64 word"

definition default_chunk_size :: chunk_size where
  "default_chunk_size = ChunkSize 131072"

definition dec_chunk_size :: "json \<Rightarrow> chunk_size option" where
  "dec_chunk_size j = do {
     n \<leftarrow> dec_u64 j;
     if n > 1 then Some (ChunkSize n) else None }"

text \<open>\<open>Limited\<close> holds an \<open>isize\<close>; decoding only admits values that are not negative.\<close>

datatype count = All | Limited int

fun dec_count :: "json \<Rightarrow> count option" where
  "dec_count (JNum n) = (if n = - 1 then Some All
     else if 0 \<le> n \<and> n < 2 ^ 63 then Some (Limited n) else None)"
| "dec_count _ = None"

text \<open>The iterator: what it yields and the iterator it leaves.\<close>

fun count_next :: "count \<Rightarrow> int option \<times> count" where
  "count_next All = (Some 0, All)"
| "count_next (Limited n) = (if n = 0 then (None, Limited n) else (Some (n - 1), Limited (n - 1)))"

datatype skip = Skip "64 word"

definition dec_skip :: "json \<Rightarrow> skip option" where
  "dec_skip j = map_option Skip (dec_u64 j)"

datatype truncate = Truncate bool

definition default_truncate :: truncate where
  "default_truncate = Truncate True"

definition dec_truncate :: "json \<Rightarrow> truncate option" where
  "dec_truncate j = map_option Truncate (dec_bool j)"

record target_format =
  should_format :: bool
  format_options :: "string option"

definition dec_target_format :: "json \<Rightarrow> target_format option" where
  "dec_target_format j = do {
     m \<leftarrow> struct_fields False [''format?'', ''format-options''] j;
     f \<leftarrow> default_field m ''format?'' dec_bool False;
     opts \<leftarrow> opt_field m ''format-options'' dec_str;
     Some \<lparr>should_format = f, format_options = opts\<rparr> }"

text \<open>A user or a group, by name or by number.\<close>

datatype owner_id = OwnerName string | OwnerNumber nat

fun dec_owner_id :: "json \<Rightarrow> owner_id option" where
  "dec_owner_id (JStr s) = Some (OwnerName s)"
| "dec_owner_id j = map_option OwnerNumber (dec_nat (2 ^ 32 - 1) j)"

record target_permissions =
  target_mode :: "nat option"
  target_gid :: "owner_id option"
  target_uid :: "owner_id option"

definition optional_octal_from_str :: "json \<Rightarrow> nat option option" where
  "optional_octal_from_str j =
     dec_opt (\<lambda>v. Option.bind (dec_str v) (parse_unsigned 8 (2 ^ 32 - 1))) j"

definition dec_target_permissions :: "json \<Rightarrow> target_permissions option" where
  "dec_target_permissions j = do {
     m \<leftarrow> struct_fields False [''target-mode'', ''target-gid'', ''target-uid''] j;
     md \<leftarrow> default_field m ''target-mode'' optional_octal_from_str None;
     g \<leftarrow> opt_field m ''target-gid'' dec_owner_id;
     u \<leftarrow> opt_field m ''target-uid'' dec_owner_id;
     Some \<lparr>target_mode = md, target_gid = g, target_uid = u\<rparr> }"

datatype target_type = Device string | UBIVolume string | MTDName string

text \<open>The adjacently tagged enum: the variant in one field, its content in the other.\<close>

definition dec_target_type :: "json \<Rightarrow> target_type option" where
  "dec_target_type j = do {
     m \<leftarrow> struct_fields False [''target-type'', ''target''] j;
     t \<leftarrow> field m ''target-type'' dec_str;
     v \<leftarrow> field m ''target'' dec_str;
     if t = ''device'' then Some (Device v)
     else if t = ''ubivolume'' then Some (UBIVolume v)
     else if t = ''mtdname'' then Some (MTDName v)
     else None }"

datatype known_pattern_kind = LinuxKernel | UBoot

record pattern =
  regexp :: string
  pat_seek :: "64 word"
  buffer_size :: "64 word"

datatype install_if_different = CheckSum | KnownPattern string known_pattern_kind
  | CustomPattern string pattern

definition dec_known_pattern :: "json \<Rightarrow> known_pattern_kind option" where
  "dec_known_pattern = dec_unit_variant [(''linux-kernel'', LinuxKernel), (''u-boot'', UBoot)]"

definition dec_pattern :: "json \<Rightarrow> pattern option" where
  "dec_pattern j = do {
     m \<leftarrow> struct_fields False [''regexp'', ''seek'', ''buffer-size''] j;
     r \<leftarrow> field m ''regexp'' dec_str;
     k \<leftarrow> field m ''seek'' dec_u64;
     b \<leftarrow> field m ''buffer-size'' dec_u64;
     Some \<lparr>regexp = r, pat_seek = k, buffer_size = b\<rparr> }"

definition deserialize_checksum :: "json \<Rightarrow> unit option" where
  "deserialize_checksum j = do {
     t \<leftarrow> dec_str j;
     if to_lowercase t = ''sha256sum'' then Some () else None }"

text \<open>The untagged enum: the first variant that reads.\<close>

definition dec_install_if_different :: "json \<Rightarrow> install_if_different option" where
  "dec_install_if_different j =
     (case deserialize_checksum j of
        Some _ \<Rightarrow> Some CheckSum
      | None \<Rightarrow>
          (case do { m \<leftarrow> struct_fields False [''version'', ''pattern''] j;
                     v \<leftarrow> field m ''version'' dec_str;
                     p \<leftarrow> field m ''pattern'' dec_known_pattern;
                     Some (KnownPattern v p) } of
             Some i \<Rightarrow> Some i
           | None \<Rightarrow> do { m \<leftarrow> struct_fields False [''version'', ''pattern''] j;
                          v \<leftarrow> field m ''version'' dec_str;
                          p \<leftarrow> field m ''pattern'' dec_pattern;
                          Some (CustomPattern v p) }))"

section \<open>Objects\<close>

record object_file =
  filename :: string
  file_size :: "64 word"
  sha256sum :: string

record targeted = object_file +
  target :: target_type

record compressible = targeted +
  compressed :: bool
  required_uncompressed_size :: "64 word"

record mountable = compressible +
  filesystem :: filesystem
  target_path :: string
  target_format :: target_format
  mount_options :: string

record copy_object = mountable +
  copy_if_different :: "install_if_different option"
  target_permissions :: target_permissions

record flash_object = targeted +
  flash_if_different :: "install_if_different option"

record imxkobs_object = object_file +
  imx_if_different :: "install_if_different option"
  padding_1k :: bool
  search_exponent :: "64 word"
  chip_0_device_path :: "string option"
  chip_1_device_path :: "string option"

record raw_object = compressible +
  raw_if_different :: "install_if_different option"
  chunk_size :: chunk_size
  skip :: skip
  seek :: "64 word"
  count :: count
  raw_truncate :: truncate

record raw_delta_object = targeted +
  delta_chunk_size :: chunk_size
  delta_seek :: "64 word"

record test_object = object_file +
  test_target :: string
  force_check_requirements_fail :: bool

datatype object = Copy copy_object | Flash flash_object | Imxkobs imxkobs_object
  | Mender object_file | Raw raw_object | RawDelta raw_delta_object | Tarball mountable
  | Test test_object | Ubifs compressible | UbootEnv object_file | Zephyr object_file

section \<open>Reading an object\<close>

text \<open>
  A struct with flattened parts is read from an object only; a struct without is also read from
  an array, whose missing trailing elements are the defaulted fields.
\<close>

definition flat_fields :: "string list \<Rightarrow> json \<Rightarrow> (string \<rightharpoonup> json) option" where
  "flat_fields names j = (case j of JObj _ \<Rightarrow> struct_fields False names j | _ \<Rightarrow> None)"

definition plain_fields :: "nat \<Rightarrow> string list \<Rightarrow> json \<Rightarrow> (string \<rightharpoonup> json) option" where
  "plain_fields required names j = (case j of
      JArr vs \<Rightarrow> if required \<le> length vs \<and> length vs \<le> length names
        then Some (map_of (zip names vs)) else None
    | _ \<Rightarrow> struct_fields False names j)"

definition dec_object_file :: "json \<Rightarrow> object_file option" where
  "dec_object_file j = do {
     m \<leftarrow> plain_fields 3 [''filename'', ''size'', ''sha256sum''] j;
     f \<leftarrow> field m ''filename'' dec_str;
     n \<leftarrow> field m ''size'' dec_u64;
     h \<leftarrow> field m ''sha256sum'' dec_str;
     Some \<lparr>filename = f, file_size = n, sha256sum = h\<rparr> }"

definition dec_copy :: "json \<Rightarrow> copy_object option" where
  "dec_copy j = do {
     m \<leftarrow> flat_fields [''filename'', ''filesystem'', ''size'', ''sha256sum'', ''target-path'',
       ''install-if-different'', ''compressed'', ''required-uncompressed-size'', ''mount-options''] j;
     f \<leftarrow> field m ''filename'' dec_str;
     fs \<leftarrow> field m ''filesystem'' dec_filesystem;
     n \<leftarrow> field m ''size'' dec_u64;
     h \<leftarrow> field m ''sha256sum'' dec_str;
     t \<leftarrow> dec_target_type j;
     p \<leftarrow> field m ''target-path'' dec_str;
     i \<leftarrow> opt_field m ''install-if-different'' dec_install_if_different;
     perms \<leftarrow> dec_target_permissions j;
     c \<leftarrow> default_field m ''compressed'' dec_bool False;
     r \<leftarrow> default_field m ''required-uncompressed-size'' dec_u64 0;
     fmt \<leftarrow> dec_target_format j;
     opts \<leftarrow> default_field m ''mount-options'' dec_str [];
     Some \<lparr>filename = f, file_size = n, sha256sum = h, target = t, compressed = c,
       required_uncompressed_size = r, filesystem = fs, target_path = p, target_format = fmt,
       mount_options = opts, copy_if_different = i, target_permissions = perms\<rparr> }"

definition dec_flash :: "json \<Rightarrow> flash_object option" where
  "dec_flash j = do {
     m \<leftarrow> flat_fields [''filename'', ''size'', ''sha256sum'', ''install-if-different''] j;
     f \<leftarrow> field m ''filename'' dec_str;
     n \<leftarrow> field m ''size'' dec_u64;
     h \<leftarrow> field m ''sha256sum'' dec_str;
     t \<leftarrow> dec_target_type j;
     i \<leftarrow> opt_field m ''install-if-different'' dec_install_if_different;
     Some \<lparr>filename = f, file_size = n, sha256sum = h, target = t, flash_if_different = i\<rparr> }"

definition dec_imxkobs :: "json \<Rightarrow> imxkobs_object option" where
  "dec_imxkobs j = do {
     m \<leftarrow> plain_fields 4 [''filename'', ''size'', ''sha256sum'', ''install_if_different'',
       ''1k_padding'', ''search_exponent'', ''chip_0_device_path'', ''chip_1_device_path''] j;
     f \<leftarrow> field m ''filename'' dec_str;
     n \<leftarrow> field m ''size'' dec_u64;
     h \<leftarrow> field m ''sha256sum'' dec_str;
     i \<leftarrow> opt_field m ''install_if_different'' dec_install_if_different;
     p \<leftarrow> default_field m ''1k_padding'' dec_bool False;
     e \<leftarrow> default_field m ''search_exponent'' dec_u64 0;
     c0 \<leftarrow> opt_field m ''chip_0_device_path'' dec_str;
     c1 \<leftarrow> opt_field m ''chip_1_device_path'' dec_str;
     Some \<lparr>filename = f, file_size = n, sha256sum = h, imx_if_different = i, padding_1k = p,
       search_exponent = e, chip_0_device_path = c0, chip_1_device_path = c1\<rparr> }"

definition dec_raw :: "json \<Rightarrow> raw_object option" where
  "dec_raw j = do {
     m \<leftarrow> flat_fields [''filename'', ''size'', ''sha256sum'', ''install-if-different'', ''compressed'',
       ''required-uncompressed-size'', ''chunk-size'', ''skip'', ''seek'', ''count'', ''truncate''] j;
     f \<leftarrow> field m ''filename'' dec_str;
     n \<leftarrow> field m ''size'' dec_u64;
     h \<leftarrow> field m ''sha256sum'' dec_str;
     t \<leftarrow> dec_target_type j;
     i \<leftarrow> opt_field m ''install-if-different'' dec_install_if_different;
     c \<leftarrow> default_field m ''compressed'' dec_bool False;
     r \<leftarrow> default_field m ''required-uncompressed-size'' dec_u64 0;
     ch \<leftarrow> default_field m ''chunk-size'' dec_chunk_size default_chunk_size;
     sk \<leftarrow> default_field m ''skip'' dec_skip (Skip 0);
     se \<leftarrow> default_field m ''seek'' dec_u64 0;
     co \<leftarrow> default_field m ''count'' dec_count All;
     tr \<leftarrow> default_field m ''truncate'' dec_truncate default_truncate;
     Some \<lparr>filename = f, file_size = n, sha256sum = h, target = t, compressed = c,
       required_uncompressed_size = r, raw_if_different = i, chunk_size = ch, skip = sk, seek = se,
       count = co, raw_truncate = tr\<rparr> }"

definition dec_raw_delta :: "json \<Rightarrow> raw_delta_object option" where
  "dec_raw_delta j = do {
     m \<leftarrow> flat_fields [''filename'', ''sha256sum'', ''size'', ''chunk-size'', ''seek''] j;
     f \<leftarrow> field m ''filename'' dec_str;
     h \<leftarrow> field m ''sha256sum'' dec_str;
     t \<leftarrow> dec_target_type j;
     n \<leftarrow> field m ''size'' dec_u64;
     ch \<leftarrow> default_field m ''chunk-size'' dec_chunk_size default_chunk_size;
     se \<leftarrow> default_field m ''seek'' dec_u64 0;
     Some \<lparr>filename = f, file_size = n, sha256sum = h, target = t, delta_chunk_size = ch,
       delta_seek = se\<rparr> }"

definition dec_tarball :: "json \<Rightarrow> mountable option" where
  "dec_tarball j = do {
     m \<leftarrow> flat_fields [''filename'', ''filesystem'', ''size'', ''sha256sum'', ''target-path'',
       ''compressed'', ''required-uncompressed-size'', ''mount-options''] j;
     f \<leftarrow> field m ''filename'' dec_str;
     fs \<leftarrow> field m ''filesystem'' dec_filesystem;
     n \<leftarrow> field m ''size'' dec_u64;
     h \<leftarrow> field m ''sha256sum'' dec_str;
     t \<leftarrow> dec_target_type j;
     p \<leftarrow> field m ''target-path'' dec_str;
     c \<leftarrow> default_field m ''compressed'' dec_bool False;
     r \<leftarrow> default_field m ''required-uncompressed-size'' dec_u64 0;
     fmt \<leftarrow> dec_target_format j;
     opts \<leftarrow> default_field m ''mount-options'' dec_str [];
     Some \<lparr>filename = f, file_size = n, sha256sum = h, target = t, compressed = c,
       required_uncompressed_size = r, filesystem = fs, target_path = p, target_format = fmt,
       mount_options = opts\<rparr> }"

definition dec_test :: "json \<Rightarrow> test_object option" where
  "dec_test j = do {
     m \<leftarrow> plain_fields 5 [''filename'', ''sha256sum'', ''target'', ''size'',
       ''force-check-requirements-fail''] j;
     f \<leftarrow> field m ''filename'' dec_str;
     h \<leftarrow> field m ''sha256sum'' dec_str;
     t \<leftarrow> field m ''target'' dec_str;
     n \<leftarrow> field m ''size'' dec_u64;
     b \<leftarrow> field m ''force-check-requirements-fail'' dec_bool;
     Some \<lparr>filename = f, file_size = n, sha256sum = h, test_target = t,
       force_check_requirements_fail = b\<rparr> }"

definition dec_ubifs :: "json \<Rightarrow> compressible option" where
  "dec_ubifs j = do {
     m \<leftarrow> flat_fields [''filename'', ''size'', ''sha256sum'', ''compressed'',
       ''required-uncompressed-size''] j;
     f \<leftarrow> field m ''filename'' dec_str;
     n \<leftarrow> field m ''size'' dec_u64;
     h \<leftarrow> field m ''sha256sum'' dec_str;
     t \<leftarrow> dec_target_type j;
     c \<leftarrow> default_field m ''compressed'' dec_bool False;
     r \<leftarrow> default_field m ''required-uncompressed-size'' dec_u64 0;
     Some \<lparr>filename = f, file_size = n, sha256sum = h, target = t, compressed = c,
       required_uncompressed_size = r\<rparr> }"

definition dec_variant :: "string \<Rightarrow> json \<Rightarrow> object option" where
  "dec_variant mode j =
     (if mode = ''copy'' then map_option Copy (dec_copy j)
      else if mode = ''flash'' then map_option Flash (dec_flash j)
      else if mode = ''imxkobs'' then map_option Imxkobs (dec_imxkobs j)
      else if mode = ''mender'' then map_option Mender (dec_object_file j)
      else if mode = ''raw'' then map_option Raw (dec_raw j)
      else if mode = ''raw-delta'' then map_option RawDelta (dec_raw_delta j)
      else if mode = ''tarball'' then map_option Tarball (dec_tarball j)
      else if mode = ''test'' then map_option Test (dec_test j)
      else if mode = ''ubifs'' then map_option Ubifs (dec_ubifs j)
      else if mode = ''uboot-env'' then map_option UbootEnv (dec_object_file j)
      else if mode = ''zephyr'' then map_option Zephyr (dec_object_file j)
      else None)"

text \<open>The internally tagged enum: the tag is a field \<open>mode\<close>, or the first element of an array.\<close>

definition dec_object :: "json \<Rightarrow> object option" where
  "dec_object j = (case j of
      JObj kvs \<Rightarrow> (case filter (\<lambda>kv. fst kv = ''mode'') kvs of
          [(_, JStr mode)] \<Rightarrow> dec_variant mode (JObj (filter (\<lambda>kv. fst kv \<noteq> ''mode'') kvs))
        | _ \<Rightarrow> None)
    | JArr (JStr mode # vs) \<Rightarrow> dec_variant mode (JArr vs)
    | _ \<Rightarrow> None)"

section \<open>Update packages\<close>

datatype supported_hardware = AnyHardware | HardwareList "string list"

definition any_hardware :: "json \<Rightarrow> unit option" where
  "any_hardware j = do {
     t \<leftarrow> dec_str j;
     if t = ''any'' then Some () else None }"

definition dec_supported_hardware :: "json \<Rightarrow> supported_hardware option" where
  "dec_supported_hardware j = (case any_hardware j of
      Some _ \<Rightarrow> Some AnyHardware
    | None \<Rightarrow> map_option HardwareList (dec_list dec_str j))"

record package =
  product :: string
  version :: string
  supported_hardware :: supported_hardware
  set_objects :: "object list \<times> object list"

definition dec_object_sets :: "json \<Rightarrow> (object list \<times> object list) option" where
  "dec_object_sets j = (case j of
      JArr [a, b] \<Rightarrow> do { xs \<leftarrow> dec_list dec_object a; ys \<leftarrow> dec_list dec_object b; Some (xs, ys) }
    | _ \<Rightarrow> None)"

definition dec_package :: "json \<Rightarrow> package option" where
  "dec_package j = do {
     m \<leftarrow> struct_fields False [''product'', ''version'', ''supported-hardware'', ''objects''] j;
     p \<leftarrow> field m ''product'' dec_str;
     v \<leftarrow> field m ''version'' dec_str;
     h \<leftarrow> default_field m ''supported-hardware'' dec_supported_hardware AnyHardware;
     obs \<leftarrow> field m ''objects'' dec_object_sets;
     Some \<lparr>product = p, version = v, supported_hardware = h, set_objects = obs\<rparr> }"

section \<open>Lemmas\<close>

text \<open>What every accepted object satisfies: the checks the decoders make.\<close>

fun chunk_ok :: "chunk_size \<Rightarrow> bool" where
  "chunk_ok (ChunkSize n) = (1 < n)"

fun count_ok :: "count \<Rightarrow> bool" where
  "count_ok All = True"
| "count_ok (Limited n) = (0 \<le> n \<and> n < 2 ^ 63)"

definition mode_ok :: "nat option \<Rightarrow> bool" where
  "mode_ok m = (case m of None \<Rightarrow> True | Some n \<Rightarrow> n < 2 ^ 32)"

fun object_ok :: "object \<Rightarrow> bool" where
  "object_ok (Raw r) = (chunk_ok (chunk_size r) \<and> count_ok (count r))"
| "object_ok (RawDelta r) = chunk_ok (delta_chunk_size r)"
| "object_ok (Copy c) = mode_ok (target_mode (target_permissions c))"
| "object_ok _ = True"

lemma default_field_P:
  "default_field m k d x = Some y \<Longrightarrow> P x \<Longrightarrow> (\<And>j y. d j = Some y \<Longrightarrow> P y) \<Longrightarrow> P y"
  by (auto simp: default_field_def split: option.splits)

lemma dec_chunk_size_ok: "dec_chunk_size j = Some c \<Longrightarrow> chunk_ok c"
  by (auto simp: dec_chunk_size_def bind_eq_Some_conv split: if_splits)

lemma dec_count_ok: "dec_count j = Some c \<Longrightarrow> count_ok c"
  by (cases j) (auto split: if_splits)

lemma octal_ok: "optional_octal_from_str j = Some m \<Longrightarrow> mode_ok m"
  by (cases j) (auto simp: optional_octal_from_str_def mode_ok_def bind_eq_Some_conv
      dest!: parse_unsigned_bound)

lemmas default_chunk_ok = default_field_P [where P = chunk_ok, OF _ _ dec_chunk_size_ok]

lemmas default_count_ok = default_field_P [where P = count_ok, OF _ _ dec_count_ok]

lemmas default_mode_ok = default_field_P [where P = mode_ok, OF _ _ octal_ok]

lemma mode_ok_None [simp]: "mode_ok None"
  by (simp add: mode_ok_def)

lemma chunk_ok_default [simp]: "chunk_ok default_chunk_size"
  by (simp add: default_chunk_size_def)

lemma dec_raw_ok: "dec_raw j = Some r \<Longrightarrow> object_ok (Raw r)"
  unfolding dec_raw_def bind_eq_Some_conv
  by clarsimp (simp add: default_chunk_ok default_count_ok)

lemma dec_raw_delta_ok: "dec_raw_delta j = Some r \<Longrightarrow> object_ok (RawDelta r)"
  unfolding dec_raw_delta_def bind_eq_Some_conv by clarsimp (simp add: default_chunk_ok)

lemma dec_target_permissions_ok: "dec_target_permissions j = Some p \<Longrightarrow> mode_ok (target_mode p)"
  unfolding dec_target_permissions_def bind_eq_Some_conv
  by clarsimp (simp add: default_mode_ok)

lemma dec_copy_ok: "dec_copy j = Some c \<Longrightarrow> object_ok (Copy c)"
  unfolding dec_copy_def bind_eq_Some_conv by clarsimp (simp add: dec_target_permissions_ok)

lemma dec_variant_ok: "dec_variant mode j = Some x \<Longrightarrow> object_ok x"
  by (auto simp: dec_variant_def dest: dec_raw_ok dec_raw_delta_ok dec_copy_ok
      simp del: object_ok.simps(1-3) split: if_splits)

lemma dec_object_ok: "dec_object j = Some x \<Longrightarrow> object_ok x"
  by (auto simp: dec_object_def dest: dec_variant_ok split: json.splits list.splits prod.splits)

lemma those_Some: "those xs = Some ys \<Longrightarrow> y \<in> set ys \<Longrightarrow> Some y \<in> set xs"
  by (induction xs arbitrary: ys) (auto split: option.splits)

lemma dec_list_ok:
  assumes "dec_list d j = Some ys" "\<And>j y. d j = Some y \<Longrightarrow> P y"
  shows "\<forall>y \<in> set ys. P y"
proof
  fix y assume y: "y \<in> set ys"
  from assms(1) obtain js where "those (map d js) = Some ys" by (cases j) auto
  from those_Some [OF this y] obtain i where "d i = Some y" by auto
  then show "P y" by (rule assms(2))
qed

lemma dec_object_sets_ok:
  assumes "dec_object_sets j = Some (xs, ys)"
  shows "\<forall>x \<in> set xs \<union> set ys. object_ok x"
proof -
  obtain a b where "dec_list dec_object a = Some xs" "dec_list dec_object b = Some ys"
    using assms by (auto simp: dec_object_sets_def bind_eq_Some_conv split: json.splits list.splits)
  then show ?thesis
    using dec_list_ok [of dec_object a xs object_ok] dec_list_ok [of dec_object b ys object_ok] dec_object_ok
    by blast
qed

lemma dec_package_ok:
  assumes "dec_package j = Some p" "x \<in> set (fst (set_objects p)) \<union> set (snd (set_objects p))"
  shows "object_ok x"
proof -
  obtain v where "dec_object_sets v = Some (set_objects p)"
    using assms(1) unfolding dec_package_def field_def bind_eq_Some_conv by clarsimp
  then show ?thesis using assms(2) dec_object_sets_ok by (metis prod.collapse)
qed

end
