(* ===== verification/UH_Devices.thy ===== *)
theory UH_Devices
  imports UH_Schema
begin

text \<open>
  \<open>updatehub/src/utils\<close>: the checks made before a device is written (\<open>fs.rs\<close>, \<open>mtd.rs\<close>,
  \<open>definitions.rs\<close>), and the commands that format, mount, \<open>chmod\<close> and \<open>chown\<close>.
\<close>

datatype utils_error = UIo io_error | UNix io_error | UUncompress archive_error
  | UProcess process_error | StripPrefixError | DeviceDoesNotExist string
  | MissingWritePermission string | DeviceInUse string string
  | NotEnoughSpace "64 word" "64 word" | ExecutableNotInPath string | NoUbiVolume string
  | NoMtdDevice string | BitaArchiveIO string | BitaArchiveRemote string | BitaRemote string
  | BitaCompression string | BitaHashSum string | BitaUrl

section \<open>Hexadecimal text\<close>

definition hex_encode :: "string \<Rightarrow> string" where
  "hex_encode b = concat (map (\<lambda>c. let n = (of_char c :: nat) in [hex_char (n div 16), hex_char (n mod 16)]) b)"

definition sha256_text :: "env \<Rightarrow> string \<Rightarrow> string" where
  "sha256_text E b = hex_encode (sha256 E b)"

section \<open>Reading the machine\<close>

definition metadata_of :: "env \<Rightarrow> string \<Rightarrow> sys \<Rightarrow> io_error + fnode" where
  "metadata_of E p s = fst (fs_metadata E p s)"

definition read_to_string :: "env \<Rightarrow> string \<Rightarrow> sys \<Rightarrow> io_error + string" where
  "read_to_string E p s = fst (fs_read E p s)"

text \<open>\<open>read_dir\<close>: \<open>None\<close> when the directory cannot be listed.\<close>

definition read_dir :: "env \<Rightarrow> string \<Rightarrow> sys \<Rightarrow> string list option" where
  "read_dir E d s =
     (if io_fault E FsList d s = None \<and> node d s \<noteq> None then Some (dir_entries d s) else None)"

definition available_space :: "env \<Rightarrow> string \<Rightarrow> sys \<Rightarrow> utils_error + 64 word" where
  "available_space E tgt s = res_bind (res_map_err UIo (metadata_of E tgt s)) (\<lambda>n.
     let free = res_bind (res_map_err UNix (statvfs_free E tgt s)) (\<lambda>(size, blocks). Inr (size * blocks));
         capacity = (\<lambda>b. (case io_fault E FsSeek tgt s of
            Some e \<Rightarrow> Inl (UIo e) | None \<Rightarrow> Inr (of_nat (length b))))
     in (case n of BlockDev _ b \<Rightarrow> capacity b | CharDev b \<Rightarrow> capacity b | _ \<Rightarrow> free))"

definition ensure_disk_space :: "env \<Rightarrow> string \<Rightarrow> 64 word \<Rightarrow> sys \<Rightarrow> utils_error + unit" where
  "ensure_disk_space E tgt required s =
     res_bind (available_space E tgt s) (\<lambda>available.
       if required > available then Inl (NotEnoughSpace available required) else Inr ())"

type_synonym device_id = "nat \<times> nat"

definition block_device_id :: "fnode \<Rightarrow> device_id option" where
  "block_device_id n = (case n of BlockDev d _ \<Rightarrow> Some d | _ \<Rightarrow> None)"

text \<open>\<open>split_once(':')\<close> and two numbers.\<close>

definition parse_device_id :: "string \<Rightarrow> device_id option" where
  "parse_device_id t = Option.bind (split_once (CHR '':'') t) (\<lambda>(a, b).
     Option.bind (parse_u64 a) (\<lambda>major. Option.bind (parse_u64 b) (\<lambda>minor. Some (major, minor))))"

record mount_entry =
  me_device :: device_id
  me_source :: string
  me_mount_point :: string

fun position :: "('a \<Rightarrow> bool) \<Rightarrow> 'a list \<Rightarrow> nat option" where
  "position P [] = None"
| "position P (x # xs) = (if P x then Some 0 else map_option Suc (position P xs))"

definition get_field :: "string list \<Rightarrow> nat \<Rightarrow> string option" where
  "get_field flds i = (if i < length flds then Some (flds ! i) else None)"

definition parse_mount_entry :: "string \<Rightarrow> mount_entry option" where
  "parse_mount_entry line =
     (let flds = str_words line in
      Option.bind (position (\<lambda>f. f = ''-'') flds) (\<lambda>separator.
      Option.bind (get_field flds 2) (\<lambda>dev.
      Option.bind (parse_device_id dev) (\<lambda>d.
      Option.bind (get_field flds (separator + 2)) (\<lambda>source.
      Option.bind (get_field flds 4) (\<lambda>mount_point.
      Some \<lparr>me_device = d, me_source = source, me_mount_point = mount_point\<rparr>))))))"

definition read_device_id :: "env \<Rightarrow> string \<Rightarrow> sys \<Rightarrow> device_id option" where
  "read_device_id E p s = (case read_to_string E p s of
      Inl _ \<Rightarrow> None | Inr content \<Rightarrow> parse_device_id (str_trim content))"

definition device_ids_in :: "env \<Rightarrow> string \<Rightarrow> (string \<Rightarrow> bool) \<Rightarrow> sys \<Rightarrow> device_id list" where
  "device_ids_in E dir wanted s = (case read_dir E dir s of
      None \<Rightarrow> []
    | Some entries \<Rightarrow> List.map_filter (\<lambda>p. read_device_id E (path_join p ''dev'') s) (filter wanted entries))"

section \<open>Devices that share storage\<close>

definition sysfs_block :: "device_id \<Rightarrow> string" where
  "sysfs_block d = ''/sys/dev/block/'' @ show_nat (fst d) @ '':'' @ show_nat (snd d)"

definition is_partition :: "env \<Rightarrow> sys \<Rightarrow> string \<Rightarrow> bool" where
  "is_partition E s p = fs_exists E (path_join p ''partition'') s"

text \<open>What one turn of the loop records and what it queues, for a device not seen before.\<close>

definition disk_of :: "env \<Rightarrow> sys \<Rightarrow> device_id \<Rightarrow> device_id option" where
  "disk_of E s d = Option.bind (canonicalize (sysfs_block d) s) (\<lambda>p.
     if is_partition E s p
     then Option.bind (path_parent p) (\<lambda>disk. read_device_id E (path_join disk ''dev'') s)
     else None)"

definition stacked_on :: "env \<Rightarrow> sys \<Rightarrow> device_id \<Rightarrow> device_id list" where
  "stacked_on E s d = (case canonicalize (sysfs_block d) s of
      None \<Rightarrow> []
    | Some p \<Rightarrow> (if is_partition E s p then [] else device_ids_in E p (is_partition E s) s)
        @ device_ids_in E (path_join p ''holders'') (\<lambda>_. True) s)"

definition all_device_ids :: "env \<Rightarrow> sys \<Rightarrow> device_id set" where
  "all_device_ids E s = set (List.map_filter (\<lambda>p. read_device_id E p s) (map fst (files s)))"

lemma set_map_filter: "y \<in> set (List.map_filter f xs) \<longleftrightarrow> (\<exists>x \<in> set xs. f x = Some y)"
  by (force simp: List.map_filter_def)

lemma read_device_id_file: "read_device_id E p s = Some d \<Longrightarrow> d \<in> all_device_ids E s"
proof -
  assume a: "read_device_id E p s = Some d"
  then have "node p s \<noteq> None"
    by (auto simp: read_device_id_def read_to_string_def fs_read_def guarded_def split: option.splits)
  then have "p \<in> set (map fst (files s))" by (simp add: node_def map_of_eq_None_iff)
  with a show ?thesis by (auto simp: all_device_ids_def set_map_filter)
qed

lemma device_ids_in_known: "set (device_ids_in E dir w s) \<subseteq> all_device_ids E s"
  by (auto simp: device_ids_in_def set_map_filter dest: read_device_id_file split: option.splits)

lemma stacked_on_known: "set (stacked_on E s d) \<subseteq> all_device_ids E s"
  using device_ids_in_known by (fastforce simp: stacked_on_def split: option.splits if_splits)

lemma finite_all_device_ids [simp]: "finite (all_device_ids E s)"
  by (simp add: all_device_ids_def)

text \<open>
  The loop, on the stack of pending devices with its top first. Every turn takes a device off
  the stack or records one that was not, and only known devices are ever queued.
\<close>

function related_loop :: "env \<Rightarrow> sys \<Rightarrow> device_id set \<Rightarrow> device_id list \<Rightarrow> device_id set" where
  "related_loop E s found [] = found"
| "related_loop E s found (d # pending) =
     (if d \<in> found then related_loop E s found pending
      else related_loop E s (set_option (disk_of E s d) \<union> insert d found)
             (rev (stacked_on E s d) @ pending))"
  by pat_completeness auto

termination
proof (relation "inv_image (less_than <*lex*> less_than)
    (\<lambda>(E, s, found, pending). (card (all_device_ids E s \<union> set pending - found), length pending))")
  show "wf (inv_image (less_than <*lex*> less_than)
    (\<lambda>(E, s, found, pending). (card (all_device_ids E s \<union> set pending - found), length pending)))"
    by auto
next
  fix E s and found :: "device_id set" and d :: device_id and pending :: "device_id list"
  assume "d \<in> found"
  then have "all_device_ids E s \<union> set (d # pending) - found = all_device_ids E s \<union> set pending - found"
    by auto
  then show "((E, s, found, pending), (E, s, found, d # pending)) \<in> inv_image (less_than <*lex*> less_than)
    (\<lambda>(E, s, found, pending). (card (all_device_ids E s \<union> set pending - found), length pending))"
    by simp
next
  fix E s and found :: "device_id set" and d :: device_id and pending :: "device_id list"
  assume d: "d \<notin> found"
  let ?new = "all_device_ids E s \<union> set (rev (stacked_on E s d) @ pending) - (set_option (disk_of E s d) \<union> insert d found)"
  let ?old = "all_device_ids E s \<union> set (d # pending) - found"
  have "?new \<subseteq> ?old" using stacked_on_known [of E s d] by auto
  moreover have "d \<in> ?old" "d \<notin> ?new" using d by auto
  ultimately have "?new \<subset> ?old" by blast
  then have "card ?new < card ?old" by (intro psubset_card_mono) auto
  then show "((E, s, set_option (disk_of E s d) \<union> insert d found, rev (stacked_on E s d) @ pending),
      (E, s, found, d # pending)) \<in> inv_image (less_than <*lex*> less_than)
    (\<lambda>(E, s, found, pending). (card (all_device_ids E s \<union> set pending - found), length pending))"
    by simp
qed

definition related_block_devices :: "env \<Rightarrow> sys \<Rightarrow> device_id \<Rightarrow> device_id set" where
  "related_block_devices E s d = related_loop E s {} [d]"

section \<open>MTD and UBI\<close>

definition ubi_volume_sources :: "env \<Rightarrow> sys \<Rightarrow> string \<Rightarrow> string list" where
  "ubi_volume_sources E s volume = [''/dev/'' @ volume, volume] @
     (case split_once (CHR ''_'') volume of
        None \<Rightarrow> []
      | Some (dev, _) \<Rightarrow> (case read_to_string E (''/sys/class/ubi/'' @ volume @ ''/name'') s of
          Inl _ \<Rightarrow> [] | Inr name \<Rightarrow> [dev @ '':'' @ str_trim name]))"

definition on_mtd :: "env \<Rightarrow> sys \<Rightarrow> nat \<Rightarrow> string \<Rightarrow> bool" where
  "on_mtd E s number volume = (case split_once (CHR ''_'') volume of
      None \<Rightarrow> False
    | Some (dev, _) \<Rightarrow> (case read_to_string E (''/sys/class/ubi/'' @ dev @ ''/mtd_num'') s of
        Inl _ \<Rightarrow> False | Inr mtd \<Rightarrow> parse_u32 (str_trim mtd) = Some number))"

definition ubi_volumes_on_mtd :: "env \<Rightarrow> sys \<Rightarrow> nat \<Rightarrow> string list" where
  "ubi_volumes_on_mtd E s number = (case read_dir E ''/sys/class/ubi'' s of
      None \<Rightarrow> []
    | Some entries \<Rightarrow> filter (on_mtd E s number) (List.map_filter path_file_name entries))"

definition mtd_sources :: "env \<Rightarrow> sys \<Rightarrow> nat \<Rightarrow> string list" where
  "mtd_sources E s number =
     (let n = show_nat number in
      [''/dev/mtd'' @ n, ''mtd'' @ n, ''/dev/mtdblock'' @ n, ''mtdblock'' @ n] @
      (case read_to_string E (''/sys/class/mtd/mtd'' @ n @ ''/name'') s of
         Inl _ \<Rightarrow> [] | Inr name \<Rightarrow> [''mtd:'' @ str_trim name]) @
      concat (map (ubi_volume_sources E s) (ubi_volumes_on_mtd E s number)))"

definition mount_sources_for :: "env \<Rightarrow> sys \<Rightarrow> string \<Rightarrow> string list" where
  "mount_sources_for E s dev = (case path_file_name dev of
      None \<Rightarrow> []
    | Some name \<Rightarrow>
        if starts_with ''ubi'' name \<and> str_contains ''_'' name then ubi_volume_sources E s name
        else (case Option.bind (strip_prefix ''mtd'' name) parse_u32 of
            Some number \<Rightarrow> mtd_sources E s number
          | None \<Rightarrow> []))"

text \<open>
  \<open>WalkDir\<close> with \<open>filter_entry\<close>: entries that fail the test are left out with all they contain.
  No path has more directories above it than there are files.
\<close>

fun walk_dir :: "nat \<Rightarrow> (string \<Rightarrow> bool) \<Rightarrow> string \<Rightarrow> sys \<Rightarrow> string list" where
  "walk_dir 0 P d s = []"
| "walk_dir (Suc n) P d s = concat (map (\<lambda>p. if \<not> P p then []
     else p # (if node p s = Some Directory then walk_dir n P p s else [])) (dir_entries d s))"

definition ubi_device_name :: "string \<Rightarrow> bool" where
  "ubi_device_name p = (case path_file_name p of
      None \<Rightarrow> False | Some n \<Rightarrow> starts_with ''ubi'' n \<and> \<not> str_contains ''_'' n)"

definition ubi_volume_regex :: string where
  "ubi_volume_regex = ''^Volume ID:   (?P<volume>[0-9]+) [(]on ubi([0-9]+)[)]$''"

definition mtd_regex :: string where
  "mtd_regex = ''^(?P<dev>mtd[0-9]): ([[:xdigit:]]+) ([[:xdigit:]]+) '' @ [dquote] @ ''(?P<name>.*)'' @ [dquote] @ ''$''"

text \<open>The first entry whose program gives an answer.\<close>

fun ubi_find :: "env \<Rightarrow> string \<Rightarrow> string list \<Rightarrow> (sys, utils_error, string) io" where
  "ubi_find E volume [] = io_throw (NoUbiVolume volume)"
| "ubi_find E volume (p # ps) =
     io_bind (io_attempt (exec E (''ubinfo '' @ p @ '' -N '' @ volume))) (\<lambda>r. case r of
        Inl _ \<Rightarrow> ubi_find E volume ps
      | Inr out \<Rightarrow> (case str_lines (stdout out) of
          [] \<Rightarrow> ubi_find E volume ps
        | line # _ \<Rightarrow> (case Option.bind (regex_captures E ubi_volume_regex line) (\<lambda>c. c ''volume'') of
            None \<Rightarrow> ubi_find E volume ps
          | Some v \<Rightarrow> io_return (p @ ''_'' @ v))))"

definition target_device_from_ubi_volume_name :: "env \<Rightarrow> string \<Rightarrow> (sys, utils_error, string) io" where
  "target_device_from_ubi_volume_name E volume = (\<lambda>s.
     ubi_find E volume (walk_dir (length (files s)) ubi_device_name ''/dev'' s) s)"

fun mtd_find :: "env \<Rightarrow> string \<Rightarrow> string list \<Rightarrow> string option" where
  "mtd_find E name [] = None"
| "mtd_find E name (line # ls) = (case regex_captures E mtd_regex line of
      None \<Rightarrow> mtd_find E name ls
    | Some c \<Rightarrow> (case (c ''dev'', c ''name'') of
        (Some dev, Some n) \<Rightarrow> if n = name then Some (''/dev/'' @ dev) else mtd_find E name ls
      | _ \<Rightarrow> mtd_find E name ls))"

definition target_device_from_mtd_name :: "env \<Rightarrow> string \<Rightarrow> (sys, utils_error, string) io" where
  "target_device_from_mtd_name E name =
     io_bind (io_map_err UIo (fs_read E ''/proc/mtd''))
       (\<lambda>content. io_lift (ok_or (NoMtdDevice name) (mtd_find E name (str_lines content))))"

definition is_nand :: "env \<Rightarrow> string \<Rightarrow> sys \<Rightarrow> utils_error + bool" where
  "is_nand E dev s =
     res_bind (res_map_err UIo (fst (guarded E FsOpen dev (\<lambda>s. (if node dev s = None then Inl NotFound else Inr (), s)) s))) (\<lambda>_.
     res_bind (res_map_err UNix (mtd_kind E dev s)) (\<lambda>kind. Inr (kind = 4 \<or> kind = 8)))"

section \<open>What is mounted\<close>

definition devices_behind :: "env \<Rightarrow> sys \<Rightarrow> fnode \<Rightarrow> string list \<Rightarrow> device_id set" where
  "devices_behind E s n sources =
     (case block_device_id n of None \<Rightarrow> {} | Some d \<Rightarrow> related_block_devices E s d) \<union>
     (\<Union>source \<in> set (filter (starts_with ''/'') sources). case metadata_of E source s of
        Inl _ \<Rightarrow> {}
      | Inr m \<Rightarrow> (case block_device_id m of None \<Rightarrow> {} | Some d \<Rightarrow> related_block_devices E s d))"

definition mount_conflict :: "env \<Rightarrow> sys \<Rightarrow> fnode \<Rightarrow> string list \<Rightarrow> mount_entry \<Rightarrow> bool" where
  "mount_conflict E s n sources e \<longleftrightarrow>
     me_device e \<in> devices_behind E s n sources \<or> me_source e \<in> set sources"

definition ensure_not_mounted :: "env \<Rightarrow> string \<Rightarrow> sys \<Rightarrow> utils_error + unit" where
  "ensure_not_mounted E tgt s = (case metadata_of E tgt s of
      Inl NotFound \<Rightarrow> Inr ()
    | Inl e \<Rightarrow> Inl (UIo e)
    | Inr n \<Rightarrow>
        res_bind (res_map_err UIo (read_to_string E ''/proc/self/mountinfo'' s)) (\<lambda>mountinfo.
          case find (mount_conflict E s n (mount_sources_for E s tgt))
                 (List.map_filter parse_mount_entry (str_lines mountinfo)) of
            Some e \<Rightarrow> Inl (DeviceInUse tgt (me_mount_point e))
          | None \<Rightarrow> Inr ()))"

section \<open>Programs and file systems\<close>

definition is_executable_in_path :: "env \<Rightarrow> string \<Rightarrow> sys \<Rightarrow> utils_error + unit" where
  "is_executable_in_path E cmd s = (if in_path E cmd s then Inr () else Inl (ExecutableNotInPath cmd))"

definition format_command :: "filesystem \<Rightarrow> string \<Rightarrow> string \<Rightarrow> string" where
  "format_command fs options tgt =
     (let mkfs = ''mkfs.'' @ filesystem_name fs; rest = options @ '' '' @ tgt in
      case fs of
        Jffs2 \<Rightarrow> ''flash_erase -j '' @ rest @ '' 0 0''
      | Ext2 \<Rightarrow> mkfs @ '' -F '' @ rest
      | Ext3 \<Rightarrow> mkfs @ '' -F '' @ rest
      | Ext4 \<Rightarrow> mkfs @ '' -F '' @ rest
      | UbifsFs \<Rightarrow> mkfs @ '' -y '' @ rest
      | Xfs \<Rightarrow> mkfs @ '' -f '' @ rest
      | Btrfs \<Rightarrow> mkfs @ '' '' @ rest
      | Vfat \<Rightarrow> mkfs @ '' '' @ rest
      | F2fs \<Rightarrow> mkfs @ '' '' @ rest)"

definition format_device :: "env \<Rightarrow> string \<Rightarrow> filesystem \<Rightarrow> string option \<Rightarrow> (sys, utils_error, unit) io" where
  "format_device E tgt fs options =
     io_then (io_ask (ensure_not_mounted E tgt))
       (io_then (io_map_err UProcess
          (exec E (format_command fs (case options of None \<Rightarrow> [] | Some opts \<Rightarrow> opts) tgt)))
          (io_return ()))"

text \<open>\<open>mount\<close> and the drop of its guard, which unmounts whatever the body's result was.\<close>

definition with_mount :: "env \<Rightarrow> string \<Rightarrow> filesystem \<Rightarrow> string \<Rightarrow> (io_error \<Rightarrow> 'e) \<Rightarrow>
    (string \<Rightarrow> (sys, 'e, 'a) io) \<Rightarrow> (sys, 'e, 'a) io" where
  "with_mount E source fs options err body =
     io_bind (io_map_err err (mount_fs E source (filesystem_name fs) options))
       (\<lambda>dir s. case body dir s of (r, t) \<Rightarrow> (r, unmount_fs E dir t))"

text \<open>\<open>Mode::from_bits\<close> knows the twelve permission bits.\<close>

definition chmod :: "env \<Rightarrow> string \<Rightarrow> nat \<Rightarrow> (sys, utils_error stop, unit) io" where
  "chmod E path m = (if m < 4096 then io_map_err (Fails \<circ> UNix) (fs_chmod E path m) else io_throw Panics)"

definition gid_as_u32 :: "env \<Rightarrow> owner_id \<Rightarrow> nat option" where
  "gid_as_u32 E i = (case i of OwnerName n \<Rightarrow> group_id E n | OwnerNumber n \<Rightarrow> Some n)"

definition uid_as_u32 :: "env \<Rightarrow> owner_id \<Rightarrow> nat option" where
  "uid_as_u32 E i = (case i of OwnerName n \<Rightarrow> user_id E n | OwnerNumber n \<Rightarrow> Some n)"

definition resolve_owner :: "(owner_id \<Rightarrow> nat option) \<Rightarrow> owner_id option \<Rightarrow> utils_error stop + nat option" where
  "resolve_owner f i = (case i of None \<Rightarrow> Inr None
     | Some x \<Rightarrow> (case f x of None \<Rightarrow> Inl Panics | Some n \<Rightarrow> Inr (Some n)))"

definition chown :: "env \<Rightarrow> string \<Rightarrow> owner_id option \<Rightarrow> owner_id option \<Rightarrow> (sys, utils_error stop, unit) io" where
  "chown E path uid gid =
     io_bind (io_lift (resolve_owner (uid_as_u32 E) uid)) (\<lambda>u.
     io_bind (io_lift (resolve_owner (gid_as_u32 E) gid)) (\<lambda>g.
     io_map_err (Fails \<circ> UNix) (fs_chown E path u g)))"

section \<open>Targets\<close>

datatype access = Exclusive | ThroughFilesystem

definition access_for_format :: "bool \<Rightarrow> access" where
  "access_for_format should = (if should then Exclusive else ThroughFilesystem)"

definition get_target :: "env \<Rightarrow> target_type \<Rightarrow> (sys, utils_error, string) io" where
  "get_target E t = (case t of
      Device dev \<Rightarrow>
        if starts_with ''ubi'' dev
        then io_bind (io_lift (ok_or (DeviceDoesNotExist dev)
               (map_option snd (split_once (CHR '':'') dev))))
               (target_device_from_ubi_volume_name E)
        else io_return dev
    | UBIVolume v \<Rightarrow> target_device_from_ubi_volume_name E v
    | MTDName v \<Rightarrow> target_device_from_mtd_name E v)"

definition valid_target :: "env \<Rightarrow> access \<Rightarrow> target_type \<Rightarrow> (sys, utils_error, unit) io" where
  "valid_target E access t = io_bind (get_target E t) (\<lambda>dev s.
     if \<not> fs_exists E dev s then (Inl (DeviceDoesNotExist dev), s)
     else (case metadata_of E dev s of
         Inl e \<Rightarrow> (Inl (UIo e), s)
       | Inr _ \<Rightarrow>
           if readonly E dev s then (Inl (MissingWritePermission dev), s)
           else if access = Exclusive then (ensure_not_mounted E dev s, s)
           else (Inr (), s)))"

section \<open>Lemmas\<close>

lemma length_hex_encode: "length (hex_encode b) = 2 * length b"
  by (induction b) (simp_all add: hex_encode_def Let_def)

lemma ensure_disk_space_Inr:
  "ensure_disk_space E t n s = Inr () \<longleftrightarrow> (\<exists>a. available_space E t s = Inr a \<and> n \<le> a)"
  by (auto simp: ensure_disk_space_def io_simps not_less split: sum.splits if_splits)

subsection \<open>The related devices\<close>

lemma related_loop_found: "found \<subseteq> related_loop E s found pending"
  by (induction E s found pending rule: related_loop.induct) auto

lemma related_loop_pending: "set pending \<subseteq> related_loop E s found pending"
proof (induction E s found pending rule: related_loop.induct)
  case (2 E s found d pending)
  then show ?case
    using related_loop_found [of found E s pending]
      related_loop_found [of "set_option (disk_of E s d) \<union> insert d found" E s "rev (stacked_on E s d) @ pending"]
    by (cases "d \<in> found") auto
qed simp

text \<open>
  What the search is meant to find: the devices that lie on the given one through partitions and
  holders, and the disks of the partitions among them.
\<close>

inductive rests_on :: "env \<Rightarrow> sys \<Rightarrow> device_id \<Rightarrow> device_id \<Rightarrow> bool" for E :: env and s :: sys and d :: device_id where
  itself: "rests_on E s d d"
| stacked: "rests_on E s d x \<Longrightarrow> y \<in> set (stacked_on E s x) \<Longrightarrow> rests_on E s d y"

definition shared_storage :: "env \<Rightarrow> sys \<Rightarrow> device_id \<Rightarrow> device_id set" where
  "shared_storage E s d = {e. rests_on E s d e} \<union> {e. \<exists>w. rests_on E s d w \<and> disk_of E s w = Some e}"

text \<open>
  How the kernel nests devices in \<open>/sys\<close>: a partition is listed by its own disk only, and no disk
  lies on one of its partitions.
\<close>

definition partitions_nested :: "env \<Rightarrow> sys \<Rightarrow> device_id \<Rightarrow> bool" where
  "partitions_nested E s d \<longleftrightarrow>
     (\<forall>x w e. rests_on E s d x \<and> w \<in> set (stacked_on E s x) \<and> disk_of E s w = Some e \<longrightarrow> x = e) \<and>
     (\<forall>e. disk_of E s d = Some e \<longrightarrow> \<not> rests_on E s d e)"

text \<open>
  The devices the loop walks, as opposed to the disks it only records. Each was pending or lies on
  one walked before.
\<close>

lemma related_loop_walked:
  assumes "\<forall>x \<in> set pending. rests_on E s d x"
  shows "\<exists>W. related_loop E s found pending = found \<union> W \<union> {e. \<exists>w \<in> W. disk_of E s w = Some e} \<and>
     (\<forall>w \<in> W. rests_on E s d w \<and> set (stacked_on E s w) \<subseteq> related_loop E s found pending \<and>
        (w \<in> set pending \<or> (\<exists>x \<in> W. w \<in> set (stacked_on E s x)))) \<and>
     set pending \<subseteq> related_loop E s found pending \<and> (pending \<noteq> [] \<longrightarrow> hd pending \<in> found \<union> W)"
  using assms
proof (induction E s found pending rule: related_loop.induct)
  case (1 E s found)
  then show ?case by (intro exI [of _ "{}"]) simp
next
  case (2 E s found x pending)
  show ?case
  proof (cases "x \<in> found")
    case True
    have "\<forall>y \<in> set pending. rests_on E s d y" using 2(3) by simp
    from 2(1) [OF True this] obtain W where
      W: "related_loop E s found pending = found \<union> W \<union> {e. \<exists>w \<in> W. disk_of E s w = Some e}"
      "\<forall>w \<in> W. rests_on E s d w \<and> set (stacked_on E s w) \<subseteq> related_loop E s found pending \<and>
        (w \<in> set pending \<or> (\<exists>x \<in> W. w \<in> set (stacked_on E s x)))" by blast
    have "set pending \<subseteq> related_loop E s found pending" by (rule related_loop_pending)
    with True W show ?thesis by (intro exI [of _ W]) auto
  next
    case False
    let ?f = "set_option (disk_of E s x) \<union> insert x found"
    let ?p = "rev (stacked_on E s x) @ pending"
    have x: "rests_on E s d x" using 2(3) by simp
    then have "\<forall>y \<in> set ?p. rests_on E s d y" using 2(3) by (auto intro: rests_on.stacked)
    from 2(2) [OF False this] obtain W where
      W: "related_loop E s ?f ?p = ?f \<union> W \<union> {e. \<exists>w \<in> W. disk_of E s w = Some e}"
      "\<forall>w \<in> W. rests_on E s d w \<and> set (stacked_on E s w) \<subseteq> related_loop E s ?f ?p \<and>
        (w \<in> set ?p \<or> (\<exists>x \<in> W. w \<in> set (stacked_on E s x)))" by blast
    have l: "related_loop E s found (x # pending) = related_loop E s ?f ?p" using False by simp
    have p: "set ?p \<subseteq> related_loop E s ?f ?p" by (rule related_loop_pending)
    show ?thesis
    proof (intro exI [of _ "insert x W"] conjI ballI)
      show "related_loop E s found (x # pending) =
          found \<union> insert x W \<union> {e. \<exists>w \<in> insert x W. disk_of E s w = Some e}"
        unfolding l W(1) by auto
      show "set (x # pending) \<subseteq> related_loop E s found (x # pending)" by (rule related_loop_pending)
    next
      fix w assume "w \<in> insert x W"
      then show "rests_on E s d w" using x W(2) by auto
    next
      fix w assume "w \<in> insert x W"
      then show "set (stacked_on E s w) \<subseteq> related_loop E s found (x # pending)" using p W(2) unfolding l by auto
    next
      fix w assume "w \<in> insert x W"
      then show "w \<in> set (x # pending) \<or> (\<exists>y \<in> insert x W. w \<in> set (stacked_on E s y))" using W(2) by fastforce
    qed simp
  qed
qed

text \<open>A disk that lies on the device is walked before a partition of it is found.\<close>

lemma related_exact:
  assumes "partitions_nested E s d"
  shows "related_block_devices E s d = shared_storage E s d"
proof -
  have "\<forall>x \<in> set [d]. rests_on E s d x" by (simp add: rests_on.itself)
  from related_loop_walked [OF this, of "{}", folded related_block_devices_def] obtain W where
    "related_block_devices E s d = {} \<union> W \<union> {e. \<exists>w \<in> W. disk_of E s w = Some e} \<and>
     (\<forall>w \<in> W. rests_on E s d w \<and> set (stacked_on E s w) \<subseteq> related_block_devices E s d \<and>
        (w \<in> set [d] \<or> (\<exists>x \<in> W. w \<in> set (stacked_on E s x)))) \<and>
     set [d] \<subseteq> related_block_devices E s d \<and> ([d] \<noteq> [] \<longrightarrow> hd [d] \<in> {} \<union> W)" by (elim exE)
  then have all: "related_block_devices E s d = W \<union> {e. \<exists>w \<in> W. disk_of E s w = Some e}" "d \<in> W"
    "\<forall>w \<in> W. rests_on E s d w \<and> set (stacked_on E s w) \<subseteq> related_block_devices E s d \<and> (w = d \<or> (\<exists>x \<in> W. w \<in> set (stacked_on E s x)))"
    unfolding Un_empty_left list.set list.sel by blast+
  then have R: "related_block_devices E s d = W \<union> {e. \<exists>w \<in> W. disk_of E s w = Some e}" and d: "d \<in> W"
    and W: "\<And>w. w \<in> W \<Longrightarrow> rests_on E s d w" "\<And>w. w \<in> W \<Longrightarrow> set (stacked_on E s w) \<subseteq> related_block_devices E s d"
      "\<And>w. w \<in> W \<Longrightarrow> w = d \<or> (\<exists>x \<in> W. w \<in> set (stacked_on E s x))"
    by blast+
  have "x \<in> W" if "rests_on E s d x" for x
    using that
  proof induction
    case (stacked x y)
    show ?case
    proof (rule ccontr)
      assume "y \<notin> W"
      moreover have "y \<in> related_block_devices E s d" using stacked W(2) by blast
      ultimately obtain w where w: "w \<in> W" "disk_of E s w = Some y" using R by auto
      have y: "rests_on E s d y" using stacked.hyps by (rule rests_on.stacked)
      from W(3) [OF w(1)] show False
      proof
        assume "w = d"
        then show False using assms w(2) y unfolding partitions_nested_def by blast
      next
        assume "\<exists>z \<in> W. w \<in> set (stacked_on E s z)"
        then obtain z where z: "z \<in> W" "w \<in> set (stacked_on E s z)" by blast
        then have "z = y" using assms W(1) w(2) unfolding partitions_nested_def by blast
        then show False using z(1) \<open>y \<notin> W\<close> by simp
      qed
    qed
  qed (rule d)
  then have "W = {x. rests_on E s d x}" using W(1) by blast
  then show ?thesis unfolding R shared_storage_def by auto
qed

subsection \<open>The mount table\<close>

text \<open>
  A mount and its line in \<open>/proc/self/mountinfo\<close>, as \<open>proc(5)\<close> gives it: two numbers, the device,
  the root and the mount point, the options, any number of tags, a dash, the type, the source and
  the options of the file system. White space in a field is escaped, so that no field has any.
\<close>

record mount =
  mt_numbers :: "string \<times> string"
  mt_device :: device_id
  mt_root :: string
  mt_point :: string
  mt_options :: string
  mt_tags :: "string list"
  mt_type :: string
  mt_source :: string
  mt_super :: string

definition device_id_text :: "device_id \<Rightarrow> string" where
  "device_id_text d = show_nat (fst d) @ CHR '':'' # show_nat (snd d)"

definition mount_fields :: "mount \<Rightarrow> string list" where
  "mount_fields m = [fst (mt_numbers m), snd (mt_numbers m), device_id_text (mt_device m), mt_root m, mt_point m, mt_options m]
     @ mt_tags m @ [''-'', mt_type m, mt_source m, mt_super m]"

definition mount_line :: "mount \<Rightarrow> string" where
  "mount_line m = str_join '' '' (mount_fields m)"

definition mount_table :: "mount list \<Rightarrow> string" where
  "mount_table ms = concat (map (\<lambda>m. mount_line m @ [newline]) ms)"

definition field_ok :: "string \<Rightarrow> bool" where
  "field_ok f \<longleftrightarrow> f \<noteq> [] \<and> (\<forall>c \<in> set f. \<not> is_ws c)"

definition mount_ok :: "mount \<Rightarrow> bool" where
  "mount_ok m \<longleftrightarrow> (\<forall>f \<in> set (mount_fields m). field_ok f) \<and>
     ''-'' \<notin> set (fst (mt_numbers m) # snd (mt_numbers m) # mt_root m # mt_point m # mt_options m # mt_tags m) \<and>
     fst (mt_device m) < 2 ^ 64 \<and> snd (mt_device m) < 2 ^ 64"

abbreviation mount_entry_of :: "mount \<Rightarrow> mount_entry" where
  "mount_entry_of m \<equiv> \<lparr>me_device = mt_device m, me_source = mt_source m, me_mount_point = mt_point m\<rparr>"

lemma str_words_field: "(\<forall>c \<in> set f. \<not> is_ws c) \<Longrightarrow> str_words_aux w (f @ r) = str_words_aux (rev f @ w) r"
  by (induction f arbitrary: w) simp_all

lemma str_words_join: "\<forall>f \<in> set fs. field_ok f \<Longrightarrow> str_words (str_join '' '' fs) = fs"
proof (induction fs rule: induct_list012)
  case (2 f)
  then show ?case using str_words_field [of f "[]" "[]"] by (simp add: str_words_def field_ok_def)
next
  case (3 f g fs)
  then have "str_words_aux [] (f @ '' '' @ str_join '' '' (g # fs)) = f # str_words_aux [] (str_join '' '' (g # fs))"
    by (simp add: str_words_field field_ok_def is_ws_def)
  then show ?case using 3 by (simp add: str_words_def)
qed (simp add: str_words_def)

lemma set_str_join: "set (str_join sep fs) \<subseteq> set sep \<union> \<Union> (set ` set fs)"
  by (induction sep fs rule: str_join.induct) auto

lemma str_lines_unlines:
  "\<forall>l \<in> set ls. newline \<notin> set l \<and> carriage_return \<notin> set l \<Longrightarrow> str_lines (concat (map (\<lambda>l. l @ [newline]) ls)) = ls"
proof (induction ls)
  case (Cons l ls)
  have "line_pieces (l # ps) = l # line_pieces ps" if "ps \<noteq> []" for ps
    using that Cons.prems by (cases ps) (auto simp: strip_cr_def dest: last_in_set)
  then show ?case using Cons by (simp add: str_lines_def split_on_append)
qed (simp add: str_lines_def)

lemma str_lines_mounts:
  assumes "\<forall>m \<in> set ms. mount_ok m"
  shows "str_lines (mount_table ms) = map mount_line ms"
proof -
  have "newline \<notin> set (mount_line m) \<and> carriage_return \<notin> set (mount_line m)" if "m \<in> set ms" for m
  proof -
    have ws: "is_ws newline" "is_ws carriage_return" by (simp_all add: is_ws_def newline_def carriage_return_def)
    have "set (mount_line m) \<subseteq> set '' '' \<union> \<Union> (set ` set (mount_fields m))"
      unfolding mount_line_def by (rule set_str_join)
    moreover have "c \<notin> set f" if "is_ws c" "f \<in> set (mount_fields m)" for c f
      using assms that \<open>m \<in> set ms\<close> by (auto simp: mount_ok_def field_ok_def)
    ultimately show ?thesis using ws by (fastforce simp: newline_def carriage_return_def)
  qed
  then have "\<forall>l \<in> set (map mount_line ms). newline \<notin> set l \<and> carriage_return \<notin> set l" by simp
  from str_lines_unlines [OF this] show ?thesis by (simp add: mount_table_def comp_def)
qed

lemma position_separator: "x \<notin> set xs \<Longrightarrow> position (\<lambda>f. f = x) (xs @ x # ys) = Some (length xs)"
  by (induction xs) auto

lemma digits_only: "digits_value b acc t = Some v \<Longrightarrow> c \<in> set t \<Longrightarrow> digit_value c \<noteq> None"
  by (induction b acc t rule: digits_value.induct) (auto split: option.splits if_splits)

lemma show_nat_digits: "digit_value c = None \<Longrightarrow> c \<notin> set (show_nat n)"
  using digits_only [OF digits_value_show_nat] by blast

lemma parse_device_id_text:
  "fst d < 2 ^ 64 \<Longrightarrow> snd d < 2 ^ 64 \<Longrightarrow> parse_device_id (device_id_text d) = Some d"
  by (simp add: parse_device_id_def device_id_text_def split_once_append parse_unsigned_show_nat
    show_nat_digits digit_value_def)

text \<open>The parser reads the device, the source and the mount point of every line the kernel prints.\<close>

lemma parse_mount_line:
  assumes "mount_ok m"
  shows "parse_mount_entry (mount_line m) = Some (mount_entry_of m)"
proof -
  let ?pre = "[fst (mt_numbers m), snd (mt_numbers m), device_id_text (mt_device m), mt_root m, mt_point m, mt_options m] @ mt_tags m"
  have w: "str_words (mount_line m) = ?pre @ ''-'' # [mt_type m, mt_source m, mt_super m]"
    using assms str_words_join [of "mount_fields m"] unfolding mount_line_def mount_ok_def mount_fields_def by simp
  have "''-'' \<noteq> device_id_text (mt_device m)"
    using show_nat_digits [of "CHR ''-''"] by (auto simp: device_id_text_def Cons_eq_append_conv digit_value_def)
  then have p: "position (\<lambda>f. f = ''-'') (?pre @ ''-'' # [mt_type m, mt_source m, mt_super m]) = Some (length ?pre)"
    using assms by (intro position_separator) (auto simp: mount_ok_def)
  have f: "get_field (?pre @ ''-'' # [mt_type m, mt_source m, mt_super m]) (length ?pre + 2) = Some (mt_source m)"
    "get_field (?pre @ ''-'' # [mt_type m, mt_source m, mt_super m]) 2 = Some (device_id_text (mt_device m))"
    "get_field (?pre @ ''-'' # [mt_type m, mt_source m, mt_super m]) 4 = Some (mt_point m)"
    by (simp_all add: get_field_def nth_append)
  show ?thesis
    using assms p f unfolding parse_mount_entry_def w by (simp add: mount_ok_def parse_device_id_text del: append.simps)
qed

lemma strip_prefix_None: "\<not> starts_with p t \<Longrightarrow> strip_prefix p t = None"
  by (induction p t rule: strip_prefix.induct) auto

lemma str_contains_append: "p \<noteq> [] \<Longrightarrow> str_contains p (t @ p @ r)"
proof (induction t)
  case Nil
  then show ?case by (cases p) (auto simp: starts_with_append [of "x # ps" for x ps, simplified])
qed (simp add: Cons)

lemma ubi_volume_name:
  "starts_with ''ubi'' (''ubi'' @ show_nat u @ ''_'' @ show_nat k)"
  "str_contains ''_'' (''ubi'' @ show_nat u @ ''_'' @ show_nat k)"
  "split_once (CHR ''_'') (''ubi'' @ show_nat u @ ''_'' @ show_nat k) = Some (''ubi'' @ show_nat u, show_nat k)"
  using starts_with_append [of "''ubi''"] str_contains_append [of "''_''" "''ubi'' @ show_nat u"]
    split_once_append [of "CHR ''_''" "''ubi'' @ show_nat u" "show_nat k"] show_nat_digits [of "CHR ''_''" u]
  by (simp_all add: digit_value_def)

lemma ensure_not_mounted_table:
  assumes "metadata_of E tgt s = Inr n"
    and "read_to_string E ''/proc/self/mountinfo'' s = Inr (mount_table ms)" and "\<forall>m \<in> set ms. mount_ok m"
  shows "ensure_not_mounted E tgt s =
    (case find (\<lambda>m. mt_device m \<in> devices_behind E s n (mount_sources_for E s tgt) \<or> mt_source m \<in> set (mount_sources_for E s tgt)) ms of
       Some m \<Rightarrow> Inl (DeviceInUse tgt (mt_point m)) | None \<Rightarrow> Inr ())"
proof -
  have "List.map_filter parse_mount_entry (map mount_line ms) = map mount_entry_of ms"
    using assms(3) by (induction ms) (simp_all add: List.map_filter_def parse_mount_line)
  moreover have "find P (map mount_entry_of ms) = map_option mount_entry_of (find (P \<circ> mount_entry_of) ms)" for P
    by (induction ms) simp_all
  ultimately show ?thesis
    using assms(1,2) str_lines_mounts [OF assms(3)]
    by (simp add: ensure_not_mounted_def io_simps mount_conflict_def [abs_def] comp_def split: option.splits)
qed

section \<open>Properties\<close>

text \<open>C35: In \<open>/sys\<close> as the kernel builds it the search for devices that share storage, which records
  disks without walking them and walks no device twice, ends with exactly these: the devices that
  lie on the given one through partitions and holders, and the disks of the partitions among them.\<close>

theorem related_devices_exact:
  assumes "partitions_nested E s d"
  shows "related_block_devices E s d = shared_storage E s d"
  using assms by (rule related_exact)

text \<open>A disk with a partition, a mapped device on that, and a file system of it that is mounted.\<close>

definition example_mount :: mount where
  "example_mount = \<lparr>mt_numbers = (''26'', ''25''), mt_device = (253, 0), mt_root = ''/'', mt_point = ''/data'',
     mt_options = ''rw'', mt_tags = [''shared:1''], mt_type = ''ext4'', mt_source = ''/dev/mapper/data'', mt_super = ''rw''\<rparr>"

definition example_disk :: sys where
  "example_disk = example_sys\<lparr>files := [(''/dev/sda'', BlockDev (8, 0) ''data''),
     (''/proc/self/mountinfo'', Regular (mount_table [example_mount])),
     (''/sys/block/sda'', Directory), (''/sys/block/sda/dev'', Regular ''8:0''),
     (''/sys/block/sda/sda2'', Directory), (''/sys/block/sda/sda2/dev'', Regular ''8:2''), (''/sys/block/sda/sda2/partition'', Regular ''1''),
     (''/sys/block/sda/sda2/holders'', Directory),
     (''/sys/block/sda/sda2/holders/dm-0'', Directory), (''/sys/block/sda/sda2/holders/dm-0/dev'', Regular ''253:0''),
     (''/sys/block/dm-0'', Directory), (''/sys/block/dm-0/dev'', Regular ''253:0'')],
   links := [(''/sys/dev/block/8:0'', ''/sys/block/sda''), (''/sys/dev/block/8:2'', ''/sys/block/sda/sda2''),
     (''/sys/dev/block/253:0'', ''/sys/block/dm-0'')]\<rparr>"

lemma example_stacked:
  "stacked_on example_env example_disk (8, 0) = [(8, 2)]" "disk_of example_env example_disk (8, 0) = None"
  "stacked_on example_env example_disk (8, 2) = [(253, 0)]" "disk_of example_env example_disk (8, 2) = Some (8, 0)"
  "stacked_on example_env example_disk (253, 0) = []" "disk_of example_env example_disk (253, 0) = None"
  by code_simp+

lemma example_rests: "rests_on example_env example_disk d e \<Longrightarrow> d \<in> {(8, 0), (8, 2), (253, 0)} \<Longrightarrow>
    e \<in> {(8, 0), (8, 2), (253, 0)} \<and> (d = (8, 2) \<longrightarrow> e \<noteq> (8, 0))"
proof (induction rule: rests_on.induct)
  case (stacked x y)
  then have "x \<in> {(8, 0), (8, 2), (253, 0)}" by simp
  then show ?case using stacked by (elim insertE) (simp_all add: example_stacked)
qed simp

lemma example_nested: "d \<in> {(8, 0), (8, 2)} \<Longrightarrow> partitions_nested example_env example_disk d"
  using example_rests [of d] unfolding partitions_nested_def by (fastforce simp: example_stacked)

theorem related_devices_exact_witness:
  "related_block_devices example_env example_disk (8, 2) = {(8, 0), (8, 2), (253, 0)}"
proof -
  have r: "rests_on example_env example_disk (8, 2) (8, 2)" "rests_on example_env example_disk (8, 2) (253, 0)"
    using rests_on.itself rests_on.stacked [OF rests_on.itself, of "(253, 0)"] by (simp_all add: example_stacked)
  have "rests_on example_env example_disk (8, 2) e \<longleftrightarrow> e = (8, 2) \<or> e = (253, 0)" for e
    using r example_rests [of "(8, 2)" e] by auto
  then have "shared_storage example_env example_disk (8, 2) = {(8, 0), (8, 2), (253, 0)}"
    unfolding shared_storage_def by (force simp: example_stacked)
  then show ?thesis using related_devices_exact [OF example_nested, of "(8, 2)"] by simp
qed

text \<open>C34: On the mount table as the kernel prints it, the check that a device is not in use accepts a
  block device exactly when nothing that shares storage with it is mounted, and a UBI volume exactly
  when nothing is mounted by one of its three names; otherwise it reports the mount point of the
  first conflict.\<close>

theorem not_mounted_spec:
  assumes "metadata_of E dev s = Inr n" and "path_file_name dev = Some v"
    and "read_to_string E ''/proc/self/mountinfo'' s = Inr (mount_table ms)" and "\<forall>m \<in> set ms. mount_ok m"
  shows "(\<forall>d b. n = BlockDev d b \<and> \<not> starts_with ''ubi'' v \<and> \<not> starts_with ''mtd'' v \<and> partitions_nested E s d \<longrightarrow>
      ensure_not_mounted E dev s = (case find (\<lambda>m. mt_device m \<in> shared_storage E s d) ms of
        Some m \<Rightarrow> Inl (DeviceInUse dev (mt_point m)) | None \<Rightarrow> Inr ())) \<and>
    (\<forall>b u k nm. n = CharDev b \<and> dev = ''/dev/'' @ v \<and> v = ''ubi'' @ show_nat u @ ''_'' @ show_nat k \<and>
        read_to_string E (''/sys/class/ubi/'' @ v @ ''/name'') s = Inr nm \<longrightarrow>
      ensure_not_mounted E dev s = (case find (\<lambda>m. mt_source m \<in> {dev, v, ''ubi'' @ show_nat u @ '':'' @ str_trim nm}) ms of
        Some m \<Rightarrow> Inl (DeviceInUse dev (mt_point m)) | None \<Rightarrow> Inr ()))"
proof (intro conjI allI impI)
  fix d b assume a: "n = BlockDev d b \<and> \<not> starts_with ''ubi'' v \<and> \<not> starts_with ''mtd'' v \<and> partitions_nested E s d"
  have "mount_sources_for E s dev = []"
    using a assms(2) strip_prefix_None [of "''mtd''" v] by (simp add: mount_sources_for_def)
  then show "ensure_not_mounted E dev s = (case find (\<lambda>m. mt_device m \<in> shared_storage E s d) ms of
      Some m \<Rightarrow> Inl (DeviceInUse dev (mt_point m)) | None \<Rightarrow> Inr ())"
    using ensure_not_mounted_table [OF assms(1,3,4)] a related_exact [of E s d]
    by (simp add: devices_behind_def block_device_id_def)
next
  fix b u k nm assume a: "n = CharDev b \<and> dev = ''/dev/'' @ v \<and> v = ''ubi'' @ show_nat u @ ''_'' @ show_nat k \<and>
    read_to_string E (''/sys/class/ubi/'' @ v @ ''/name'') s = Inr nm"
  have d: "n = CharDev b" "''/dev/'' @ v = dev" and v: "v = ''ubi'' @ show_nat u @ ''_'' @ show_nat k"
    and nm: "read_to_string E (''/sys/class/ubi/'' @ v @ ''/name'') s = Inr nm" using a by blast+
  have "starts_with ''ubi'' v" "str_contains ''_'' v" "split_once (CHR ''_'') v = Some (''ubi'' @ show_nat u, show_nat k)"
    by (simp_all only: v ubi_volume_name)
  then have src: "mount_sources_for E s dev = [dev, v, ''ubi'' @ show_nat u @ '':'' @ str_trim nm]"
    unfolding mount_sources_for_def ubi_volume_sources_def assms(2) d(2)
    by (simp add: nm [unfolded append.simps] d(2) [unfolded append.simps])
  have "devices_behind E s n (mount_sources_for E s dev) = {}"
    unfolding src devices_behind_def using d assms(1) by (auto simp: block_device_id_def v)
  then show "ensure_not_mounted E dev s = (case find (\<lambda>m. mt_source m \<in> {dev, v, ''ubi'' @ show_nat u @ '':'' @ str_trim nm}) ms of
      Some m \<Rightarrow> Inl (DeviceInUse dev (mt_point m)) | None \<Rightarrow> Inr ())"
    using ensure_not_mounted_table [OF assms(1,3,4)] unfolding src by simp
qed

lemma example_mounted:
  "metadata_of example_env ''/dev/sda'' example_disk = Inr (BlockDev (8, 0) ''data'')"
  "read_to_string example_env ''/proc/self/mountinfo'' example_disk = Inr (mount_table [example_mount])"
  "path_file_name ''/dev/sda'' = Some ''sda''" "mount_ok example_mount"
  by code_simp+

text \<open>The disk is in use by what is mapped on its partition.\<close>

theorem not_mounted_spec_witness:
  "ensure_not_mounted example_env ''/dev/sda'' example_disk = Inl (DeviceInUse ''/dev/sda'' ''/data'')"
proof -
  have "rests_on example_env example_disk (8, 0) (8, 2)"
    using rests_on.stacked [OF rests_on.itself, of "(8, 2)"] by (simp add: example_stacked)
  then have "rests_on example_env example_disk (8, 0) (253, 0)"
    using rests_on.stacked [of example_env example_disk "(8, 0)" "(8, 2)" "(253, 0)"] by (simp add: example_stacked)
  then have "(253, 0) \<in> shared_storage example_env example_disk (8, 0)" by (simp add: shared_storage_def)
  moreover have "partitions_nested example_env example_disk (8, 0)" by (rule example_nested) simp
  ultimately show ?thesis
    using not_mounted_spec [OF example_mounted(1,3,2)] example_mounted(4) by (simp add: example_mount_def)
qed

text \<open>A device that is in use is never formatted: when the check for mounted file systems
  fails no program is started and nothing changes.\<close>

lemma format_refuses_mounted:
  assumes "ensure_not_mounted E dev s = Inl e"
  shows "format_device E dev fs opts s = (Inl e, s)"
  using assms by (simp add: format_device_def io_simps)

lemma format_refuses_mounted_witness:
  "format_device example_env ''/dev/sda'' Ext4 None (example_sys\<lparr>files := [(''/dev/sda'', BlockDev (8, 0) ''data'')]\<rparr>) =
     (Inl (UIo NotFound), example_sys\<lparr>files := [(''/dev/sda'', BlockDev (8, 0) ''data'')]\<rparr>)"
  by (rule format_refuses_mounted) code_simp

end
