(* ===== verification/UH_Cloud.thy ===== *)
theory UH_Cloud
  imports UH_Devices
begin

text \<open>
  \<open>updatehub-cloud-sdk\<close>: the messages exchanged with the update server (\<open>api.rs\<close>) and the
  HTTP client that probes, downloads objects and reports progress (\<open>client.rs\<close>).
\<close>

section \<open>Messages\<close>

datatype cloud_error = InvalidSignature | MissingContentLength | CloudIo io_error
  | JsonParsing string | OpenSsl string | ParseInt | HttpFailed http_error
  | InvalidStatusResponse nat | HeaderParse | UrlParse

record update_package =
  inner :: package
  raw :: string

datatype signature = Signature string

datatype probe_response = NoUpdate | Update update_package "signature option" | ExtraPoll int

type_synonym metadata_map = "(string \<times> string list) list"

record firmware_metadata =
  fm_product_uid :: string
  fm_version :: string
  fm_hardware :: string
  fm_device_identity :: metadata_map
  fm_device_attributes :: metadata_map

definition enc_metadata_value :: "metadata_map \<Rightarrow> json" where
  "enc_metadata_value m = JObj (map (\<lambda>(k, vs). (k, case vs of [v] \<Rightarrow> JStr v | _ \<Rightarrow> JArr (map JStr vs))) m)"

definition firmware_metadata_fields :: "firmware_metadata \<Rightarrow> (string \<times> json) list" where
  "firmware_metadata_fields f =
     [(''product-uid'', JStr (fm_product_uid f)), (''version'', JStr (fm_version f)),
      (''hardware'', JStr (fm_hardware f)),
      (''device-identity'', enc_metadata_value (fm_device_identity f)),
      (''device-attributes'', enc_metadata_value (fm_device_attributes f))]"

definition parse_package :: "env \<Rightarrow> string \<Rightarrow> cloud_error + update_package" where
  "parse_package E content =
     res_bind (res_map_err JsonParsing (json_parse E content)) (\<lambda>j.
     res_bind (ok_or (JsonParsing ''invalid value'') (dec_package j)) (\<lambda>p.
     Inr \<lparr>inner = p, raw = content\<rparr>))"

definition package_uid :: "env \<Rightarrow> update_package \<Rightarrow> string" where
  "package_uid E p = concat (map (\<lambda>c. let n = (of_char c :: nat) in [hex_char (n div 16), hex_char (n mod 16)])
     (sha256 E (raw p)))"

definition package_version :: "update_package \<Rightarrow> string" where
  "package_version p = version (inner p)"

definition signature_from_base64_str :: "env \<Rightarrow> string \<Rightarrow> cloud_error + signature" where
  "signature_from_base64_str E bytes =
     res_bind (res_map_err OpenSsl (base64_decode E bytes)) (\<lambda>b. Inr (Signature b))"

definition signature_validate :: "env \<Rightarrow> string \<Rightarrow> update_package \<Rightarrow> signature \<Rightarrow> sys \<Rightarrow> cloud_error + unit" where
  "signature_validate E key p sig s =
     res_bind (res_map_err CloudIo (read_to_string E key s)) (\<lambda>pem.
     case sig of Signature b \<Rightarrow>
       res_bind (res_map_err OpenSsl (verify_sha256 E pem b (raw p))) (\<lambda>ok.
       if ok then Inr () else Inl InvalidSignature))"

section \<open>The client\<close>

definition client_headers :: "(string \<times> string) list" where
  "client_headers = [(''user-agent'', ''updatehub/2.0 Linux''), (''content-type'', ''application/json''),
     (''api-content-type'', ''application/vnd.updatehub-v1+json'')]"

text \<open>Header names ignore case; \<open>to_str\<close> accepts visible ASCII and tabs only.\<close>

definition header_value :: "string \<Rightarrow> http_response \<Rightarrow> string option" where
  "header_value k resp = map_of (map (\<lambda>(n, v). (to_lowercase n, v)) (resp_headers resp)) (to_lowercase k)"

definition header_str :: "string \<Rightarrow> string option" where
  "header_str v = (if \<forall>c \<in> set v. (let n = (of_char c :: nat) in n = 9 \<or> (32 \<le> n \<and> n < 127))
     then Some v else None)"

definition is_success :: "nat \<Rightarrow> bool" where
  "is_success code \<longleftrightarrow> 200 \<le> code \<and> code < 300"

definition content_length :: "http_response \<Rightarrow> cloud_error + nat" where
  "content_length resp = (case header_value ''content-length'' resp of
      None \<Rightarrow> Inr 0
    | Some v \<Rightarrow> res_bind (ok_or HeaderParse (header_str v)) (\<lambda>t. ok_or ParseInt (parse_u64 t)))"

text \<open>The body is written as it arrives: what came before an error stays written.\<close>

definition save_body_to :: "http_response \<Rightarrow> (string \<Rightarrow> (sys, cloud_error, unit) io) \<Rightarrow> (sys, cloud_error, unit) io" where
  "save_body_to resp write_all =
     (if \<not> is_success (status resp) then io_throw (InvalidStatusResponse (status resp))
      else io_bind (io_lift (content_length resp)) (\<lambda>_.
        io_then (io_each write_all (chunks resp))
          (case broken resp of Some e \<Rightarrow> io_throw (HttpFailed e) | None \<Rightarrow> io_return ())))"

definition get_request :: "string \<Rightarrow> (string \<times> string) list \<Rightarrow> http_request" where
  "get_request u hs = \<lparr>req_method = GET, req_url = u, req_headers = hs, req_body = None\<rparr>"

definition post_request :: "string \<Rightarrow> (string \<times> string) list \<Rightarrow> json \<Rightarrow> http_request" where
  "post_request u hs j = \<lparr>req_method = POST, req_url = u, req_headers = hs, req_body = Some j\<rparr>"

definition http_get :: "env \<Rightarrow> string \<Rightarrow> (string \<Rightarrow> (sys, cloud_error, unit) io) \<Rightarrow> (sys, cloud_error, unit) io" where
  "http_get E u write_all =
     (if \<not> url_ok E u then io_throw UrlParse
      else io_bind (io_map_err HttpFailed (http_send E (get_request u [])))
             (\<lambda>resp. save_body_to resp write_all))"

definition extra_poll :: "http_response \<Rightarrow> int option" where
  "extra_poll resp = Option.bind (Option.bind (header_value ''add-extra-poll'' resp) header_str) parse_i64"

definition signature_header :: "env \<Rightarrow> http_response \<Rightarrow> cloud_error + signature option" where
  "signature_header E resp = (case header_value ''UH-Signature'' resp of
      None \<Rightarrow> Inr None
    | Some v \<Rightarrow> res_bind (ok_or HeaderParse (header_str v)) (\<lambda>t.
        res_bind (signature_from_base64_str E t) (\<lambda>sig. Inr (Some sig))))"

definition body_bytes :: "http_response \<Rightarrow> cloud_error + string" where
  "body_bytes resp = (case broken resp of Some e \<Rightarrow> Inl (HttpFailed e) | None \<Rightarrow> Inr (concat (chunks resp)))"

definition probe_answer :: "env \<Rightarrow> http_response \<Rightarrow> cloud_error + probe_response" where
  "probe_answer E resp =
     (if status resp = 404 then Inr NoUpdate
      else if status resp = 200 then
        (case extra_poll resp of
           Some n \<Rightarrow> Inr (ExtraPoll n)
         | None \<Rightarrow>
             res_bind (signature_header E resp) (\<lambda>sig.
             res_bind (body_bytes resp) (\<lambda>b.
             res_bind (parse_package E b) (\<lambda>p. Inr (Update p sig)))))
      else Inl (InvalidStatusResponse (status resp)))"

definition probe :: "env \<Rightarrow> string \<Rightarrow> nat \<Rightarrow> firmware_metadata \<Rightarrow> (sys, cloud_error, probe_response) io" where
  "probe E server num_retries fw =
     (if \<not> url_ok E server then io_throw UrlParse
      else io_bind (io_map_err HttpFailed (http_send E (post_request (server @ ''/upgrades'')
               (client_headers @ [(''api-retries'', show_nat num_retries)])
               (JObj (firmware_metadata_fields fw)))))
             (\<lambda>resp. io_lift (probe_answer E resp)))"

text \<open>A file opened for appending, created when it is missing.\<close>

definition fs_open_append :: "env \<Rightarrow> string \<Rightarrow> (sys, io_error, unit) io" where
  "fs_open_append E p = guarded E FsOpen p (\<lambda>s. case node p s of
      None \<Rightarrow> if dir_present p s then (Inr (), set_node p (Regular []) s) else (Inl NotFound, s)
    | Some Directory \<Rightarrow> (Inl (OtherIo ''is a directory''), s)
    | Some _ \<Rightarrow> (Inr (), s))"

definition fs_append :: "env \<Rightarrow> string \<Rightarrow> string \<Rightarrow> (sys, io_error, unit) io" where
  "fs_append E p b = guarded E FsWrite p (\<lambda>s. case node p s of
      Some (Regular old) \<Rightarrow> (Inr (), set_node p (Regular (old @ b)) s)
    | _ \<Rightarrow> (Inl (OtherIo ''no space''), s))"

definition object_url :: "string \<Rightarrow> string \<Rightarrow> string \<Rightarrow> string \<Rightarrow> string" where
  "object_url server uid pkg obj =
     server @ ''/products/'' @ uid @ ''/packages/'' @ pkg @ ''/objects/'' @ obj"

definition range_header :: "64 word \<Rightarrow> string \<times> string" where
  "range_header len =
     (''RANGE'', ''bytes='' @ show_nat (unat (if len = 0 then 0 else len - 1)) @ ''-'')"

definition resume_headers :: "env \<Rightarrow> string \<Rightarrow> sys \<Rightarrow> cloud_error + (string \<times> string) list" where
  "resume_headers E file s =
     (if fs_exists E file s
      then res_bind (res_map_err CloudIo (metadata_of E file s)) (\<lambda>n. Inr [range_header (node_len n)])
      else Inr [])"

definition download_object :: "env \<Rightarrow> string \<Rightarrow> string \<Rightarrow> string \<Rightarrow> string \<Rightarrow> string \<Rightarrow> (sys, cloud_error, unit) io" where
  "download_object E server uid pkg dir obj =
     (if \<not> url_ok E server then io_throw UrlParse
      else io_then
        (\<lambda>s. if fs_exists E dir s then (Inr (), s) else io_map_err CloudIo (fs_create_dir_all E dir) s)
        (let file = path_join dir obj in
         io_bind (io_ask (resume_headers E file)) (\<lambda>range.
         io_then (io_map_err CloudIo (fs_open_append E file))
           (io_bind (io_map_err HttpFailed (http_send E
                (get_request (object_url server uid pkg obj) (client_headers @ range))))
              (\<lambda>resp. save_body_to resp (\<lambda>b. io_map_err CloudIo (fs_append E file b)))))))"

definition report_payload :: "string \<Rightarrow> firmware_metadata \<Rightarrow> string \<Rightarrow> string option \<Rightarrow> string option \<Rightarrow>
    string option \<Rightarrow> json" where
  "report_payload state fw pkg previous_state error_message current_log = JObj (
     [(''status'', JStr state)] @ firmware_metadata_fields fw @ [(''package-uid'', JStr pkg)] @
     skip_none ''previous-state'' JStr previous_state @
     skip_none ''error-message'' JStr error_message @
     skip_none ''current-log'' JStr current_log)"

definition report :: "env \<Rightarrow> string \<Rightarrow> string \<Rightarrow> firmware_metadata \<Rightarrow> string \<Rightarrow> string option \<Rightarrow>
    string option \<Rightarrow> string option \<Rightarrow> (sys, cloud_error, unit) io" where
  "report E server state fw pkg previous_state error_message current_log =
     (if \<not> url_ok E server then io_throw UrlParse
      else io_then (io_map_err HttpFailed (http_send E (post_request (server @ ''/report'') client_headers
              (report_payload state fw pkg previous_state error_message current_log))))
             (io_return ()))"

section \<open>Lemmas\<close>

lemma package_uid_hex: "package_uid E p = sha256_text E (raw p)"
  by (simp add: package_uid_def sha256_text_def hex_encode_def)

lemma parse_package_raw: "parse_package E content = Inr p \<Longrightarrow> raw p = content"
  by (auto simp: parse_package_def io_simps split: sum.splits option.splits)

text \<open>Appending the chunks of a body one by one.\<close>

lemma append_chunks:
  assumes "\<And>t. io_fault E FsWrite p t = None" "node p s = Some (Regular old)"
  shows "\<exists>t. io_each (\<lambda>b. io_map_err CloudIo (fs_append E p b)) cs s = (Inr (), t) \<and>
    node p t = Some (Regular (old @ concat cs)) \<and> (\<forall>q. q \<noteq> p \<longrightarrow> node q t = node q s)"
  using assms(2)
proof (induction cs arbitrary: s old)
  case (Cons c cs)
  let ?s = "set_node p (Regular (old @ c)) s"
  have "fs_append E p c s = (Inr (), ?s)"
    using Cons.prems assms(1) by (simp add: fs_append_def guarded_def)
  moreover obtain t where "io_each (\<lambda>b. io_map_err CloudIo (fs_append E p b)) cs ?s = (Inr (), t)"
    "node p t = Some (Regular ((old @ c) @ concat cs))" "\<forall>q. q \<noteq> p \<longrightarrow> node q t = node q s"
    using Cons.IH [of ?s "old @ c"] by auto
  ultimately show ?case by (simp add: io_simps)
qed (simp add: io_simps)

lemma save_body_appends:
  assumes "\<And>t. io_fault E FsWrite p t = None" "node p s = Some (Regular old)"
    "is_success (status resp)" "content_length resp = Inr n" "broken resp = None"
  shows "\<exists>t. save_body_to resp (\<lambda>b. io_map_err CloudIo (fs_append E p b)) s = (Inr (), t) \<and>
    node p t = Some (Regular (old @ concat (chunks resp))) \<and> (\<forall>q. q \<noteq> p \<longrightarrow> node q t = node q s)"
  using append_chunks [OF assms(1,2), of "chunks resp"] assms(3-5)
  by (auto simp: save_body_to_def io_simps)

section \<open>Properties\<close>

text \<open>A server that answers the request of a download with a complete body.\<close>

definition served_download :: "env \<Rightarrow> string \<Rightarrow> (string \<times> string) list \<Rightarrow> http_response \<Rightarrow> sys \<Rightarrow> bool" where
  "served_download E u hdrs resp s \<longleftrightarrow>
     http E (get_request u (client_headers @ hdrs)) s = (Inr resp, s) \<and>
     is_success (status resp) \<and> is_ok (content_length resp) \<and> broken resp = None"

lemma download_appends:
  assumes ff: "\<And>op p t. io_fault E op p t = None" and url: "url_ok E server"
    and dn: "node dir s \<noteq> None" and fn: "file = path_join dir obj"
    and hdrs: "resume_headers E file s = Inr hdrs"
    and opened: "fs_open_append E file s = (Inr (), s1)" and old: "node file s1 = Some (Regular old)"
    and resp: "served_download E (object_url server uid pkg obj) hdrs resp s1"
  shows "\<exists>t. download_object E server uid pkg dir obj s = (Inr (), t) \<and>
    node file t = Some (Regular (old @ concat (chunks resp))) \<and> (\<forall>q. q \<noteq> file \<longrightarrow> node q t = node q s1)"
proof -
  let ?q = "get_request (object_url server uid pkg obj) (client_headers @ hdrs)"
  let ?s2 = "s1\<lparr>requests := requests s1 @ [?q]\<rparr>"
  have h: "http_send E ?q s1 = (Inr resp, ?s2)"
    using resp by (simp add: served_download_def http_send_def)
  obtain n where n: "content_length resp = Inr n"
    using resp by (auto simp: served_download_def is_ok_def split: sum.splits)
  have "node file ?s2 = Some (Regular old)" using old by (simp add: node_def)
  then obtain t where t: "save_body_to resp (\<lambda>b. io_map_err CloudIo (fs_append E file b)) ?s2 = (Inr (), t)"
    "node file t = Some (Regular (old @ concat (chunks resp)))" "\<forall>q. q \<noteq> file \<longrightarrow> node q t = node q ?s2"
    using save_body_appends [OF ff, of "file" ?s2 old resp n] resp n
    by (auto simp: served_download_def)
  have "fs_exists E dir s" using dn ff by (simp add: fs_exists_def)
  then have "download_object E server uid pkg dir obj s = (Inr (), t)"
    using url hdrs opened h t fn
    by (simp add: download_object_def io_then_def io_bind_def io_ask_def io_map_err_def Let_def)
  moreover have "node q ?s2 = node q s1" for q by (simp add: node_def)
  ultimately show ?thesis using t(2,3) by auto
qed

lemma download_fresh:
  assumes "\<And>op p t. io_fault E op p t = None" and "url_ok E server"
    and "node dir s \<noteq> None" and "node (path_join dir obj) s = None"
    and "dir_present (path_join dir obj) s"
    and "served_download E (object_url server uid pkg obj) [] resp
      (set_node (path_join dir obj) (Regular []) s)"
  shows "\<exists>t. download_object E server uid pkg dir obj s = (Inr (), t) \<and>
    node (path_join dir obj) t = Some (Regular (concat (chunks resp))) \<and>
    (\<forall>q. q \<noteq> path_join dir obj \<longrightarrow> node q t = node q s)"
proof -
  have "resume_headers E (path_join dir obj) s = Inr []"
    using assms(1,4) by (simp add: resume_headers_def fs_exists_def)
  moreover have "fs_open_append E (path_join dir obj) s = (Inr (), set_node (path_join dir obj) (Regular []) s)"
    using assms(1,4,5) by (simp add: fs_open_append_def guarded_def)
  ultimately show ?thesis
    using download_appends [OF assms(1,2,3) refl, of obj "[]" "set_node (path_join dir obj) (Regular []) s" "[]"] assms(6)
    by auto
qed

text \<open>An object that is not on disk yet is stored exactly as the server sends it, and no other file
  is touched.\<close>

lemma fresh_download:
  assumes "\<And>op p t. io_fault E op p t = None" and "url_ok E server"
    and "node dir s \<noteq> None" and "node (path_join dir obj) s = None"
    and "dir_present (path_join dir obj) s"
    and "served_download E (object_url server uid pkg obj) [] resp
      (set_node (path_join dir obj) (Regular []) s)"
  shows "\<exists>t. download_object E server uid pkg dir obj s = (Inr (), t) \<and>
    node (path_join dir obj) t = Some (Regular (concat (chunks resp))) \<and>
    (\<forall>q. q \<noteq> path_join dir obj \<longrightarrow> node q t = node q s)"
  using download_fresh [OF assms] by simp

definition example_server :: "string list \<Rightarrow> env" where
  "example_server cs = example_env\<lparr>http := \<lambda>q s.
     (Inr \<lparr>status = 200, resp_headers = [], chunks = cs, broken = None\<rparr>, s)\<rparr>"

lemma example_served:
  "served_download (example_server cs) u hdrs \<lparr>status = 200, resp_headers = [], chunks = cs, broken = None\<rparr> s"
  by (simp add: served_download_def example_server_def is_success_def content_length_def header_value_def)

lemma fresh_download_witness:
  "\<exists>t. download_object (example_server [''ab'', ''c'']) ''http://s'' ''u'' ''p'' ''/d'' ''o''
      (example_sys\<lparr>files := [(''/d'', Directory)]\<rparr>) = (Inr (), t) \<and> node ''/d/o'' t = Some (Regular ''abc'')"
proof -
  have j: "path_join ''/d'' ''o'' = ''/d/o''" by code_simp
  have "dir_present ''/d/o'' (example_sys\<lparr>files := [(''/d'', Directory)]\<rparr>)" by code_simp
  then show ?thesis
    using fresh_download [of "example_server [''ab'', ''c'']" "''http://s''" "''/d''"
        "example_sys\<lparr>files := [(''/d'', Directory)]\<rparr>" "''o''" "''u''" "''p''", unfolded j,
        OF _ _ _ _ _ example_served]
    by (auto simp: example_server_def example_env_def node_def)
qed

text \<open>C36: A download that is resumed goes wrong. The range that is asked for starts at the last
  byte on disk, while the answer is appended after it, so with a server that honours the range
  that byte is stored twice and the file is not the object.\<close>

theorem resumed_download_repeats_a_byte:
  assumes "\<And>op p t. io_fault E op p t = None" and "url_ok E server"
    and "node dir s \<noteq> None" and "node (path_join dir obj) s = Some (Regular (take n full))"
    and "0 < n" and "n < length full" and "n < 2 ^ 64"
    and "served_download E (object_url server uid pkg obj) 
      [(''RANGE'', ''bytes='' @ show_nat (n - 1) @ ''-'')] resp s"
    and "concat (chunks resp) = drop (n - 1) full"
  shows "\<exists>t. download_object E server uid pkg dir obj s = (Inr (), t) \<and>
    node (path_join dir obj) t = Some (Regular (take n full @ drop (n - 1) full)) \<and>
    take n full @ drop (n - 1) full \<noteq> full"
proof -
  let ?f = "path_join dir obj"
  have len: "unat (of_nat n :: 64 word) = n" using assms(7) by (simp add: unat_of_nat take_bit_nat_eq_self)
  have nz: "(of_nat n :: 64 word) \<noteq> 0" using len assms(5) by (metis less_numeral_extra(3) unat_0)
  have "unat ((of_nat n :: 64 word) - 1) = n - 1"
    using len nz by (metis unat_minus_one)
  then have "resume_headers E ?f s = Inr [(''RANGE'', ''bytes='' @ show_nat (n - 1) @ ''-'')]"
    using assms(1,4,6) nz
    by (simp add: resume_headers_def fs_exists_def metadata_of_def fs_metadata_def guarded_def io_simps
        range_header_def node_len_def min_def)
  moreover have "fs_open_append E ?f s = (Inr (), s)"
    using assms(1,4) by (simp add: fs_open_append_def guarded_def)
  ultimately obtain t where "download_object E server uid pkg dir obj s = (Inr (), t)"
    "node ?f t = Some (Regular (take n full @ concat (chunks resp)))"
    using download_appends [OF assms(1,2,3) refl, of obj _ s "take n full"] assms(4,8) by blast
  moreover have "length (take n full @ drop (n - 1) full) \<noteq> length full" using assms(5,6) by simp
  ultimately show ?thesis using assms(9) by metis
qed

theorem resumed_download_repeats_a_byte_witness:
  "\<exists>t. download_object (example_server [''bc'']) ''http://s'' ''u'' ''p'' ''/d'' ''o''
      (example_sys\<lparr>files := [(''/d'', Directory), (''/d/o'', Regular ''ab'')]\<rparr>) = (Inr (), t) \<and>
    node ''/d/o'' t = Some (Regular ''abbc'')"
proof -
  have j: "path_join ''/d'' ''o'' = ''/d/o''" by code_simp
  show ?thesis
    using resumed_download_repeats_a_byte [of "example_server [''bc'']" "''http://s''" "''/d''"
        "example_sys\<lparr>files := [(''/d'', Directory), (''/d/o'', Regular ''ab'')]\<rparr>" "''o''" 2 "''abc''" "''u''" "''p''",
        unfolded j, OF _ _ _ _ _ _ _ example_served]
    by (simp add: example_server_def example_env_def node_def)
qed

end
