(* ===== verification/UH_Settings.thy ===== *)
theory UH_Settings
  imports UH_Serde
begin

text \<open>
  \<open>updatehub/src/settings.rs\<close>, the settings types of
  \<open>updatehub-sdk/src/api/info/settings.rs\<close> and the duration text of
  \<open>updatehub-sdk/src/serde_helpers.rs\<close>: the configuration file, its checks and its version 1
  form. Durations are nanoseconds.
\<close>

section \<open>Types\<close>

record polling_settings =
  interval :: int
  enabled :: bool

record storage_settings =
  read_only :: bool
  runtime_settings_file :: string

record update_settings =
  download_dir :: string
  supported_install_modes :: "string list"

record network_settings =
  server_address :: string
  listen_socket :: string

record firmware_settings =
  metadata_dir :: string

record settings =
  firmware :: firmware_settings
  network :: network_settings
  polling :: polling_settings
  storage :: storage_settings
  update :: update_settings

datatype settings_error = SetIo io_error | SetDeserialize string | TooSmallPollingInterval
  | ServerAddressWithoutProtocol | SetV1Parsing string string

definition nanos :: int where
  "nanos = 1000000000"

definition seconds :: "int \<Rightarrow> int" where
  "seconds n = n * nanos"

text \<open>\<open>num_seconds\<close> drops the fraction, towards zero.\<close>

definition num_seconds :: "int \<Rightarrow> int" where
  "num_seconds d = sgn d * (\<bar>d\<bar> div nanos)"

definition default_modes :: "string list" where
  "default_modes = [''dry-run'', ''copy'', ''flash'', ''imxkobs'', ''raw'', ''tarball'', ''ubifs'']"

definition settings_default :: settings where
  "settings_default = \<lparr>firmware = \<lparr>metadata_dir = ''/usr/share/updatehub''\<rparr>,
     network = \<lparr>server_address = ''https://api.updatehub.io'', listen_socket = ''localhost:8080''\<rparr>,
     polling = \<lparr>interval = seconds (24 * 60 * 60), enabled = True\<rparr>,
     storage = \<lparr>read_only = False, runtime_settings_file = ''/var/lib/updatehub/runtime_settings.conf''\<rparr>,
     update = \<lparr>download_dir = ''/tmp/updatehub'', supported_install_modes = default_modes\<rparr>\<rparr>"

section \<open>Decoding\<close>

text \<open>\<open>Duration::milliseconds(ms(s)?)\<close>.\<close>

definition duration_of_text :: "env \<Rightarrow> string \<Rightarrow> int option" where
  "duration_of_text E s = map_option (\<lambda>ms. ms * 1000000) (duration_parse E s)"

definition duration_text :: "int \<Rightarrow> string" where
  "duration_text d = show_int (num_seconds d) @ ''s''"

definition dec_firmware_settings :: "json \<Rightarrow> firmware_settings option" where
  "dec_firmware_settings j = do {
     m \<leftarrow> struct_fields True [''metadata''] j;
     p \<leftarrow> field m ''metadata'' dec_str;
     Some \<lparr>metadata_dir = p\<rparr> }"

definition dec_network :: "json \<Rightarrow> network_settings option" where
  "dec_network j = do {
     m \<leftarrow> struct_fields True [''server_address'', ''listen_socket''] j;
     a \<leftarrow> field m ''server_address'' dec_str;
     l \<leftarrow> field m ''listen_socket'' dec_str;
     Some \<lparr>server_address = a, listen_socket = l\<rparr> }"

definition dec_polling_settings :: "env \<Rightarrow> json \<Rightarrow> polling_settings option" where
  "dec_polling_settings E j = do {
     m \<leftarrow> struct_fields True [''interval'', ''enabled''] j;
     i \<leftarrow> field m ''interval'' (\<lambda>v. Option.bind (dec_str v) (duration_of_text E));
     b \<leftarrow> field m ''enabled'' dec_bool;
     Some \<lparr>interval = i, enabled = b\<rparr> }"

definition dec_storage :: "json \<Rightarrow> storage_settings option" where
  "dec_storage j = do {
     m \<leftarrow> struct_fields True [''read_only'', ''runtime_settings''] j;
     r \<leftarrow> field m ''read_only'' dec_bool;
     p \<leftarrow> field m ''runtime_settings'' dec_str;
     Some \<lparr>read_only = r, runtime_settings_file = p\<rparr> }"

definition dec_update_settings :: "json \<Rightarrow> update_settings option" where
  "dec_update_settings j = do {
     m \<leftarrow> struct_fields True [''download_dir'', ''supported_install_modes''] j;
     d \<leftarrow> field m ''download_dir'' dec_str;
     i \<leftarrow> field m ''supported_install_modes'' (dec_list dec_str);
     Some \<lparr>download_dir = d, supported_install_modes = i\<rparr> }"

definition dec_settings :: "env \<Rightarrow> json \<Rightarrow> settings option" where
  "dec_settings E j = do {
     m \<leftarrow> struct_fields True [''firmware'', ''network'', ''polling'', ''storage'', ''update''] j;
     f \<leftarrow> field m ''firmware'' dec_firmware_settings;
     n \<leftarrow> field m ''network'' dec_network;
     p \<leftarrow> field m ''polling'' (dec_polling_settings E);
     s \<leftarrow> field m ''storage'' dec_storage;
     u \<leftarrow> field m ''update'' dec_update_settings;
     Some \<lparr>firmware = f, network = n, polling = p, storage = s, update = u\<rparr> }"

definition enc_settings :: "settings \<Rightarrow> json" where
  "enc_settings c = JObj [
     (''firmware'', JObj [(''metadata'', JStr (metadata_dir (firmware c)))]),
     (''network'', JObj [(''server_address'', JStr (server_address (network c))),
        (''listen_socket'', JStr (listen_socket (network c)))]),
     (''polling'', JObj [(''interval'', JStr (duration_text (interval (polling c)))),
        (''enabled'', JBool (enabled (polling c)))]),
     (''storage'', JObj [(''read_only'', JBool (read_only (storage c))),
        (''runtime_settings'', JStr (runtime_settings_file (storage c)))]),
     (''update'', JObj [(''download_dir'', JStr (download_dir (update c))),
        (''supported_install_modes'', JArr (map JStr (supported_install_modes (update c))))])]"

section \<open>The version 1 format\<close>

text \<open>
  Fields of an INI section: \<open>sec_field\<close> a required one, \<open>sec_default\<close> one with a default.
  An unknown field is ignored, a repeated one is an error.
\<close>

definition sec_values :: "json \<Rightarrow> string \<Rightarrow> json list option" where
  "sec_values j k = (case j of JObj kvs \<Rightarrow> Some (map snd (filter (\<lambda>kv. fst kv = k) kvs)) | _ \<Rightarrow> None)"

definition sec_field :: "json \<Rightarrow> string \<Rightarrow> (string \<Rightarrow> 'a option) \<Rightarrow> 'a option" where
  "sec_field j k d = (case sec_values j k of Some [JStr v] \<Rightarrow> d v | _ \<Rightarrow> None)"

definition sec_default :: "json \<Rightarrow> string \<Rightarrow> (string \<Rightarrow> 'a option) \<Rightarrow> 'a \<Rightarrow> 'a option" where
  "sec_default j k d x = (case sec_values j k of Some [JStr v] \<Rightarrow> d v | Some [] \<Rightarrow> Some x | _ \<Rightarrow> None)"

definition bool_of_text :: "string \<Rightarrow> bool option" where
  "bool_of_text s = (if s = ''true'' then Some True else if s = ''false'' then Some False else None)"

text \<open>\<open>deserialize::string_list\<close>.\<close>

definition string_list :: "string \<Rightarrow> string list" where
  "string_list s = split_on (CHR '','') s"

definition v1_firmware :: "(string \<rightharpoonup> json) \<Rightarrow> firmware_settings option" where
  "v1_firmware m = (case m ''Firmware'' of
      None \<Rightarrow> Some \<lparr>metadata_dir = ''/usr/share/updatehub''\<rparr>
    | Some j \<Rightarrow> map_option firmware_settings.make (sec_default j ''MetadataPath'' Some ''/usr/share/updatehub''))"

definition v1_decode_settings :: "env \<Rightarrow> json \<Rightarrow> settings option" where
  "v1_decode_settings E j = do {
     m \<leftarrow> struct_fields False [''Firmware'', ''Network'', ''Polling'', ''Storage'', ''Update''] j;
     f \<leftarrow> v1_firmware m;
     n \<leftarrow> m ''Network'';
     a \<leftarrow> sec_field n ''ServerAddress'' Some;
     l \<leftarrow> sec_default n ''ListenSocket'' Some [];
     p \<leftarrow> m ''Polling'';
     i \<leftarrow> sec_field p ''Interval'' (duration_of_text E);
     e \<leftarrow> sec_field p ''Enabled'' bool_of_text;
     s \<leftarrow> m ''Storage'';
     r \<leftarrow> sec_default s ''ReadOnly'' bool_of_text False;
     t \<leftarrow> sec_field s ''RuntimeSettingsPath'' Some;
     u \<leftarrow> m ''Update'';
     d \<leftarrow> sec_field u ''DownloadDir'' Some;
     k \<leftarrow> sec_field u ''SupportedInstallModes'' (Some \<circ> string_list);
     Some \<lparr>firmware = f, network = \<lparr>server_address = a, listen_socket = l\<rparr>,
       polling = \<lparr>interval = i, enabled = e\<rparr>,
       storage = \<lparr>read_only = r, runtime_settings_file = t\<rparr>,
       update = \<lparr>download_dir = d, supported_install_modes = k\<rparr>\<rparr> }"

definition v1_parse_settings :: "env \<Rightarrow> string \<Rightarrow> string \<Rightarrow> settings_error + settings" where
  "v1_parse_settings E content toml_err =
     (if \<not> v1_parsing E then Inl (SetDeserialize toml_err)
      else (case ini_parse E content of
          Inl e \<Rightarrow> Inl (SetV1Parsing toml_err e)
        | Inr j \<Rightarrow> ok_or (SetV1Parsing toml_err ''invalid value'') (v1_decode_settings E j)))"

section \<open>Parsing and loading\<close>

definition toml_settings :: "env \<Rightarrow> string \<Rightarrow> string + settings" where
  "toml_settings E content =
     res_bind (toml_parse E content) (\<lambda>j. ok_or ''invalid value'' (dec_settings E j))"

definition check_settings :: "settings \<Rightarrow> settings_error + settings" where
  "check_settings c =
     (if interval (polling c) < seconds 60 then Inl TooSmallPollingInterval
      else if \<not> starts_with ''http://'' (server_address (network c))
           \<and> \<not> starts_with ''https://'' (server_address (network c))
      then Inl ServerAddressWithoutProtocol
      else Inr c)"

definition parse_settings :: "env \<Rightarrow> string \<Rightarrow> settings_error + settings" where
  "parse_settings E content =
     res_bind (case toml_settings E content of Inr c \<Rightarrow> Inr c | Inl e \<Rightarrow> v1_parse_settings E content e)
       check_settings"

definition load_settings :: "env \<Rightarrow> string \<Rightarrow> (sys, settings_error, settings) io" where
  "load_settings E path = (\<lambda>s.
     if fs_exists E path s
     then io_bind (io_map_err SetIo (fs_read E path)) (\<lambda>c. io_lift (parse_settings E c)) s
     else (Inr settings_default, s))"

section \<open>Lemmas\<close>

lemma nanos_pos [simp]: "0 < nanos"
  by (simp add: nanos_def)

lemma num_seconds_seconds [simp]: "num_seconds (seconds n) = n"
  by (cases n "0::int" rule: linorder_cases) (simp_all add: num_seconds_def seconds_def nanos_def)

lemma num_seconds_neg_iff: "num_seconds d < 0 \<longleftrightarrow> d \<le> - nanos"
  by (cases d "0::int" rule: linorder_cases)
    (simp_all add: num_seconds_def nanos_def pos_imp_zdiv_pos_iff, linarith+)

lemma check_settings_Inr:
  "check_settings c = Inr d \<longleftrightarrow> d = c \<and> seconds 60 \<le> interval (polling c) \<and>
     (starts_with ''http://'' (server_address (network c)) \<or> starts_with ''https://'' (server_address (network c)))"
  by (auto simp: check_settings_def)

lemma check_settings_default: "check_settings settings_default = Inr settings_default"
  by (simp add: check_settings_def settings_default_def seconds_def nanos_def)

lemma those_map_Some [simp]: "those (map Some xs) = Some xs"
  by (induction xs) simp_all

lemma dec_str_JStr [simp]: "dec_str \<circ> JStr = Some"
  by auto

lemma dec_list_JStr [simp]: "dec_list dec_str (JArr (map JStr xs)) = Some xs"
  by simp

lemma dec_enc_settings:
  "duration_of_text E (duration_text (interval (polling c))) = Some (interval (polling c)) \<Longrightarrow>
   dec_settings E (enc_settings c) = Some c"
  by (simp add: dec_settings_def enc_settings_def struct_fields_def field_def dec_firmware_settings_def
      dec_network_def dec_polling_settings_def dec_storage_def dec_update_settings_def)

section \<open>Properties\<close>

text \<open>Whatever the text of the configuration file and whichever of the two formats it has,
  settings that are accepted poll at most once a minute and name a server by an HTTP or HTTPS
  address.\<close>

lemma accepted_settings:
  assumes "parse_settings E content = Inr c"
  shows "seconds 60 \<le> interval (polling c) \<and>
    (starts_with ''http://'' (server_address (network c)) \<or> starts_with ''https://'' (server_address (network c)))"
  using assms by (auto simp: parse_settings_def check_settings_Inr res_bind_def split: sum.splits)

lemma accepted_settings_witness:
  "let E = example_env\<lparr>toml_parse := \<lambda>_. Inr (enc_settings settings_default), duration_parse := \<lambda>_. Some 86400000\<rparr>
   in parse_settings E ''x'' = Inr settings_default \<and> seconds 60 \<le> interval (polling settings_default)"
proof -
  let ?E = "example_env\<lparr>toml_parse := \<lambda>_. Inr (enc_settings settings_default), duration_parse := \<lambda>_. Some 86400000\<rparr>"
  have "duration_of_text ?E (duration_text (interval (polling settings_default))) = Some (interval (polling settings_default))"
    by (simp add: duration_of_text_def settings_default_def seconds_def nanos_def)
  then have p: "parse_settings ?E ''x'' = Inr settings_default"
    by (simp add: parse_settings_def toml_settings_def dec_enc_settings check_settings_default res_bind_def ok_or_def)
  show ?thesis using p accepted_settings [OF p] by simp
qed

text \<open>The sections of a configuration file of version 1 that says the same.\<close>

definition v1_sections :: "settings \<Rightarrow> json" where
  "v1_sections c = (let flag = (\<lambda>b. JStr (if b then ''true'' else ''false'')) in JObj [
     (''Polling'', JObj [(''Interval'', JStr (duration_text (interval (polling c)))), (''Enabled'', flag (enabled (polling c)))]),
     (''Storage'', JObj [(''ReadOnly'', flag (read_only (storage c))),
        (''RuntimeSettingsPath'', JStr (runtime_settings_file (storage c)))]),
     (''Update'', JObj [(''DownloadDir'', JStr (download_dir (update c))),
        (''SupportedInstallModes'', JStr (str_join '','' (supported_install_modes (update c))))]),
     (''Network'', JObj [(''ServerAddress'', JStr (server_address (network c))), (''ListenSocket'', JStr (listen_socket (network c)))]),
     (''Firmware'', JObj [(''MetadataPath'', JStr (metadata_dir (firmware c)))])])"

text \<open>Settings that both formats can say: whole seconds, and modes that a comma separates.\<close>

definition in_both_formats :: "settings \<Rightarrow> bool" where
  "in_both_formats c \<longleftrightarrow> (\<exists>n < 2 ^ 32. interval (polling c) = seconds (int n)) \<and> supported_install_modes (update c) \<noteq> [] \<and>
     (\<forall>m \<in> set (supported_install_modes (update c)). CHR '','' \<notin> set m)"

text \<open>What \<open>ms_converter\<close> documents of a number followed by \<open>s\<close>.\<close>

definition reads_seconds :: "env \<Rightarrow> bool" where
  "reads_seconds E \<longleftrightarrow> (\<forall>n < 2 ^ 32. duration_parse E (show_nat n @ ''s'') = Some (int n * 1000))"

lemma duration_round_trip:
  assumes "reads_seconds E" "n < 2 ^ 32" "d = seconds (int n)"
  shows "duration_of_text E (duration_text d) = Some d"
  using assms(1,2) unfolding assms(3) by (simp add: duration_of_text_def duration_text_def reads_seconds_def show_int_def)
    (simp add: seconds_def nanos_def)

lemma string_list_join:
  "ms \<noteq> [] \<Longrightarrow> \<forall>m \<in> set ms. CHR '','' \<notin> set m \<Longrightarrow> string_list (str_join '','' ms) = ms"
  unfolding string_list_def
proof (induction ms rule: induct_list012)
  case (3 x y zs)
  then show ?case using split_on_append [of "CHR '',''" x "str_join '','' (y # zs)"] by simp
qed (simp_all add: split_on_none)

lemma v1_settings:
  assumes "reads_seconds E" "in_both_formats c"
  shows "v1_decode_settings E (v1_sections c) = Some c"
proof -
  obtain n where n: "n < 2 ^ 32" "interval (polling c) = seconds (int n)" using assms(2) by (auto simp: in_both_formats_def)
  have f: "bool_of_text (if b then ''true'' else ''false'') = Some b" for b by (simp add: bool_of_text_def)
  show ?thesis
    using duration_round_trip [OF assms(1) n] string_list_join [of "supported_install_modes (update c)"] assms(2) f
    by (simp add: v1_decode_settings_def v1_sections_def Let_def struct_fields_def v1_firmware_def sec_field_def sec_default_def
        sec_values_def in_both_formats_def firmware_settings.make_def)
qed

text \<open>C39: Both formats of the configuration file are read for what they say: settings written in the
  current format, or in that of version 1 where the agent reads it, are loaded as they were if they
  poll at most once a minute and name the server by its protocol, and refused with the reason
  otherwise; without a file the agent has its defaults.\<close>

theorem settings_of_both_formats:
  assumes "reads_seconds E" and "in_both_formats c"
    and "toml_parse E content = Inr (enc_settings c) \<or>
      v1_parsing E \<and> toml_parse E content = Inl e \<and> ini_parse E content = Inr (v1_sections c)"
    and "fs_exists E path s \<longrightarrow> fs_read E path s = (Inr content, s)"
  shows "load_settings E path s =
    (if \<not> fs_exists E path s then Inr settings_default
     else if interval (polling c) < seconds 60 then Inl TooSmallPollingInterval
     else if \<not> starts_with ''http://'' (server_address (network c)) \<and> \<not> starts_with ''https://'' (server_address (network c))
     then Inl ServerAddressWithoutProtocol else Inr c, s)"
proof -
  obtain n where n: "n < 2 ^ 32" "interval (polling c) = seconds (int n)" using assms(2) by (auto simp: in_both_formats_def)
  note toml = dec_enc_settings [OF duration_round_trip [OF assms(1) n]]
  have "parse_settings E content = check_settings c"
    using assms(3) toml v1_settings [OF assms(1,2)]
    by (auto simp: parse_settings_def toml_settings_def v1_parse_settings_def res_bind_def ok_or_def)
  then show ?thesis
    using assms(4) by (simp add: load_settings_def check_settings_def io_simps)
qed

text \<open>An agent whose file is in the format of version 1, with the address given or not.\<close>

definition v1_env :: "string \<Rightarrow> env" where
  "v1_env a = example_env\<lparr>v1_parsing := True, ini_parse := \<lambda>_. Inr (v1_sections (settings_default\<lparr>network :=
     (network settings_default)\<lparr>server_address := a\<rparr>\<rparr>)),
     duration_parse := \<lambda>t. map_option (\<lambda>n. int n * 1000) (parse_u64 (butlast t))\<rparr>"

theorem settings_of_both_formats_witness:
  "let s = example_sys\<lparr>files := [(''/c'', Regular ''v1'')]\<rparr> in
   load_settings (v1_env ''http://x'') ''/c'' s = (Inr (settings_default\<lparr>network := (network settings_default)\<lparr>server_address := ''http://x''\<rparr>\<rparr>), s) \<and>
   load_settings (v1_env ''x'') ''/c'' s = (Inl ServerAddressWithoutProtocol, s) \<and>
   load_settings (v1_env ''x'') ''/d'' s = (Inr settings_default, s)"
proof -
  let ?c = "\<lambda>a. settings_default\<lparr>network := (network settings_default)\<lparr>server_address := a\<rparr>\<rparr>"
  let ?s = "example_sys\<lparr>files := [(''/c'', Regular ''v1'')]\<rparr>"
  have r: "reads_seconds (v1_env a)" for a
    by (simp add: reads_seconds_def v1_env_def parse_unsigned_show_nat)
  have "interval (polling (?c a)) = seconds (int 86400)" for a by (simp add: settings_default_def)
  then have b: "in_both_formats (?c a)" for a
    unfolding in_both_formats_def
    by (intro conjI exI [of _ 86400]) (simp_all add: settings_default_def default_modes_def)
  have t: "toml_parse (v1_env a) ''v1'' = Inr (enc_settings (?c a)) \<or> v1_parsing (v1_env a) \<and>
      toml_parse (v1_env a) ''v1'' = Inl ''no value'' \<and> ini_parse (v1_env a) ''v1'' = Inr (v1_sections (?c a))" for a
    by (simp add: v1_env_def example_env_def)
  have f: "fs_exists (v1_env a) p ?s \<longleftrightarrow> p = ''/c''" "fs_read (v1_env a) ''/c'' ?s = (Inr ''v1'', ?s)" for a p
    by (simp_all add: fs_exists_def fs_read_def guarded_def v1_env_def example_env_def node_def)
  have "\<not> interval (polling (?c a)) < seconds 60" for a by (simp add: settings_default_def seconds_def nanos_def)
  then show ?thesis
    using settings_of_both_formats [OF r b t, where path = "''/c''" and s = ?s] settings_of_both_formats [OF r b t, where path = "''/d''" and s = ?s]
    by (simp add: f)
qed

end
