(* ===== verification/UH_Firmware.thy ===== *)
theory UH_Firmware
  imports UH_System "HOL-Library.Multiset"
begin

text \<open>
  \<open>updatehub/src/firmware\<close>: the hooks that describe the device (\<open>hook.rs\<close>, \<open>mod.rs\<close>), the
  callbacks run around a state change and after an update (\<open>mod.rs\<close>), and the two installation
  sets with the scripts that tell and change the active one (\<open>installation_set.rs\<close>).
\<close>

section \<open>Types\<close>

datatype firmware_error = InvalidProductUid | MissingProductUid | MissingDeviceIdentity
  | InvalidInstallSet | FwWalkdir io_error | FwIo io_error | FwProcess process_error

datatype transition = Continue | Cancel

datatype installation_set = InstA | InstB

text \<open>\<open>BTreeMap<String, Vec<String>>\<close>, as the list of its entries in key order.\<close>

type_synonym metadata_value = "(string \<times> string list) list"

record metadata =
  product_uid :: string
  fw_version :: string
  hardware :: string
  pub_key :: "string option"
  device_identity :: metadata_value
  device_attributes :: metadata_value

section \<open>File and script names\<close>

definition PRODUCT_UID_HOOK :: string where
  "PRODUCT_UID_HOOK = ''product-uid''"

definition VERSION_HOOK :: string where
  "VERSION_HOOK = ''version''"

definition HARDWARE_HOOK :: string where
  "HARDWARE_HOOK = ''hardware''"

definition PUB_KEY :: string where
  "PUB_KEY = ''key.pub''"

definition DEVICE_IDENTITY_DIR :: string where
  "DEVICE_IDENTITY_DIR = ''device-identity.d''"

definition DEVICE_ATTRIBUTES_DIR :: string where
  "DEVICE_ATTRIBUTES_DIR = ''device-attributes.d''"

definition STATE_CHANGE_CALLBACK :: string where
  "STATE_CHANGE_CALLBACK = ''state-change-callback''"

definition VALIDATE_CALLBACK :: string where
  "VALIDATE_CALLBACK = ''validate-callback''"

definition ROLLBACK_CALLBACK :: string where
  "ROLLBACK_CALLBACK = ''rollback-callback''"

section \<open>Hooks\<close>

definition run_script :: "env \<Rightarrow> string \<Rightarrow> (sys, firmware_error, string) io" where
  "run_script E cmd =
     io_bind (io_map_err FwProcess (exec E cmd)) (\<lambda>out. io_return (str_trim (stdout out)))"

definition run_hook :: "env \<Rightarrow> string \<Rightarrow> (sys, firmware_error, string) io" where
  "run_hook E path = (\<lambda>s. if \<not> fs_exists E path s then (Inr [], s) else run_script E path s)"

text \<open>One line \<open>key=value\<close>; both sides are trimmed.\<close>

definition metadata_line :: "string \<Rightarrow> io_error + string \<times> string" where
  "metadata_line line =
     (case map str_trim (splitn2 (CHR ''='') line) of
        [k, v] \<Rightarrow> Inr (k, v)
      | _ \<Rightarrow> Inl InvalidInput)"

fun metadata_lines :: "string list \<Rightarrow> io_error + (string \<times> string) list" where
  "metadata_lines [] = Inr []"
| "metadata_lines (l # ls) =
     res_bind (metadata_line l) (\<lambda>kv. res_bind (metadata_lines ls) (\<lambda>kvs. Inr (kv # kvs)))"

text \<open>\<open>entry(k).and_modify(push).or_insert(vec![v])\<close> on the ordered map.\<close>

fun mv_push :: "string \<Rightarrow> string \<Rightarrow> metadata_value \<Rightarrow> metadata_value" where
  "mv_push k v [] = [(k, [v])]"
| "mv_push k v ((k', vs) # m) =
     (if k = k' then (k', vs @ [v]) # m
      else if k < k' then (k, [v]) # (k', vs) # m
      else (k', vs) # mv_push k v m)"

definition metadata_value_from_str :: "string \<Rightarrow> io_error + metadata_value" where
  "metadata_value_from_str s =
     res_bind (metadata_lines (str_lines s))
       (\<lambda>values. Inr (foldl (\<lambda>m (k, v). mv_push k v m) [] (sort values)))"

definition run_hooks_from_dir :: "env \<Rightarrow> string \<Rightarrow> (sys, firmware_error, metadata_value) io" where
  "run_hooks_from_dir E path =
     io_bind (io_map_err FwWalkdir (guarded E FsList path
         (\<lambda>s. case node path s of None \<Rightarrow> (Inl NotFound, s) | Some _ \<Rightarrow> (Inr (dir_entries path s), s))))
       (\<lambda>entries. io_bind (io_collect (run_hook E) entries)
         (\<lambda>outputs. io_lift (res_map_err FwIo
            (metadata_value_from_str (str_join [newline] outputs)))))"

section \<open>Firmware metadata\<close>

definition check_metadata :: "metadata \<Rightarrow> firmware_error + metadata" where
  "check_metadata m =
     (if product_uid m = [] then Inl MissingProductUid
      else if length (product_uid m) \<noteq> 64 then Inl InvalidProductUid
      else if device_identity m = [] then Inl MissingDeviceIdentity
      else Inr m)"

definition metadata_from_path :: "env \<Rightarrow> string \<Rightarrow> (sys, firmware_error, metadata) io" where
  "metadata_from_path E path =
     io_bind (run_hook E (path_join path PRODUCT_UID_HOOK)) (\<lambda>uid.
     io_bind (run_hook E (path_join path VERSION_HOOK)) (\<lambda>ver.
     io_bind (run_hook E (path_join path HARDWARE_HOOK)) (\<lambda>hw.
     io_bind (io_gets (\<lambda>s. let k = path_join path PUB_KEY in
                if fs_exists E k s then Some k else None)) (\<lambda>key.
     io_bind (run_hooks_from_dir E (path_join path DEVICE_IDENTITY_DIR)) (\<lambda>ident.
     io_bind (io_attempt (run_hooks_from_dir E (path_join path DEVICE_ATTRIBUTES_DIR))) (\<lambda>attrs.
     io_lift (check_metadata \<lparr>product_uid = uid, fw_version = ver, hardware = hw, pub_key = key,
        device_identity = ident,
        device_attributes = (case attrs of Inl _ \<Rightarrow> [] | Inr a \<Rightarrow> a)\<rparr>)))))))"

section \<open>Callbacks\<close>

definition run_command_for_state :: "env \<Rightarrow> string \<Rightarrow> (sys, firmware_error, process_output) io" where
  "run_command_for_state E cmd = io_map_err FwProcess (exec E cmd)"

definition callback_answer :: "string \<Rightarrow> firmware_error + transition" where
  "callback_answer out =
     (let t = str_trim out in
      if t = ''cancel'' then Inr Cancel
      else if t = [] then Inr Continue
      else Inl (FwIo InvalidInput))"

definition state_change_callback :: "env \<Rightarrow> string \<Rightarrow> string \<Rightarrow> (sys, firmware_error, transition) io" where
  "state_change_callback E path state = (\<lambda>s.
     let callback = path_join path STATE_CHANGE_CALLBACK in
     if \<not> fs_exists E callback s then (Inr Continue, s)
     else io_bind (run_command_for_state E (callback @ '' '' @ state))
            (\<lambda>out. io_lift (callback_answer (stdout out))) s)"

definition validate_callback :: "env \<Rightarrow> string \<Rightarrow> (sys, firmware_error, transition) io" where
  "validate_callback E path = (\<lambda>s.
     let callback = path_join path VALIDATE_CALLBACK in
     if \<not> fs_exists E callback s then (Inr Continue, s)
     else (case run_command_for_state E callback s of
         (Inr _, t) \<Rightarrow> (Inr Continue, t)
       | (Inl (FwProcess _), t) \<Rightarrow> (Inr Cancel, t)
       | (Inl e, t) \<Rightarrow> (Inl e, t)))"

definition rollback_callback :: "env \<Rightarrow> string \<Rightarrow> (sys, firmware_error, unit) io" where
  "rollback_callback E path = (\<lambda>s.
     let callback = path_join path ROLLBACK_CALLBACK in
     if \<not> fs_exists E callback s then (Inr (), s)
     else io_then (run_command_for_state E callback) (io_return ()) s)"

section \<open>Installation sets\<close>

definition set_from_str :: "string \<Rightarrow> firmware_error + installation_set" where
  "set_from_str s = (if s = ''0'' then Inr InstA else if s = ''1'' then Inr InstB
     else Inl InvalidInstallSet)"

fun set_display :: "installation_set \<Rightarrow> string" where
  "set_display InstA = ''0''"
| "set_display InstB = ''1''"

fun other_set :: "installation_set \<Rightarrow> installation_set" where
  "other_set InstA = InstB"
| "other_set InstB = InstA"

definition GET_SCRIPT :: string where
  "GET_SCRIPT = ''updatehub-active-get''"

definition SET_SCRIPT :: string where
  "SET_SCRIPT = ''updatehub-active-set''"

definition VALIDATE_SCRIPT :: string where
  "VALIDATE_SCRIPT = ''updatehub-active-validated''"

definition set_command :: "installation_set \<Rightarrow> string" where
  "set_command a = SET_SCRIPT @ '' '' @ set_display a"

definition active :: "env \<Rightarrow> (sys, firmware_error, installation_set) io" where
  "active E = io_bind (run_script E GET_SCRIPT) (\<lambda>out. io_lift (set_from_str out))"

definition inactive :: "env \<Rightarrow> (sys, firmware_error, installation_set) io" where
  "inactive E = io_bind (active E) (\<lambda>a. io_return (other_set a))"

definition set_active :: "env \<Rightarrow> installation_set \<Rightarrow> (sys, firmware_error, unit) io" where
  "set_active E a =
     io_then (run_script E (set_command a)) (io_return ())"

definition swap_active :: "env \<Rightarrow> (sys, firmware_error, unit) io" where
  "swap_active E = io_bind (inactive E) (\<lambda>i.
     io_then (run_script E (set_command i)) (io_return ()))"

definition validate_set :: "env \<Rightarrow> (sys, firmware_error, unit) io" where
  "validate_set E = io_then (run_script E VALIDATE_SCRIPT) (io_return ())"

section \<open>Lemmas\<close>

subsection \<open>Installation sets\<close>

lemma set_round_trip [simp]: "set_from_str (set_display a) = Inr a"
  by (cases a) (simp_all add: set_from_str_def)

lemma set_from_str_Inr: "set_from_str s = Inr a \<Longrightarrow> s = set_display a"
  by (auto simp: set_from_str_def split: if_splits)

lemma other_set_ne [simp]: "other_set a \<noteq> a" "a \<noteq> other_set a"
  by (cases a; simp)+

lemma other_set_other [simp]: "other_set (other_set a) = a"
  by (cases a) simp_all

lemma other_set_iff: "other_set a = b \<longleftrightarrow> a \<noteq> b"
  by (cases a; cases b) simp_all

lemma trim_set_display [simp]: "str_trim (set_display a @ [newline]) = set_display a"
  by (cases a) (simp_all add: str_trim_def is_ws_def newline_def Let_def)

text \<open>
  The documented behaviour of the three scripts: the first prints the digit of the active set,
  the second makes the given set the active one, the third marks it as validated. Which set is
  active is a function of what the device stores; the files and the clock are not touched.
\<close>

definition slot_scripts :: "env \<Rightarrow> ((string \<Rightarrow> string) \<Rightarrow> installation_set) \<Rightarrow> bool" where
  "slot_scripts E slot \<longleftrightarrow>
     (\<forall>s. run E GET_SCRIPT s =
        (Inr \<lparr>stdout = set_display (slot (device s)) @ [newline], stderr = []\<rparr>, s)) \<and>
     (\<forall>s a. \<exists>out d. run E (set_command a) s =
        (Inr out, s\<lparr>device := d\<rparr>) \<and> slot d = a) \<and>
     (\<forall>s. \<exists>out d. run E VALIDATE_SCRIPT s =
        (Inr out, s\<lparr>device := d\<rparr>) \<and> slot d = slot (device s))"

lemma run_script_Inr:
  "run E c s = (Inr out, t) \<Longrightarrow>
   run_script E c s = (Inr (str_trim (stdout out)),
     t\<lparr>commands := commands s @ [c], requests := requests s\<rparr>)"
  by (simp add: run_script_def exec_def io_simps)

lemma active_scripts:
  "slot_scripts E slot \<Longrightarrow>
   active E s = (Inr (slot (device s)), s\<lparr>commands := commands s @ [GET_SCRIPT]\<rparr>)"
  by (auto simp: slot_scripts_def active_def io_simps run_script_def exec_def)

lemma inactive_scripts:
  "slot_scripts E slot \<Longrightarrow>
   inactive E s = (Inr (other_set (slot (device s))), s\<lparr>commands := commands s @ [GET_SCRIPT]\<rparr>)"
  by (simp add: inactive_def active_scripts io_simps)

lemma set_active_scripts:
  assumes "slot_scripts E slot"
  shows "\<exists>d. set_active E a s = (Inr (), s\<lparr>device := d,
      commands := commands s @ [set_command a]\<rparr>) \<and> slot d = a"
proof -
  obtain out d where r: "run E (set_command a) s = (Inr out, s\<lparr>device := d\<rparr>)"
    and d: "slot d = a"
    using assms unfolding slot_scripts_def by blast
  show ?thesis
    using d by (intro exI [of _ d]) (simp add: set_active_def io_then_def io_bind_def run_script_Inr [OF r] io_return_def)
qed

lemma swap_active_as_set_active:
  "swap_active E = io_bind (inactive E) (set_active E)"
  by (simp add: swap_active_def set_active_def [abs_def])

lemma swap_active_scripts:
  assumes "slot_scripts E slot"
  shows "\<exists>d. swap_active E s = (Inr (), s\<lparr>device := d, commands := commands s @
      [GET_SCRIPT, set_command (other_set (slot (device s)))]\<rparr>)
    \<and> slot d = other_set (slot (device s))"
  using set_active_scripts [OF assms, of "other_set (slot (device s))"
      "s\<lparr>commands := commands s @ [GET_SCRIPT]\<rparr>"]
  by (auto simp: swap_active_as_set_active io_bind_def inactive_scripts [OF assms])

lemma validate_set_scripts:
  assumes "slot_scripts E slot"
  shows "\<exists>d. validate_set E s = (Inr (), s\<lparr>device := d,
      commands := commands s @ [VALIDATE_SCRIPT]\<rparr>) \<and> slot d = slot (device s)"
proof -
  obtain out d where r: "run E VALIDATE_SCRIPT s = (Inr out, s\<lparr>device := d\<rparr>)"
    and d: "slot d = slot (device s)"
    using assms unfolding slot_scripts_def by blast
  show ?thesis
    using d by (intro exI [of _ d]) (simp add: validate_set_def io_then_def io_bind_def run_script_Inr [OF r] io_return_def)
qed

subsection \<open>Metadata values\<close>

definition mv_sorted :: "metadata_value \<Rightarrow> bool" where
  "mv_sorted m \<longleftrightarrow> sorted_wrt (<) (map fst m)"

lemma fst_mv_push: "set (map fst (mv_push k v m)) = insert k (set (map fst m))"
  by (induction k v m rule: mv_push.induct) auto

lemma mv_sorted_push: "mv_sorted m \<Longrightarrow> mv_sorted (mv_push k v m)"
  unfolding mv_sorted_def
proof (induction k v m rule: mv_push.induct)
  case (2 k v k' vs m)
  show ?case
  proof (cases "k = k' \<or> k < k'")
    case True
    then show ?thesis using 2 by (auto dest: order.strict_trans)
  next
    case False
    then have "k' < k" by auto
    then show ?thesis using 2 False fst_mv_push [of k v m] by (auto simp del: set_map)
  qed
qed simp

lemma map_of_mv_push:
  "mv_sorted m \<Longrightarrow> map_of (mv_push k v m) =
     (map_of m)(k \<mapsto> (case map_of m k of None \<Rightarrow> [v] | Some vs \<Rightarrow> vs @ [v]))"
  unfolding mv_sorted_def
proof (induction k v m rule: mv_push.induct)
  case (2 k v k' vs m)
  show ?case
  proof (cases "k < k'")
    case True
    then have "k \<notin> fst ` set m" using 2 by (auto dest: order.strict_trans)
    then have "map_of m k = None" by (simp add: map_of_eq_None_iff)
    with True show ?thesis by (auto simp: fun_eq_iff)
  next
    case False
    then show ?thesis using 2 by (auto simp: fun_eq_iff)
  qed
qed auto

definition values_of :: "(string \<times> string) list \<Rightarrow> string \<Rightarrow> string list" where
  "values_of kvs k = map snd (filter (\<lambda>kv. fst kv = k) kvs)"

abbreviation push_all :: "metadata_value \<Rightarrow> (string \<times> string) list \<Rightarrow> metadata_value" where
  "push_all m kvs \<equiv> foldl (\<lambda>m (k, v). mv_push k v m) m kvs"

lemma mv_sorted_push_all: "mv_sorted m \<Longrightarrow> mv_sorted (push_all m kvs)"
  by (induction kvs arbitrary: m) (auto simp: mv_sorted_push)

lemma map_of_push_all:
  assumes "mv_sorted m"
  shows "map_of (push_all m kvs) k =
     (case map_of m k of
        None \<Rightarrow> if values_of kvs k = [] then None else Some (values_of kvs k)
      | Some vs \<Rightarrow> Some (vs @ values_of kvs k))"
  using assms
proof (induction kvs arbitrary: m)
  case Nil then show ?case by (auto simp: values_of_def split: option.splits)
next
  case (Cons kv kvs)
  obtain k0 v0 where kv: "kv = (k0, v0)" by fastforce
  have "map_of (push_all (mv_push k0 v0 m) kvs) k = (case map_of (mv_push k0 v0 m) k of
        None \<Rightarrow> if values_of kvs k = [] then None else Some (values_of kvs k)
      | Some vs \<Rightarrow> Some (vs @ values_of kvs k))"
    by (rule Cons.IH [OF mv_sorted_push [OF Cons.prems]])
  then show ?case using Cons.prems kv
    by (auto simp: map_of_mv_push values_of_def split: option.splits)
qed

lemma values_of_sort: "sorted (values_of (sort kvs) k)"
proof -
  have "sorted_wrt (\<lambda>a b. fst a = fst b \<longrightarrow> snd a \<le> snd b) kvs" if "sorted kvs" for kvs :: "(string \<times> string) list"
    using that by (rule sorted_wrt_mono_rel [rotated]) (auto simp: less_eq_prod_def)
  then have "sorted_wrt (\<lambda>a b. fst a = fst b \<longrightarrow> snd a \<le> snd b) (filter (\<lambda>kv. fst kv = k) (sort kvs))"
    by (intro sorted_wrt_filter) simp
  then have "sorted_wrt (\<lambda>a b. snd a \<le> snd b) (filter (\<lambda>kv. fst kv = k) (sort kvs))"
    by (rule sorted_wrt_mono_rel [rotated]) auto
  then show ?thesis by (simp add: values_of_def sorted_wrt_map)
qed

lemma metadata_lines_ok_iff:
  "is_ok (metadata_lines ls) \<longleftrightarrow> (\<forall>l \<in> set ls. CHR ''='' \<in> set l)"
proof (induction ls)
  case (Cons l ls)
  have "is_ok (metadata_line l) \<longleftrightarrow> CHR ''='' \<in> set l"
    using split_once_None [of "CHR ''=''" l]
    by (auto simp: metadata_line_def splitn2_def split: option.splits)
  with Cons show ?case
    by (cases "metadata_line l"; cases "metadata_lines ls") (auto simp: res_bind_def)
qed simp

subsection \<open>A device for examples\<close>

text \<open>
  A device that stores the active set under one key, with the three scripts; every other program
  succeeds without output.
\<close>

definition example_slot :: "(string \<Rightarrow> string) \<Rightarrow> installation_set" where
  "example_slot d = (if d ''slot'' = ''1'' then InstB else InstA)"

definition example_run :: "string \<Rightarrow> sys \<Rightarrow> (process_error + process_output) \<times> sys" where
  "example_run c s =
     (if c = GET_SCRIPT then (Inr \<lparr>stdout = set_display (example_slot (device s)) @ [newline], stderr = []\<rparr>, s)
      else if c = set_command InstA then (Inr \<lparr>stdout = [], stderr = []\<rparr>, s\<lparr>device := (device s)(''slot'' := ''0'')\<rparr>)
      else if c = set_command InstB then (Inr \<lparr>stdout = [], stderr = []\<rparr>, s\<lparr>device := (device s)(''slot'' := ''1'')\<rparr>)
      else (Inr \<lparr>stdout = [], stderr = []\<rparr>, s))"

definition example_device_env :: env where
  "example_device_env = example_env\<lparr>run := example_run\<rparr>"

lemma example_slot_scripts: "slot_scripts example_device_env example_slot"
proof -
  have "run example_device_env (set_command a) s = (Inr \<lparr>stdout = [], stderr = []\<rparr>,
      s\<lparr>device := (device s)(''slot'' := set_display a)\<rparr>)" for a s
    by (cases a) (simp_all add: example_device_env_def example_run_def set_command_def SET_SCRIPT_def GET_SCRIPT_def)
  moreover have "example_slot ((device s)(''slot'' := set_display a)) = a" for a and s :: sys
    by (cases a) (simp_all add: example_slot_def)
  moreover have "run example_device_env VALIDATE_SCRIPT s = (Inr \<lparr>stdout = [], stderr = []\<rparr>, s\<lparr>device := device s\<rparr>)" for s
    by (simp add: example_device_env_def example_run_def VALIDATE_SCRIPT_def GET_SCRIPT_def set_command_def SET_SCRIPT_def)
  moreover have "run example_device_env GET_SCRIPT s = (Inr \<lparr>stdout = set_display (example_slot (device s)) @ [newline], stderr = []\<rparr>, s)" for s
    by (simp add: example_device_env_def example_run_def)
  ultimately show ?thesis unfolding slot_scripts_def by blast
qed

section \<open>Properties\<close>

text \<open>C38: The output of the identity and attribute hooks is accepted exactly when every line has
  an equals sign, and then every key holds the values its lines gave it, in order, with the keys
  in order and none repeated.\<close>

theorem metadata_value_spec:
  "(is_ok (metadata_value_from_str s) \<longleftrightarrow> (\<forall>l \<in> set (str_lines s). CHR ''='' \<in> set l)) \<and>
   (\<forall>m. metadata_value_from_str s = Inr m \<longrightarrow> mv_sorted m \<and>
     (\<exists>kvs. metadata_lines (str_lines s) = Inr kvs \<and>
        (\<forall>k. map_of m k = (if values_of kvs k = [] then None else Some (sort (values_of kvs k))))))"
proof (intro conjI allI impI)
  show "is_ok (metadata_value_from_str s) \<longleftrightarrow> (\<forall>l \<in> set (str_lines s). CHR ''='' \<in> set l)"
    using metadata_lines_ok_iff [of "str_lines s"]
    by (simp add: metadata_value_from_str_def res_bind_def is_ok_def split: sum.splits)
next
  fix m assume "metadata_value_from_str s = Inr m"
  then obtain kvs where kvs: "metadata_lines (str_lines s) = Inr kvs" "m = push_all [] (sort kvs)"
    by (auto simp: metadata_value_from_str_def res_bind_def split: sum.splits)
  show "mv_sorted m" using kvs mv_sorted_push_all [of "[]"] by (simp add: mv_sorted_def)
  have "values_of (sort kvs) k = sort (values_of kvs k)" for k
    using values_of_sort [of kvs k]
    by (intro properties_for_sort [symmetric])
      (simp_all add: values_of_def mset_filter)
  moreover have "sort vs = [] \<longleftrightarrow> vs = []" for vs :: "string list"
    by (metis length_0_conv length_sort)
  ultimately have "\<forall>k. map_of m k = (if values_of kvs k = [] then None else Some (sort (values_of kvs k)))"
    using kvs map_of_push_all [of "[]" "sort kvs"] by (simp add: mv_sorted_def)
  then show "\<exists>kvs. metadata_lines (str_lines s) = Inr kvs \<and>
      (\<forall>k. map_of m k = (if values_of kvs k = [] then None else Some (sort (values_of kvs k))))"
    using kvs by blast
qed

theorem metadata_value_spec_witness:
  "metadata_value_from_str (''b=2'' @ [newline] @ ''a=1'' @ [newline] @ ''b=1'') = Inr [(''a'', [''1'']), (''b'', [''1'', ''2''])]
   \<and> mv_sorted [(''a'', [''1'']), (''b'', [''1'', ''2''])]"
proof -
  let ?s = "''b=2'' @ [newline] @ ''a=1'' @ [newline] @ ''b=1''"
  have "metadata_value_from_str ?s = Inr [(''a'', [''1'']), (''b'', [''1'', ''2''])]" by code_simp
  with metadata_value_spec [of ?s] show ?thesis by blast
qed

text \<open>Firmware metadata that is accepted has a product UID of 64 characters and a device
  identity that is not empty.\<close>

lemma accepted_metadata:
  assumes "metadata_from_path E path s = (Inr m, t)"
  shows "length (product_uid m) = 64 \<and> device_identity m \<noteq> []"
proof -
  obtain m0 where "check_metadata m0 = Inr m"
    using assms unfolding metadata_from_path_def
    by (auto elim!: io_bind_Inr_E simp: io_lift_def)
  then show ?thesis by (auto simp: check_metadata_def split: if_splits)
qed

lemma accepted_metadata_witness:
  "let E = example_env\<lparr>run := \<lambda>c s. (Inr \<lparr>stdout = (if c = ''/fw/product-uid'' then replicate 64 (CHR ''a'') else ''id=1''), stderr = []\<rparr>, s)\<rparr>;
       s = example_sys\<lparr>files := [(''/fw/product-uid'', Regular []), (''/fw/device-identity.d'', Directory),
         (''/fw/device-identity.d/id'', Regular [])]\<rparr>
   in \<exists>m t. metadata_from_path E ''/fw'' s = (Inr m, t) \<and> length (product_uid m) = 64 \<and> device_identity m \<noteq> []"
proof -
  let ?E = "example_env\<lparr>run := \<lambda>c s. (Inr \<lparr>stdout = (if c = ''/fw/product-uid'' then replicate 64 (CHR ''a'') else ''id=1''), stderr = []\<rparr>, s)\<rparr>"
  let ?s = "example_sys\<lparr>files := [(''/fw/product-uid'', Regular []), (''/fw/device-identity.d'', Directory),
         (''/fw/device-identity.d/id'', Regular [])]\<rparr>"
  have "is_ok (fst (metadata_from_path ?E ''/fw'' ?s))" by code_simp
  then obtain m where "metadata_from_path ?E ''/fw'' ?s = (Inr m, snd (metadata_from_path ?E ''/fw'' ?s))"
    by (cases "metadata_from_path ?E ''/fw'' ?s") (auto simp: is_ok_def split: sum.splits)
  from this accepted_metadata [OF this] show ?thesis by (auto simp: Let_def)
qed

text \<open>A state change callback decides by its output: no callback or empty output lets the
  transition go on, the word cancel stops it, anything else is an error, and so is a callback
  that fails.\<close>

lemma state_change_callback_spec:
  assumes "fs_exists E (path_join path STATE_CHANGE_CALLBACK) s"
    and "exec E (path_join path STATE_CHANGE_CALLBACK @ '' '' @ state) s = (r, t)"
  shows "state_change_callback E path state s = (case r of
      Inl e \<Rightarrow> (Inl (FwProcess e), t)
    | Inr out \<Rightarrow>
        if str_trim (stdout out) = ''cancel'' then (Inr Cancel, t)
        else if str_trim (stdout out) = [] then (Inr Continue, t)
        else (Inl (FwIo InvalidInput), t))"
  using assms
  by (simp add: state_change_callback_def run_command_for_state_def callback_answer_def io_simps Let_def
      split: sum.splits)

lemma state_change_callback_spec_witness:
  "let E = example_env\<lparr>run := \<lambda>c s. (Inr \<lparr>stdout = ''cancel'' @ [newline], stderr = []\<rparr>, s)\<rparr>;
       s = example_sys\<lparr>files := [(''/fw/state-change-callback'', Regular [])]\<rparr>
   in fst (state_change_callback E ''/fw'' ''probe'' s) = Inr Cancel"
proof -
  let ?E = "example_env\<lparr>run := \<lambda>c s. (Inr \<lparr>stdout = ''cancel'' @ [newline], stderr = []\<rparr>, s)\<rparr>"
  let ?s = "example_sys\<lparr>files := [(''/fw/state-change-callback'', Regular [])]\<rparr>"
  let ?c = "path_join ''/fw'' STATE_CHANGE_CALLBACK"
  have c: "?c = ''/fw/state-change-callback''" by code_simp
  have ex: "fs_exists ?E ?c ?s"
    by (simp add: c fs_exists_def node_def example_env_def)
  have r: "exec ?E (?c @ '' '' @ ''probe'') ?s = (Inr \<lparr>stdout = ''cancel'' @ [newline], stderr = []\<rparr>,
      ?s\<lparr>commands := commands ?s @ [?c @ '' '' @ ''probe''], requests := requests ?s\<rparr>)"
    by (simp add: exec_def)
  have "str_trim (''cancel'' @ [newline]) = ''cancel''" by code_simp
  then show ?thesis using state_change_callback_spec [OF ex r] by (simp add: Let_def)
qed

text \<open>Swapping the active installation set twice, with the scripts behaving as documented,
  leaves the set that was active at first active again.\<close>

lemma swap_twice:
  assumes "slot_scripts E slot"
  shows "\<exists>t. io_then (swap_active E) (swap_active E) s = (Inr (), t) \<and> slot (device t) = slot (device s)"
proof -
  obtain d where d: "swap_active E s = (Inr (), s\<lparr>device := d, commands := commands s @
      [GET_SCRIPT, set_command (other_set (slot (device s)))]\<rparr>)" "slot d = other_set (slot (device s))"
    using swap_active_scripts [OF assms, of s] by auto
  let ?t = "s\<lparr>device := d, commands := commands s @ [GET_SCRIPT, set_command (other_set (slot (device s)))]\<rparr>"
  obtain u where "swap_active E ?t = (Inr (), u)" "slot (device u) = other_set (slot (device ?t))"
    using swap_active_scripts [OF assms, of ?t] by auto
  then show ?thesis using d by (auto simp: io_simps)
qed

lemma swap_twice_witness:
  "\<exists>t. io_then (swap_active example_device_env) (swap_active example_device_env) example_sys = (Inr (), t)
    \<and> example_slot (device t) = InstA"
  using swap_twice [OF example_slot_scripts, of example_sys] by (simp add: example_sys_def example_slot_def)

end
