(* ===== verification/UH_Objects.thy ===== *)
theory UH_Objects
  imports UH_Cloud UH_Settings UH_Firmware
begin

text \<open>
  \<open>updatehub/src/object/info.rs\<close> and \<open>macros.rs\<close>: what the agent knows of an object without
  installing it, and the state of its file in the download directory;
  \<open>updatehub/src/update_package\<close>: the checks made on a package and the upkeep of the directory.
\<close>

datatype object_error = InvalidPath | FwSetEnvNoScriptOption | Unsupported
  | ObjUtils utils_error | ObjFirmware firmware_error | InvalidTargetType target_type
  | ObjIo io_error | ObjProcess process_error | ObjUncompress archive_error

datatype object_status = Missing | Incomplete | Corrupted | Ready

section \<open>The trait \<open>Info\<close>\<close>

text \<open>The default method: the file of an object with this sum and length.\<close>

definition status_of :: "env \<Rightarrow> string \<Rightarrow> string \<Rightarrow> 64 word \<Rightarrow> sys \<Rightarrow> object_error + object_status" where
  "status_of E dir sha len s =
     (let path = path_join dir sha in
      if \<not> fs_exists E path s then Inr Missing
      else res_bind (res_map_err ObjIo (metadata_of E path s)) (\<lambda>n.
        if node_len n < len then Inr Incomplete
        else res_bind (res_map_err ObjIo (read_to_string E path s)) (\<lambda>b.
          if sha256_text E b \<noteq> sha then Inr Corrupted else Inr Ready)))"

fun info_mode :: "object \<Rightarrow> string" where
  "info_mode (Copy _) = ''copy''"
| "info_mode (Flash _) = ''flash''"
| "info_mode (Imxkobs _) = ''imxkobs''"
| "info_mode (Mender _) = ''mender''"
| "info_mode (Raw _) = ''raw''"
| "info_mode (RawDelta _) = ''rawdelta''"
| "info_mode (Tarball _) = ''tarball''"
| "info_mode (Test _) = ''test''"
| "info_mode (Ubifs _) = ''ubifs''"
| "info_mode (UbootEnv _) = ''ubootenv''"
| "info_mode (Zephyr _) = ''zephyr''"

fun info_filename :: "object \<Rightarrow> string" where
  "info_filename (Copy x) = filename x"
| "info_filename (Flash x) = filename x"
| "info_filename (Imxkobs x) = filename x"
| "info_filename (Mender x) = filename x"
| "info_filename (Raw x) = filename x"
| "info_filename (RawDelta x) = filename x"
| "info_filename (Tarball x) = filename x"
| "info_filename (Test x) = filename x"
| "info_filename (Ubifs x) = filename x"
| "info_filename (UbootEnv x) = filename x"
| "info_filename (Zephyr x) = filename x"

fun info_len :: "object \<Rightarrow> 64 word" where
  "info_len (Copy x) = file_size x"
| "info_len (Flash x) = file_size x"
| "info_len (Imxkobs x) = file_size x"
| "info_len (Mender x) = file_size x"
| "info_len (Raw x) = file_size x"
| "info_len (RawDelta x) = file_size x"
| "info_len (Tarball x) = file_size x"
| "info_len (Test x) = file_size x"
| "info_len (Ubifs x) = file_size x"
| "info_len (UbootEnv x) = file_size x"
| "info_len (Zephyr x) = file_size x"

fun info_sha256sum :: "object \<Rightarrow> string" where
  "info_sha256sum (Copy x) = sha256sum x"
| "info_sha256sum (Flash x) = sha256sum x"
| "info_sha256sum (Imxkobs x) = sha256sum x"
| "info_sha256sum (Mender x) = sha256sum x"
| "info_sha256sum (Raw x) = sha256sum x"
| "info_sha256sum (RawDelta x) = sha256sum x"
| "info_sha256sum (Tarball x) = sha256sum x"
| "info_sha256sum (Test x) = sha256sum x"
| "info_sha256sum (Ubifs x) = sha256sum x"
| "info_sha256sum (UbootEnv x) = sha256sum x"
| "info_sha256sum (Zephyr x) = sha256sum x"

definition compressed_size :: "('a compressible_scheme) \<Rightarrow> 64 word" where
  "compressed_size x = (if compressed x then required_uncompressed_size x else file_size x)"

fun required_install_size :: "object \<Rightarrow> 64 word" where
  "required_install_size (Copy x) = compressed_size x"
| "required_install_size (Raw x) = compressed_size x"
| "required_install_size (Ubifs x) = compressed_size x"
| "required_install_size (Flash x) = file_size x"
| "required_install_size (Imxkobs x) = file_size x"
| "required_install_size (Mender x) = file_size x"
| "required_install_size (RawDelta x) = file_size x"
| "required_install_size (Tarball x) = file_size x"
| "required_install_size (Test x) = file_size x"
| "required_install_size (UbootEnv x) = file_size x"
| "required_install_size (Zephyr x) = file_size x"

fun allow_remote_install :: "object \<Rightarrow> bool" where
  "allow_remote_install (RawDelta _) = True"
| "allow_remote_install _ = False"

definition info_status :: "env \<Rightarrow> string \<Rightarrow> object \<Rightarrow> sys \<Rightarrow> object_error + object_status" where
  "info_status E dir x s = status_of E dir (info_sha256sum x) (info_len x) s"

text \<open>
  What the rest of the agent relies on: the sum names the file, and the status is that of the
  file. The consequences hold for every kind of object.
\<close>

locale object_info =
  fixes sum_of :: "'o \<Rightarrow> string" and len_of :: "'o \<Rightarrow> 64 word"
    and status_in :: "env \<Rightarrow> string \<Rightarrow> 'o \<Rightarrow> sys \<Rightarrow> object_error + object_status"
  assumes status_law: "status_in E dir x s = status_of E dir (sum_of x) (len_of x) s"
begin

lemma missing: "node (path_join dir (sum_of x)) s = None \<Longrightarrow> status_in E dir x s = Inr Missing"
  by (simp add: status_law status_of_def fs_exists_def)

lemma stored:
  assumes "node (path_join dir (sum_of x)) s = Some (Regular b)"
    "\<And>op. io_fault E op (path_join dir (sum_of x)) s = None"
  shows "status_in E dir x s = Inr (if of_nat (length b) < len_of x then Incomplete
    else if sha256_text E b = sum_of x then Ready else Corrupted)"
  using assms by (simp add: status_law status_of_def fs_exists_def metadata_of_def fs_metadata_def
      read_to_string_def fs_read_def guarded_def node_len_def io_simps)

lemma same_file:
  assumes "node (path_join dir (sum_of x)) t = node (path_join dir (sum_of x)) s"
    "\<And>op u. io_fault E op (path_join dir (sum_of x)) u = None"
  shows "status_in E dir x t = status_in E dir x s"
proof -
  let ?p = "path_join dir (sum_of x)"
  have "fs_exists E ?p t = fs_exists E ?p s" using assms by (simp add: fs_exists_def)
  moreover have "metadata_of E ?p t = metadata_of E ?p s"
    using assms by (simp add: metadata_of_def fs_metadata_def guarded_def split: option.splits)
  moreover have "read_to_string E ?p t = read_to_string E ?p s"
    using assms by (simp add: read_to_string_def fs_read_def guarded_def split: option.splits)
  ultimately show ?thesis by (simp add: status_law status_of_def Let_def cong: if_cong)
qed

text \<open>A ready object is on disk with the content its sum promises.\<close>

lemma ready_content:
  assumes "status_in E dir x s = Inr Ready"
  shows "\<exists>n b. node (path_join dir (sum_of x)) s = Some n \<and> node_bytes n = Some b \<and>
    sha256_text E b = sum_of x \<and> len_of x \<le> node_len n"
  using assms
  by (auto simp: status_law status_of_def Let_def fs_exists_def metadata_of_def fs_metadata_def
      read_to_string_def fs_read_def guarded_def io_simps not_less split: if_splits option.splits sum.splits)

end

interpretation objects: object_info info_sha256sum info_len info_status
  by unfold_locales (simp add: info_status_def)

section \<open>Update packages\<close>

datatype pkg_error = PkgIo io_error | PkgCloud cloud_error | IncompatibleHardware string
  | IncompatibleInstallMode string

definition hardware_compatible :: "supported_hardware \<Rightarrow> string \<Rightarrow> pkg_error + unit" where
  "hardware_compatible h hw =
     (let compatible = (case h of AnyHardware \<Rightarrow> True | HardwareList l \<Rightarrow> hw \<in> set l)
      in if \<not> compatible then Inl (IncompatibleHardware hw) else Inr ())"

definition compatible_with :: "update_package \<Rightarrow> metadata \<Rightarrow> pkg_error + unit" where
  "compatible_with p fw = hardware_compatible (supported_hardware (inner p)) (hardware fw)"

definition objects :: "update_package \<Rightarrow> installation_set \<Rightarrow> object list" where
  "objects p a = (case a of InstA \<Rightarrow> fst (set_objects (inner p)) | InstB \<Rightarrow> snd (set_objects (inner p)))"

definition validate_install_modes :: "update_package \<Rightarrow> settings \<Rightarrow> installation_set \<Rightarrow> pkg_error + unit" where
  "validate_install_modes p c a =
     (case find (\<lambda>m. m \<notin> set (supported_install_modes (update c))) (map info_mode (objects p a)) of
        Some m \<Rightarrow> Inl (IncompatibleInstallMode m)
      | None \<Rightarrow> Inr ())"

definition has_status :: "env \<Rightarrow> string \<Rightarrow> object_status \<Rightarrow> sys \<Rightarrow> object \<Rightarrow> bool" where
  "has_status E dir st s x =
     ((case info_status E dir x s of Inl _ \<Rightarrow> Missing | Inr r \<Rightarrow> r) = st)"

definition filter_objects :: "env \<Rightarrow> update_package \<Rightarrow> settings \<Rightarrow> installation_set \<Rightarrow> object_status \<Rightarrow>
    sys \<Rightarrow> object list" where
  "filter_objects E p c a st s = filter (has_status E (download_dir (update c)) st s) (objects p a)"

definition unrelated_files :: "env \<Rightarrow> update_package \<Rightarrow> string \<Rightarrow> installation_set \<Rightarrow> sys \<Rightarrow> string list" where
  "unrelated_files E p dir a s = (case read_dir E dir s of
      None \<Rightarrow> []
    | Some entries \<Rightarrow> filter (\<lambda>q.
        (case metadata_of E q s of Inr (Regular _) \<Rightarrow> True | _ \<Rightarrow> False) \<and>
        (\<forall>x \<in> set (objects p a). path_file_name q \<noteq> Some (info_sha256sum x))) entries)"

definition remove_if_exists :: "env \<Rightarrow> string \<Rightarrow> (sys, io_error, unit) io" where
  "remove_if_exists E q = (\<lambda>s. if fs_exists E q s then fs_remove E q s else (Inr (), s))"

definition clear_unrelated_files :: "env \<Rightarrow> update_package \<Rightarrow> string \<Rightarrow> installation_set \<Rightarrow> settings \<Rightarrow>
    (sys, io_error, unit) io" where
  "clear_unrelated_files E p dir a c =
     io_then (\<lambda>s. io_each (fs_remove E) (unrelated_files E p dir a s) s)
       (io_then (io_each (remove_if_exists E) [path_join dir ''metadata'', path_join dir ''signature''])
         (\<lambda>s. io_each (\<lambda>x. fs_remove E (path_join dir (info_sha256sum x)))
                (filter_objects E p c a Corrupted s) s))"

section \<open>Lemmas\<close>

lemma compatible_with_Inr:
  "compatible_with p fw = Inr () \<longleftrightarrow>
     (case supported_hardware (inner p) of AnyHardware \<Rightarrow> True | HardwareList l \<Rightarrow> hardware fw \<in> set l)"
  by (simp add: compatible_with_def hardware_compatible_def split: supported_hardware.splits)

lemma validate_install_modes_Inr:
  "validate_install_modes p c a = Inr () \<longleftrightarrow>
     (\<forall>x \<in> set (objects p a). info_mode x \<in> set (supported_install_modes (update c)))"
proof -
  have "validate_install_modes p c a = Inr () \<longleftrightarrow>
      find (\<lambda>m. m \<notin> set (supported_install_modes (update c))) (map info_mode (objects p a)) = None"
    by (simp add: validate_install_modes_def split: option.splits)
  then show ?thesis by (auto simp: find_None_iff)
qed

lemma fs_remove_Inr: "fs_remove E p s = (Inr u, t) \<Longrightarrow> t = del_node p s"
  by (auto simp: fs_remove_def guarded_def split: option.splits fnode.splits)

lemma remove_each:
  "io_each (\<lambda>x. fs_remove E (f x)) xs s = (Inr u, t) \<Longrightarrow>
   node q t = (if q \<in> f ` set xs then None else node q s)"
proof (induction xs arbitrary: s)
  case (Cons x xs)
  obtain v where "fs_remove E (f x) s = (Inr (), v)" "io_each (\<lambda>x. fs_remove E (f x)) xs v = (Inr u, t)"
    using Cons.prems by (auto elim!: io_then_Inr_E)
  with Cons.IH [of v] show ?case by (auto dest!: fs_remove_Inr)
qed (simp add: io_simps)

lemma remove_if_exists_Inr:
  "remove_if_exists E p s = (Inr u, t) \<Longrightarrow> io_fault E FsMeta p s = None \<Longrightarrow>
   node q t = (if q = p then None else node q s)"
  by (auto simp: remove_if_exists_def fs_exists_def dest!: fs_remove_Inr split: if_splits)

lemma dir_entries_iff: "q \<in> set (dir_entries d s) \<longleftrightarrow> node q s \<noteq> None \<and> path_parent q = Some d"
  by (auto simp: dir_entries_def node_def map_of_eq_None_iff)

definition fault_free :: "env \<Rightarrow> bool" where
  "fault_free E \<longleftrightarrow> (\<forall>op p s. io_fault E op p s = None)"

lemma fault_free_simps [simp]: "fault_free E \<Longrightarrow> io_fault E op p s = None"
  by (simp add: fault_free_def)

lemma unrelated_files_iff:
  "fault_free E \<Longrightarrow> node dir s \<noteq> None \<Longrightarrow> q \<in> set (unrelated_files E p dir a s) \<longleftrightarrow>
     path_parent q = Some dir \<and> (\<exists>b. node q s = Some (Regular b)) \<and>
     (\<forall>x \<in> set (objects p a). path_file_name q \<noteq> Some (info_sha256sum x))"
  by (auto simp: unrelated_files_def read_dir_def dir_entries_iff metadata_of_def fs_metadata_def guarded_def
      split: option.splits fnode.splits)

text \<open>What a clearing that succeeds leaves of each path.\<close>

lemma clear_unrelated_nodes:
  assumes run: "clear_unrelated_files E p dir a c s = (Inr u, t)" and ff: "fault_free E"
  obtains v where
    "\<And>q. node q v = (if q \<in> set (unrelated_files E p dir a s) \<or> q = path_join dir ''metadata'' \<or>
        q = path_join dir ''signature'' then None else node q s)"
    "\<And>q. node q t = (if \<exists>x \<in> set (filter_objects E p c a Corrupted v). q = path_join dir (info_sha256sum x)
        then None else node q v)"
proof -
  from run obtain x1 w where w: "io_each (fs_remove E) (unrelated_files E p dir a s) s = (Inr x1, w)"
    and rest: "io_then (io_each (remove_if_exists E) [path_join dir ''metadata'', path_join dir ''signature''])
         (\<lambda>s. io_each (\<lambda>x. fs_remove E (path_join dir (info_sha256sum x)))
                (filter_objects E p c a Corrupted s) s) w = (Inr u, t)"
    unfolding clear_unrelated_files_def by (rule io_then_Inr_E)
  from rest obtain x2 v where
    v: "io_each (remove_if_exists E) [path_join dir ''metadata'', path_join dir ''signature''] w = (Inr x2, v)"
    and t: "io_each (\<lambda>x. fs_remove E (path_join dir (info_sha256sum x))) (filter_objects E p c a Corrupted v) v = (Inr u, t)"
    by (rule io_then_Inr_E)
  from v obtain x3 v1 where v1: "remove_if_exists E (path_join dir ''metadata'') w = (Inr x3, v1)"
    "io_then (remove_if_exists E (path_join dir ''signature'')) (io_return ()) v1 = (Inr x2, v)"
    by (auto elim: io_then_Inr_E)
  have v2: "remove_if_exists E (path_join dir ''signature'') v1 = (Inr x2, v)"
    using v1(2) by (auto simp: io_then_def io_bind_def io_return_def split: prod.splits sum.splits)
  show thesis
  proof (rule that [of v])
    show "node q v = (if q \<in> set (unrelated_files E p dir a s) \<or> q = path_join dir ''metadata'' \<or>
        q = path_join dir ''signature'' then None else node q s)" for q
      using remove_each [where f = "\<lambda>x. x", OF w, of q] remove_if_exists_Inr [OF v1(1), of q]
        remove_if_exists_Inr [OF v2, of q] ff by (simp split: if_splits)
    show "node q t = (if \<exists>x \<in> set (filter_objects E p c a Corrupted v). q = path_join dir (info_sha256sum x)
        then None else node q v)" for q
      using remove_each [OF t, of q] by auto
  qed
qed

text \<open>Two objects with one corrupted file: the second removal finds nothing.\<close>

lemma remove_twice:
  "fault_free E \<Longrightarrow> node q s = Some (Regular b) \<Longrightarrow>
   io_each (\<lambda>_. fs_remove E q) (x # y # xs) s = (Inl NotFound, del_node q s)"
  by (simp add: io_simps fs_remove_def guarded_def)

end
