(* ===== verification/UH_Delta.thy ===== *)
theory UH_Delta
  imports UH_Devices
begin

text \<open>
  \<open>updatehub/src/utils/delta.rs\<close>: the space a delta update needs and the update of a target in
  place. Archives, their chunks and how chunks are found and placed are the work of the library
  \<open>bitar\<close>, whose operations are fields of \<open>env\<close>; the order in which they are called, what they are
  given and what stops them is the code's.
\<close>

section \<open>Archives\<close>

text \<open>An archive is a file when there is one of that name, and is fetched from its address otherwise.\<close>

definition delta_archive :: "env \<Rightarrow> string \<Rightarrow> sys \<Rightarrow> utils_error + string" where
  "delta_archive E seed s =
     (if fs_exists E seed s
      then res_bind (res_map_err UIo (fst (guarded E FsOpen seed (io_return ()) s)))
        (\<lambda>_. res_map_err BitaArchiveIO (delta_init E seed s))
      else if url_ok E seed then res_map_err BitaArchiveRemote (delta_init E seed s)
      else Inl BitaUrl)"

definition get_required_size :: "env \<Rightarrow> string \<Rightarrow> string \<Rightarrow> sys \<Rightarrow> utils_error + 64 word" where
  "get_required_size E seed output s =
     res_bind (delta_archive E seed s) (\<lambda>a.
     res_bind (res_map_err UIo (metadata_of E output s)) (\<lambda>n.
     Inr (if node_len n \<le> delta_source_size E a then delta_source_size E a - node_len n else 0)))"

section \<open>Cloning in place\<close>

text \<open>The chunks that are there already. The scan stops at its first error.\<close>

fun delta_index :: "(io_error + nat \<times> string \<times> nat) list \<Rightarrow> chunk_index \<Rightarrow> io_error + chunk_index" where
  "delta_index [] i = Inr i"
| "delta_index (Inl e # cs) i = Inl e"
| "delta_index (Inr (off, h, n) # cs) i = delta_index cs (i @ [(h, n, [off])])"

text \<open>A change of the bytes of the output file, which stays the kind of file it is.\<close>

definition with_bytes :: "fnode \<Rightarrow> string \<Rightarrow> fnode" where
  "with_bytes n b = (case n of Regular _ \<Rightarrow> Regular b | BlockDev d _ \<Rightarrow> BlockDev d b | CharDev _ \<Rightarrow> CharDev b | Directory \<Rightarrow> Directory)"

definition output_bytes :: "string \<Rightarrow> sys \<Rightarrow> string" where
  "output_bytes p s = (case node p s of None \<Rightarrow> [] | Some n \<Rightarrow> (case node_bytes n of None \<Rightarrow> [] | Some b \<Rightarrow> b))"

definition change_output :: "string \<Rightarrow> (string \<Rightarrow> io_error + string \<times> 'a) \<Rightarrow> (sys, utils_error, 'a) io" where
  "change_output p f = (\<lambda>s. case f (output_bytes p s) of
      Inl e \<Rightarrow> (Inl (UIo e), s)
    | Inr (b, x) \<Rightarrow> (Inr x, case node p s of None \<Rightarrow> s | Some n \<Rightarrow> set_node p (with_bytes n b) s))"

fun delta_reader_error :: "delta_error \<Rightarrow> utils_error" where
  "delta_reader_error (DeltaIo e) = UIo e"
| "delta_reader_error (DeltaHttp t) = BitaRemote t"

text \<open>The rest of the chunks, from the archive, each unpacked and verified before it is written.\<close>

definition feed_chunk :: "env \<Rightarrow> string \<Rightarrow> chunk_index \<Rightarrow> delta_error + string \<Rightarrow> (sys, utils_error, chunk_index) io" where
  "feed_chunk E p i r =
     io_bind (io_lift (res_map_err delta_reader_error r)) (\<lambda>packed.
     io_bind (io_lift (res_map_err BitaCompression (delta_decompress E packed))) (\<lambda>chunk.
     io_bind (io_lift (res_map_err BitaHashSum (delta_verify E chunk))) (\<lambda>v.
     change_output p (delta_feed E i v))))"

fun feed_chunks :: "env \<Rightarrow> string \<Rightarrow> (delta_error + string) list \<Rightarrow> chunk_index \<Rightarrow> (sys, utils_error, unit) io" where
  "feed_chunks E p [] i = io_return ()"
| "feed_chunks E p (r # rs) i = io_bind (feed_chunk E p i r) (\<lambda>j. feed_chunks E p rs j)"

definition clone_to_file :: "env \<Rightarrow> string \<Rightarrow> string \<Rightarrow> 64 word \<Rightarrow> (sys, utils_error, unit) io" where
  "clone_to_file E a p output_seek =
     io_then (io_map_err UIo (fs_open_truncate E p))
     (io_then (io_lift (if output_seek \<ge> 2 ^ 63 then Inl (UIo InvalidInput) else Inr ()))
     (io_bind (io_gets (\<lambda>s. delta_scan E a (drop (unat output_seek) (output_bytes p s)))) (\<lambda>cs.
     io_bind (io_lift (res_map_err UIo (delta_index cs []))) (\<lambda>there.
     io_bind (change_output p (delta_reorder E a there)) (\<lambda>left_over.
     io_then (feed_chunks E p (delta_stream E a left_over) left_over)
       (io_map_err UIo (guarded E FsWrite p (io_return ()))))))))"

definition delta_clone :: "env \<Rightarrow> string \<Rightarrow> string \<Rightarrow> 64 word \<Rightarrow> (sys, utils_error, unit) io" where
  "delta_clone E input output output_seek =
     io_bind (io_ask (delta_archive E input)) (\<lambda>a. clone_to_file E a output output_seek)"

end
