(* ===== verification/UH_Installers.thy ===== *)
theory UH_Installers
  imports UH_Objects UH_Delta
begin

text \<open>
  \<open>updatehub/src/object/installer\<close>: the handler of each install mode, with the check made
  before an installation and the rule that skips an object already installed. A handler may
  panic: its errors are those of the object layer, or a panic.
\<close>

type_synonym 'a handler = "(sys, object_error stop, 'a) io"

record installer_context =
  ic_download_dir :: string
  offline_update :: bool
  base_url :: string

definition obj_utils :: "(sys, utils_error, 'a) io \<Rightarrow> 'a handler" where
  "obj_utils m = io_map_err (Fails \<circ> ObjUtils) m"

definition obj_io :: "(sys, io_error, 'a) io \<Rightarrow> 'a handler" where
  "obj_io m = io_map_err (Fails \<circ> ObjIo) m"

definition obj_process :: "(sys, process_error, 'a) io \<Rightarrow> 'a handler" where
  "obj_process m = io_map_err (Fails \<circ> ObjProcess) m"

definition obj_firmware :: "(sys, firmware_error, 'a) io \<Rightarrow> 'a handler" where
  "obj_firmware m = io_map_err (Fails \<circ> ObjFirmware) m"

text \<open>An error of the utilities or a panic of theirs.\<close>

definition obj_utils_stop :: "(sys, utils_error stop, 'a) io \<Rightarrow> 'a handler" where
  "obj_utils_stop m = io_map_err (\<lambda>e. case e of Fails u \<Rightarrow> Fails (ObjUtils u) | Panics \<Rightarrow> Panics | Blocks \<Rightarrow> Blocks) m"

text \<open>The debug form of a path: quoted, with the special characters escaped.\<close>

definition debug_char :: "char \<Rightarrow> string" where
  "debug_char c = (if c = dquote \<or> c = CHR 0x5C then [CHR 0x5C, c]
     else if c = newline then [CHR 0x5C, CHR ''n'']
     else if c = carriage_return then [CHR 0x5C, CHR ''r'']
     else if c = CHR 0x09 then [CHR 0x5C, CHR ''t'']
     else [c])"

definition path_debug :: "string \<Rightarrow> string" where
  "path_debug p = dquote # concat (map debug_char p) @ [dquote]"

section \<open>Skipping what is installed already\<close>

definition open_handle :: "env \<Rightarrow> string \<Rightarrow> (sys, io_error, handle) io" where
  "open_handle E p = guarded E FsOpen p (\<lambda>s. case node p s of
      None \<Rightarrow> (Inl NotFound, s)
    | Some n \<Rightarrow> (case node_bytes n of
        None \<Rightarrow> (Inl (OtherIo ''is a directory''), s)
      | Some b \<Rightarrow> (Inr \<lparr>whole = b, cursor = 0, read_limit = None\<rparr>, s)))"

text \<open>\<open>lseek\<close> takes a signed offset.\<close>

definition seek_start :: "64 word \<Rightarrow> handle \<Rightarrow> io_error + handle" where
  "seek_start off h = (if off \<ge> 2 ^ 63 then Inl InvalidInput else Inr (h\<lparr>cursor := unat off\<rparr>))"

definition handle_rest :: "handle \<Rightarrow> string" where
  "handle_rest h = (let r = drop (cursor h) (whole h) in
     case read_limit h of None \<Rightarrow> r | Some n \<Rightarrow> take n r)"

definition pattern_kind_name :: "known_pattern_kind \<Rightarrow> string" where
  "pattern_kind_name k = (case k of LinuxKernel \<Rightarrow> ''LinuxKernel'' | UBoot \<Rightarrow> ''UBoot'')"

definition check_if_different :: "env \<Rightarrow> handle \<Rightarrow> install_if_different \<Rightarrow> string \<Rightarrow> object_error + bool" where
  "check_if_different E h rule sha = (case rule of
      CheckSum \<Rightarrow> Inr (sha256_text E (handle_rest h) = sha)
    | KnownPattern v k \<Rightarrow> Inr (image_version E (pattern_kind_name k) h = Some v)
    | CustomPattern v p \<Rightarrow>
        res_bind (res_map_err ObjIo (seek_start (pat_seek p) h)) (\<lambda>h'.
          let bytes = (case read_limit h of None \<Rightarrow> handle_rest h' | Some _ \<Rightarrow> take_seek E h (unat (pat_seek p)))
          in Inr (pattern_version E (regexp p) (unat (buffer_size p)) bytes = Some v)))"

definition should_skip_install :: "env \<Rightarrow> install_if_different option \<Rightarrow> string \<Rightarrow> handle handler \<Rightarrow> bool handler" where
  "should_skip_install E rule sha open_it = (case rule of
      None \<Rightarrow> io_return False
    | Some r \<Rightarrow> io_bind open_it (\<lambda>h. io_lift (res_map_err Fails (check_if_different E h r sha))))"

section \<open>Copy\<close>

definition source_of :: "installer_context \<Rightarrow> string \<Rightarrow> string" where
  "source_of ctx sha = path_join (ic_download_dir ctx) sha"

definition relative_path :: "string \<Rightarrow> string" where
  "relative_path p = dropWhile (\<lambda>c. c = CHR ''/'') p"

text \<open>The space check on a target that was found valid.\<close>

definition check_space :: "env \<Rightarrow> target_type \<Rightarrow> 64 word \<Rightarrow> unit handler" where
  "check_space E tgt n = io_bind (obj_utils (get_target E tgt))
     (\<lambda>dev. obj_utils (io_ask (ensure_disk_space E dev n)))"

definition copy_check :: "env \<Rightarrow> copy_object \<Rightarrow> unit handler" where
  "copy_check E c =
     io_then (obj_utils (valid_target E (access_for_format (should_format (target_format c))) (target c)))
       (case target c of
          Device _ \<Rightarrow> check_space E (target c) (compressed_size c)
        | _ \<Rightarrow> io_throw (Fails (InvalidTargetType (target c))))"

definition read_source :: "env \<Rightarrow> installer_context \<Rightarrow> string \<Rightarrow> string handler" where
  "read_source E ctx sha = obj_io (fs_read E (source_of ctx sha))"

definition payload_of :: "env \<Rightarrow> bool \<Rightarrow> string \<Rightarrow> object_error + string" where
  "payload_of E packed b = (if packed then res_map_err ObjUncompress (uncompress E b) else Inr b)"

definition copy_skip :: "env \<Rightarrow> copy_object \<Rightarrow> string \<Rightarrow> bool handler" where
  "copy_skip E c dev =
     with_mount E dev (filesystem c) (mount_options c) (Fails \<circ> ObjIo) (\<lambda>dir s.
       let file_path = path_join dir (relative_path (target_path c)) in
       if fs_exists E file_path s
       then should_skip_install E (copy_if_different c) (sha256sum c) (obj_io (open_handle E file_path)) s
       else (Inr False, s))"

definition copy_write :: "env \<Rightarrow> installer_context \<Rightarrow> copy_object \<Rightarrow> string \<Rightarrow> unit handler" where
  "copy_write E ctx c dev =
     with_mount E dev (filesystem c) (mount_options c) (Fails \<circ> ObjIo) (\<lambda>dir.
       let dest = path_join dir (relative_path (target_path c)) in
       io_bind (read_source E ctx (sha256sum c)) (\<lambda>b.
       io_then (obj_io (fs_write E dest []))
       (io_bind (obj_io (fs_metadata E dest)) (\<lambda>_.
       io_bind (io_lift (res_map_err Fails (payload_of E (compressed c) b))) (\<lambda>data.
       io_then (obj_io (fs_write E dest data))
       (io_then (case target_mode (target_permissions c) of
            Some m \<Rightarrow> obj_utils_stop (chmod E dest m) | None \<Rightarrow> io_return ())
         (obj_utils_stop (chown E dest (target_uid (target_permissions c)) (target_gid (target_permissions c))))))))))"

definition copy_install :: "env \<Rightarrow> installer_context \<Rightarrow> copy_object \<Rightarrow> unit handler" where
  "copy_install E ctx c =
     io_bind (obj_utils (get_target E (target c))) (\<lambda>dev.
     io_bind (copy_skip E c dev) (\<lambda>skip_it.
       if skip_it then io_return ()
       else io_then (if should_format (target_format c)
                     then obj_utils (format_device E dev (filesystem c) (format_options (target_format c)))
                     else io_return ())
              (copy_write E ctx c dev)))"

section \<open>Flash\<close>

definition in_path_each :: "env \<Rightarrow> string list \<Rightarrow> unit handler" where
  "in_path_each E cmds = io_each (\<lambda>cmd. obj_utils (io_ask (is_executable_in_path E cmd))) cmds"

definition flash_check :: "env \<Rightarrow> flash_object \<Rightarrow> unit handler" where
  "flash_check E f =
     io_then (in_path_each E [''nandwrite'', ''flashcp'', ''flash_erase''])
       (case target f of
          UBIVolume _ \<Rightarrow> io_throw (Fails (InvalidTargetType (target f)))
        | _ \<Rightarrow> io_then (obj_utils (valid_target E Exclusive (target f)))
                (check_space E (target f) (file_size f)))"

definition run_command :: "env \<Rightarrow> string \<Rightarrow> unit handler" where
  "run_command E c = io_then (obj_process (exec E c)) (io_return ())"

definition flash_install :: "env \<Rightarrow> installer_context \<Rightarrow> flash_object \<Rightarrow> unit handler" where
  "flash_install E ctx f =
     io_bind (obj_utils (get_target E (target f))) (\<lambda>tgt.
     let source = source_of ctx (sha256sum f) in
     io_bind (should_skip_install E (flash_if_different f) (sha256sum f) (obj_io (open_handle E tgt))) (\<lambda>skip_it.
       if skip_it then io_return ()
       else io_bind (obj_utils (io_ask (is_nand E tgt))) (\<lambda>nand.
         io_then (run_command E (''flash_erase '' @ path_debug tgt @ '' 0 0''))
           (if nand then run_command E (''nandwrite -p '' @ path_debug tgt @ '' '' @ path_debug source)
            else run_command E (''flashcp '' @ path_debug source @ '' '' @ path_debug tgt)))))"

section \<open>Imxkobs\<close>

definition chip_0_path :: "imxkobs_object \<Rightarrow> string" where
  "chip_0_path k = (case chip_0_device_path k of Some p \<Rightarrow> p | None \<Rightarrow> ''/dev/mtd0'')"

definition imxkobs_check :: "env \<Rightarrow> imxkobs_object \<Rightarrow> unit handler" where
  "imxkobs_check E k =
     io_then (in_path_each E [''kobs-ng''])
       (io_each (\<lambda>chip. obj_utils (io_ask (ensure_not_mounted E chip)))
          (chip_0_path k # (case chip_1_device_path k of Some p \<Rightarrow> [p] | None \<Rightarrow> [])))"

definition imxkobs_command :: "installer_context \<Rightarrow> imxkobs_object \<Rightarrow> string" where
  "imxkobs_command ctx k =
     ''kobs-ng init '' @ (if padding_1k k then ''-x '' else []) @ source_of ctx (sha256sum k) @
     (if search_exponent k > 0 then '' --search_exponent='' @ show_nat (unat (search_exponent k)) else []) @
     (case chip_0_device_path k of Some p \<Rightarrow> '' --chip_0_device_path='' @ p | None \<Rightarrow> []) @
     (case chip_1_device_path k of Some p \<Rightarrow> '' --chip_1_device_path='' @ p | None \<Rightarrow> []) @ '' -v''"

definition imxkobs_handle :: "env \<Rightarrow> imxkobs_object \<Rightarrow> handle handler" where
  "imxkobs_handle E k = (let p = chip_0_path k in
     case path_file_name p of
       None \<Rightarrow> io_throw (Fails InvalidPath)
     | Some f \<Rightarrow> obj_io (open_handle E (path_with_file_name p (f @ ''ro''))))"

definition imxkobs_install :: "env \<Rightarrow> installer_context \<Rightarrow> imxkobs_object \<Rightarrow> unit handler" where
  "imxkobs_install E ctx k =
     io_bind (should_skip_install E (imx_if_different k) (sha256sum k) (imxkobs_handle E k)) (\<lambda>skip_it.
       if skip_it then io_return () else run_command E (imxkobs_command ctx k))"

section \<open>Raw\<close>

definition chunk_bytes :: "chunk_size \<Rightarrow> 64 word" where
  "chunk_bytes c = (case c of ChunkSize n \<Rightarrow> n)"

definition skip_blocks :: "skip \<Rightarrow> 64 word" where
  "skip_blocks k = (case k of Skip n \<Rightarrow> n)"

definition do_truncate :: "truncate \<Rightarrow> bool" where
  "do_truncate t = (case t of Truncate b \<Rightarrow> b)"

text \<open>The byte offsets and the limit: products of 64-bit words, which wrap around.\<close>

definition raw_seek :: "raw_object \<Rightarrow> 64 word" where
  "raw_seek r = seek r * chunk_bytes (chunk_size r)"

definition raw_skip :: "raw_object \<Rightarrow> 64 word" where
  "raw_skip r = skip_blocks (skip r) * chunk_bytes (chunk_size r)"

definition raw_limit :: "raw_object \<Rightarrow> nat option" where
  "raw_limit r = (case raw_object.count r of All \<Rightarrow> None
     | Limited n \<Rightarrow> Some (unat ((if 0 \<le> n then of_int n else 0) * chunk_bytes (chunk_size r))))"

definition raw_check :: "env \<Rightarrow> raw_object \<Rightarrow> unit handler" where
  "raw_check E r =
     io_then (obj_utils (valid_target E Exclusive (target r)))
       (case target r of
          Device dev \<Rightarrow> obj_utils (io_ask (ensure_disk_space E dev (compressed_size r)))
        | _ \<Rightarrow> io_throw (Fails (InvalidTargetType (target r))))"

definition lift_io_result :: "io_error + 'a \<Rightarrow> 'a handler" where
  "lift_io_result r = io_lift (res_map_err (Fails \<circ> ObjIo) r)"

definition raw_handle :: "env \<Rightarrow> raw_object \<Rightarrow> string \<Rightarrow> handle handler" where
  "raw_handle E r dev = io_bind (obj_io (open_handle E dev)) (\<lambda>h.
     io_bind (lift_io_result (seek_start (raw_seek r) h)) (\<lambda>h'.
     io_return (h'\<lparr>read_limit := raw_limit r\<rparr>)))"

definition splice :: "string \<Rightarrow> nat \<Rightarrow> string \<Rightarrow> string" where
  "splice old off data = (if data = [] then old
     else take off old @ replicate (off - length old) (CHR 0x00) @ data @ drop (off + length data) old)"

text \<open>
  Opening a file that exists for writing and writing at an offset. A device holds a fixed number
  of bytes: what fits is written and the rest is an error.
\<close>

definition open_existing :: "env \<Rightarrow> string \<Rightarrow> bool \<Rightarrow> (sys, io_error, unit) io" where
  "open_existing E p trunc = guarded E FsOpen p (\<lambda>s. case node p s of
      None \<Rightarrow> (Inl NotFound, s)
    | Some Directory \<Rightarrow> (Inl (OtherIo ''is a directory''), s)
    | Some (Regular old) \<Rightarrow> (Inr (), if trunc then set_node p (Regular []) s else s)
    | Some _ \<Rightarrow> (Inr (), s))"

definition write_at :: "env \<Rightarrow> string \<Rightarrow> nat \<Rightarrow> string \<Rightarrow> (sys, io_error, unit) io" where
  "write_at E p k data = guarded E FsWrite p (\<lambda>s. case node p s of
      Some (Regular old) \<Rightarrow> (Inr (), set_node p (Regular (splice old k data)) s)
    | Some (BlockDev d b) \<Rightarrow>
        (if k + length data \<le> length b then Inr () else Inl (OtherIo ''no space''),
         set_node p (BlockDev d (splice b k (take (length b - k) data))) s)
    | Some (CharDev b) \<Rightarrow>
        (if k + length data \<le> length b then Inr () else Inl (OtherIo ''no space''),
         set_node p (CharDev (splice b k (take (length b - k) data))) s)
    | _ \<Rightarrow> (Inl NotFound, s))"

definition raw_install :: "env \<Rightarrow> installer_context \<Rightarrow> raw_object \<Rightarrow> unit handler" where
  "raw_install E ctx r = (case target r of
      Device dev \<Rightarrow>
        io_bind (should_skip_install E (raw_if_different r) (sha256sum r) (raw_handle E r dev)) (\<lambda>skip_it.
          if skip_it then io_return ()
          else io_bind (obj_io (open_handle E (source_of ctx (sha256sum r)))) (\<lambda>h.
            io_bind (lift_io_result (seek_start (raw_skip r) h)) (\<lambda>h'.
            io_then (obj_io (open_existing E dev (do_truncate (raw_truncate r))))
            (io_bind (lift_io_result (seek_start (raw_seek r) h)) (\<lambda>_.
            io_bind (io_lift (res_map_err Fails (payload_of E (compressed r)
                (handle_rest (h'\<lparr>read_limit := raw_limit r\<rparr>))))) (\<lambda>data.
            obj_io (write_at E dev (unat (raw_seek r)) data)))))))
    | _ \<Rightarrow> io_throw Panics)"

section \<open>Raw delta\<close>

definition get_seed_path :: "raw_delta_object \<Rightarrow> installer_context \<Rightarrow> string" where
  "get_seed_path d ctx =
     (if offline_update ctx then path_debug (path_join (ic_download_dir ctx) (sha256sum d))
      else base_url ctx @ ''/'' @ sha256sum d)"

definition raw_delta_check :: "env \<Rightarrow> installer_context \<Rightarrow> raw_delta_object \<Rightarrow> unit handler" where
  "raw_delta_check E ctx d =
     io_then (obj_utils (valid_target E Exclusive (target d)))
       (case target d of
          Device dev \<Rightarrow> io_bind (obj_utils (io_ask (get_required_size E (get_seed_path d ctx) dev)))
             (\<lambda>n. obj_utils (io_ask (ensure_disk_space E dev n)))
        | _ \<Rightarrow> io_throw (Fails (InvalidTargetType (target d))))"

definition raw_delta_install :: "env \<Rightarrow> installer_context \<Rightarrow> raw_delta_object \<Rightarrow> unit handler" where
  "raw_delta_install E ctx d =
     io_bind (obj_utils (get_target E (target d))) (\<lambda>tgt.
       obj_utils (delta_clone E (get_seed_path d ctx) tgt (delta_seek d)))"

section \<open>Tarball\<close>

definition tarball_check :: "env \<Rightarrow> mountable \<Rightarrow> unit handler" where
  "tarball_check E t =
     io_then (check_space E (target t) (file_size t))
       (obj_utils (valid_target E (access_for_format (should_format (target_format t))) (target t)))"

text \<open>Unpacking: every file of the archive, with the directories above it.\<close>

definition unpack_entry :: "env \<Rightarrow> string \<Rightarrow> string \<times> string \<Rightarrow> (sys, io_error, unit) io" where
  "unpack_entry E dest e = (let p = path_join dest (fst e) in
     io_then (case path_parent p of Some d \<Rightarrow> fs_create_dir_all E d | None \<Rightarrow> io_return ())
       (fs_write E p (snd e)))"

definition tarball_install :: "env \<Rightarrow> installer_context \<Rightarrow> mountable \<Rightarrow> unit handler" where
  "tarball_install E ctx t =
     io_bind (obj_utils (get_target E (target t))) (\<lambda>dev.
     io_then (if should_format (target_format t)
              then obj_utils (format_device E dev (filesystem t) (format_options (target_format t)))
              else io_return ())
       (with_mount E dev (filesystem t) (mount_options t) (Fails \<circ> ObjIo) (\<lambda>dir.
          io_bind (read_source E ctx (sha256sum t)) (\<lambda>b.
          io_bind (io_lift (res_map_err (Fails \<circ> ObjUncompress) (archive_files E b))) (\<lambda>entries.
          io_each (\<lambda>e. io_map_err (Fails \<circ> ObjUncompress \<circ> ArchiveIo)
            (unpack_entry E (path_join dir (relative_path (target_path t))) e)) entries)))))"

section \<open>Ubifs\<close>

definition ubifs_check :: "env \<Rightarrow> compressible \<Rightarrow> unit handler" where
  "ubifs_check E u =
     io_then (in_path_each E [''ubiupdatevol'', ''ubinfo''])
       (io_then (obj_utils (valid_target E Exclusive (target u)))
          (case target u of
             UBIVolume _ \<Rightarrow> check_space E (target u) (compressed_size u)
           | _ \<Rightarrow> io_throw (Fails (InvalidTargetType (target u)))))"

definition ubifs_install :: "env \<Rightarrow> installer_context \<Rightarrow> compressible \<Rightarrow> unit handler" where
  "ubifs_install E ctx u =
     io_bind (obj_utils (get_target E (target u))) (\<lambda>tgt.
       let source = source_of ctx (sha256sum u) in
       if compressed u
       then io_bind (io_attempt (io_bind (read_source E ctx (sha256sum u))
                (\<lambda>b. io_lift (res_map_err Fails (payload_of E True b))))) (\<lambda>input.
              io_bind (obj_process (exec_input E (''ubiupdatevol '' @ tgt @ '' -'')
                  (case input of Inr b \<Rightarrow> b | Inl _ \<Rightarrow> []))) (\<lambda>_.
              case input of Inl e \<Rightarrow> io_throw e | Inr _ \<Rightarrow> io_return ()))
       else run_command E (''ubiupdatevol '' @ tgt @ '' '' @ source))"

section \<open>U-Boot environment\<close>

definition uboot_env_check :: "env \<Rightarrow> unit handler" where
  "uboot_env_check E =
     io_then (in_path_each E [''fw_setenv''])
       (io_bind (obj_process (exec E ''fw_setenv --help'')) (\<lambda>out.
          if \<not> str_contains ''--script'' (stdout out) then io_throw (Fails FwSetEnvNoScriptOption)
          else io_return ()))"

definition uboot_env_install :: "env \<Rightarrow> installer_context \<Rightarrow> object_file \<Rightarrow> unit handler" where
  "uboot_env_install E ctx u =
     io_bind (read_source E ctx (sha256sum u)) (\<lambda>b.
     io_then (obj_io (fs_write E ''/tmp/updatehub.defenv'' b))
       (io_bind (obj_firmware (active E)) (\<lambda>a. obj_firmware (set_active E a))))"

section \<open>Every mode\<close>

definition test_check :: "test_object \<Rightarrow> unit handler" where
  "test_check t = (if force_check_requirements_fail t
     then io_throw (Fails (ObjIo (OtherIo ''fail to check the requirements''))) else io_return ())"

definition unsupported :: "unit handler" where
  "unsupported = io_throw (Fails Unsupported)"

fun check_requirements :: "env \<Rightarrow> installer_context \<Rightarrow> object \<Rightarrow> unit handler" where
  "check_requirements E ctx (Copy x) = copy_check E x"
| "check_requirements E ctx (Flash x) = flash_check E x"
| "check_requirements E ctx (Imxkobs x) = imxkobs_check E x"
| "check_requirements E ctx (Mender x) = unsupported"
| "check_requirements E ctx (Raw x) = raw_check E x"
| "check_requirements E ctx (RawDelta x) = raw_delta_check E ctx x"
| "check_requirements E ctx (Tarball x) = tarball_check E x"
| "check_requirements E ctx (Test x) = test_check x"
| "check_requirements E ctx (Ubifs x) = ubifs_check E x"
| "check_requirements E ctx (UbootEnv x) = uboot_env_check E"
| "check_requirements E ctx (Zephyr x) = unsupported"

fun install_object :: "env \<Rightarrow> installer_context \<Rightarrow> object \<Rightarrow> unit handler" where
  "install_object E ctx (Copy x) = copy_install E ctx x"
| "install_object E ctx (Flash x) = flash_install E ctx x"
| "install_object E ctx (Imxkobs x) = imxkobs_install E ctx x"
| "install_object E ctx (Mender x) = unsupported"
| "install_object E ctx (Raw x) = raw_install E ctx x"
| "install_object E ctx (RawDelta x) = raw_delta_install E ctx x"
| "install_object E ctx (Tarball x) = tarball_install E ctx x"
| "install_object E ctx (Test x) = io_return ()"
| "install_object E ctx (Ubifs x) = ubifs_install E ctx x"
| "install_object E ctx (UbootEnv x) = uboot_env_install E ctx x"
| "install_object E ctx (Zephyr x) = unsupported"

section \<open>Lemmas\<close>

lemma splice_length: "data \<noteq> [] \<Longrightarrow> length (splice old off data) = max (length old) (off + length data)"
  by (simp add: splice_def)

lemma splice_read: "data \<noteq> [] \<Longrightarrow> take (length data) (drop off (splice old off data)) = data"
  by (simp add: splice_def)

lemma splice_before: "off \<le> length old \<Longrightarrow> take off (splice old off data) = take off old"
  by (simp add: splice_def)

lemma splice_after: "drop (off + length data) (splice old off data) = drop (off + length data) old"
  by (simp add: splice_def)

lemma open_handle_Inr:
  "node p s = Some n \<Longrightarrow> node_bytes n = Some b \<Longrightarrow> io_fault E FsOpen p s = None \<Longrightarrow>
   open_handle E p s = (Inr \<lparr>whole = b, cursor = 0, read_limit = None\<rparr>, s)"
  by (simp add: open_handle_def guarded_def)

lemma should_skip_none [simp]: "should_skip_install E None sha h = io_return False"
  by (simp add: should_skip_install_def)

lemma debug_head: "\<exists>r. path_debug p = dquote # r"
  by (simp add: path_debug_def)

end
