(* ===== verification/UH_Runtime_Settings.thy ===== *)
theory UH_Runtime_Settings
  imports UH_Firmware UH_Serde
begin

text \<open>
  \<open>updatehub/src/runtime_settings.rs\<close> and the data type of
  \<open>updatehub-sdk/src/api/info/runtime_settings.rs\<close>: what the agent remembers between boots.
  An operation that takes \<open>&mut self\<close> works on the settings and the machine; the settings in
  memory change even when writing them to the file fails.
\<close>

section \<open>Types\<close>

datatype server_address = DefaultServer | CustomServer string

record runtime_polling =
  last_poll :: int
  poll_retries :: "64 word"
  poll_now :: bool
  poll_server :: server_address

record runtime_update =
  upgrade_to_installation :: "installation_set option"
  applied_package_uid :: "string option"

text \<open>\<open>v1_content\<close> exists in builds with the feature \<open>v1-parsing\<close> only; elsewhere it stays \<open>None\<close>.\<close>

record runtime_settings =
  rs_polling :: runtime_polling
  rs_update :: runtime_update
  rs_path :: string
  persistent :: bool
  v1_content :: "string option"

datatype rs_error = RsIo io_error | RsSerdeJson string | RsFirmware firmware_error
  | InvalidDestination | RsV1Parsing string string

definition rs_default :: runtime_settings where
  "rs_default = \<lparr>rs_polling = \<lparr>last_poll = 0, poll_retries = 0, poll_now = False, poll_server = DefaultServer\<rparr>,
     rs_update = \<lparr>upgrade_to_installation = None, applied_package_uid = None\<rparr>,
     rs_path = [], persistent = False, v1_content = None\<rparr>"

section \<open>The stored form\<close>

fun enc_set :: "installation_set \<Rightarrow> json" where
  "enc_set InstA = JStr ''a''"
| "enc_set InstB = JStr ''b''"

definition dec_set :: "json \<Rightarrow> installation_set option" where
  "dec_set = dec_unit_variant [(''a'', InstA), (''b'', InstB)]"

fun enc_server :: "server_address \<Rightarrow> json" where
  "enc_server DefaultServer = JStr ''default''"
| "enc_server (CustomServer s) = JObj [(''custom'', JStr s)]"

fun dec_server :: "json \<Rightarrow> server_address option" where
  "dec_server (JObj [(k, v)]) =
     (if k = ''custom'' then map_option CustomServer (dec_str v)
      else if k = ''default'' \<and> v = JNull then Some DefaultServer else None)"
| "dec_server (JStr s) = (if s = ''default'' then Some DefaultServer else None)"
| "dec_server _ = None"

definition enc_polling :: "env \<Rightarrow> runtime_polling \<Rightarrow> json" where
  "enc_polling E p = JObj [(''last'', JStr (time_text E (last_poll p))),
     (''retries'', enc_u64 (poll_retries p)), (''now'', JBool (poll_now p)),
     (''server_address'', enc_server (poll_server p))]"

definition dec_time :: "env \<Rightarrow> json \<Rightarrow> int option" where
  "dec_time E j = Option.bind (dec_str j) (time_parse E)"

definition dec_polling :: "env \<Rightarrow> json \<Rightarrow> runtime_polling option" where
  "dec_polling E j = do {
     m \<leftarrow> struct_fields True [''last'', ''retries'', ''now'', ''server_address''] j;
     l \<leftarrow> field m ''last'' (dec_time E);
     r \<leftarrow> field m ''retries'' dec_u64;
     n \<leftarrow> field m ''now'' dec_bool;
     a \<leftarrow> field m ''server_address'' dec_server;
     Some \<lparr>last_poll = l, poll_retries = r, poll_now = n, poll_server = a\<rparr> }"

definition enc_update :: "runtime_update \<Rightarrow> json" where
  "enc_update u = JObj (skip_none ''upgrade_to_installation'' enc_set (upgrade_to_installation u)
     @ skip_none ''applied_package_uid'' JStr (applied_package_uid u))"

definition dec_update :: "json \<Rightarrow> runtime_update option" where
  "dec_update j = do {
     m \<leftarrow> struct_fields True [''upgrade_to_installation'', ''applied_package_uid''] j;
     i \<leftarrow> opt_field m ''upgrade_to_installation'' dec_set;
     a \<leftarrow> opt_field m ''applied_package_uid'' dec_str;
     Some \<lparr>upgrade_to_installation = i, applied_package_uid = a\<rparr> }"

definition enc_rs :: "env \<Rightarrow> runtime_settings \<Rightarrow> json" where
  "enc_rs E r = JObj [(''polling'', enc_polling E (rs_polling r)), (''update'', enc_update (rs_update r)),
     (''path'', JStr (rs_path r)), (''persistent'', JBool (persistent r))]"

definition dec_rs :: "env \<Rightarrow> json \<Rightarrow> runtime_settings option" where
  "dec_rs E j = do {
     m \<leftarrow> struct_fields True [''polling'', ''update'', ''path'', ''persistent''] j;
     p \<leftarrow> field m ''polling'' (dec_polling E);
     u \<leftarrow> field m ''update'' dec_update;
     f \<leftarrow> field m ''path'' dec_str;
     b \<leftarrow> field m ''persistent'' dec_bool;
     Some \<lparr>rs_polling = p, rs_update = u, rs_path = f, persistent = b, v1_content = None\<rparr> }"

section \<open>The version 1 format\<close>

text \<open>A field of an INI section: present once.\<close>

definition ini_field :: "json \<Rightarrow> string \<Rightarrow> string option" where
  "ini_field j k = (case j of JObj kvs \<Rightarrow>
      (case filter (\<lambda>kv. fst kv = k) kvs of [(_, JStr v)] \<Rightarrow> Some v | _ \<Rightarrow> None)
    | _ \<Rightarrow> None)"

definition parse_bool :: "string \<Rightarrow> bool option" where
  "parse_bool s = (if s = ''true'' then Some True else if s = ''false'' then Some False else None)"

definition parse_i8 :: "string \<Rightarrow> int option" where
  "parse_i8 s = Option.bind (parse_i64 s) (\<lambda>n. if - 128 \<le> n \<and> n \<le> 127 then Some n else None)"

definition v1_set :: "int \<Rightarrow> installation_set option" where
  "v1_set n = (if n = 0 then Some InstA else if n = 1 then Some InstB else None)"

definition v1_decode :: "env \<Rightarrow> json \<Rightarrow> runtime_settings option" where
  "v1_decode E j = do {
     m \<leftarrow> struct_fields True [''Polling'', ''Update''] j;
     p \<leftarrow> m ''Polling'';
     u \<leftarrow> m ''Update'';
     l \<leftarrow> Option.bind (ini_field p ''LastPoll'') (time_parse E);
     r \<leftarrow> Option.bind (ini_field p ''Retries'') parse_u64;
     n \<leftarrow> Option.bind (ini_field p ''ProbeASAP'') parse_bool;
     i \<leftarrow> Option.bind (ini_field u ''UpgradeToInstallation'') parse_i8;
     Some \<lparr>rs_polling = \<lparr>last_poll = l, poll_retries = of_nat r, poll_now = n, poll_server = DefaultServer\<rparr>,
       rs_update = \<lparr>upgrade_to_installation = v1_set i, applied_package_uid = None\<rparr>,
       rs_path = [], persistent = False, v1_content = None\<rparr> }"

definition v1_parse_rs :: "env \<Rightarrow> string \<Rightarrow> string \<Rightarrow> rs_error + runtime_settings" where
  "v1_parse_rs E content json_err = (case ini_parse E content of
      Inl e \<Rightarrow> Inl (RsV1Parsing json_err e)
    | Inr j \<Rightarrow> ok_or (RsV1Parsing json_err ''invalid value'') (v1_decode E j))"

section \<open>Loading and saving\<close>

definition json_rs :: "env \<Rightarrow> string \<Rightarrow> string + runtime_settings" where
  "json_rs E content = res_bind (json_parse E content) (\<lambda>j. ok_or ''invalid value'' (dec_rs E j))"

definition rs_parse :: "env \<Rightarrow> string \<Rightarrow> rs_error + runtime_settings" where
  "rs_parse E content = (case json_rs E content of
      Inr r \<Rightarrow> Inr r
    | Inl e \<Rightarrow> if v1_parsing E
        then res_bind (v1_parse_rs E content e) (\<lambda>r. Inr (r\<lparr>v1_content := Some content\<rparr>))
        else Inl (RsSerdeJson e))"

definition rs_serialize :: "env \<Rightarrow> runtime_settings \<Rightarrow> string" where
  "rs_serialize E r = json_text E (enc_rs E r)"

definition rs_load :: "env \<Rightarrow> string \<Rightarrow> (sys, rs_error stop, runtime_settings) io" where
  "rs_load E path = (\<lambda>s.
     let (this, t) =
       (if fs_exists E path s
        then (case io_bind (io_map_err RsIo (fs_read E path)) (\<lambda>c. io_lift (rs_parse E c)) s of
            (Inr v, t) \<Rightarrow> (Some v, t)
          | (Inl e, t) \<Rightarrow>
             (case path_file_name path of
                None \<Rightarrow> (None, t)
              | Some f \<Rightarrow> (Some rs_default,
                  snd (fs_rename E path (path_with_file_name path (f @ ''.old'')) t))))
        else (Some rs_default, s))
     in (case this of None \<Rightarrow> (Inl Panics, t) | Some v \<Rightarrow> (Inr (v\<lparr>rs_path := path\<rparr>), t)))"

definition rs_save :: "env \<Rightarrow> runtime_settings \<Rightarrow> (sys, rs_error, unit) io" where
  "rs_save E r = (\<lambda>s.
     if \<not> persistent r then (Inr (), s)
     else (case path_parent (rs_path r) of
         None \<Rightarrow> (Inl InvalidDestination, s)
       | Some parent \<Rightarrow>
           io_then (if fs_exists E parent s then io_return ()
                    else io_map_err RsIo (fs_create_dir_all E parent))
             (io_map_err RsIo (fs_write E (rs_path r) (rs_serialize E r))) s))"

section \<open>Operations\<close>

type_synonym 'a rs_io = "(runtime_settings \<times> sys, rs_error, 'a) io"

definition save_self :: "env \<Rightarrow> unit rs_io" where
  "save_self E = (\<lambda>(r, s). case rs_save E r s of (res, t) \<Rightarrow> (res, (r, t)))"

definition set_self :: "(runtime_settings \<Rightarrow> runtime_settings) \<Rightarrow> unit rs_io" where
  "set_self f = io_modify (\<lambda>(r, s). (f r, s))"

definition get_inactive_installation_set :: "env \<Rightarrow> runtime_settings \<Rightarrow> (sys, rs_error, installation_set) io" where
  "get_inactive_installation_set E r = (case upgrade_to_installation (rs_update r) of
      Some a \<Rightarrow> io_return a
    | None \<Rightarrow> io_map_err RsFirmware (inactive E))"

definition enable_persistency :: "runtime_settings \<Rightarrow> runtime_settings" where
  "enable_persistency r = r\<lparr>persistent := True\<rparr>"

definition is_polling_forced :: "runtime_settings \<Rightarrow> bool" where
  "is_polling_forced r = poll_now (rs_polling r)"

definition upd_polling :: "(runtime_polling \<Rightarrow> runtime_polling) \<Rightarrow> runtime_settings \<Rightarrow> runtime_settings" where
  "upd_polling f r = r\<lparr>rs_polling := f (rs_polling r)\<rparr>"

definition upd_update :: "(runtime_update \<Rightarrow> runtime_update) \<Rightarrow> runtime_settings \<Rightarrow> runtime_settings" where
  "upd_update f r = r\<lparr>rs_update := f (rs_update r)\<rparr>"

definition disable_force_poll :: "env \<Rightarrow> unit rs_io" where
  "disable_force_poll E = io_then (set_self (upd_polling (\<lambda>p. p\<lparr>poll_now := False\<rparr>))) (save_self E)"

text \<open>\<open>retries += 1\<close> on \<open>usize\<close>; the release build wraps around.\<close>

definition inc_retries :: "runtime_settings \<Rightarrow> runtime_settings" where
  "inc_retries = upd_polling (\<lambda>p. p\<lparr>poll_retries := poll_retries p + 1\<rparr>)"

definition clear_retries :: "runtime_settings \<Rightarrow> runtime_settings" where
  "clear_retries = upd_polling (\<lambda>p. p\<lparr>poll_retries := 0\<rparr>)"

definition set_last_polling :: "env \<Rightarrow> int \<Rightarrow> unit rs_io" where
  "set_last_polling E t = io_then (set_self (upd_polling (\<lambda>p. p\<lparr>last_poll := t\<rparr>))) (save_self E)"

definition set_applied_package_uid :: "env \<Rightarrow> string \<Rightarrow> unit rs_io" where
  "set_applied_package_uid E u =
     io_then (set_self (upd_update (\<lambda>p. p\<lparr>applied_package_uid := Some u\<rparr>))) (save_self E)"

definition set_upgrading_to :: "env \<Rightarrow> installation_set \<Rightarrow> unit rs_io" where
  "set_upgrading_to E a =
     io_then (set_self (upd_update (\<lambda>p. p\<lparr>upgrade_to_installation := Some a\<rparr>))) (save_self E)"

definition custom_server_address :: "runtime_settings \<Rightarrow> string option" where
  "custom_server_address r = (case poll_server (rs_polling r) of CustomServer s \<Rightarrow> Some s | DefaultServer \<Rightarrow> None)"

definition set_custom_server_address :: "string \<Rightarrow> runtime_settings \<Rightarrow> runtime_settings" where
  "set_custom_server_address a = upd_polling (\<lambda>p. p\<lparr>poll_server := CustomServer a\<rparr>)"

definition reset_transient_settings :: "runtime_settings \<Rightarrow> runtime_settings" where
  "reset_transient_settings = upd_polling (\<lambda>p. p\<lparr>poll_server := DefaultServer\<rparr>)"

definition cleared_installation :: "runtime_settings \<Rightarrow> runtime_settings" where
  "cleared_installation r = upd_polling (\<lambda>p. p\<lparr>poll_now := True\<rparr>)
     (upd_update (\<lambda>u. u\<lparr>upgrade_to_installation := None, applied_package_uid := None\<rparr>) r)"

definition reset_installation_settings :: "env \<Rightarrow> unit rs_io" where
  "reset_installation_settings E = io_then (set_self cleared_installation) (save_self E)"

definition restore_v1_content :: "env \<Rightarrow> unit rs_io" where
  "restore_v1_content E = (\<lambda>(r, s). case v1_content r of
      None \<Rightarrow> (Inr (), (r, s))
    | Some c \<Rightarrow> (case io_map_err RsIo (fs_write E (rs_path r) c) s of (res, t) \<Rightarrow> (res, (r, t))))"

section \<open>The stored form and back\<close>

lemma dec_enc_set [simp]: "dec_set (enc_set a) = Some a"
  by (cases a) (simp_all add: dec_set_def)

lemma dec_enc_server [simp]: "dec_server (enc_server a) = Some a"
  by (cases a) simp_all

lemma dec_enc_update [simp]: "dec_update (enc_update u) = Some u"
  by (cases "upgrade_to_installation u"; cases "applied_package_uid u")
    (simp_all add: dec_update_def enc_update_def struct_fields_def skip_none_def opt_field_def,
     (cases "the (upgrade_to_installation u)"; simp add: dec_set_def)+)

lemma dec_enc_polling:
  "time_parse E (time_text E (last_poll p)) = Some (last_poll p) \<Longrightarrow> dec_polling E (enc_polling E p) = Some p"
  by (simp add: dec_polling_def enc_polling_def struct_fields_def field_def dec_time_def)

lemma dec_enc_rs:
  "time_parse E (time_text E (last_poll (rs_polling r))) = Some (last_poll (rs_polling r)) \<Longrightarrow>
   dec_rs E (enc_rs E r) = Some (r\<lparr>v1_content := None\<rparr>)"
  by (simp add: dec_rs_def enc_rs_def struct_fields_def field_def dec_enc_polling)

text \<open>The documented behaviour of \<open>serde_json\<close> and of RFC 3339 times, on the value to store.\<close>

definition text_round_trip :: "env \<Rightarrow> runtime_settings \<Rightarrow> bool" where
  "text_round_trip E r \<longleftrightarrow> json_parse E (json_text E (enc_rs E r)) = Inr (enc_rs E r) \<and>
     time_parse E (time_text E (last_poll (rs_polling r))) = Some (last_poll (rs_polling r))"

lemma rs_parse_serialize:
  "text_round_trip E r \<Longrightarrow> rs_parse E (rs_serialize E r) = Inr (r\<lparr>v1_content := None\<rparr>)"
  by (simp add: text_round_trip_def rs_parse_def rs_serialize_def json_rs_def dec_enc_rs io_simps)

definition readable :: "env \<Rightarrow> string \<Rightarrow> sys \<Rightarrow> bool" where
  "readable E p s \<longleftrightarrow> io_fault E FsMeta p s = None \<and> io_fault E FsRead p s = None"

lemma rs_load_stored:
  assumes "readable E p s" "node p s = Some n" "node_bytes n = Some (rs_serialize E r)"
    "text_round_trip E r"
  shows "rs_load E p s = (Inr (r\<lparr>v1_content := None, rs_path := p\<rparr>), s)"
  using assms
  by (simp add: rs_load_def readable_def fs_exists_def fs_read_after rs_parse_serialize io_simps Let_def)

lemma rs_save_volatile: "\<not> persistent r \<Longrightarrow> rs_save E r s = (Inr (), s)"
  by (simp add: rs_save_def)

lemma rs_save_stored:
  assumes "rs_save E r s = (Inr u, t)" "persistent r"
  shows "\<exists>n. node (rs_path r) t = Some n \<and> node_bytes n = Some (rs_serialize E r)"
  using assms
  by (auto simp: rs_save_def io_simps split: option.splits prod.splits sum.splits if_splits
      dest!: fs_write_Inr)

lemma path_parent_shorter: "path_parent p = Some d \<Longrightarrow> length d < length p"
proof -
  assume a: "path_parent p = Some d"
  have "length (dropWhile (\<lambda>c. c \<noteq> CHR ''/'') (rev p)) \<le> length p"
    using length_dropWhile_le [of _ "rev p"] by simp
  with a show ?thesis
    by (cases p) (auto simp: path_parent_def path_split_def Let_def split: if_splits)
qed

lemma fs_create_dir_all_longer:
  "fs_create_dir_all E d s = (r, t) \<Longrightarrow> length d < length q \<Longrightarrow> node q t = node q s"
  by (auto simp: fs_create_dir_all_def guarded_def mkdirs_longer simp del: mkdirs.simps
      split: option.splits fnode.splits)

text \<open>A failed save leaves the stored settings as they were.\<close>

lemma rs_save_failed:
  assumes "rs_save E r s = (Inl e, t)"
  shows "node (rs_path r) t = node (rs_path r) s"
  using assms
  by (auto simp: rs_save_def io_simps split: option.splits prod.splits sum.splits if_splits
      dest!: fs_write_Inl dest: fs_create_dir_all_longer path_parent_shorter)

lemma quiet_rs_save [frame]: "io_rel quiet (rs_save E r)"
proof (rule io_relI)
  fix s x t assume a: "rs_save E r s = (x, t)"
  show "quiet s t"
  proof (cases "persistent r \<and> (\<exists>d. path_parent (rs_path r) = Some d)")
    case True
    then obtain d where d: "persistent r" "path_parent (rs_path r) = Some d" by blast
    have "io_rel quiet (io_then (if fs_exists E d s then io_return ()
        else io_map_err RsIo (fs_create_dir_all E d))
      (io_map_err RsIo (fs_write E (rs_path r) (rs_serialize E r))))"
      by (intro frame) auto
    then show ?thesis using a d by (auto simp: rs_save_def dest: io_relD)
  next
    case False
    then show ?thesis using a by (auto simp: rs_save_def quiet_def split: option.splits if_splits)
  qed
qed

section \<open>The contract of the operations that store a change\<close>

text \<open>
  The five operations the states use to record progress have one contract: change the settings
  in memory, then write them. Its consequences are proved once.
\<close>

locale stored_change =
  fixes E :: env and op :: "unit rs_io" and upd :: "runtime_settings \<Rightarrow> runtime_settings"
  assumes op_eq: "op (r, s) = (case rs_save E (upd r) s of (res, t) \<Rightarrow> (res, (upd r, t)))"
    and upd_path: "rs_path (upd r) = rs_path r"
    and upd_persistent: "persistent (upd r) = persistent r"
begin

lemma in_memory: "op (r, s) = (res, (r', t)) \<Longrightarrow> r' = upd r"
  by (auto simp: op_eq split: prod.splits)

lemma is_quiet: "op (r, s) = (res, (r', t)) \<Longrightarrow> quiet s t"
  using io_relD [OF quiet_rs_save] by (auto simp: op_eq split: prod.splits)

lemma volatile: "\<not> persistent r \<Longrightarrow> op (r, s) = (Inr (), (upd r, s))"
  by (simp add: op_eq rs_save_volatile upd_persistent)

lemma failed_keeps_stored: "op (r, s) = (Inl e, (r', t)) \<Longrightarrow> node (rs_path r) t = node (rs_path r) s"
  using rs_save_failed [of E "upd r" s e t] by (auto simp: op_eq upd_path split: prod.splits)

lemma reloads:
  assumes "op (r, s) = (Inr u, (r', t))" "persistent r" "readable E (rs_path r) t" "text_round_trip E r'"
  shows "rs_load E (rs_path r) t = (Inr (r'\<lparr>v1_content := None\<rparr>), t)"
proof -
  from assms(1) have sv: "rs_save E (upd r) s = (Inr u, t)" and r': "r' = upd r"
    by (auto simp: op_eq split: prod.splits)
  obtain n where "node (rs_path (upd r)) t = Some n" "node_bytes n = Some (rs_serialize E (upd r))"
    using rs_save_stored [OF sv] assms(2) by (auto simp: upd_persistent)
  then have "rs_load E (rs_path r) t = (Inr ((upd r)\<lparr>v1_content := None, rs_path := rs_path r\<rparr>), t)"
    using assms(3,4) r' by (intro rs_load_stored) (simp_all add: upd_path)
  then show ?thesis using upd_path [of r] by (simp add: r')
qed

end

lemma stored_changeI:
  "(\<And>r. rs_path (upd r) = rs_path r) \<Longrightarrow> (\<And>r. persistent (upd r) = persistent r) \<Longrightarrow>
   stored_change E (io_then (set_self upd) (save_self E)) upd"
  by unfold_locales (auto simp: io_simps set_self_def save_self_def)

interpretation force_poll_off: stored_change E "disable_force_poll E"
    "upd_polling (\<lambda>p. p\<lparr>poll_now := False\<rparr>)" for E
  unfolding disable_force_poll_def by (rule stored_changeI) (simp_all add: upd_polling_def)

interpretation last_poll_set: stored_change E "set_last_polling E t"
    "upd_polling (\<lambda>p. p\<lparr>last_poll := t\<rparr>)" for E t
  unfolding set_last_polling_def by (rule stored_changeI) (simp_all add: upd_polling_def)

interpretation applied_set: stored_change E "set_applied_package_uid E u"
    "upd_update (\<lambda>p. p\<lparr>applied_package_uid := Some u\<rparr>)" for E u
  unfolding set_applied_package_uid_def by (rule stored_changeI) (simp_all add: upd_update_def)

interpretation upgrading_set: stored_change E "set_upgrading_to E a"
    "upd_update (\<lambda>p. p\<lparr>upgrade_to_installation := Some a\<rparr>)" for E a
  unfolding set_upgrading_to_def by (rule stored_changeI) (simp_all add: upd_update_def)

interpretation installation_reset: stored_change E "reset_installation_settings E"
    cleared_installation for E
  unfolding reset_installation_settings_def
  by (rule stored_changeI) (simp_all add: cleared_installation_def upd_polling_def upd_update_def)

section \<open>Properties\<close>

text \<open>An upgrade recorded before a restart is known after it: when the set an installation
  went to has been stored, loading the runtime settings gives that set, and the other settings as
  they were.\<close>

lemma upgrade_survives_restart:
  assumes "set_upgrading_to E a (r, s) = (Inr u, (r', t))" and "persistent r"
    and "readable E (rs_path r) t" and "text_round_trip E r'"
  shows "rs_load E (rs_path r) t = (Inr ((upd_update (\<lambda>p. p\<lparr>upgrade_to_installation := Some a\<rparr>) r)\<lparr>v1_content := None\<rparr>), t)"
  using upgrading_set.reloads [OF assms] upgrading_set.in_memory [OF assms(1)] by simp

definition example_rs :: runtime_settings where
  "example_rs = rs_default\<lparr>rs_path := ''/rs'', persistent := True\<rparr>"

lemma upgrade_survives_restart_witness:
  "let r' = upd_update (\<lambda>p. p\<lparr>upgrade_to_installation := Some InstB\<rparr>) example_rs;
       E = example_env\<lparr>json_parse := \<lambda>_. Inr (enc_rs example_env r'), time_parse := \<lambda>_. Some (last_poll (rs_polling rs_default))\<rparr>
   in \<exists>t. set_upgrading_to E InstB (example_rs, example_sys) = (Inr (), (r', t)) \<and>
      (case fst (rs_load E ''/rs'' t) of Inr q \<Rightarrow> upgrade_to_installation (rs_update q) = Some InstB | Inl _ \<Rightarrow> False)"
proof -
  let ?r' = "upd_update (\<lambda>p. p\<lparr>upgrade_to_installation := Some InstB\<rparr>) example_rs"
  let ?E = "example_env\<lparr>json_parse := \<lambda>_. Inr (enc_rs example_env ?r'), time_parse := \<lambda>_. Some (last_poll (rs_polling rs_default))\<rparr>"
  have par: "path_parent ''/rs'' = Some ''/''" by code_simp
  let ?s = "if node ''/'' example_sys = None then snd (fs_create_dir_all ?E ''/'' example_sys) else example_sys"
  have st: "set_upgrading_to ?E InstB (example_rs, example_sys) =
      (case rs_save ?E ?r' example_sys of (res, t) \<Rightarrow> (res, (?r', t)))"
    by (rule upgrading_set.op_eq)
  have ok: "is_ok (fst (rs_save ?E ?r' example_sys))" by code_simp
  then obtain t where sv: "rs_save ?E ?r' example_sys = (Inr (), t)"
    by (cases "rs_save ?E ?r' example_sys") (auto simp: is_ok_def split: sum.splits)
  then have op: "set_upgrading_to ?E InstB (example_rs, example_sys) = (Inr (), (?r', t))" using st by simp
  have rd: "readable ?E (rs_path example_rs) t" by (simp add: readable_def example_env_def)
  have "enc_rs ?E ?r' = enc_rs example_env ?r'" by (simp add: enc_rs_def enc_polling_def example_env_def)
  then have tr: "text_round_trip ?E ?r'"
    by (simp add: text_round_trip_def upd_update_def example_rs_def rs_default_def)
  have "persistent example_rs" by (simp add: example_rs_def)
  from upgrade_survives_restart [OF op this rd tr]
  have "rs_load ?E ''/rs'' t = (Inr (?r'\<lparr>v1_content := None\<rparr>), t)" by (simp add: example_rs_def)
  then have "case fst (rs_load ?E ''/rs'' t) of Inr q \<Rightarrow> upgrade_to_installation (rs_update q) = Some InstB | Inl _ \<Rightarrow> False"
    by (simp add: upd_update_def)
  with op show ?thesis unfolding Let_def by blast
qed

text \<open>Loading the runtime settings never reports an error, although its documentation says
  so: a file that is missing, unreadable or of no known format gives the default settings, and
  only a path without a file name can stop the agent.\<close>

lemma load_never_fails:
  "fst (rs_load E path s) \<noteq> Inl (Fails e) \<and> fst (rs_load E path s) \<noteq> Inl Blocks \<and>
   (path_file_name path \<noteq> None \<longrightarrow> is_ok (fst (rs_load E path s)))"
  by (auto simp: rs_load_def Let_def is_ok_def split: prod.splits sum.splits option.splits if_splits)

lemma load_never_fails_witness:
  "path_file_name ''/rs'' \<noteq> None \<and> is_ok (fst (rs_load example_env ''/rs'' example_sys))"
proof -
  have "path_file_name ''/rs'' \<noteq> None" by code_simp
  with load_never_fails [of example_env "''/rs''" example_sys] show ?thesis by blast
qed

text \<open>On a device whose settings are not persistent, recording progress changes the settings
  in memory and does not touch the disk.\<close>

lemma volatile_settings_stay_in_memory:
  assumes "\<not> persistent r"
  shows "set_applied_package_uid E u (r, s) = (Inr (), (upd_update (\<lambda>p. p\<lparr>applied_package_uid := Some u\<rparr>) r, s)) \<and>
    set_upgrading_to E a (r, s) = (Inr (), (upd_update (\<lambda>p. p\<lparr>upgrade_to_installation := Some a\<rparr>) r, s)) \<and>
    set_last_polling E i (r, s) = (Inr (), (upd_polling (\<lambda>p. p\<lparr>last_poll := i\<rparr>) r, s)) \<and>
    disable_force_poll E (r, s) = (Inr (), (upd_polling (\<lambda>p. p\<lparr>poll_now := False\<rparr>) r, s)) \<and>
    reset_installation_settings E (r, s) = (Inr (), (cleared_installation r, s))"
  by (intro conjI applied_set.volatile upgrading_set.volatile last_poll_set.volatile force_poll_off.volatile
      installation_reset.volatile assms)

lemma volatile_settings_stay_in_memory_witness:
  "\<not> persistent rs_default \<and> snd (snd (set_upgrading_to example_env InstA (rs_default, example_sys))) = example_sys"
proof -
  have "\<not> persistent rs_default" by (simp add: rs_default_def)
  then show ?thesis using volatile_settings_stay_in_memory [of rs_default example_env "[]" example_sys InstA 0] by simp
qed

end
