(* ===== verification/UH_Errors.thy ===== *)
theory UH_Errors
  imports UH_Installers UH_Runtime_Settings
begin

text \<open>
  The error types above the components (\<open>states/mod.rs\<close>, \<open>lib.rs\<close>) and the text of an error, as
  it is reported to the server. The text of an error of another library is a parameter; where
  such an error carries no value here its text is \<open>fixed_text\<close> of its name.
\<close>

datatype transition_error = SomeObjectsAreNotReady | SignatureNotFound | CommunicationFailed
  | TeFirmware firmware_error | TeInstallation object_error | TeRuntimeSettings rs_error
  | TeUpdatePackage pkg_error | TeClient cloud_error | TeUncompress archive_error
  | TeSerdeJson string | TeIo io_error | TeNonUtf8 | TeProcess process_error

datatype agent_error = AeRuntimeSettings rs_error | AeSettings settings_error
  | AeFirmware firmware_error | AeIo io_error | AeProcess process_error | AeAddrParse

definition squote :: string where
  "squote = [CHR 0x27]"

fun firmware_error_text :: "env \<Rightarrow> firmware_error \<Rightarrow> string" where
  "firmware_error_text E InvalidProductUid = ''invalid product UID''"
| "firmware_error_text E MissingProductUid = ''product UID is missing''"
| "firmware_error_text E MissingDeviceIdentity = ''device identity is missing''"
| "firmware_error_text E InvalidInstallSet = ''invalid installation set, the only know ones are 0 or 1''"
| "firmware_error_text E (FwWalkdir e) = io_text E e"
| "firmware_error_text E (FwIo e) = io_text E e"
| "firmware_error_text E (FwProcess e) = process_text E e"

fun rs_error_text :: "env \<Rightarrow> rs_error \<Rightarrow> string" where
  "rs_error_text E (RsIo e) = io_text E e"
| "rs_error_text E (RsSerdeJson e) = e"
| "rs_error_text E (RsFirmware e) = firmware_error_text E e"
| "rs_error_text E InvalidDestination = ''invalid runtime settings destination''"
| "rs_error_text E (RsV1Parsing j i) = ''parsing error: json: '' @ j @ '', ini: '' @ i"

fun cloud_error_text :: "env \<Rightarrow> cloud_error \<Rightarrow> string" where
  "cloud_error_text E InvalidSignature = ''Package'' @ squote @ ''s signature validation has failed''"
| "cloud_error_text E MissingContentLength = ''Http response is missing Content Length''"
| "cloud_error_text E (CloudIo e) = io_text E e"
| "cloud_error_text E (JsonParsing e) = e"
| "cloud_error_text E (OpenSsl e) = e"
| "cloud_error_text E ParseInt = fixed_text E ''ParseInt''"
| "cloud_error_text E (HttpFailed e) = http_text E e"
| "cloud_error_text E (InvalidStatusResponse n) = ''Invalid status response: '' @ status_text E n"
| "cloud_error_text E HeaderParse = ''Invalid header value: '' @ fixed_text E ''HeaderParse''"
| "cloud_error_text E UrlParse = ''Invalid url: '' @ fixed_text E ''UrlParse''"

fun utils_error_text :: "env \<Rightarrow> utils_error \<Rightarrow> string" where
  "utils_error_text E (UIo e) = io_text E e"
| "utils_error_text E (UNix e) = io_text E e"
| "utils_error_text E (UUncompress e) = archive_text E e"
| "utils_error_text E (UProcess e) = process_text E e"
| "utils_error_text E StripPrefixError = fixed_text E ''StripPrefix''"
| "utils_error_text E (DeviceDoesNotExist p) = path_debug p @ '' target device does not exists''"
| "utils_error_text E (MissingWritePermission p) =
     ''user doesn'' @ squote @ ''t have write permission on target device: '' @ path_debug p"
| "utils_error_text E (DeviceInUse d m) = ''target device '' @ path_debug d
     @ '' is in use, it holds the filesystem mounted at '' @ path_debug m"
| "utils_error_text E (NotEnoughSpace a r) = show_nat (unat a)
     @ '' is not enough storage space for installation, at least '' @ show_nat (unat r) @ '' is required''"
| "utils_error_text E (ExecutableNotInPath c) = squote @ c @ squote @ '' not found on PATH''"
| "utils_error_text E (NoUbiVolume v) = ''unable to find Ubi Volume: '' @ v"
| "utils_error_text E (NoMtdDevice v) = ''unable to find match for mtd device: '' @ v"
| "utils_error_text E (BitaArchiveIO t) = ''bita operation failed due to io error: '' @ t"
| "utils_error_text E (BitaArchiveRemote t) = ''bita operation failed due to remote read error: '' @ t"
| "utils_error_text E (BitaRemote t) = ''bita operation failed due to remote read error: '' @ t"
| "utils_error_text E (BitaCompression t) = ''bita operation failed due to compression error: '' @ t"
| "utils_error_text E (BitaHashSum t) = ''bita operation failed due to hash sum mismatch error: '' @ t"
| "utils_error_text E BitaUrl = ''bita operation failed due to invalid url: '' @ fixed_text E ''UrlParse''"

definition target_type_debug :: "target_type \<Rightarrow> string" where
  "target_type_debug t = (case t of
      Device d \<Rightarrow> ''Device('' @ path_debug d @ '')''
    | UBIVolume v \<Rightarrow> ''UBIVolume('' @ path_debug v @ '')''
    | MTDName v \<Rightarrow> ''MTDName('' @ path_debug v @ '')'')"

fun object_error_text :: "env \<Rightarrow> object_error \<Rightarrow> string" where
  "object_error_text E InvalidPath = ''invalid path formed''"
| "object_error_text E FwSetEnvNoScriptOption =
     squote @ ''fw_setenv'' @ squote @ '' does not support the --script command line option''"
| "object_error_text E Unsupported = ''unsupported object model''"
| "object_error_text E (ObjUtils e) = utils_error_text E e"
| "object_error_text E (ObjFirmware e) = firmware_error_text E e"
| "object_error_text E (InvalidTargetType t) = ''invalid target type '' @ target_type_debug t"
| "object_error_text E (ObjIo e) = io_text E e"
| "object_error_text E (ObjProcess e) = process_text E e"
| "object_error_text E (ObjUncompress e) = archive_text E e"

fun pkg_error_text :: "env \<Rightarrow> pkg_error \<Rightarrow> string" where
  "pkg_error_text E (PkgIo e) = io_text E e"
| "pkg_error_text E (PkgCloud e) = cloud_error_text E e"
| "pkg_error_text E (IncompatibleHardware h) = h"
| "pkg_error_text E (IncompatibleInstallMode m) = ''Install mode not accepted: '' @ m"

fun transition_error_text :: "env \<Rightarrow> transition_error \<Rightarrow> string" where
  "transition_error_text E SomeObjectsAreNotReady = ''some objects are not ready for use''"
| "transition_error_text E SignatureNotFound = ''signature not found''"
| "transition_error_text E CommunicationFailed = ''channel communication as failed''"
| "transition_error_text E (TeFirmware e) = firmware_error_text E e"
| "transition_error_text E (TeInstallation e) = object_error_text E e"
| "transition_error_text E (TeRuntimeSettings e) = rs_error_text E e"
| "transition_error_text E (TeUpdatePackage e) = pkg_error_text E e"
| "transition_error_text E (TeClient e) = cloud_error_text E e"
| "transition_error_text E (TeUncompress e) = archive_text E e"
| "transition_error_text E (TeSerdeJson e) = e"
| "transition_error_text E (TeIo e) = io_text E e"
| "transition_error_text E TeNonUtf8 = fixed_text E ''NonUtf8''"
| "transition_error_text E (TeProcess e) = process_text E e"

fun settings_error_text :: "env \<Rightarrow> settings_error \<Rightarrow> string" where
  "settings_error_text E (SetIo e) = io_text E e"
| "settings_error_text E (SetDeserialize e) = e"
| "settings_error_text E TooSmallPollingInterval =
     ''invalid setting for polling interval, it cannot be less than 60 seconds''"
| "settings_error_text E ServerAddressWithoutProtocol =
     ''invalid setting for server address, it must use the protocol prefix''"
| "settings_error_text E (SetV1Parsing t i) = ''parsing error: toml: '' @ t @ '', ini: '' @ i"

fun agent_error_text :: "env \<Rightarrow> agent_error \<Rightarrow> string" where
  "agent_error_text E (AeRuntimeSettings e) = rs_error_text E e"
| "agent_error_text E (AeSettings e) = settings_error_text E e"
| "agent_error_text E (AeFirmware e) = firmware_error_text E e"
| "agent_error_text E (AeIo e) = io_text E e"
| "agent_error_text E (AeProcess e) = process_text E e"
| "agent_error_text E AeAddrParse = fixed_text E ''AddrParse''"

section \<open>UTF-8\<close>

definition byte_in :: "nat \<Rightarrow> nat \<Rightarrow> char \<Rightarrow> bool" where
  "byte_in a b c \<longleftrightarrow> (let n = (of_char c :: nat) in a \<le> n \<and> n \<le> b)"

abbreviation continuation :: "char \<Rightarrow> bool" where
  "continuation \<equiv> byte_in 128 191"

text \<open>\<open>str::from_utf8\<close> accepts.\<close>

fun utf8_ok :: "string \<Rightarrow> bool" where
  "utf8_ok [] = True"
| "utf8_ok (a # s) =
     (if byte_in 0 127 a then utf8_ok s
      else if byte_in 194 223 a then (case s of b # t \<Rightarrow> continuation b \<and> utf8_ok t | _ \<Rightarrow> False)
      else if byte_in 224 239 a then
        (case s of b # c # t \<Rightarrow>
            byte_in (if byte_in 224 224 a then 160 else 128) (if byte_in 237 237 a then 159 else 191) b
            \<and> continuation c \<and> utf8_ok t | _ \<Rightarrow> False)
      else if byte_in 240 244 a then
        (case s of b # c # d # t \<Rightarrow>
            byte_in (if byte_in 240 240 a then 144 else 128) (if byte_in 244 244 a then 143 else 191) b
            \<and> continuation c \<and> continuation d \<and> utf8_ok t | _ \<Rightarrow> False)
      else False)"

end
