(* ===== verification/UH_Log.thy ===== *)
theory UH_Log
  imports UH_Serde
begin

text \<open>
  \<open>updatehub/src/mem_drain.rs\<close> and \<open>logger.rs\<close>: the log the agent keeps in memory, with its
  bound, the counting of repeats and the scope of an operation; and the loop of
  \<open>updatehub client log --watch\<close> (\<open>main.rs\<close>) that prints it.

  Counters that only ever count entries (\<open>inserted\<close>, \<open>occurrences\<close>) are natural numbers.
\<close>

section \<open>Records\<close>

record log_record =
  level :: string
  message :: string
  time :: string
  data :: "(string \<times> string) list"  \<comment> \<open>\<open>HashMap\<close>: distinct keys, in no order\<close>
  occurrences :: nat

record records =
  entries :: "log_record list"
  bytes :: nat
  inserted :: nat

record mem_drain =
  records :: records
  logging :: bool

definition MAX_RECORDED_BYTES :: nat where
  "MAX_RECORDED_BYTES = 1024 * 1024"

text \<open>\<open>size_of\<close> of a record on a 64-bit target: three strings, a map and a counter.\<close>

definition LOG_RECORD_SIZE :: nat where
  "LOG_RECORD_SIZE = 128"

definition record_size :: "log_record \<Rightarrow> nat" where
  "record_size r = LOG_RECORD_SIZE + length (level r) + length (message r) + length (time r)
     + sum_list (map (\<lambda>(k, v). length k + length v) (data r))"

definition repeats :: "log_record \<Rightarrow> log_record \<Rightarrow> bool" where
  "repeats a b \<longleftrightarrow> level a = level b \<and> message a = message b \<and> set (data a) = set (data b)"

definition shown_message :: "log_record \<Rightarrow> string" where
  "shown_message r = (if occurrences r > 1
     then message r @ '' (repeated '' @ show_nat (occurrences r) @ '' times)'' else message r)"

definition first_index :: "records \<Rightarrow> nat" where
  "first_index r = inserted r - length (entries r)"

definition clear_records :: "records \<Rightarrow> records" where
  "clear_records r = r\<lparr>entries := [], bytes := 0\<rparr>"

text \<open>The loop that drops the oldest entries while the bound is exceeded.\<close>

fun evict :: "log_record list \<Rightarrow> nat \<Rightarrow> log_record list \<times> nat" where
  "evict (e # f # es) b =
     (if b > MAX_RECORDED_BYTES then evict (f # es) (b - record_size e) else (e # f # es, b))"
| "evict es b = (es, b)"

definition push_record :: "log_record \<Rightarrow> records \<Rightarrow> records" where
  "push_record e r =
     (if entries r \<noteq> [] \<and> repeats (last (entries r)) e
      then r\<lparr>entries := butlast (entries r) @
             [(last (entries r))\<lparr>occurrences := occurrences (last (entries r)) + 1\<rparr>]\<rparr>
      else case evict (entries r @ [e]) (bytes r + record_size e) of
        (es, b) \<Rightarrow> r\<lparr>entries := es, bytes := b, inserted := inserted r + 1\<rparr>)"

section \<open>The drain\<close>

definition drain_default :: mem_drain where
  "drain_default = \<lparr>records = \<lparr>entries = [], bytes = 0, inserted = 0\<rparr>, logging = False\<rparr>"

definition start_logging :: "mem_drain \<Rightarrow> mem_drain" where
  "start_logging d = d\<lparr>records := clear_records (records d), logging := True\<rparr>"

definition stop_logging :: "mem_drain \<Rightarrow> mem_drain" where
  "stop_logging d = d\<lparr>logging := False\<rparr>"

definition set_logging :: "bool \<Rightarrow> mem_drain \<Rightarrow> mem_drain" where
  "set_logging b d = d\<lparr>logging := b\<rparr>"

definition drain_log :: "log_record \<Rightarrow> mem_drain \<Rightarrow> mem_drain" where
  "drain_log e d = (if logging d then d\<lparr>records := push_record e (records d)\<rparr> else d)"

text \<open>\<open>record_out_of_scope\<close>: what \<open>f\<close> logs is kept, and the scope is restored.\<close>

definition record_out_of_scope :: "(mem_drain \<Rightarrow> mem_drain) \<Rightarrow> mem_drain \<Rightarrow> mem_drain" where
  "record_out_of_scope f d = set_logging (logging d) (f (set_logging True d))"

text \<open>\<open>str::replace\<close>.\<close>

function replace_all :: "string \<Rightarrow> string \<Rightarrow> string \<Rightarrow> string" where
  "replace_all p v s =
     (if p = [] then v @ concat (map (\<lambda>c. c # v) s)
      else (case s of [] \<Rightarrow> []
        | c # cs \<Rightarrow> (case strip_prefix p s of Some r \<Rightarrow> v @ replace_all p v r | None \<Rightarrow> c # replace_all p v cs)))"
  by pat_completeness auto
termination
  by (relation "measure (\<lambda>(p, v, s). length s)") (auto simp: strip_prefix_iff)

declare replace_all.simps [simp del]

definition record_line :: "log_record \<Rightarrow> string" where
  "record_line r = time r @ '' '' @ level r @ '' '' @
     foldl (\<lambda>m (k, v). replace_all k v m) (shown_message r) (data r) @ [newline]"

definition memory_log :: "mem_drain \<Rightarrow> string" where
  "memory_log d = concat (map record_line (entries (records d)))"

definition enc_record :: "log_record \<Rightarrow> json" where
  "enc_record r = JObj [(''level'', JStr (level r)), (''message'', JStr (shown_message r)),
     (''time'', JStr (time r)), (''data'', JObj (map (\<lambda>(k, v). (k, JStr v)) (data r)))]"

definition enc_drain :: "mem_drain \<Rightarrow> json" where
  "enc_drain d = JObj [(''entries'', JArr (map enc_record (entries (records d)))),
     (''first_index'', JNum (int (first_index (records d))))]"

section \<open>The watching client\<close>

text \<open>One answer of the agent: the absolute index of its first entry, and the entries.\<close>

type_synonym 'e answer = "nat \<times> 'e list"

text \<open>A turn of the loop: what is printed, and the index to print next.\<close>

definition watch_turn :: "nat \<Rightarrow> 'e answer \<Rightarrow> 'e list \<times> nat" where
  "watch_turn nxt a = (let nxt' = max nxt (fst a) in
     (drop (nxt' - fst a) (snd a), fst a + length (snd a)))"

fun watch :: "nat \<Rightarrow> 'e answer list \<Rightarrow> 'e list" where
  "watch nxt [] = []"
| "watch nxt (a # as) = fst (watch_turn nxt a) @ watch (snd (watch_turn nxt a)) as"

section \<open>The records stay well formed\<close>

definition records_ok :: "records \<Rightarrow> bool" where
  "records_ok r \<longleftrightarrow> bytes r = sum_list (map record_size (entries r)) \<and>
     (bytes r \<le> MAX_RECORDED_BYTES \<or> length (entries r) \<le> 1) \<and>
     length (entries r) \<le> inserted r \<and>
     successively (\<lambda>a b. \<not> repeats a b) (entries r)"

lemma record_size_occurrences [simp]: "record_size (r\<lparr>occurrences := n\<rparr>) = record_size r"
  by (simp add: record_size_def)

lemma repeats_occurrences [simp]:
  "repeats (a\<lparr>occurrences := n\<rparr>) b = repeats a b" "repeats a (b\<lparr>occurrences := n\<rparr>) = repeats a b"
  by (simp_all add: repeats_def)

lemma evict_spec:
  assumes "evict es b = (es', b')" "b = sum_list (map record_size es)" "es \<noteq> []"
  shows "\<exists>old. es = old @ es' \<and> es' \<noteq> [] \<and> b' = sum_list (map record_size es') \<and>
    (b' \<le> MAX_RECORDED_BYTES \<or> length es' \<le> 1)"
  using assms
proof (induction es b arbitrary: es' b' rule: evict.induct)
  case (1 e f es b)
  show ?case
  proof (cases "b > MAX_RECORDED_BYTES")
    case True
    have ev: "evict (f # es) (b - record_size e) = (es', b')" using 1(2) True by simp
    have sz: "b - record_size e = sum_list (map record_size (f # es))" using 1(3) by simp
    obtain old where "f # es = old @ es'" "es' \<noteq> []" "b' = sum_list (map record_size es')"
      "b' \<le> MAX_RECORDED_BYTES \<or> length es' \<le> 1"
      using 1(1) [OF True ev sz] by blast
    then show ?thesis by (intro exI [of _ "e # old"]) simp
  next
    case False
    then show ?thesis using 1(2,3) by (intro exI [of _ "[]"]) auto
  qed
qed auto

lemma successively_snoc:
  "successively P (xs @ [x]) \<longleftrightarrow> successively P xs \<and> (xs = [] \<or> P (last xs) x)"
  by (induction xs rule: induct_list012) auto

lemma successively_suffix: "successively P (xs @ ys) \<Longrightarrow> successively P ys"
  by (simp add: successively_append_iff)

lemma push_record_cases:
  obtains (repeat) init l where "entries r = init @ [l]" "repeats l e"
      "push_record e r = r\<lparr>entries := init @ [l\<lparr>occurrences := occurrences l + 1\<rparr>]\<rparr>"
    | (fresh) es b where "entries r = [] \<or> \<not> repeats (last (entries r)) e"
      "evict (entries r @ [e]) (bytes r + record_size e) = (es, b)"
      "push_record e r = r\<lparr>entries := es, bytes := b, inserted := inserted r + 1\<rparr>"
proof (cases "entries r \<noteq> [] \<and> repeats (last (entries r)) e")
  case True
  then show thesis
    by (intro repeat [of "butlast (entries r)" "last (entries r)"]) (auto simp: push_record_def)
next
  case False
  obtain es b where "evict (entries r @ [e]) (bytes r + record_size e) = (es, b)" by fastforce
  with False show thesis by (intro fresh [of es b]) (auto simp: push_record_def)
qed

lemma records_ok_push: "records_ok r \<Longrightarrow> records_ok (push_record e r)"
proof -
  assume ok: "records_ok r"
  show ?thesis
  proof (cases rule: push_record_cases [of r e])
    case (repeat init l)
    then show ?thesis using ok by (auto simp: records_ok_def successively_snoc)
  next
    case (fresh es b)
    have "bytes r + record_size e = sum_list (map record_size (entries r @ [e]))"
      using ok by (simp add: records_ok_def)
    from evict_spec [OF fresh(2) this] obtain old where old: "entries r @ [e] = old @ es"
      "b = sum_list (map record_size es)" "b \<le> MAX_RECORDED_BYTES \<or> length es \<le> 1" by auto
    have "successively (\<lambda>a b. \<not> repeats a b) (entries r @ [e])"
      using ok fresh(1) by (auto simp: records_ok_def successively_snoc)
    then have "successively (\<lambda>a b. \<not> repeats a b) es" using old(1) successively_suffix by metis
    moreover have "length es \<le> inserted r + 1"
      using arg_cong [OF old(1), of length] ok by (simp add: records_ok_def)
    ultimately show ?thesis using old fresh(3) by (simp add: records_ok_def)
  qed
qed

lemma records_ok_clear: "records_ok r \<Longrightarrow> records_ok (clear_records r)"
  by (simp add: records_ok_def clear_records_def)

lemma first_index_push: "records_ok r \<Longrightarrow> first_index r \<le> first_index (push_record e r)"
proof -
  assume ok: "records_ok r"
  show ?thesis
  proof (cases rule: push_record_cases [of r e])
    case (repeat init l)
    then show ?thesis by (simp add: first_index_def)
  next
    case (fresh es b)
    have "bytes r + record_size e = sum_list (map record_size (entries r @ [e]))"
      using ok by (simp add: records_ok_def)
    from evict_spec [OF fresh(2) this] obtain old where "entries r @ [e] = old @ es" by auto
    from arg_cong [OF this, of length] show ?thesis using fresh(3) by (simp add: first_index_def)
  qed
qed

lemma inserted_push: "inserted r \<le> inserted (push_record e r)"
  by (cases rule: push_record_cases [of r e]) simp_all

section \<open>What can happen to the drain\<close>

inductive drain_step :: "mem_drain \<Rightarrow> mem_drain \<Rightarrow> bool" where
  start: "drain_step d (start_logging d)"
| stop: "drain_step d (stop_logging d)"
| set: "drain_step d (set_logging b d)"
| log: "drain_step d (drain_log e d)"

definition drain_ok :: "mem_drain \<Rightarrow> bool" where
  "drain_ok d \<longleftrightarrow> records_ok (records d)"

definition drain_first :: "mem_drain \<Rightarrow> nat" where
  "drain_first d = first_index (records d)"

definition drain_total :: "mem_drain \<Rightarrow> nat" where
  "drain_total d = inserted (records d)"

definition drain_entries :: "mem_drain \<Rightarrow> log_record list" where
  "drain_entries d = entries (records d)"

lemma drain_step_ok: "drain_step d d' \<Longrightarrow> drain_ok d \<Longrightarrow> drain_ok d'"
  by (induction rule: drain_step.induct)
    (simp_all add: drain_ok_def start_logging_def stop_logging_def set_logging_def drain_log_def
      records_ok_push records_ok_clear)

lemma first_index_clear: "first_index r \<le> first_index (clear_records r)"
  by (simp add: first_index_def clear_records_def)

lemma drain_step_first: "drain_step d d' \<Longrightarrow> drain_ok d \<Longrightarrow> drain_first d \<le> drain_first d'"
  by (induction rule: drain_step.induct)
    (simp_all add: drain_ok_def drain_first_def start_logging_def stop_logging_def set_logging_def
      drain_log_def first_index_push first_index_clear)

lemma drain_step_total: "drain_step d d' \<Longrightarrow> drain_total d \<le> drain_total d'"
  by (induction rule: drain_step.induct)
    (simp_all add: drain_total_def start_logging_def stop_logging_def set_logging_def
      drain_log_def inserted_push clear_records_def)

text \<open>
  What a reader relies on: the entries held are numbered up to the total, and neither the
  number of the first one nor the total ever goes back.
\<close>

locale log_source =
  fixes step :: "'d \<Rightarrow> 'd \<Rightarrow> bool" and good :: "'d \<Rightarrow> bool" and first_of :: "'d \<Rightarrow> nat"
    and total_of :: "'d \<Rightarrow> nat" and held :: "'d \<Rightarrow> 'e list"
  assumes good_step: "good d \<Longrightarrow> step d d' \<Longrightarrow> good d'"
    and numbered: "good d \<Longrightarrow> first_of d + length (held d) = total_of d"
    and first_step: "good d \<Longrightarrow> step d d' \<Longrightarrow> first_of d \<le> first_of d'"
    and total_step: "good d \<Longrightarrow> step d d' \<Longrightarrow> total_of d \<le> total_of d'"
begin

lemma steps_mono:
  "step\<^sup>*\<^sup>* d d' \<Longrightarrow> good d \<Longrightarrow> good d' \<and> first_of d \<le> first_of d' \<and> total_of d \<le> total_of d'"
  by (induction rule: rtranclp_induct) (auto dest: good_step first_step total_step)

text \<open>The successive states a reader sees, each after the one before.\<close>

fun seen_in_order :: "'d list \<Rightarrow> bool" where
  "seen_in_order (d # d' # ds) \<longleftrightarrow> step\<^sup>*\<^sup>* d d' \<and> seen_in_order (d' # ds)"
| "seen_in_order ds \<longleftrightarrow> True"

definition numbers :: "'d \<Rightarrow> nat answer" where
  "numbers d = (first_of d, [first_of d..<total_of d])"

lemma watch_numbers:
  assumes "good d" "seen_in_order (d # ds)" "nxt \<le> total_of d"
  shows "sorted_wrt (<) (watch nxt (map numbers (d # ds))) \<and>
    set (watch nxt (map numbers (d # ds))) = {i. nxt \<le> i \<and> (\<exists>x \<in> set (d # ds). first_of x \<le> i \<and> i < total_of x)}"
  using assms
proof (induction ds arbitrary: d nxt)
  case Nil
  then show ?case by (auto simp: numbers_def watch_turn_def drop_upt)
next
  case (Cons d' ds)
  have le: "first_of d \<le> total_of d" using numbered [OF Cons.prems(1)] by simp
  have d': "good d'" "first_of d \<le> first_of d'" "total_of d \<le> total_of d'"
    using steps_mono [of d d'] Cons.prems by auto
  have IH: "sorted_wrt (<) (watch (total_of d) (map numbers (d' # ds)))"
    "set (watch (total_of d) (map numbers (d' # ds))) =
      {i. total_of d \<le> i \<and> (\<exists>x \<in> set (d' # ds). first_of x \<le> i \<and> i < total_of x)}"
    using Cons.IH [of d' "total_of d"] Cons.prems d' by auto
  have later: "first_of d \<le> first_of x" if "x \<in> set (d' # ds)" for x
    using that d'(1,2) Cons.prems(2)
  proof (induction ds arbitrary: d')
    case (Cons y ys)
    have y: "good y" "first_of d \<le> first_of y" "step\<^sup>*\<^sup>* d y"
      using Cons.prems steps_mono [of d' y] by auto
    show ?case using Cons.IH [of y] Cons.prems y by auto
  qed auto
  have eq: "watch nxt (map numbers (d # d' # ds)) =
      [max nxt (first_of d)..<total_of d] @ watch (total_of d) (map numbers (d' # ds))"
    using le by (simp add: numbers_def watch_turn_def drop_upt)
  show ?case
  proof
    show "sorted_wrt (<) (watch nxt (map numbers (d # d' # ds)))"
      unfolding eq sorted_wrt_append using IH by auto
    show "set (watch nxt (map numbers (d # d' # ds))) =
        {i. nxt \<le> i \<and> (\<exists>x \<in> set (d # d' # ds). first_of x \<le> i \<and> i < total_of x)}"
      unfolding eq using IH(2) Cons.prems(3) later by (fastforce simp: not_less)
  qed
qed

end

lemma drain_ok_default [simp]: "drain_ok drain_default"
  by (simp add: drain_ok_def drain_default_def records_ok_def)

interpretation mem_log: log_source drain_step drain_ok drain_first drain_total drain_entries
proof unfold_locales
  fix d d' :: mem_drain
  assume ok: "drain_ok d"
  then show "drain_first d + length (drain_entries d) = drain_total d"
    by (simp add: drain_ok_def records_ok_def drain_first_def drain_total_def drain_entries_def first_index_def)
  assume "drain_step d d'"
  then show "drain_ok d'" "drain_first d \<le> drain_first d'" "drain_total d \<le> drain_total d'"
    using ok by (simp_all add: drain_step_ok drain_step_first drain_step_total)
qed

section \<open>Properties\<close>

lemma drain_reachable_ok: "drain_step\<^sup>*\<^sup>* drain_default d \<Longrightarrow> drain_ok d"
  using mem_log.steps_mono [of drain_default d] by simp

text \<open>C30: Whatever is logged and however the scopes of operations are opened and closed, the log
  in memory holds at most one mebibyte unless it holds a single entry, its count of bytes is
  exact, and no entry repeats the one before it.\<close>

theorem log_is_bounded:
  assumes "drain_step\<^sup>*\<^sup>* drain_default d"
  shows "(sum_list (map record_size (entries (records d))) \<le> MAX_RECORDED_BYTES \<or> length (entries (records d)) \<le> 1) \<and>
    bytes (records d) = sum_list (map record_size (entries (records d))) \<and>
    successively (\<lambda>a b. \<not> repeats a b) (entries (records d))"
  using drain_reachable_ok [OF assms] by (auto simp: drain_ok_def records_ok_def)

definition example_record :: log_record where
  "example_record = \<lparr>level = ''info'', message = ''m'', time = ''t'', data = [], occurrences = 1\<rparr>"

theorem log_is_bounded_witness:
  "let d = drain_log example_record (start_logging drain_default)
   in drain_step\<^sup>*\<^sup>* drain_default d \<and> entries (records d) = [example_record] \<and> bytes (records d) = 134"
proof -
  let ?d = "drain_log example_record (start_logging drain_default)"
  have r: "drain_step\<^sup>*\<^sup>* drain_default ?d"
    by (meson drain_step.intros(1,4) rtranclp.rtrancl_into_rtrancl rtranclp.rtrancl_refl)
  have e: "entries (records ?d) = [example_record]"
    by (simp add: drain_log_def start_logging_def drain_default_def push_record_def clear_records_def)
  have "bytes (records ?d) = 134"
    using log_is_bounded [OF r] e by (simp add: record_size_def LOG_RECORD_SIZE_def example_record_def)
  with r e show ?thesis by (simp add: Let_def)
qed

text \<open>C33: A client that watches the log sees every entry of every answer once: the numbers of the
  entries it prints are increasing, and they are those of all the entries the answers held,
  whatever was dropped from the buffer or cleared between two answers.\<close>

theorem watch_prints_once:
  assumes "drain_ok d" and "mem_log.seen_in_order (d # ds)"
  shows "let printed = watch 0 (map mem_log.numbers (d # ds)) in
    sorted_wrt (<) printed \<and>
    set printed = {i. \<exists>x \<in> set (d # ds). drain_first x \<le> i \<and> i < drain_total x}"
  using mem_log.watch_numbers [OF assms, of 0] by (simp add: Let_def)

theorem watch_prints_once_witness:
  "let d = start_logging drain_default; e = drain_log example_record d
   in watch 0 (map mem_log.numbers [d, e, e]) = [0]"
proof -
  let ?d = "start_logging drain_default"
  let ?e = "drain_log example_record ?d"
  have ok: "drain_ok ?d" by (rule drain_step_ok [OF drain_step.intros(1) drain_ok_default])
  have "drain_step\<^sup>*\<^sup>* ?d ?e" by (meson drain_step.intros(4) r_into_rtranclp)
  then have o: "mem_log.seen_in_order [?d, ?e, ?e]" by simp
  have n: "drain_first ?d = 0" "drain_total ?d = 0" "drain_first ?e = 0" "drain_total ?e = 1"
    by (simp_all add: drain_first_def drain_total_def first_index_def drain_log_def start_logging_def
        drain_default_def push_record_def clear_records_def)
  have "set (watch 0 (map mem_log.numbers [?d, ?e, ?e])) = {0}"
    "sorted_wrt (<) (watch 0 (map mem_log.numbers [?d, ?e, ?e]))"
    using watch_prints_once [OF ok o] n by (auto simp: Let_def)
  then have "watch 0 (map mem_log.numbers [?d, ?e, ?e]) = sorted_list_of_set {0}"
    by (metis sorted_list_of_set.idem_if_sorted_distinct strict_sorted_iff)
  then show ?thesis by (simp add: Let_def)
qed

text \<open>What is recorded out of scope is kept even when logging is stopped, and neither the scope
  nor the entries already held are lost by it.\<close>

lemma out_of_scope_is_kept:
  "records (record_out_of_scope (drain_log e) d) = push_record e (records d) \<and>
   logging (record_out_of_scope (drain_log e) d) = logging d"
  by (simp add: record_out_of_scope_def set_logging_def drain_log_def)

end
