(* ===== verification/UH_States.thy ===== *)
theory UH_States
  imports UH_Errors UH_Log
begin

text \<open>
  \<open>updatehub/src/states\<close>: the states of the agent and what each does when the machine turns,
  with the callbacks and the progress reports around it, and the start of the agent.

  The lines the states write with \<open>info!\<close>, \<open>warn!\<close> and \<open>error!\<close> are modelled; the lines of the
  startup, of the layers below, of \<open>log_error_msg\<close> and of the levels filtered by default are not.
\<close>

section \<open>The context\<close>

datatype message = MsgInfo | MsgProbe "string option" | MsgAbortDownload | MsgLocalInstall string
  | MsgRemoteInstall string

text \<open>A request of a client; \<open>rq_open\<close>: the client still waits for the answer.\<close>

record request =
  rq_id :: nat
  rq_message :: message
  rq_open :: bool

record info_response =
  ir_state :: string
  ir_config :: settings
  ir_firmware :: metadata
  ir_runtime :: runtime_settings

datatype probe_reply = Available | Unavailable | Delayed_for int | Busy string

datatype abort_reply = AbortAccepted | AbortInvalidState

datatype state_reply = RequestAccepted string | InvalidState string

datatype response = RespInfo info_response | RespProbe probe_reply | RespAbortDownload abort_reply
  | RespLocalInstall state_reply | RespRemoteInstall state_reply

record agent_context =
  c_settings :: settings
  c_runtime :: runtime_settings
  c_firmware :: metadata
  c_waker :: nat  \<comment> \<open>messages in the waker channel\<close>
  c_queue :: "request list"
  c_replies :: "(nat \<times> (transition_error + response)) list"
  c_drain :: mem_drain
  c_sys :: sys

type_synonym 'a act = "(agent_context, transition_error stop, 'a) io"

definition on_sys :: "(sys, 'e, 'a) io \<Rightarrow> (agent_context, 'e, 'a) io" where
  "on_sys m = io_zoom c_sys (\<lambda>t c. c\<lparr>c_sys := t\<rparr>) m"

definition sys_act :: "('e \<Rightarrow> transition_error) \<Rightarrow> (sys, 'e, 'a) io \<Rightarrow> 'a act" where
  "sys_act f m = io_map_err (Fails \<circ> f) (on_sys m)"

definition handler_act :: "'a handler \<Rightarrow> 'a act" where
  "handler_act m = io_map_err (map_stop TeInstallation) (on_sys m)"

definition on_runtime :: "(runtime_settings \<times> sys, 'e, 'a) io \<Rightarrow> (agent_context, 'e, 'a) io" where
  "on_runtime m = io_zoom (\<lambda>c. (c_runtime c, c_sys c)) (\<lambda>(r, t) c. c\<lparr>c_runtime := r, c_sys := t\<rparr>) m"

definition runtime_act :: "'a rs_io \<Rightarrow> 'a act" where
  "runtime_act m = io_map_err (Fails \<circ> TeRuntimeSettings) (on_runtime m)"

definition set_runtime :: "(runtime_settings \<Rightarrow> runtime_settings) \<Rightarrow> (agent_context, 'e, unit) io" where
  "set_runtime f = io_modify (\<lambda>c. c\<lparr>c_runtime := f (c_runtime c)\<rparr>)"

definition set_drain :: "(mem_drain \<Rightarrow> mem_drain) \<Rightarrow> (agent_context, 'e, unit) io" where
  "set_drain f = io_modify (\<lambda>c. c\<lparr>c_drain := f (c_drain c)\<rparr>)"

definition log_line :: "env \<Rightarrow> string \<Rightarrow> string \<Rightarrow> sys \<Rightarrow> mem_drain \<Rightarrow> mem_drain" where
  "log_line E lvl msg s = (if \<not> log_enabled E lvl then id else
     drain_log \<lparr>level = to_lowercase (level_name E lvl), message = msg, time = log_time E (clock s), data = [], occurrences = 1\<rparr>)"

definition say :: "env \<Rightarrow> string \<Rightarrow> string \<Rightarrow> (agent_context, 'e, unit) io" where
  "say E lvl msg = io_modify (\<lambda>c. c\<lparr>c_drain := log_line E lvl msg (c_sys c) (c_drain c)\<rparr>)"

definition say_out_of_scope :: "env \<Rightarrow> string \<Rightarrow> string \<Rightarrow> (agent_context, 'e, unit) io" where
  "say_out_of_scope E lvl msg =
     io_modify (\<lambda>c. c\<lparr>c_drain := record_out_of_scope (log_line E lvl msg (c_sys c)) (c_drain c)\<rparr>)"

definition context_server :: "agent_context \<Rightarrow> string" where
  "context_server c = (case custom_server_address (c_runtime c) of
      Some a \<Rightarrow> a | None \<Rightarrow> server_address (network (c_settings c)))"

definition as_cloud_metadata :: "metadata \<Rightarrow> firmware_metadata" where
  "as_cloud_metadata m = \<lparr>fm_product_uid = product_uid m, fm_version = fw_version m,
     fm_hardware = hardware m, fm_device_identity = device_identity m,
     fm_device_attributes = device_attributes m\<rparr>"

definition download_dir_of :: "agent_context \<Rightarrow> string" where
  "download_dir_of c = download_dir (update (c_settings c))"

definition metadata_dir_of :: "agent_context \<Rightarrow> string" where
  "metadata_dir_of c = metadata_dir (firmware (c_settings c))"

definition now_poll :: "env \<Rightarrow> unit act" where
  "now_poll E = (\<lambda>c. runtime_act (set_last_polling E (utc_now (c_sys c))) c)"

section \<open>The states\<close>

datatype state = Park | EntryPoint | Poll | Probe
  | Validation update_package "signature option" bool
  | Download update_package "signature option"
  | Install update_package installer_context
  | Reboot update_package
  | DirectDownload string
  | PrepareLocalInstall string
  | ErrorState transition_error

datatype step_transition = Delayed int | Immediate | Never

fun state_name :: "state \<Rightarrow> string" where
  "state_name Park = ''park''"
| "state_name EntryPoint = ''entry_point''"
| "state_name Poll = ''poll''"
| "state_name Probe = ''probe''"
| "state_name (Validation _ _ _) = ''validation''"
| "state_name (Download _ _) = ''download''"
| "state_name (Install _ _) = ''install''"
| "state_name (Reboot _) = ''reboot''"
| "state_name (DirectDownload _) = ''direct_download''"
| "state_name (PrepareLocalInstall _) = ''prepare_local_install''"
| "state_name (ErrorState _) = ''error''"

fun is_handling_download :: "state \<Rightarrow> bool" where
  "is_handling_download (Download _ _) = True"
| "is_handling_download (DirectDownload _) = True"
| "is_handling_download _ = False"

fun is_preemptive_state :: "state \<Rightarrow> bool" where
  "is_preemptive_state Park = True"
| "is_preemptive_state EntryPoint = True"
| "is_preemptive_state Poll = True"
| "is_preemptive_state Probe = True"
| "is_preemptive_state (Validation _ _ _) = True"
| "is_preemptive_state _ = False"

type_synonym outcome = "state \<times> step_transition"

section \<open>Park, entry point and poll\<close>

definition handle_park :: "env \<Rightarrow> outcome act" where
  "handle_park E = io_then (say E ''info'' ''parking state machine'')
     (io_then (set_drain stop_logging) (io_return (Park, Never)))"

definition handle_entry_point :: "env \<Rightarrow> outcome act" where
  "handle_entry_point E = (\<lambda>c.
     if is_polling_forced (c_runtime c)
     then io_then (say E ''info'' ''triggering Probe to finish update'')
            (io_then (runtime_act (disable_force_poll E)) (io_return (Probe, Immediate))) c
     else io_then (set_drain stop_logging)
            (io_then (set_runtime reset_transient_settings)
              (io_return (if \<not> enabled (polling (c_settings c)) then (Park, Immediate) else (Poll, Immediate)))) c)"

definition handle_poll :: "env \<Rightarrow> outcome act" where
  "handle_poll E = (\<lambda>c.
     let i = interval (polling (c_settings c));
         delay = i - (utc_now (c_sys c) - last_poll (rs_polling (c_runtime c)))
     in if delay > i \<or> num_seconds delay < 0
        then io_then (say E ''info'' ''probing server as we are in time'') (io_return (Probe, Immediate)) c
        else (Inr (Probe, Delayed delay), c))"

section \<open>Probe\<close>

definition retry_delay :: "64 word \<Rightarrow> int \<Rightarrow> int" where
  "retry_delay retries polling_interval =
     (let cap = max 1 (min (num_seconds polling_interval) 3600);
          k = min (if retries = 0 then 0 else retries - 1) 12;
          exponential = (push_bit (unat k) 1 :: 64 word)
      in seconds (min (sint exponential) cap))"

text \<open>\<open>Duration::seconds\<close> panics out of its range.\<close>

definition duration_seconds :: "int \<Rightarrow> int act" where
  "duration_seconds n = (if \<bar>n\<bar> \<le> 9223372036854775 then io_return (seconds n) else io_throw Panics)"

definition probe_failed :: "env \<Rightarrow> cloud_error \<Rightarrow> outcome act" where
  "probe_failed E e =
     io_then (say_out_of_scope E ''error'' (''Probe failed: '' @ cloud_error_text E e))
       (io_then (set_runtime inc_retries)
         (io_gets (\<lambda>c. (Probe, Delayed (retry_delay (poll_retries (rs_polling (c_runtime c)))
            (interval (polling (c_settings c))))))))"

definition update_received :: "env \<Rightarrow> update_package \<Rightarrow> (agent_context, 'e, unit) io" where
  "update_received E p = say E ''info''
     (''update received: '' @ package_version p @ '' ('' @ package_uid E p @ '')'')"

definition probe_done :: "env \<Rightarrow> probe_response \<Rightarrow> outcome act" where
  "probe_done E r = (case r of
      NoUpdate \<Rightarrow>
        io_then (say_out_of_scope E ''info'' ''no update is current available for this device'')
          (io_then (now_poll E) (io_return (EntryPoint, Immediate)))
    | ExtraPoll n \<Rightarrow>
        io_then (say_out_of_scope E ''info''
            (''delaying the probing for '' @ show_int n @ '' seconds as requested by the server''))
          (io_bind (duration_seconds n) (\<lambda>d. io_return (Probe, Delayed d)))
    | Update p sig \<Rightarrow>
        io_then (now_poll E)
          (io_then (set_drain start_logging)
            (io_then (update_received E p)
              (io_return (Validation p sig True, Immediate)))))"

definition send_probe :: "env \<Rightarrow> (agent_context, cloud_error, probe_response) io" where
  "send_probe E = (\<lambda>c. on_sys (probe E (context_server c)
     (unat (poll_retries (rs_polling (c_runtime c)))) (as_cloud_metadata (c_firmware c))) c)"

definition handle_probe_state :: "env \<Rightarrow> outcome act" where
  "handle_probe_state E = io_bind (io_attempt (send_probe E)) (\<lambda>r. case r of
      Inl UrlParse \<Rightarrow> io_throw (Fails (TeClient UrlParse))
    | Inl e \<Rightarrow> probe_failed E e
    | Inr a \<Rightarrow> io_then (set_runtime clear_retries) (probe_done E a))"

section \<open>Validation\<close>

definition check_signature :: "env \<Rightarrow> update_package \<Rightarrow> signature option \<Rightarrow> unit act" where
  "check_signature E p sig = (\<lambda>c. case pub_key (c_firmware c) of
      None \<Rightarrow> say E ''info'' ''no signature key available on device, ignoring signature validation'' c
    | Some key \<Rightarrow> (case sig of
        Some g \<Rightarrow> sys_act TeClient (io_ask (signature_validate E key p g)) c
      | None \<Rightarrow> io_then (say E ''error'' ''missing signature key'') (io_throw (Fails SignatureNotFound)) c))"

definition installer_context_for :: "env \<Rightarrow> agent_context \<Rightarrow> update_package \<Rightarrow> bool \<Rightarrow> installer_context" where
  "installer_context_for E c p require_download = \<lparr>ic_download_dir = download_dir_of c,
     offline_update = \<not> require_download,
     base_url = context_server c @ ''/products/'' @ product_uid (c_firmware c) @ ''/packages/''
       @ package_uid E p @ ''/objects''\<rparr>"

definition inactive_set :: "env \<Rightarrow> installation_set act" where
  "inactive_set E = (\<lambda>c. sys_act TeRuntimeSettings (get_inactive_installation_set E (c_runtime c)) c)"

definition check_object :: "env \<Rightarrow> installer_context \<Rightarrow> update_package \<Rightarrow> object \<Rightarrow> unit act" where
  "check_object E ctx p x = io_catch (handler_act (check_requirements E ctx x)) (\<lambda>e.
     io_then (say E ''error'' (''update package: '' @ package_version p @ '' ('' @ package_uid E p
        @ '') has failed to meet the install requirements'')) (io_throw e))"

definition not_ready :: "env \<Rightarrow> string \<Rightarrow> object list \<Rightarrow> sys \<Rightarrow> object list" where
  "not_ready E dir xs s =
     filter (\<lambda>x. info_status E dir x s \<noteq> Inr Ready) (filter (\<lambda>x. \<not> allow_remote_install x) xs)"

fun status_debug :: "object_status \<Rightarrow> string" where
  "status_debug Missing = ''Missing''"
| "status_debug Incomplete = ''Incomplete''"
| "status_debug Corrupted = ''Corrupted''"
| "status_debug Ready = ''Ready''"

definition say_not_ready :: "env \<Rightarrow> string \<Rightarrow> object \<Rightarrow> unit act" where
  "say_not_ready E dir x = (\<lambda>c. say E ''error'' ('' file '' @ squote @ info_filename x @ squote @
     (case info_status E dir x (c_sys c) of
        Inr st \<Rightarrow> '' is '' @ status_debug st
      | Inl e \<Rightarrow> '' has failed with error: '' @ object_error_text E e)) c)"

definition require_ready :: "env \<Rightarrow> string \<Rightarrow> object list \<Rightarrow> unit act" where
  "require_ready E dir xs = (\<lambda>c.
     let bad = not_ready E dir xs (c_sys c) in
     if bad = [] then (Inr (), c)
     else io_then (say E ''error'' ''some objects are not ready for use:'')
            (io_then (io_each (say_not_ready E dir) bad) (io_throw (Fails SomeObjectsAreNotReady))) c)"

definition handle_validation :: "env \<Rightarrow> update_package \<Rightarrow> signature option \<Rightarrow> bool \<Rightarrow> outcome act" where
  "handle_validation E p sig require_download =
     io_then (check_signature E p sig)
     (io_bind (io_gets (\<lambda>c. installer_context_for E c p require_download)) (\<lambda>ctx.
     io_bind (inactive_set E) (\<lambda>a.
     io_bind (io_gets c_firmware) (\<lambda>fw.
     io_bind (io_gets c_settings) (\<lambda>cfg.
     io_then (io_lift (res_map_err (Fails \<circ> TeUpdatePackage) (compatible_with p fw)))
     (io_then (io_lift (res_map_err (Fails \<circ> TeUpdatePackage) (validate_install_modes p cfg a)))
     (io_then (io_each (check_object E ctx p) (objects p a))
     (io_bind (io_gets (\<lambda>c. applied_package_uid (rs_update (c_runtime c)))) (\<lambda>applied.
       if applied = Some (package_uid E p)
       then io_then (say E ''info''
              ''not downloading update package, the same package has already been installed'')
              (io_return (EntryPoint, Immediate))
       else if require_download then io_return (Download p sig, Immediate)
       else io_then (require_ready E (download_dir (update cfg)) (objects p a))
              (io_return (Install p ctx, Immediate)))))))))))"

section \<open>Download\<close>

text \<open>
  A request that asks for another state drops the download where it stands. \<open>ct\<close> is where: while
  the object at that position of the list is fetched, after that many chunks of its body. What was
  written before stays. \<open>ab\<close> has the state asked for as well, which the download then ends in.
\<close>

type_synonym cut = "(nat \<times> nat) option"

type_synonym dropped = "((nat \<times> nat) \<times> state) option"

definition cut_env :: "env \<Rightarrow> nat \<Rightarrow> env" where
  "cut_env E j = E\<lparr>http := \<lambda>q s. case http E q s of
      (Inr r, t) \<Rightarrow> (Inr (r\<lparr>chunks := take j (chunks r), broken := Some (HttpError ''dropped'')\<rparr>), t)
    | (Inl e, t) \<Rightarrow> (Inl e, t)\<rparr>"

text \<open>The objects to fetch: \<open>dedup\<close> drops repeats that are neighbours.\<close>

definition pending_download :: "env \<Rightarrow> string \<Rightarrow> object list \<Rightarrow> sys \<Rightarrow> (string \<times> string) list" where
  "pending_download E dir xs s =
     remdups_adj (map (\<lambda>x. (info_filename x, info_sha256sum x))
       (filter (\<lambda>x. info_status E dir x s \<noteq> Inr Ready) (filter (\<lambda>x. \<not> allow_remote_install x) xs)))"

fun download_each :: "env \<Rightarrow> string \<Rightarrow> string \<Rightarrow> string \<Rightarrow> string \<Rightarrow> cut \<Rightarrow> (string \<times> string) list \<Rightarrow>
    (sys, cloud_error, bool) io" where
  "download_each E server uid pkg dir ct [] = io_return (ct = None)"
| "download_each E server uid pkg dir ct ((nm, sha) # rest) = (case ct of
      Some (0, j) \<Rightarrow> io_then (io_attempt (download_object (cut_env E j) server uid pkg dir sha)) (io_return False)
    | Some (Suc i, j) \<Rightarrow> io_then (download_object E server uid pkg dir sha)
        (download_each E server uid pkg dir (Some (i, j)) rest)
    | None \<Rightarrow> io_then (download_object E server uid pkg dir sha)
        (download_each E server uid pkg dir None rest))"

text \<open>Whether the download came to its end.\<close>

definition start_download :: "env \<Rightarrow> cut \<Rightarrow> update_package \<Rightarrow> bool act" where
  "start_download E ct p =
     io_bind (sys_act TeFirmware (inactive E)) (\<lambda>a.
     io_bind (io_gets download_dir_of) (\<lambda>dir.
     io_bind (io_gets c_settings) (\<lambda>cfg.
     io_then (sys_act TeIo (clear_unrelated_files E p dir a cfg))
     (io_bind (io_gets (\<lambda>c. pending_download E dir (objects p a) (c_sys c))) (\<lambda>pending.
     io_bind (io_gets (\<lambda>c. (context_server c, product_uid (c_firmware c)))) (\<lambda>(server, uid).
     sys_act TeClient (download_each E server uid (package_uid E p) dir ct pending)))))))"

definition handle_download :: "env \<Rightarrow> dropped \<Rightarrow> update_package \<Rightarrow> signature option \<Rightarrow> outcome act" where
  "handle_download E ab p sig = io_bind (start_download E (map_option fst ab) p) (\<lambda>finished.
     io_return (case (if finished then None else map_option snd ab) of
        Some new_state \<Rightarrow> (new_state, Immediate)
      | None \<Rightarrow> (Validation p sig False, Immediate)))"

section \<open>Install and reboot\<close>

definition sort_objects :: "object list \<Rightarrow> object list" where
  "sort_objects xs = sort_key (\<lambda>x. - int (unat (info_len x))) xs"

definition with_objects :: "installation_set \<Rightarrow> object list \<Rightarrow> update_package \<Rightarrow> update_package" where
  "with_objects a xs p = p\<lparr>inner := (inner p)\<lparr>set_objects := (case a of
      InstA \<Rightarrow> (xs, snd (set_objects (inner p))) | InstB \<Rightarrow> (fst (set_objects (inner p)), xs))\<rparr>\<rparr>"

definition handle_install :: "env \<Rightarrow> update_package \<Rightarrow> installer_context \<Rightarrow> outcome act" where
  "handle_install E p ctx =
     io_then (say E ''info'' (''installing update: '' @ package_version p @ '' ('' @ package_uid E p @ '')''))
     (io_bind (inactive_set E) (\<lambda>a.
     io_then (say E ''info'' (''using installation set as target '' @ set_display a))
     (io_bind (io_return (sort_objects (objects p a))) (\<lambda>objs.
     io_then (io_each (\<lambda>x. handler_act (install_object E ctx x)) objs)
     (io_then (runtime_act (set_applied_package_uid E (package_uid E p)))
     (io_then (runtime_act (set_upgrading_to E a))
     (io_then (say E ''info'' ''swapping active installation set'')
     (io_then (sys_act TeFirmware (swap_active E))
     (io_then (say E ''info'' ''update installed successfully'')
     (io_return (Reboot (with_objects a objs p), Immediate)))))))))))"

definition handle_reboot :: "env \<Rightarrow> outcome act" where
  "handle_reboot E =
     io_then (say E ''info'' ''triggering reboot'')
     (io_bind (sys_act TeProcess (exec E ''reboot'')) (\<lambda>out.
     io_then (if stdout out \<noteq> [] \<or> stderr out \<noteq> []
              then say E ''warning'' (''  reboot output: stdout: '' @ stdout out @ '', stderr: '' @ stderr out)
              else io_return ())
       (io_return (EntryPoint, Immediate))))"

section \<open>Packages given by the user\<close>

definition handle_direct_download :: "env \<Rightarrow> dropped \<Rightarrow> string \<Rightarrow> outcome act" where
  "handle_direct_download E ab u =
     io_then (say E ''info'' (''fetching update package directly from url: '' @ path_debug u))
     (io_bind (io_gets download_dir_of) (\<lambda>dir.
     io_then (sys_act TeIo (fs_create_dir_all E dir))
     (let update_file = path_join dir ''fetched_pkg'';
          write_chunk = (\<lambda>b. io_map_err CloudIo (fs_append E update_file b)) in
      io_then (sys_act TeIo (fs_write E update_file []))
      (case ab of
         None \<Rightarrow> io_then (sys_act TeClient (http_get E u write_chunk))
                   (io_return (PrepareLocalInstall update_file, Immediate))
       | Some ((_, j), new_state) \<Rightarrow>
           if \<not> url_ok E u then io_throw (Fails (TeClient UrlParse))
           else io_then (io_attempt (sys_act TeClient (http_get (cut_env E j) u write_chunk)))
                  (io_return (new_state, Immediate))))))"

definition local_signature :: "env \<Rightarrow> string \<Rightarrow> signature act" where
  "local_signature E pkg = (case archive_entry E pkg ''signature'' of
      Inr sig \<Rightarrow> if \<not> utf8_ok sig then io_throw (Fails TeNonUtf8)
        else io_lift (res_map_err (Fails \<circ> TeClient) (signature_from_base64_str E sig))
    | Inl (ArchiveIo NotFound) \<Rightarrow>
        io_then (say E ''error'' ''package does not contain a signature file'')
          (io_throw (Fails SignatureNotFound))
    | Inl e \<Rightarrow> io_throw (Fails (TeUncompress e)))"

definition extract_object :: "env \<Rightarrow> string \<Rightarrow> string \<Rightarrow> object \<Rightarrow> unit act" where
  "extract_object E pkg dir x = (let f = path_join dir (info_sha256sum x) in
     io_then (sys_act TeIo (fs_write E f []))
       (io_bind (io_lift (res_map_err (Fails \<circ> TeUncompress) (archive_entry E pkg (info_sha256sum x))))
         (\<lambda>b. sys_act TeIo (fs_write E f b))))"

definition handle_prepare_local_install :: "env \<Rightarrow> string \<Rightarrow> outcome act" where
  "handle_prepare_local_install E update_file =
     io_then (say E ''info'' (''installing local package: '' @ path_debug update_file))
     (io_bind (io_gets download_dir_of) (\<lambda>dir.
     io_then (sys_act TeIo (fs_create_dir_all E dir))
     (io_bind (sys_act TeIo (fs_read E update_file)) (\<lambda>pkg.
     io_bind (io_lift (res_map_err (Fails \<circ> TeUncompress) (archive_entry E pkg ''metadata''))) (\<lambda>md.
     io_bind (io_lift (res_map_err (Fails \<circ> TeClient) (parse_package E md))) (\<lambda>p.
     io_bind (local_signature E pkg) (\<lambda>sig.
     io_bind (sys_act TeFirmware (active E)) (\<lambda>a.
     io_then (io_each (extract_object E pkg dir) (objects p a))
     (io_bind (sys_act TeFirmware (inactive E)) (\<lambda>i.
     io_bind (io_gets c_settings) (\<lambda>cfg.
     io_then (sys_act TeIo (clear_unrelated_files E p dir i cfg))
     (io_then (say E ''info'' (''update package extracted: '' @ package_version p @ '' ('' @ package_uid E p @ '')''))
     (io_return (Validation p (Some sig) False, Immediate))))))))))))))"

definition handle_error :: "env \<Rightarrow> transition_error \<Rightarrow> outcome act" where
  "handle_error E e =
     io_then (say E ''error'' (''error state reached: '' @ transition_error_text E e))
     (io_then (say E ''info'' (''returning to machine'' @ squote @ ''s entry point''))
     (io_return (EntryPoint, Immediate)))"

section \<open>Callbacks and progress reports\<close>

text \<open>The method \<open>handle\<close> of the struct a state holds.\<close>

fun handle_inner :: "env \<Rightarrow> dropped \<Rightarrow> state \<Rightarrow> outcome act" where
  "handle_inner E ab Park = handle_park E"
| "handle_inner E ab EntryPoint = handle_entry_point E"
| "handle_inner E ab Poll = handle_poll E"
| "handle_inner E ab Probe = handle_probe_state E"
| "handle_inner E ab (Validation p sig b) = handle_validation E p sig b"
| "handle_inner E ab (Download p sig) = handle_download E ab p sig"
| "handle_inner E ab (Install p ctx) = handle_install E p ctx"
| "handle_inner E ab (Reboot p) = handle_reboot E"
| "handle_inner E ab (DirectDownload u) = handle_direct_download E ab u"
| "handle_inner E ab (PrepareLocalInstall f) = handle_prepare_local_install E f"
| "handle_inner E ab (ErrorState e) = handle_error E e"

text \<open>Only the probe does something when its transition is cancelled or fails.\<close>

fun on_transition_cancel :: "env \<Rightarrow> state \<Rightarrow> unit act" where
  "on_transition_cancel E Probe = now_poll E"
| "on_transition_cancel E _ = io_return ()"

definition specialized_handler :: "env \<Rightarrow> state \<Rightarrow> string \<Rightarrow> unit act" where
  "specialized_handler E st what = io_catch (on_transition_cancel E st) (\<lambda>e. case e of
      Fails x \<Rightarrow> say E ''error'' (what @ squote @ state_name st @ squote
        @ '' as state change callback has failed with: '' @ transition_error_text E x)
    | other \<Rightarrow> io_throw other)"

definition handle_with_callback :: "env \<Rightarrow> dropped \<Rightarrow> state \<Rightarrow> outcome act" where
  "handle_with_callback E ab st = (\<lambda>c.
     io_bind (io_attempt (on_sys (state_change_callback E (metadata_dir_of c) (state_name st)))) (\<lambda>tr.
       case tr of
         Inr Continue \<Rightarrow> handle_inner E ab st
       | Inr Cancel \<Rightarrow>
           io_then (say E ''info'' (''canceling transition to '' @ squote @ state_name st @ squote
               @ '' due to state change callback request''))
           (io_then (specialized_handler E st ''failed calling specialized handler for canceling transition to '')
           (io_return (EntryPoint, Immediate)))
       | Inl e \<Rightarrow>
           io_then (say E ''error'' (''canceling transition to '' @ squote @ state_name st @ squote
               @ '' as state change callback has failed with: '' @ firmware_error_text E e))
           (io_then (specialized_handler E st ''failed calling specialized handler for transition error to '')
           (io_return (EntryPoint, Immediate)))) c)"

fun enter_state_name :: "state \<Rightarrow> string" where
  "enter_state_name (Download _ _) = ''downloading''"
| "enter_state_name (Install _ _) = ''installing''"
| "enter_state_name (Reboot _) = ''rebooting''"
| "enter_state_name st = state_name st"

fun leave_state_name :: "state \<Rightarrow> string" where
  "leave_state_name (Download _ _) = ''downloaded''"
| "leave_state_name (Install _ _) = ''installed''"
| "leave_state_name (Reboot _) = ''rebooting''"
| "leave_state_name st = state_name st"

fun reported_package :: "state \<Rightarrow> update_package option" where
  "reported_package (Download p _) = Some p"
| "reported_package (Install p _) = Some p"
| "reported_package (Reboot p) = Some p"
| "reported_package _ = None"

definition send_report :: "env \<Rightarrow> string \<Rightarrow> firmware_metadata \<Rightarrow> string \<Rightarrow> string \<Rightarrow> string option \<Rightarrow>
    string option \<Rightarrow> string option \<Rightarrow> (agent_context, 'e, unit) io" where
  "send_report E server fw pkg status_name prev err log = io_catch
     (on_sys (report E server status_name fw pkg prev err log))
     (\<lambda>e. say E ''warning'' (''report failed: '' @ cloud_error_text E e))"

definition handle_and_report_progress :: "env \<Rightarrow> dropped \<Rightarrow> state \<Rightarrow> outcome act" where
  "handle_and_report_progress E ab st = (\<lambda>c.
     let server = context_server c; fw = as_cloud_metadata (c_firmware c);
         uid = (case reported_package st of Some p \<Rightarrow> package_uid E p | None \<Rightarrow> []);
         rep = send_report E server fw uid
     in io_then (rep (enter_state_name st) None None None)
          (io_bind (io_attempt (handle_inner E ab st)) (\<lambda>r. case r of
             Inr out \<Rightarrow> io_then (rep (leave_state_name st) None None None) (io_return out)
           | Inl (Fails e) \<Rightarrow>
               io_bind (io_gets (\<lambda>d. memory_log (c_drain d))) (\<lambda>log.
               io_then (rep ''error'' (Some (enter_state_name st)) (Some (transition_error_text E e)) (Some log))
                 (io_throw (Fails e)))
           | Inl other \<Rightarrow> io_throw other)) c)"

definition handle_with_callback_and_report_progress :: "env \<Rightarrow> dropped \<Rightarrow> state \<Rightarrow> outcome act" where
  "handle_with_callback_and_report_progress E ab st = (\<lambda>c.
     io_bind (sys_act TeFirmware (state_change_callback E (metadata_dir_of c) (state_name st))) (\<lambda>tr.
       case tr of
         Continue \<Rightarrow> handle_and_report_progress E ab st
       | Cancel \<Rightarrow>
           io_then (say E ''info'' (''canceling transition to '' @ squote @ state_name st @ squote
               @ '' due to state change callback request''))
             (io_return (EntryPoint, Immediate))) c)"

fun move_to_next_state :: "env \<Rightarrow> dropped \<Rightarrow> state \<Rightarrow> outcome act" where
  "move_to_next_state E ab Probe = handle_with_callback E ab Probe"
| "move_to_next_state E ab (PrepareLocalInstall f) = handle_with_callback E ab (PrepareLocalInstall f)"
| "move_to_next_state E ab (ErrorState e) = handle_with_callback E ab (ErrorState e)"
| "move_to_next_state E ab (Download p sig) =
     handle_with_callback_and_report_progress E ab (Download p sig)"
| "move_to_next_state E ab (Install p ctx) =
     handle_with_callback_and_report_progress E ab (Install p ctx)"
| "move_to_next_state E ab (Reboot p) = handle_with_callback_and_report_progress E ab (Reboot p)"
| "move_to_next_state E ab st = handle_inner E ab st"

section \<open>The start of the agent\<close>

type_synonym 'a startup = "(runtime_settings \<times> sys, agent_error, 'a) io"

definition startup_sys :: "('e \<Rightarrow> agent_error) \<Rightarrow> (sys, 'e, 'a) io \<Rightarrow> 'a startup" where
  "startup_sys f m = io_map_err f (io_zoom snd (\<lambda>t (r, _). (r, t)) m)"

definition startup_runtime :: "'a rs_io \<Rightarrow> 'a startup" where
  "startup_runtime m = io_map_err AeRuntimeSettings m"

definition startup_rollback :: "env \<Rightarrow> string \<Rightarrow> unit startup" where
  "startup_rollback E dir =
     io_then (startup_sys AeFirmware (swap_active E))
     (io_then (startup_sys AeFirmware (rollback_callback E dir))
     (io_then (if v1_parsing E then startup_runtime (restore_v1_content E) else io_return ())
     (io_then (startup_sys AeProcess (exec E ''reboot'')) (io_return ()))))"

definition handle_startup_callbacks :: "env \<Rightarrow> settings \<Rightarrow> unit startup" where
  "handle_startup_callbacks E cfg = (\<lambda>(r, s).
     let dir = metadata_dir (firmware cfg);
         confirm = io_then (startup_sys AeFirmware (validate_set E))
                     (startup_runtime (reset_installation_settings E))
     in case upgrade_to_installation (rs_update r) of
          None \<Rightarrow> (Inr (), (r, s))
        | Some expected \<Rightarrow>
            io_bind (startup_sys AeFirmware (active E)) (\<lambda>a.
              if expected = a
              then io_bind (startup_sys AeFirmware (validate_callback E dir)) (\<lambda>tr. case tr of
                     Cancel \<Rightarrow> startup_rollback E dir
                   | Continue \<Rightarrow> confirm)
              else confirm) (r, s))"

text \<open>
  \<open>run\<close> up to the machine it starts: the context and whether the API can be served. A failure of
  the startup callbacks is only logged.
\<close>

definition startup_log :: "env \<Rightarrow> agent_error + unit \<Rightarrow> sys \<Rightarrow> mem_drain" where
  "startup_log E res t = (case res of
      Inr _ \<Rightarrow> start_logging drain_default
    | Inl e \<Rightarrow> log_line E ''error'' (''Failed to handle startup callbacks: '' @ agent_error_text E e) t (start_logging drain_default))"

definition run_agent :: "env \<Rightarrow> string \<Rightarrow> (sys, agent_error stop, agent_context \<times> bool) io" where
  "run_agent E path =
     io_bind (io_map_err (Fails \<circ> AeSettings) (load_settings E path)) (\<lambda>cfg.
     io_bind (io_map_err (map_stop AeRuntimeSettings) (rs_load E (runtime_settings_file (storage cfg)))) (\<lambda>r0.
     io_bind (io_map_err (Fails \<circ> AeFirmware) (metadata_from_path E (metadata_dir (firmware cfg)))) (\<lambda>fw s.
       let r1 = (if \<not> read_only (storage cfg) then enable_persistency r0 else r0)
       in case handle_startup_callbacks E cfg (r1, s) of (res, (r2, t)) \<Rightarrow>
         (Inr (\<lparr>c_settings = cfg, c_runtime = r2, c_firmware = fw, c_waker = 0, c_queue = [],
            c_replies = [], c_drain = startup_log E res t, c_sys = t\<rparr>,
          socket_ok E (replace_all ''localhost'' ''127.0.0.1'' (listen_socket (network cfg)))), t))))"

end
