(* ===== verification/UH_Machine.thy ===== *)
theory UH_Machine
  imports UH_States
begin

text \<open>
  \<open>updatehub/src/states/machine\<close>: the loop that turns the states, the requests it answers and
  the channel that wakes it. A turn of the loop is a function; what happens between and during
  turns (requests arriving, waits ending) is a step relation.
\<close>

section \<open>Answering a request\<close>

text \<open>\<open>waker.sender.send(()).await\<close> on a channel that holds one message.\<close>

definition send_wake :: "unit act" where
  "send_wake = (\<lambda>c. if c_waker c < 1 then (Inr (), c\<lparr>c_waker := c_waker c + 1\<rparr>) else (Inl Blocks, c))"

definition handle_info :: "state \<Rightarrow> info_response act" where
  "handle_info st = io_gets (\<lambda>c. \<lparr>ir_state = state_name st, ir_config = c_settings c,
     ir_firmware = c_firmware c, ir_runtime = c_runtime c\<rparr>)"

text \<open>What a probe request does before it talks to the server.\<close>

definition begin_probe :: "env \<Rightarrow> string option \<Rightarrow> (agent_context, 'e, unit) io" where
  "begin_probe E server =
     io_then (set_drain start_logging)
     (io_then (say E ''info'' ''Probing the server as requested by the user'')
       (case server of Some a \<Rightarrow> set_runtime (set_custom_server_address a) | None \<Rightarrow> io_return ()))"

definition handle_probe :: "env \<Rightarrow> state \<Rightarrow> string option \<Rightarrow> (probe_reply \<times> state option) act" where
  "handle_probe E st server =
     (if \<not> is_preemptive_state st then io_return (Busy (state_name st), None)
      else io_then (begin_probe E server)
        (io_bind (io_map_err (Fails \<circ> TeClient) (send_probe E)) (\<lambda>r. case r of
           ExtraPoll n \<Rightarrow>
             io_then (say E ''info'' (''server responded with extra poll of '' @ show_int n @ '' seconds''))
               (io_return (Delayed_for n, None))
         | NoUpdate \<Rightarrow>
             io_then (say E ''info'' ''no update is current available for this device'')
             (io_then send_wake (io_then (now_poll E) (io_return (Unavailable, Some EntryPoint))))
         | Update p sig \<Rightarrow>
             io_then (update_received E p)
             (io_then send_wake (io_then (now_poll E)
               (io_return (Available, Some (Validation p sig True))))))))"

definition handle_abort_download :: "state \<Rightarrow> (abort_reply \<times> state option) act" where
  "handle_abort_download st = io_return
     (if is_handling_download st then (AbortAccepted, Some EntryPoint) else (AbortInvalidState, None))"

definition handle_local_install :: "state \<Rightarrow> string \<Rightarrow> (state_reply \<times> state option) act" where
  "handle_local_install st file =
     (if is_preemptive_state st
      then io_then (set_drain start_logging) (io_then send_wake
             (io_return (RequestAccepted (state_name st), Some (PrepareLocalInstall file))))
      else io_return (InvalidState (state_name st), None))"

definition handle_remote_install :: "state \<Rightarrow> string \<Rightarrow> (state_reply \<times> state option) act" where
  "handle_remote_install st u =
     (if is_preemptive_state st
      then io_then (set_drain start_logging) (io_then send_wake
             (io_return (RequestAccepted (state_name st), Some (DirectDownload u))))
      else io_return (InvalidState (state_name st), None))"

definition answer :: "('r \<Rightarrow> response) \<Rightarrow> ('r \<times> state option) act \<Rightarrow> (response \<times> state option) act" where
  "answer f m = io_bind m (\<lambda>(r, ns). io_return (f r, ns))"

fun request_result :: "env \<Rightarrow> state \<Rightarrow> message \<Rightarrow> (response \<times> state option) act" where
  "request_result E st MsgInfo = answer RespInfo (io_bind (handle_info st) (\<lambda>i. io_return (i, None)))"
| "request_result E st (MsgProbe server) = answer RespProbe (handle_probe E st server)"
| "request_result E st MsgAbortDownload = answer RespAbortDownload (handle_abort_download st)"
| "request_result E st (MsgLocalInstall file) = answer RespLocalInstall (handle_local_install st file)"
| "request_result E st (MsgRemoteInstall u) = answer RespRemoteInstall (handle_remote_install st u)"

definition send_reply :: "request \<Rightarrow> transition_error + response \<Rightarrow> unit act" where
  "send_reply rq r = io_modify (\<lambda>c. if rq_open rq then c\<lparr>c_replies := c_replies c @ [(rq_id rq, r)]\<rparr> else c)"

text \<open>A client that no longer waits gets no answer, and the new state is not taken.\<close>

definition handle_communication :: "env \<Rightarrow> state \<Rightarrow> request \<Rightarrow> state option act" where
  "handle_communication E st rq = io_bind (io_attempt (request_result E st (rq_message rq))) (\<lambda>r. case r of
      Inr (resp, ns) \<Rightarrow> io_then (send_reply rq (Inr resp)) (io_return (if rq_open rq then ns else None))
    | Inl (Fails e) \<Rightarrow>
        io_then (say E ''error'' (''Request failed with: '' @ transition_error_text E e))
          (io_then (send_reply rq (Inl e)) (io_return None))
    | Inl other \<Rightarrow> io_throw other)"

section \<open>A turn of the loop\<close>

definition pop_queue :: "(agent_context, 'e, unit) io" where
  "pop_queue = io_modify (\<lambda>c. c\<lparr>c_queue := tl (c_queue c)\<rparr>)"

fun consume :: "env \<Rightarrow> state \<Rightarrow> request list \<Rightarrow> state act" where
  "consume E st [] = io_return st"
| "consume E st (rq # rqs) = io_then pop_queue (io_bind (handle_communication E st rq)
     (\<lambda>ns. consume E (case ns of Some st' \<Rightarrow> st' | None \<Rightarrow> st) rqs))"

definition consume_pending :: "env \<Rightarrow> state \<Rightarrow> state act" where
  "consume_pending E st = (\<lambda>c. consume E st (c_queue c) c)"

definition discharge_waker :: "(agent_context, 'e, unit) io" where
  "discharge_waker = io_modify (\<lambda>c. c\<lparr>c_waker := 0\<rparr>)"

text \<open>
  The requests answered while a download runs, up to the one that asks for another state. They
  neither change the context the download works on nor depend on it, so they are taken before it.
\<close>

fun serve :: "env \<Rightarrow> state \<Rightarrow> request list \<Rightarrow> state option act" where
  "serve E st [] = io_return None"
| "serve E st (rq # rqs) = io_bind (handle_communication E st rq) (\<lambda>ns. case ns of
     Some new_state \<Rightarrow> io_return (Some new_state) | None \<Rightarrow> serve E st rqs)"

text \<open>
  \<open>during\<close>: the requests that arrive while a download runs; \<open>at\<close>: where the download stands if
  one of them asks for another state.
\<close>

definition run_state :: "env \<Rightarrow> request list \<Rightarrow> nat \<times> nat \<Rightarrow> state \<Rightarrow> outcome act" where
  "run_state E during at st =
     (if is_handling_download st
      then io_bind (serve E st during) (\<lambda>asked.
             move_to_next_state E (map_option (\<lambda>new_state. (at, new_state)) asked) st)
      else move_to_next_state E None st)"

definition turn :: "env \<Rightarrow> request list \<Rightarrow> nat \<times> nat \<Rightarrow> state \<Rightarrow> outcome act" where
  "turn E during at st = io_then discharge_waker
     (io_bind (consume_pending E st) (\<lambda>st'.
        io_catch (run_state E during at st') (\<lambda>e. case e of
           Fails x \<Rightarrow> io_return (ErrorState x, Immediate)
         | other \<Rightarrow> io_throw other)))"

section \<open>The machine\<close>

datatype phase = Turning | Waiting step_transition | Stuck | Dead

type_synonym config = "phase \<times> state \<times> agent_context"

fun after :: "step_transition \<Rightarrow> phase" where
  "after Immediate = Turning"
| "after tr = Waiting tr"

fun stopped :: "transition_error stop \<Rightarrow> phase" where
  "stopped Blocks = Stuck"
| "stopped _ = Dead"

definition queue_cap :: nat where
  "queue_cap = 10"

text \<open>
  A wait ends when its time is over or when the waker is sent. Requests are answered during the
  wait; one whose answer still needs the server, or a place in the waker channel, is dropped
  without an answer when the wait ends. The request to the server may have been sent by then.
\<close>

inductive mstep :: "env \<Rightarrow> config \<Rightarrow> config \<Rightarrow> bool" for E :: env where
  arrive: "length (c_queue c) < queue_cap \<Longrightarrow>
     mstep E (ph, st, c) (ph, st, c\<lparr>c_queue := c_queue c @ [rq]\<rparr>)"
| pass: "clock (c_sys c) \<le> t \<Longrightarrow> mstep E (ph, st, c) (ph, st, c\<lparr>c_sys := (c_sys c)\<lparr>clock := t\<rparr>\<rparr>)"
| turn: "turn E during at st c = (Inr (st', tr), c') \<Longrightarrow> mstep E (Turning, st, c) (after tr, st', c')"
| turn_stops: "turn E during at st c = (Inl e, c') \<Longrightarrow> mstep E (Turning, st, c) (stopped e, st, c')"
| answer: "c_queue c = rq # rqs \<Longrightarrow> c_waker c = 0 \<Longrightarrow>
     handle_communication E st rq (c\<lparr>c_queue := rqs\<rparr>) = (Inr ns, c') \<Longrightarrow>
     mstep E (Waiting tr, st, c) (Waiting tr, case ns of Some st' \<Rightarrow> st' | None \<Rightarrow> st, c')"
| answer_stops: "c_queue c = rq # rqs \<Longrightarrow> c_waker c = 0 \<Longrightarrow>
     handle_communication E st rq (c\<lparr>c_queue := rqs\<rparr>) = (Inl e, c') \<Longrightarrow>
     mstep E (Waiting tr, st, c) (stopped e, st, c')"
| wake: "0 < c_waker c \<Longrightarrow> mstep E (Waiting tr, st, c) (Turning, st, c\<lparr>c_waker := 0\<rparr>)"
| timer: "mstep E (Waiting (Delayed d), st, c) (Turning, st, c)"
| lost_probe: "c_queue c = rq # rqs \<Longrightarrow> rq_message rq = MsgProbe server \<Longrightarrow> is_preemptive_state st \<Longrightarrow>
     0 < c_waker c \<or> (\<exists>d. tr = Delayed d) \<Longrightarrow>
     begin_probe E server (c\<lparr>c_queue := rqs\<rparr>) = (r :: transition_error stop + unit, c') \<Longrightarrow>
     d = c' \<or> d = snd (send_probe E c') \<Longrightarrow>
     mstep E (Waiting tr, st, c) (Turning, st, d\<lparr>c_waker := 0\<rparr>)"
| lost_install: "c_queue c = rq # rqs \<Longrightarrow>
     (\<exists>f. rq_message rq = MsgLocalInstall f) \<or> (\<exists>u. rq_message rq = MsgRemoteInstall u) \<Longrightarrow>
     is_preemptive_state st \<Longrightarrow> 0 < c_waker c \<Longrightarrow>
     mstep E (Waiting tr, st, c)
       (Turning, st, c\<lparr>c_queue := rqs, c_drain := start_logging (c_drain c), c_waker := 0\<rparr>)"

definition reachable :: "env \<Rightarrow> agent_context \<Rightarrow> config \<Rightarrow> bool" where
  "reachable E c0 cfg \<longleftrightarrow> (mstep E)\<^sup>*\<^sup>* (Turning, EntryPoint, c0) cfg"

end
