(* ===== verification/UH_Frames.thy ===== *)
theory UH_Frames
  imports UH_Machine
begin

text \<open>
  What the states can do to the context: a state changes the runtime settings, the log and the
  machine it runs on, and nothing else. The rules are proved once for every relation that these
  three kinds of change satisfy.
\<close>

locale act_frame =
  fixes R :: "agent_context \<Rightarrow> agent_context \<Rightarrow> bool"
  assumes refl: "R c c"
    and trans: "R c d \<Longrightarrow> R d e \<Longrightarrow> R c e"
    and sys: "R c (c\<lparr>c_sys := s\<rparr>)"
    and runtime: "R c (c\<lparr>c_runtime := r\<rparr>)"
    and drain: "R c (c\<lparr>c_drain := l\<rparr>)"
begin

lemma return: "R c (snd (io_return x c))"
  by (simp add: io_return_def refl)

lemma throw: "R c (snd (io_throw e c))"
  by (simp add: io_throw_def refl)

lemma lift: "R c (snd (io_lift e c))"
  by (simp add: io_lift_def refl)

lemma gets: "R c (snd (io_gets f c))"
  by (simp add: io_gets_def refl)

lemma pair: "R c (snd (x, c))"
  by (simp add: refl)

lemma bind:
  assumes "R c (snd (m c))" "\<And>x t. R t (snd (f x t))"
  shows "R c (snd (io_bind m f c))"
  using assms(1) trans [OF assms(1) assms(2)]
  by (cases "m c") (auto simp: io_bind_def split: sum.splits)

lemma then_: "R c (snd (m c)) \<Longrightarrow> (\<And>t. R t (snd (n t))) \<Longrightarrow> R c (snd (io_then m n c))"
  unfolding io_then_def by (rule bind)

lemma map_err: "R c (snd (m c)) \<Longrightarrow> R c (snd (io_map_err g m c))"
  by (cases "m c") (auto simp: io_map_err_def split: sum.splits)

lemma attempt: "R c (snd (m c)) \<Longrightarrow> R c (snd (io_attempt m c))"
  by (cases "m c") (auto simp: io_attempt_def)

lemma catch_:
  assumes "R c (snd (m c))" "\<And>e t. R t (snd (h e t))"
  shows "R c (snd (io_catch m h c))"
  using assms(1) trans [OF assms(1) assms(2)]
  by (cases "m c") (auto simp: io_catch_def split: sum.splits)

lemma each: "(\<And>x t. R t (snd (f x t))) \<Longrightarrow> R c (snd (io_each f xs c))"
  by (induction xs arbitrary: c) (auto intro!: return then_)

lemma if_act: "(b \<Longrightarrow> R c (snd (m c))) \<Longrightarrow> (\<not> b \<Longrightarrow> R c (snd (n c))) \<Longrightarrow> R c (snd ((if b then m else n) c))"
  by simp

lemma if_val: "(b \<Longrightarrow> R c (snd u)) \<Longrightarrow> (\<not> b \<Longrightarrow> R c (snd v)) \<Longrightarrow> R c (snd (if b then u else v))"
  by simp

lemma option_act: "R c (snd (m c)) \<Longrightarrow> (\<And>y. R c (snd (f y c))) \<Longrightarrow>
    R c (snd ((case x of None \<Rightarrow> m | Some y \<Rightarrow> f y) c))"
  by (simp split: option.split)

lemma option_val: "R c (snd u) \<Longrightarrow> (\<And>y. R c (snd (f y))) \<Longrightarrow>
    R c (snd (case x of None \<Rightarrow> u | Some y \<Rightarrow> f y))"
  by (simp split: option.split)

lemma sum_act: "(\<And>y. R c (snd (f y c))) \<Longrightarrow> (\<And>y. R c (snd (g y c))) \<Longrightarrow>
    R c (snd ((case x of Inl y \<Rightarrow> f y | Inr y \<Rightarrow> g y) c))"
  by (simp split: sum.split)

lemma prod_act: "(\<And>y z. R c (snd (f y z c))) \<Longrightarrow> R c (snd ((case x of (y, z) \<Rightarrow> f y z) c))"
  by (simp split: prod.split)

lemma transition_act: "R c (snd (m c)) \<Longrightarrow> R c (snd (n c)) \<Longrightarrow>
    R c (snd ((case x of Continue \<Rightarrow> m | Cancel \<Rightarrow> n) c))"
  by (simp split: transition.split)

lemma stop_act: "(\<And>y. R c (snd (f y c))) \<Longrightarrow> R c (snd (m c)) \<Longrightarrow> R c (snd (n c)) \<Longrightarrow>
    R c (snd ((case x of Fails y \<Rightarrow> f y | Panics \<Rightarrow> m | Blocks \<Rightarrow> n) c))"
  by (simp split: stop.split)

lemma probe_act: "R c (snd (m c)) \<Longrightarrow> (\<And>p g. R c (snd (f p g c))) \<Longrightarrow> (\<And>n. R c (snd (h n c))) \<Longrightarrow>
    R c (snd ((case x of NoUpdate \<Rightarrow> m | Update p g \<Rightarrow> f p g | ExtraPoll n \<Rightarrow> h n) c))"
  by (simp split: probe_response.split)

lemma on_sys: "R c (snd (on_sys m c))"
  by (cases "m (c_sys c)") (simp add: on_sys_def io_zoom_def sys)

lemma on_runtime: "R c (snd (on_runtime m c))"
proof -
  obtain x r s where m: "m (c_runtime c, c_sys c) = (x, (r, s))" by (metis surj_pair)
  have "R c (c\<lparr>c_runtime := r, c_sys := s\<rparr>)" using trans [OF runtime sys] by simp
  then show ?thesis using m by (simp add: on_runtime_def io_zoom_def)
qed

lemma set_runtime: "R c (snd (set_runtime f c))"
  by (simp add: set_runtime_def io_modify_def runtime)

lemma set_drain: "R c (snd (set_drain f c))"
  by (simp add: set_drain_def io_modify_def drain)

lemma say: "R c (snd (say E l m c))"
  by (simp add: say_def io_modify_def drain)

lemma say_out_of_scope: "R c (snd (say_out_of_scope E l m c))"
  by (simp add: say_out_of_scope_def io_modify_def drain)

lemma sys_act: "R c (snd (sys_act f m c))"
  unfolding sys_act_def by (intro map_err on_sys)

lemma handler_act: "R c (snd (handler_act m c))"
  unfolding handler_act_def by (intro map_err on_sys)

lemma runtime_act: "R c (snd (runtime_act m c))"
  unfolding runtime_act_def by (intro map_err on_runtime)

lemmas rules = return throw lift gets pair then_ bind map_err attempt catch_ each if_act if_val
  option_act option_val sum_act prod_act transition_act stop_act probe_act on_sys on_runtime
  set_runtime set_drain say say_out_of_scope sys_act handler_act runtime_act

lemma now_poll: "R c (snd (now_poll E c))"
  unfolding now_poll_def by (intro rules)

lemma send_probe: "R c (snd (send_probe E c))"
  unfolding send_probe_def by (intro rules)

lemma probe_done: "R c (snd (probe_done E a c))"
  unfolding probe_done_def duration_seconds_def update_received_def by (intro rules now_poll)

lemma handle_probe_state: "R c (snd (handle_probe_state E c))"
  unfolding handle_probe_state_def probe_failed_def
  by (intro rules probe_done send_probe) (auto split: cloud_error.splits intro!: rules)

lemma check_signature: "R c (snd (check_signature E p g c))"
  unfolding check_signature_def by (intro rules)

lemma require_ready: "R c (snd (require_ready E dir xs c))"
  unfolding require_ready_def say_not_ready_def Let_def by (intro rules)

lemma inactive_set: "R c (snd (inactive_set E c))"
  unfolding inactive_set_def by (intro rules)

lemma check_object: "R c (snd (check_object E ctx p x c))"
  unfolding check_object_def by (intro rules)

lemma handle_validation: "R c (snd (handle_validation E p g b c))"
  unfolding handle_validation_def
  by (intro rules check_signature inactive_set check_object require_ready)

lemma handle_download: "R c (snd (handle_download E ab p g c))"
  unfolding handle_download_def start_download_def by (intro rules)

lemma handle_install: "R c (snd (handle_install E p ctx c))"
  unfolding handle_install_def by (intro rules inactive_set)

lemma handle_direct_download: "R c (snd (handle_direct_download E ab u c))"
  unfolding handle_direct_download_def Let_def by (intro rules)

lemma local_signature: "R c (snd (local_signature E pkg c))"
  unfolding local_signature_def
  by (auto split: sum.splits archive_error.splits io_error.splits intro!: rules)

lemma handle_prepare_local_install: "R c (snd (handle_prepare_local_install E f c))"
  unfolding handle_prepare_local_install_def extract_object_def Let_def by (intro rules local_signature)

lemma handle_inner: "R c (snd (handle_inner E ct st c))"
proof (cases st)
  case Park
  then show ?thesis by (simp, unfold handle_park_def) (intro rules)
next
  case EntryPoint
  then show ?thesis by (simp, unfold handle_entry_point_def) (intro rules)
next
  case Poll
  then show ?thesis by (simp, unfold handle_poll_def Let_def) (intro rules)
next
  case (Reboot p)
  then show ?thesis by (simp, unfold handle_reboot_def) (intro rules)
next
  case (ErrorState e)
  then show ?thesis by (simp, unfold handle_error_def) (intro rules)
qed (simp_all add: handle_probe_state handle_validation handle_download handle_install
    handle_direct_download handle_prepare_local_install)

lemma on_transition_cancel: "R c (snd (on_transition_cancel E st c))"
  by (cases st) (simp_all add: now_poll return)

lemma handle_with_callback: "R c (snd (handle_with_callback E ct st c))"
  unfolding handle_with_callback_def specialized_handler_def
  by (intro rules handle_inner on_transition_cancel)

lemma send_report: "R c (snd (send_report E sv fw u n pr er lg c))"
  unfolding send_report_def by (intro rules)

lemma handle_and_report_progress: "R c (snd (handle_and_report_progress E ct st c))"
  unfolding handle_and_report_progress_def Let_def by (intro rules handle_inner send_report)

lemma move_to_next_state: "R c (snd (move_to_next_state E ct st c))"
proof -
  have "R c (snd (handle_with_callback_and_report_progress E ct st c))" for st
    unfolding handle_with_callback_and_report_progress_def by (intro rules handle_and_report_progress)
  then show ?thesis by (cases st) (simp_all add: handle_with_callback handle_inner del: handle_inner.simps)
qed

end

end
