(* ===== verification/UH_Slots.thy ===== *)
theory UH_Slots
  imports UH_Frames
begin

text \<open>
  Which installation set is active, on a device whose scripts behave as documented: the checks of
  a validation, the state change callback and the reports leave it alone, so that the set an
  installation takes is the one the validation looked at.
\<close>

section \<open>Who changes the active set\<close>

text \<open>Programs other than the one that sets the active set leave it as it is.\<close>

definition slot_kept :: "env \<Rightarrow> ((string \<Rightarrow> string) \<Rightarrow> installation_set) \<Rightarrow> bool" where
  "slot_kept E slot \<longleftrightarrow>
     (\<forall>c s. c \<notin> range set_command \<longrightarrow> slot (device (snd (run E c s))) = slot (device s))"

text \<open>The three scripts do what is documented, and nothing else touches the active set.\<close>

definition slot_law :: "env \<Rightarrow> ((string \<Rightarrow> string) \<Rightarrow> installation_set) \<Rightarrow> bool" where
  "slot_law E slot \<longleftrightarrow> slot_scripts E slot \<and> slot_kept E slot \<and>
     (\<forall>q s. slot (device (snd (http E q s))) = slot (device s))"

lemma last_path_join: "q \<noteq> [] \<Longrightarrow> last (path_join p q) = last q"
  by (simp add: path_join_def)

lemma last_set_command: "last (set_command a) = CHR ''0'' \<or> last (set_command a) = CHR ''1''"
  by (cases a) (simp_all add: set_command_def)

lemma not_set_command: "last c \<noteq> CHR ''0'' \<Longrightarrow> last c \<noteq> CHR ''1'' \<Longrightarrow> c \<notin> range set_command"
  using last_set_command by auto

lemma hd_set_command: "take 10 c \<noteq> ''updatehub-'' \<Longrightarrow> c \<notin> range set_command"
  by (auto simp: set_command_def SET_SCRIPT_def)

lemma exec_slot: "slot_kept E slot \<Longrightarrow> c \<notin> range set_command \<Longrightarrow> exec E c s = (r, t) \<Longrightarrow> slot (device t) = slot (device s)"
  by (auto simp: slot_kept_def exec_def split: prod.splits) (metis snd_conv)

section \<open>What leaves it alone\<close>

abbreviation slot_of :: "((string \<Rightarrow> string) \<Rightarrow> installation_set) \<Rightarrow> sys \<Rightarrow> installation_set" where
  "slot_of slot s \<equiv> slot (device s)"

lemma slot_exec: "slot_kept E slot \<Longrightarrow> c \<notin> range set_command \<Longrightarrow> io_rel (same (slot_of slot)) (exec E c)"
  by (rule io_relI) (simp add: same_def exec_slot)

lemma slot_quiet: "io_rel quiet m \<Longrightarrow> io_rel (same (slot_of slot)) m"
  by (simp add: io_rel_def quiet_def same_def)

lemma slot_ubi_find: "slot_kept E slot \<Longrightarrow> io_rel (same (slot_of slot)) (ubi_find E v ps)"
proof (induction E v ps rule: ubi_find.induct)
  case (2 E v p ps)
  have "''ubinfo '' @ p @ '' -N '' @ v \<notin> range set_command" by (rule hd_set_command) simp
  from slot_exec [OF 2(4) this] 2 show ?case
    by (auto intro!: frame split: sum.split list.split option.split)
qed (simp add: frame)

lemma slot_get_target: "slot_kept E slot \<Longrightarrow> io_rel (same (slot_of slot)) (get_target E t)"
proof -
  assume k: "slot_kept E slot"
  have "io_rel (same (slot_of slot)) (target_device_from_ubi_volume_name E v)" for v
    using slot_ubi_find [OF k] by (simp add: target_device_from_ubi_volume_name_def io_rel_def)
  moreover have "io_rel (same (slot_of slot)) (target_device_from_mtd_name E v)" for v
    unfolding target_device_from_mtd_name_def by (intro frame slot_quiet) simp_all
  ultimately show ?thesis unfolding get_target_def by (auto intro!: frame split: target_type.split)
qed

lemma slot_valid_target: "slot_kept E slot \<Longrightarrow> io_rel (same (slot_of slot)) (valid_target E a t)"
proof -
  assume k: "slot_kept E slot"
  have "io_rel (same (slot_of slot)) (\<lambda>s. if \<not> fs_exists E dev s then (Inl (DeviceDoesNotExist dev), s)
     else (case metadata_of E dev s of
         Inl e \<Rightarrow> (Inl (UIo e), s)
       | Inr _ \<Rightarrow>
           if readonly E dev s then (Inl (MissingWritePermission dev), s)
           else if a = Exclusive then (ensure_not_mounted E dev s, s)
           else (Inr (), s)))" for dev
    by (auto simp: io_rel_def split: sum.split)
  then show ?thesis unfolding valid_target_def by (intro frame slot_get_target k) simp_all
qed

lemma slot_check_space: "slot_kept E slot \<Longrightarrow> io_rel (same (slot_of slot)) (check_space E t n)"
  unfolding check_space_def obj_utils_def by (intro frame slot_get_target) simp_all

lemma slot_in_path: "io_rel (same (slot_of slot)) (in_path_each E cmds)"
  unfolding in_path_each_def obj_utils_def by (intro frame) simp_all

text \<open>The requirements of every object are checked without a change of the active set.\<close>

lemma slot_check_requirements:
  assumes "slot_kept E slot"
  shows "io_rel (same (slot_of slot)) (check_requirements E ctx x)"
proof -
  have "''fw_setenv --help'' \<notin> range set_command" by (rule hd_set_command) simp
  note rules = frame slot_valid_target [OF assms] slot_check_space [OF assms] slot_in_path slot_exec [OF assms this]
  show ?thesis
  proof (cases x)
    case (Copy y)
    show ?thesis unfolding Copy check_requirements.simps copy_check_def obj_utils_def
      by (intro rules) (auto intro!: rules split: target_type.split)
  next
    case (Flash y)
    show ?thesis unfolding Flash check_requirements.simps flash_check_def obj_utils_def
      by (intro rules) (auto intro!: rules split: target_type.split)
  next
    case (Imxkobs y)
    show ?thesis unfolding Imxkobs check_requirements.simps imxkobs_check_def obj_utils_def by (intro rules) simp_all
  next
    case (Raw y)
    show ?thesis unfolding Raw check_requirements.simps raw_check_def obj_utils_def
      by (intro rules) (auto intro!: rules split: target_type.split)
  next
    case (RawDelta y)
    show ?thesis unfolding RawDelta check_requirements.simps raw_delta_check_def obj_utils_def
      by (intro rules) (auto intro!: rules split: target_type.split)
  next
    case (Tarball y)
    show ?thesis unfolding Tarball check_requirements.simps tarball_check_def obj_utils_def by (intro rules) simp_all
  next
    case (Ubifs y)
    show ?thesis unfolding Ubifs check_requirements.simps ubifs_check_def obj_utils_def
      by (intro rules) (auto intro!: rules split: target_type.split)
  next
    case (UbootEnv y)
    show ?thesis unfolding UbootEnv check_requirements.simps uboot_env_check_def obj_process_def by (intro rules) simp_all
  next
    case (Test y)
    show ?thesis unfolding Test check_requirements.simps test_check_def by (intro rules) simp_all
  qed (simp_all add: unsupported_def rules)
qed

section \<open>The set an installation takes\<close>

text \<open>What \<open>get_inactive_installation_set\<close> gives: the set of a pending upgrade, or the one not active.\<close>

definition install_target :: "((string \<Rightarrow> string) \<Rightarrow> installation_set) \<Rightarrow> agent_context \<Rightarrow> installation_set" where
  "install_target slot c = (case upgrade_to_installation (rs_update (c_runtime c)) of
      Some a \<Rightarrow> a | None \<Rightarrow> other_set (slot (device (c_sys c))))"

lemma inactive_set_target:
  assumes "slot_scripts E slot"
  shows "inactive_set E c = (Inr (install_target slot c), c\<lparr>c_sys := (c_sys c)\<lparr>commands := commands (c_sys c) @
    (if upgrade_to_installation (rs_update (c_runtime c)) = None then [GET_SCRIPT] else [])\<rparr>\<rparr>)"
  by (cases "upgrade_to_installation (rs_update (c_runtime c))")
    (simp_all add: inactive_set_def sys_act_def on_sys_def io_zoom_def io_map_err_def io_return_def
      get_inactive_installation_set_def install_target_def inactive_scripts [OF assms])

abbreviation targeting :: "((string \<Rightarrow> string) \<Rightarrow> installation_set) \<Rightarrow> agent_context \<Rightarrow> runtime_settings \<times> installation_set" where
  "targeting slot c \<equiv> (c_runtime c, slot (device (c_sys c)))"

lemma target_same: "targeting slot d = targeting slot c \<Longrightarrow> install_target slot d = install_target slot c"
  by (simp add: install_target_def split: option.split)

lemma install_target_env [simp]:
  "install_target slot (c\<lparr>c_queue := q\<rparr>) = install_target slot c"
  "install_target slot (c\<lparr>c_sys := (c_sys c)\<lparr>clock := t\<rparr>\<rparr>) = install_target slot c"
  by (rule target_same, simp)+

lemma targeting_sys: "io_rel (same (slot_of slot)) m \<Longrightarrow> io_rel (same (targeting slot)) (on_sys m)"
  unfolding on_sys_def by (erule io_rel_zoom) (simp add: same_def)

lemma targeting_say: "io_rel (same (targeting slot)) (say E l m)"
  unfolding say_def by (rule io_rel_modify) (simp add: same_def)

lemma targeting_check:
  assumes "slot_kept E slot"
  shows "io_rel (same (targeting slot)) (check_object E ctx p x)"
  unfolding check_object_def handler_act_def
  by (intro frame targeting_sys targeting_say slot_check_requirements assms) simp_all

end
