(* ===== verification/UH_Safety.thy ===== *)
theory UH_Safety
  imports UH_Slots
begin

text \<open>
  What a turn of the machine can lead to: the successors of every state, and what holds of a
  package by the time it is installed.
\<close>

section \<open>What a computation yields\<close>

text \<open>\<open>yields P r\<close>: the result of the run \<open>r\<close> satisfies \<open>P\<close> when it is not an error.\<close>

definition yields :: "('a \<Rightarrow> bool) \<Rightarrow> ('e + 'a) \<times> 's \<Rightarrow> bool" where
  "yields P r \<longleftrightarrow> (\<forall>x. fst r = Inr x \<longrightarrow> P x)"

named_theorems yield \<open>rules that reduce what a computation yields\<close>

lemma yields_return [yield]: "P x \<Longrightarrow> yields P (io_return x s)"
  by (simp add: yields_def io_return_def)

lemma yields_throw [yield]: "yields P (io_throw e s)"
  by (simp add: yields_def io_throw_def)

lemma yields_pair [yield]: "P x \<Longrightarrow> yields P (Inr x, s)"
  by (simp add: yields_def)

lemma yields_gets [yield]: "P (f s) \<Longrightarrow> yields P (io_gets f s)"
  by (simp add: yields_def io_gets_def)

lemma yields_bind [yield]: "(\<And>x t. yields P (f x t)) \<Longrightarrow> yields P (io_bind m f s)"
  by (auto simp: yields_def io_bind_def split: prod.split sum.split)

lemma yields_then [yield]: "(\<And>t. yields P (n t)) \<Longrightarrow> yields P (io_then m n s)"
  unfolding io_then_def by (rule yields_bind)

lemma yields_map_err: "yields P (m s) \<Longrightarrow> yields P (io_map_err g m s)"
  by (auto simp: yields_def io_map_err_def split: prod.split sum.split)

lemma yields_catch [yield]: "yields P (m s) \<Longrightarrow> (\<And>e t. yields P (h e t)) \<Longrightarrow> yields P (io_catch m h s)"
  by (auto simp: yields_def io_catch_def split: prod.split sum.split)

lemma yields_if [yield]: "(b \<Longrightarrow> yields P (m s)) \<Longrightarrow> (\<not> b \<Longrightarrow> yields P (n s)) \<Longrightarrow> yields P ((if b then m else n) s)"
  by simp

lemma yields_if_val [yield]: "(b \<Longrightarrow> yields P u) \<Longrightarrow> (\<not> b \<Longrightarrow> yields P v) \<Longrightarrow> yields P (if b then u else v)"
  by simp

lemma yields_sum [yield]: "(\<And>y. yields P (f y s)) \<Longrightarrow> (\<And>y. yields P (g y s)) \<Longrightarrow>
    yields P ((case x of Inl y \<Rightarrow> f y | Inr y \<Rightarrow> g y) s)"
  by (simp split: sum.split)

lemma yields_option [yield]: "yields P (m s) \<Longrightarrow> (\<And>y. yields P (f y s)) \<Longrightarrow>
    yields P ((case x of None \<Rightarrow> m | Some y \<Rightarrow> f y) s)"
  by (simp split: option.split)

lemma yields_prod [yield]: "(\<And>y z. yields P (f y z s)) \<Longrightarrow> yields P ((case x of (y, z) \<Rightarrow> f y z) s)"
  by (simp split: prod.split)

lemma yields_transition [yield]: "yields P (m s) \<Longrightarrow> yields P (n s) \<Longrightarrow>
    yields P ((case x of Continue \<Rightarrow> m | Cancel \<Rightarrow> n) s)"
  by (simp split: transition.split)

lemma yields_stop [yield]: "(\<And>y. yields P (f y s)) \<Longrightarrow> yields P (m s) \<Longrightarrow> yields P (n s) \<Longrightarrow>
    yields P ((case x of Fails y \<Rightarrow> f y | Panics \<Rightarrow> m | Blocks \<Rightarrow> n) s)"
  by (simp split: stop.split)

lemma yields_probe [yield]: "yields P (m s) \<Longrightarrow> (\<And>p g. yields P (f p g s)) \<Longrightarrow> (\<And>n. yields P (h n s)) \<Longrightarrow>
    yields P ((case x of NoUpdate \<Rightarrow> m | Update p g \<Rightarrow> f p g | ExtraPoll n \<Rightarrow> h n) s)"
  by (simp split: probe_response.split)

lemma yieldsD: "yields P r \<Longrightarrow> r = (Inr x, s) \<Longrightarrow> P x"
  by (simp add: yields_def)

section \<open>Successors\<close>

fun successor :: "state \<Rightarrow> state \<Rightarrow> bool" where
  "successor Park t = (t = Park)"
| "successor EntryPoint t = (t = Park \<or> t = Poll \<or> t = Probe)"
| "successor Poll t = (t = Probe)"
| "successor Probe t = (t = Probe \<or> t = EntryPoint \<or> (\<exists>p g. t = Validation p g True))"
| "successor (Validation p g b) t =
     (t = EntryPoint \<or> (if b then t = Download p g else \<exists>ctx. t = Install p ctx))"
| "successor (Download p g) t = (t = EntryPoint \<or> t = Validation p g False)"
| "successor (Install p ctx) t = (t = EntryPoint \<or> (\<exists>a xs. t = Reboot (with_objects a xs p)))"
| "successor (Reboot p) t = (t = EntryPoint)"
| "successor (DirectDownload u) t = (t = EntryPoint \<or> (\<exists>f. t = PrepareLocalInstall f))"
| "successor (PrepareLocalInstall f) t = (t = EntryPoint \<or> (\<exists>p g. t = Validation p (Some g) False))"
| "successor (ErrorState e) t = (t = EntryPoint)"

definition waits_when :: "outcome \<Rightarrow> bool" where
  "waits_when out \<longleftrightarrow> (snd out = Never \<longrightarrow> fst out = Park) \<and>
     ((\<exists>d. snd out = Delayed d) \<longrightarrow> fst out = Probe)"

abbreviation leads :: "state \<Rightarrow> outcome \<Rightarrow> bool" where
  "leads st out \<equiv> successor st (fst out) \<and> waits_when out"

lemma waits_Immediate [simp]: "waits_when (st, Immediate)"
  by (simp add: waits_when_def)

lemma leads_probe_state: "yields (leads Probe) (handle_probe_state E c)"
  unfolding handle_probe_state_def probe_failed_def probe_done_def duration_seconds_def
  by (intro yield) (auto split: cloud_error.splits simp: waits_when_def intro!: yield)

text \<open>The state a download is dropped for: only requests to abort are taken up while one runs.\<close>

definition goes_to_start :: "dropped \<Rightarrow> bool" where
  "goes_to_start ab \<longleftrightarrow> (\<forall>at new_state. ab = Some (at, new_state) \<longrightarrow> new_state = EntryPoint)"

lemma goes_to_start_simps [simp]:
  "goes_to_start None" "goes_to_start (Some (at, new_state)) \<longleftrightarrow> new_state = EntryPoint"
  by (simp_all add: goes_to_start_def)

lemma download_not_preemptive: "is_handling_download st \<Longrightarrow> \<not> is_preemptive_state st"
  by (cases st) simp_all

lemma communication_in_download:
  assumes "is_handling_download st"
  shows "\<exists>d. handle_communication E st rq c =
    (Inr (if rq_open rq \<and> rq_message rq = MsgAbortDownload then Some EntryPoint else None), d)"
  using assms download_not_preemptive [OF assms]
  by (cases "rq_message rq")
    (auto simp: handle_communication_def answer_def handle_info_def handle_probe_def
      handle_abort_download_def handle_local_install_def handle_remote_install_def send_reply_def io_simps)

lemma serve_spec:
  assumes "is_handling_download st"
  shows "\<exists>d. serve E st rqs c =
    (Inr (if \<exists>rq \<in> set rqs. rq_open rq \<and> rq_message rq = MsgAbortDownload then Some EntryPoint else None), d)"
proof (induction rqs arbitrary: c)
  case (Cons rq rqs)
  obtain d where d: "handle_communication E st rq c =
      (Inr (if rq_open rq \<and> rq_message rq = MsgAbortDownload then Some EntryPoint else None), d)"
    using communication_in_download [OF assms] by blast
  show ?case using d Cons.IH [of d] by (auto simp: io_bind_def io_return_def)
qed (simp add: io_return_def)

lemma leads_download: "goes_to_start ab \<Longrightarrow> yields (leads (Download p g)) (handle_download E ab p g c)"
  unfolding handle_download_def by (intro yield) (auto simp: goes_to_start_def split: option.split)

lemma leads_direct_download:
  assumes "goes_to_start ab"
  shows "yields (leads (DirectDownload u)) (handle_direct_download E ab u c)"
proof (cases ab)
  case None
  show ?thesis unfolding handle_direct_download_def Let_def None option.case by (intro yield) simp
next
  case (Some x)
  then obtain i j where x: "x = ((i, j), EntryPoint)" using assms by (cases x) auto
  show ?thesis unfolding handle_direct_download_def Let_def Some x option.case prod.case by (intro yield) simp
qed

lemma leads_inner: "goes_to_start ab \<Longrightarrow> yields (leads st) (handle_inner E ab st c)"
proof (cases st)
  case Park
  then show ?thesis by (simp, unfold handle_park_def) (intro yield, simp add: waits_when_def)
next
  case EntryPoint
  then show ?thesis by (simp, unfold handle_entry_point_def) (intro yield, simp_all)
next
  case Poll
  then show ?thesis
    by (simp, unfold handle_poll_def Let_def) (intro yield, simp_all add: waits_when_def)
next
  case Probe
  then show ?thesis using leads_probe_state by simp
next
  case (Validation p g b)
  then show ?thesis by (simp, unfold handle_validation_def) (intro yield, simp_all)
next
  case (Download p g)
  moreover assume "goes_to_start ab"
  ultimately show ?thesis using leads_download by simp
next
  case (Install p ctx)
  then show ?thesis by (simp, unfold handle_install_def) (intro yield, auto)
next
  case (Reboot p)
  then show ?thesis by (simp, unfold handle_reboot_def) (intro yield, simp)
next
  case (DirectDownload u)
  moreover assume "goes_to_start ab"
  ultimately show ?thesis using leads_direct_download by simp
next
  case (PrepareLocalInstall f)
  then show ?thesis by (simp, unfold handle_prepare_local_install_def) (intro yield, auto)
next
  case (ErrorState e)
  then show ?thesis by (simp, unfold handle_error_def) (intro yield, simp)
qed

lemma leads_report:
  assumes "goes_to_start ab"
  shows "yields (leads st) (handle_and_report_progress E ab st c)"
proof -
  have "yields (leads st) (io_bind (io_attempt (handle_inner E ab st)) (\<lambda>r. case r of
      Inr out \<Rightarrow> io_then (rep (leave_state_name st) None None None) (io_return out)
    | Inl (Fails e) \<Rightarrow> io_bind (io_gets (\<lambda>d. memory_log (c_drain d))) (\<lambda>lg.
        io_then (rep ''error'' (Some (enter_state_name st)) (Some (transition_error_text E e)) (Some lg))
          (io_throw (Fails e)))
    | Inl other \<Rightarrow> io_throw other) d)" for rep :: "string \<Rightarrow> string option \<Rightarrow> string option \<Rightarrow> string option \<Rightarrow> unit act" and d
    using leads_inner [OF assms, of st E d]
    by (auto simp: yields_def io_simps split: prod.splits sum.splits stop.splits)
  then show ?thesis unfolding handle_and_report_progress_def Let_def by (intro yields_then)
qed

lemma leads_callback: "goes_to_start ab \<Longrightarrow> successor st EntryPoint \<Longrightarrow> yields (leads st) (handle_with_callback E ab st c)"
  unfolding handle_with_callback_def by (intro yield leads_inner) (simp_all add: waits_when_def)

lemma leads_callback_report:
  "goes_to_start ab \<Longrightarrow> successor st EntryPoint \<Longrightarrow> yields (leads st) (handle_with_callback_and_report_progress E ab st c)"
  unfolding handle_with_callback_and_report_progress_def
  by (intro yield leads_report) (simp_all add: waits_when_def)

lemma leads_move: "goes_to_start ab \<Longrightarrow> yields (leads st) (move_to_next_state E ab st c)"
  using leads_inner [of ab st E c] leads_callback [of ab st E c] leads_callback_report [of ab st E c]
  by (cases st) (simp_all del: handle_inner.simps)

text \<open>A turn answers what is queued, and then the state it is in is left for the next one or has failed.\<close>

lemma turn_cases:
  assumes "turn E rqs pos st c = (Inr (st', tr), d)"
  obtains e s f where "consume_pending E st e = (Inr s, f)"
    "(\<exists>ab g. goes_to_start ab \<and> move_to_next_state E ab s g = (Inr (st', tr), d)) \<or> (\<exists>x. st' = ErrorState x \<and> tr = Immediate)"
proof -
  obtain e s f where s: "consume_pending E st e = (Inr s, f)"
    and r: "io_catch (run_state E rqs pos s) (\<lambda>e. case e of
      Fails x \<Rightarrow> io_return (ErrorState x, Immediate) | other \<Rightarrow> io_throw other) f = (Inr (st', tr), d)"
    using assms unfolding turn_def by (auto elim!: io_then_Inr_E io_bind_Inr_E)
  have "(\<exists>ab g. goes_to_start ab \<and> move_to_next_state E ab s g = (Inr (st', tr), d)) \<or> (\<exists>x. st' = ErrorState x \<and> tr = Immediate)"
  proof (cases "run_state E rqs pos s f = (Inr (st', tr), d)")
    case True
    show ?thesis
    proof (cases "is_handling_download s")
      case dl: True
      obtain g where "serve E s rqs f =
          (Inr (if \<exists>rq \<in> set rqs. rq_open rq \<and> rq_message rq = MsgAbortDownload then Some EntryPoint else None), g)"
        using serve_spec [OF dl] by blast
      with True dl show ?thesis by (auto simp: run_state_def io_bind_def split: if_splits)
    next
      case False
      then show ?thesis using True by (auto simp: run_state_def)
    qed
  next
    case False
    then show ?thesis
      using r by (auto simp: io_catch_def io_return_def io_throw_def split: prod.splits sum.splits stop.splits)
  qed
  with s show thesis by (rule that)
qed

section \<open>What the states leave alone\<close>

definition untouched :: "agent_context \<Rightarrow> agent_context \<Rightarrow> bool" where
  "untouched c d \<longleftrightarrow> c_settings d = c_settings c \<and> c_firmware d = c_firmware c \<and>
     c_waker d = c_waker c \<and> c_queue d = c_queue c \<and> c_replies d = c_replies c"

interpretation untouched: act_frame untouched
  by unfold_locales (auto simp: untouched_def)

section \<open>From validation to installation\<close>

lemma io_lift_Inr: "io_lift r s = (Inr x, t) \<longleftrightarrow> r = Inr x \<and> t = s"
  by (auto simp: io_lift_def)

lemma io_return_Inr: "io_return y s = (Inr x, t) \<longleftrightarrow> y = x \<and> t = s"
  by (auto simp: io_return_def)

lemma io_gets_Inr: "io_gets f s = (Inr x, t) \<longleftrightarrow> x = f s \<and> t = s"
  by (auto simp: io_gets_def)

lemma res_map_err_Inr [simp]: "res_map_err f r = Inr x \<longleftrightarrow> r = Inr x"
  by (auto simp: res_map_err_def split: sum.splits)

lemma io_map_err_Inr: "io_map_err g m s = (Inr x, t) \<longleftrightarrow> m s = (Inr x, t)"
  by (auto simp: io_map_err_def split: prod.splits sum.splits)

lemma on_sys_result: "on_sys m c = (r, d) \<Longrightarrow> \<exists>t. m (c_sys c) = (r, t) \<and> d = c\<lparr>c_sys := t\<rparr>"
  by (auto simp: on_sys_def io_zoom_def split: prod.splits)

lemma sys_act_Inr: "sys_act f m c = (Inr x, d) \<Longrightarrow> \<exists>t. m (c_sys c) = (Inr x, t) \<and> d = c\<lparr>c_sys := t\<rparr>"
  unfolding sys_act_def io_map_err_Inr by (rule on_sys_result)

lemma check_signature_Inr:
  assumes "check_signature E p g c = (Inr u, d)"
  shows "\<forall>key. pub_key (c_firmware c) = Some key \<longrightarrow> (\<exists>sig. g = Some sig \<and> signature_validate E key p sig (c_sys c) = Inr ())"
  using assms
  by (auto simp: check_signature_def io_simps sys_act_def on_sys_def say_def split: option.splits sum.splits)

lemma check_objects_Inr:
  "io_each (check_object E ctx p) xs c = (Inr u, d) \<Longrightarrow> x \<in> set xs \<Longrightarrow>
   \<exists>s t. check_requirements E ctx x s = (Inr (), t)"
proof (induction xs arbitrary: c)
  case (Cons y ys)
  obtain v e where y: "check_object E ctx p y c = (Inr v, e)" "io_each (check_object E ctx p) ys e = (Inr u, d)"
    using Cons.prems(1) by (auto elim: io_then_Inr_E)
  have "\<exists>s t. check_requirements E ctx y s = (Inr (), t)"
    using y(1) by (auto simp: check_object_def handler_act_def on_sys_def io_simps split: prod.splits sum.splits)
  then show ?case using Cons y(2) by auto
qed simp

lemma require_ready_Inr:
  assumes "require_ready E dir xs c = (Inr u, d)"
  shows "d = c \<and> (\<forall>x \<in> set xs. \<not> allow_remote_install x \<longrightarrow> info_status E dir x (c_sys c) = Inr Ready)"
proof -
  have "not_ready E dir xs (c_sys c) = []"
  proof (rule ccontr)
    assume "not_ready E dir xs (c_sys c) \<noteq> []"
    then have "fst (require_ready E dir xs c) \<noteq> Inr u"
      by (auto simp: require_ready_def Let_def io_simps split: prod.splits sum.splits)
    then show False using assms by simp
  qed
  then show ?thesis using assms by (auto simp: require_ready_def not_ready_def filter_empty_conv)
qed

text \<open>
  What the agent has made sure of when it starts to install: the objects that were checked are
  those of the set the installation takes. They were found ready on the files the machine still has.
\<close>

definition objects_ready :: "env \<Rightarrow> string \<Rightarrow> object list \<Rightarrow> sys \<Rightarrow> bool" where
  "objects_ready E dir xs s \<longleftrightarrow>
     (\<forall>x \<in> set xs. \<not> allow_remote_install x \<longrightarrow> info_status E dir x s = Inr Ready)"

definition install_ok :: "env \<Rightarrow> ((string \<Rightarrow> string) \<Rightarrow> installation_set) \<Rightarrow> update_package \<Rightarrow> installer_context \<Rightarrow>
    agent_context \<Rightarrow> bool" where
  "install_ok E slot p ctx c \<longleftrightarrow>
     compatible_with p (c_firmware c) = Inr () \<and>
     (\<forall>key. pub_key (c_firmware c) = Some key \<longrightarrow> (\<exists>sig s. signature_validate E key p sig s = Inr ())) \<and>
     applied_package_uid (rs_update (c_runtime c)) \<noteq> Some (package_uid E p) \<and>
     offline_update ctx \<and>
     validate_install_modes p (c_settings c) (install_target slot c) = Inr () \<and>
     (\<forall>x \<in> set (objects p (install_target slot c)). \<exists>s t. check_requirements E ctx x s = (Inr (), t)) \<and>
     (\<exists>s. files s = files (c_sys c) \<and> objects_ready E (download_dir_of c) (objects p (install_target slot c)) s)"

text \<open>The steps of a validation that decides to install.\<close>

lemma validation_steps:
  assumes "handle_validation E p g b c = (Inr (Install q ctx, tr), d)"
  obtains u c1 a c2 v w where "check_signature E p g c = (Inr u, c1)" "inactive_set E c1 = (Inr a, c2)"
    "compatible_with p (c_firmware c2) = Inr ()" "validate_install_modes p (c_settings c2) a = Inr ()"
    "io_each (check_object E ctx p) (objects p a) c2 = (Inr v, d)"
    "applied_package_uid (rs_update (c_runtime d)) \<noteq> Some (package_uid E p)" "\<not> b"
    "require_ready E (download_dir (update (c_settings c2))) (objects p a) d = (Inr w, d)"
    "q = p" "ctx = installer_context_for E c1 p b" "tr = Immediate"
proof -
  let ?decide = "\<lambda>ctx cfg a applied. if applied = Some (package_uid E p)
      then io_then (say E ''info'' ''not downloading update package, the same package has already been installed'')
             (io_return (EntryPoint, Immediate))
      else if b then io_return (Download p g, Immediate)
      else io_then (require_ready E (download_dir (update cfg)) (objects p a)) (io_return (Install p ctx, Immediate))"
  let ?check = "\<lambda>ctx cfg fw a. io_then (io_lift (res_map_err (Fails \<circ> TeUpdatePackage) (compatible_with p fw)))
      (io_then (io_lift (res_map_err (Fails \<circ> TeUpdatePackage) (validate_install_modes p cfg a)))
      (io_then (io_each (check_object E ctx p) (objects p a))
      (io_bind (io_gets (\<lambda>c. applied_package_uid (rs_update (c_runtime c)))) (?decide ctx cfg a))))"
  from assms obtain u c1 where c1: "check_signature E p g c = (Inr u, c1)"
    and r1: "io_bind (io_gets (\<lambda>c. installer_context_for E c p b)) (\<lambda>ctx. io_bind (inactive_set E) (\<lambda>a.
       io_bind (io_gets c_firmware) (\<lambda>fw. io_bind (io_gets c_settings) (\<lambda>cfg. ?check ctx cfg fw a)))) c1
      = (Inr (Install q ctx, tr), d)"
    unfolding handle_validation_def by (rule io_then_Inr_E)
  let ?ctx = "installer_context_for E c1 p b"
  from r1 obtain a c2 where c2: "inactive_set E c1 = (Inr a, c2)"
    and r2: "?check ?ctx (c_settings c2) (c_firmware c2) a c2 = (Inr (Install q ctx, tr), d)"
    by (auto simp: io_bind_def io_gets_def split: prod.splits sum.splits)
  have ok: "compatible_with p (c_firmware c2) = Inr ()" "validate_install_modes p (c_settings c2) a = Inr ()"
    using r2 by (auto elim!: io_then_Inr_E simp: io_lift_Inr)
  from r2 ok obtain v c3 where c3: "io_each (check_object E ?ctx p) (objects p a) c2 = (Inr v, c3)"
    and r3: "?decide ?ctx (c_settings c2) a (applied_package_uid (rs_update (c_runtime c3))) c3 = (Inr (Install q ctx, tr), d)"
    by (auto elim!: io_then_Inr_E simp: io_lift_Inr io_bind_def io_gets_def)
  have nb: "applied_package_uid (rs_update (c_runtime c3)) \<noteq> Some (package_uid E p)" "\<not> b"
    using r3 by (auto simp: io_return_Inr say_def io_simps split: if_splits)
  from r3 nb have "io_then (require_ready E (download_dir (update (c_settings c2))) (objects p a))
      (io_return (Install p ?ctx, Immediate)) c3 = (Inr (Install q ctx, tr), d)" by simp
  then obtain w c4 where c4: "require_ready E (download_dir (update (c_settings c2))) (objects p a) c3 = (Inr w, c4)"
    and fin: "(io_return (Install p ?ctx, Immediate) :: outcome act) c4 = (Inr (Install q ctx, tr), d)"
    by (rule io_then_Inr_E)
  have d: "c4 = c3" "d = c3" "q = p" "ctx = ?ctx" "tr = Immediate"
    using fin require_ready_Inr [OF c4] by (auto simp: io_return_Inr)
  show thesis using that [OF c1 c2 ok] c3 nb c4 d by simp
qed

lemma validation_installs:
  assumes "handle_validation E p g b c = (Inr (Install q ctx, tr), d)" and "slot_law E slot"
  shows "q = p \<and> \<not> b \<and> tr = Immediate \<and> install_ok E slot p ctx d"
proof -
  obtain u c1 a c2 v w where s: "check_signature E p g c = (Inr u, c1)" "inactive_set E c1 = (Inr a, c2)"
    "compatible_with p (c_firmware c2) = Inr ()" "validate_install_modes p (c_settings c2) a = Inr ()"
    "io_each (check_object E ctx p) (objects p a) c2 = (Inr v, d)"
    "applied_package_uid (rs_update (c_runtime d)) \<noteq> Some (package_uid E p)" "\<not> b"
    "require_ready E (download_dir (update (c_settings c2))) (objects p a) d = (Inr w, d)"
    "q = p" "ctx = installer_context_for E c1 p b" "tr = Immediate"
    using validation_steps [OF assms(1)] by metis
  have f1: "untouched c c1" using untouched.check_signature [of c E p g] s(1) by simp
  have f2: "untouched c1 c2" using untouched.inactive_set [of c1 E] s(2) by simp
  have "untouched c2 (snd (io_each (check_object E ctx p) (objects p a) c2))"
    by (rule untouched.each) (rule untouched.check_object)
  then have f3: "untouched c2 d" using s(5) by simp
  have same: "c_settings c2 = c_settings d" "c_firmware c2 = c_firmware d" "c_firmware c = c_firmware d"
    using f1 f2 f3 by (simp_all add: untouched_def)
  have law: "slot_scripts E slot" "slot_kept E slot" using assms(2) by (simp_all add: slot_law_def)
  have t: "a = install_target slot c1" "targeting slot c2 = targeting slot c1"
    using s(2) unfolding inactive_set_target [OF law(1)] by auto
  have "io_rel (same (targeting slot)) (io_each (check_object E ctx p) (objects p a))"
    by (intro frame targeting_check law) simp_all
  then have "targeting slot d = targeting slot c2" using s(5) by (auto simp: same_def dest: io_relD)
  then have a: "install_target slot d = a" using t target_same [where d = d and c = c1 and slot = slot] by simp
  have "\<forall>key. pub_key (c_firmware d) = Some key \<longrightarrow> (\<exists>sig s. signature_validate E key p sig s = Inr ())"
    using check_signature_Inr [OF s(1)] same by metis
  moreover have "offline_update ctx" using s(7,10) by (simp add: installer_context_for_def)
  moreover have "objects_ready E (download_dir_of d) (objects p a) (c_sys d)"
    using require_ready_Inr [OF s(8)] same by (simp add: objects_ready_def download_dir_of_def)
  ultimately show ?thesis
    unfolding install_ok_def a using s same check_objects_Inr [OF s(5)] by metis
qed

lemma move_installs:
  assumes "goes_to_start ab" "move_to_next_state E ab st c = (Inr (Install p ctx, tr), d)"
  shows "tr = Immediate \<and> (slot_law E slot \<longrightarrow> install_ok E slot p ctx d)"
proof -
  have "successor st (Install p ctx)"
    using yieldsD [OF leads_move [OF assms(1)] assms(2)] by simp
  then obtain g where st: "st = Validation p g False"
    by (cases st) (auto split: if_splits)
  have "handle_validation E p g False c = (Inr (Install p ctx, tr), d)"
    using assms(2) st by simp
  moreover have "waits_when (Install p ctx, tr)" using yieldsD [OF leads_move [OF assms(1)] assms(2)] by simp
  then have "tr = Immediate" by (cases tr) (auto simp: waits_when_def)
  ultimately show ?thesis using validation_installs by blast
qed

lemma turn_installs:
  assumes "turn E rqs at st c = (Inr (Install p ctx, tr), d)"
  shows "tr = Immediate \<and> (slot_law E slot \<longrightarrow> install_ok E slot p ctx d)"
  using assms by (rule turn_cases) (auto dest: move_installs)

section \<open>Requests\<close>

text \<open>The states a request can ask for.\<close>

fun requested :: "state option \<Rightarrow> bool" where
  "requested None = True"
| "requested (Some EntryPoint) = True"
| "requested (Some (Validation p g b)) = b"
| "requested (Some (PrepareLocalInstall f)) = True"
| "requested (Some (DirectDownload u)) = True"
| "requested (Some _) = False"

abbreviation asks :: "'r \<times> state option \<Rightarrow> bool" where
  "asks x \<equiv> requested (snd x)"

lemma asks_answer: "yields asks (m c) \<Longrightarrow> yields asks (answer f m c)"
  by (auto simp: yields_def answer_def io_bind_def io_return_def split: prod.splits sum.splits)

lemma asks_probe: "yields asks (handle_probe E st sv c)"
  unfolding handle_probe_def by (intro yield) simp_all

lemma asks_abort: "yields asks (handle_abort_download st c)"
  unfolding handle_abort_download_def by (intro yield) simp

lemma asks_local: "yields asks (handle_local_install st f c)"
  unfolding handle_local_install_def by (intro yield) simp_all

lemma asks_remote: "yields asks (handle_remote_install st u c)"
  unfolding handle_remote_install_def by (intro yield) simp_all

lemma requested_result: "yields asks (request_result E st m c)"
  by (cases m)
    (auto simp del: io_bind_return intro!: asks_answer asks_probe asks_abort asks_local asks_remote yields_bind yields_return)

lemma requested_communication: "yields requested (handle_communication E st rq c)"
proof -
  obtain r d where rr: "request_result E st (rq_message rq) c = (r, d)" by fastforce
  show ?thesis
  proof (cases r)
    case (Inr x)
    then obtain resp ns where r: "r = Inr (resp, ns)" by (cases x) auto
    have "requested (if rq_open rq then ns else None)"
      using yieldsD [OF requested_result rr [unfolded r]] by simp
    then have "yields requested (io_then (send_reply rq (Inr resp)) (io_return (if rq_open rq then ns else None)) d)"
      by (intro yields_then yields_return)
    then show ?thesis using rr r by (simp add: handle_communication_def io_bind_def io_attempt_def)
  next
    case (Inl e)
    have "yields requested (io_then (say E ''error'' t) (io_then (send_reply rq (Inl x)) (io_return None)) d)" for t x
      by (intro yields_then yields_return) simp
    then show ?thesis using rr Inl
      by (cases e) (simp_all add: handle_communication_def io_bind_def io_attempt_def yields_throw)
  qed
qed

section \<open>States that only a transition enters\<close>

text \<open>
  A kind of state that the machine does not start in, that no request asks for and in which it
  does not wait: what every transition into such a state provides holds whenever the machine is
  about to turn it.
\<close>

locale entered =
  fixes E :: env and K :: "state \<Rightarrow> bool" and P :: "state \<Rightarrow> agent_context \<Rightarrow> bool"
  assumes start: "\<not> K EntryPoint"
    and turned: "turn E rqs pos st c = (Inr (st', tr), d) \<Longrightarrow> K st' \<Longrightarrow> tr = Immediate \<and> P st' d"
    and asked: "requested (Some st) \<Longrightarrow> \<not> K st"
    and queue: "P st c \<Longrightarrow> P st (c\<lparr>c_queue := rqs\<rparr>)"
    and time: "P st c \<Longrightarrow> P st (c\<lparr>c_sys := (c_sys c)\<lparr>clock := t\<rparr>\<rparr>)"
begin

definition kept :: "config \<Rightarrow> bool" where
  "kept cfg \<longleftrightarrow> (case cfg of (ph, st, c) \<Rightarrow> K st \<longrightarrow> (\<forall>tr. ph \<noteq> Waiting tr) \<and> (ph = Turning \<longrightarrow> P st c))"

lemma kept_step: "mstep E cfg cfg' \<Longrightarrow> kept cfg \<Longrightarrow> kept cfg'"
proof (induction rule: mstep.induct)
  case (turn rqs pos st c st' tr c')
  then show ?case using turned [OF turn.hyps] by (auto simp: kept_def)
next
  case (turn_stops rqs pos st c e c')
  then show ?case by (cases e) (auto simp: kept_def)
next
  case (answer c rq rqs st ns c' tr)
  have "requested ns" using yieldsD [OF requested_communication answer.hyps(3)] .
  then show ?case using answer.prems asked by (cases ns) (auto simp: kept_def)
next
  case (answer_stops c rq rqs st e c' tr)
  then show ?case by (cases e) (auto simp: kept_def)
qed (auto simp: kept_def intro: queue time)

theorem held:
  assumes "reachable E c0 (Turning, st, c)" "K st"
  shows "P st c"
proof -
  have "kept (Turning, EntryPoint, c0)" by (simp add: kept_def start)
  moreover have "(mstep E)\<^sup>*\<^sup>* (Turning, EntryPoint, c0) (Turning, st, c)"
    using assms(1) by (simp add: reachable_def)
  moreover have "(mstep E)\<^sup>*\<^sup>* cfg cfg' \<Longrightarrow> kept cfg \<Longrightarrow> kept cfg'" for cfg cfg'
    by (induction rule: rtranclp_induct) (simp_all add: kept_step)
  ultimately have "kept (Turning, st, c)" by blast
  then show ?thesis using assms(2) by (simp add: kept_def)
qed

end

fun installing :: "state \<Rightarrow> bool" where
  "installing (Install _ _) = True"
| "installing _ = False"

lemma installing_iff: "installing st \<longleftrightarrow> (\<exists>p ctx. st = Install p ctx)"
  by (cases st) simp_all

lemma install_ok_env [simp]:
  "install_ok E slot p ctx (c\<lparr>c_queue := q\<rparr>) = install_ok E slot p ctx c"
  "install_ok E slot p ctx (c\<lparr>c_sys := (c_sys c)\<lparr>clock := t\<rparr>\<rparr>) = install_ok E slot p ctx c"
  by (simp_all add: install_ok_def download_dir_of_def)

text \<open>On a device that obeys the law of the scripts; on others there is nothing to hold.\<close>

definition install_checked :: "env \<Rightarrow> ((string \<Rightarrow> string) \<Rightarrow> installation_set) \<Rightarrow> state \<Rightarrow> agent_context \<Rightarrow> bool" where
  "install_checked E slot st c \<longleftrightarrow> slot_law E slot \<longrightarrow> (\<forall>p ctx. st = Install p ctx \<longrightarrow> install_ok E slot p ctx c)"

interpretation installation: entered E installing "install_checked E slot" for E slot
proof
  show "turn E rqs pos st c = (Inr (st', tr), d) \<Longrightarrow> installing st' \<Longrightarrow> tr = Immediate \<and> install_checked E slot st' d"
    for rqs pos st c st' tr d
    using turn_installs by (cases pos) (fastforce simp: installing_iff install_checked_def)
qed (auto simp: install_checked_def installing_iff)

section \<open>The channels of the machine\<close>

definition machine_ok :: "config \<Rightarrow> bool" where
  "machine_ok cfg \<longleftrightarrow> (case cfg of (ph, st, c) \<Rightarrow> c_waker c \<le> 1 \<and> length (c_queue c) \<le> queue_cap)"

text \<open>What every part of a turn keeps, the answering of requests included.\<close>

definition keeps :: "agent_context \<Rightarrow> agent_context \<Rightarrow> bool" where
  "keeps c d \<longleftrightarrow> c_settings d = c_settings c \<and> c_firmware d = c_firmware c \<and>
     length (c_queue d) \<le> length (c_queue c) \<and> (c_waker c \<le> 1 \<longrightarrow> c_waker d \<le> 1)"

interpretation keeps: act_frame keeps
  by unfold_locales (auto simp: keeps_def)

lemma keeps_send_wake: "keeps c (snd (send_wake c))"
  by (simp add: keeps_def send_wake_def)

lemma keeps_send_reply: "keeps c (snd (send_reply rq r c))"
  by (simp add: keeps_def send_reply_def io_modify_def)

lemma keeps_begin_probe: "keeps c (snd (begin_probe E sv c))"
  unfolding begin_probe_def by (intro keeps.rules)

lemma keeps_handle_probe: "keeps c (snd (handle_probe E st sv c))"
  unfolding handle_probe_def update_received_def
  by (intro keeps.rules keeps_begin_probe keeps.send_probe keeps_send_wake keeps.now_poll)

lemma keeps_answer: "keeps c (snd (m c)) \<Longrightarrow> keeps c (snd (answer f m c))"
  unfolding answer_def by (intro keeps.rules)

lemma keeps_request: "keeps c (snd (request_result E st m c))"
proof (cases m)
  case MsgInfo
  show ?thesis unfolding MsgInfo request_result.simps handle_info_def by (intro keeps_answer keeps.rules)
next
  case (MsgProbe sv)
  then show ?thesis by (simp add: keeps_answer keeps_handle_probe)
next
  case MsgAbortDownload
  show ?thesis unfolding MsgAbortDownload request_result.simps handle_abort_download_def
    by (intro keeps_answer keeps.rules)
next
  case (MsgLocalInstall f)
  show ?thesis unfolding MsgLocalInstall request_result.simps handle_local_install_def
    by (intro keeps_answer keeps.rules keeps_send_wake)
next
  case (MsgRemoteInstall u)
  show ?thesis unfolding MsgRemoteInstall request_result.simps handle_remote_install_def
    by (intro keeps_answer keeps.rules keeps_send_wake)
qed

lemma keeps_communication: "keeps c (snd (handle_communication E st rq c))"
  unfolding handle_communication_def by (intro keeps.rules keeps_request keeps_send_reply)

lemma keeps_pop: "keeps c (snd (pop_queue c))"
  by (simp add: keeps_def pop_queue_def io_modify_def)

lemma keeps_consume: "keeps c (snd (consume E st rqs c))"
  by (induction rqs arbitrary: st c) (auto intro!: keeps.return keeps.then_ keeps.bind keeps_pop keeps_communication)

lemma keeps_serve: "keeps c (snd (serve E st rqs c))"
proof (induction rqs arbitrary: c)
  case (Cons rq rqs)
  show ?case unfolding serve.simps by (intro keeps.rules keeps_communication Cons.IH)
qed (simp add: keeps.return)

lemma keeps_turn: "keeps c (snd (turn E rqs at st c))"
proof -
  have "keeps c (snd (run_state E rqs at st c))" for st c
    unfolding run_state_def by (intro keeps.rules keeps_serve keeps.move_to_next_state)
  moreover have "keeps c (snd (discharge_waker c :: (transition_error stop + unit) \<times> agent_context))" for c
    by (simp add: keeps_def discharge_waker_def io_modify_def)
  ultimately show ?thesis
    unfolding turn_def consume_pending_def by (intro keeps.rules keeps_consume)
qed

lemma keeps_okD: "keeps c d \<Longrightarrow> c_waker c \<le> 1 \<Longrightarrow> length (c_queue c) \<le> queue_cap \<Longrightarrow>
    c_waker d \<le> 1 \<and> length (c_queue d) \<le> queue_cap"
  by (auto simp: keeps_def)

lemma turn_keeps: "turn E rqs at st c = (r, d) \<Longrightarrow> keeps c d"
  using keeps_turn [of c E rqs at st] by simp

lemma communication_keeps: "handle_communication E st rq c = (r, d) \<Longrightarrow> keeps c d"
  using keeps_communication [of c E st rq] by simp

lemma keeps_lost_probe:
  assumes "begin_probe E sv c = (r :: transition_error stop + unit, c')" "d = c' \<or> d = snd (send_probe E c')"
  shows "keeps c d"
proof -
  have "keeps c c'" using keeps_begin_probe [of c E sv, where 'a = "transition_error stop"] assms(1) by simp
  then show ?thesis using assms(2) keeps.trans keeps.send_probe by blast
qed

lemma machine_ok_step: "mstep E cfg cfg' \<Longrightarrow> machine_ok cfg \<Longrightarrow> machine_ok cfg'"
proof (induction rule: mstep.induct)
  case (turn rqs at st c st' tr c')
  then show ?case using keeps_okD [OF turn_keeps [OF turn.hyps]] by (simp add: machine_ok_def)
next
  case (turn_stops rqs at st c e c')
  then show ?case using keeps_okD [OF turn_keeps [OF turn_stops.hyps]] by (simp add: machine_ok_def)
next
  case (answer c rq rqs st ns c' tr)
  then show ?case using keeps_okD [OF communication_keeps [OF answer.hyps(3)]] by (simp add: machine_ok_def)
next
  case (answer_stops c rq rqs st e c' tr)
  then show ?case using keeps_okD [OF communication_keeps [OF answer_stops.hyps(3)]] by (simp add: machine_ok_def)
next
  case (lost_probe c rq rqs server st tr r c' d)
  then show ?case using keeps_lost_probe [OF lost_probe(5,6)] by (simp add: machine_ok_def keeps_def)
qed (auto simp: machine_ok_def queue_cap_def)

lemma machine_ok_reachable:
  assumes "reachable E c0 cfg" "c_waker c0 \<le> 1" "length (c_queue c0) \<le> queue_cap"
  shows "machine_ok cfg"
  using assms(1) unfolding reachable_def
proof (induction rule: rtranclp_induct)
  case base
  then show ?case using assms by (simp add: machine_ok_def)
next
  case (step y z)
  then show ?case by (blast intro: machine_ok_step)
qed

end
