(* ===== verification/UH_Examples.thy ===== *)
theory UH_Examples
  imports UH_Safety
begin

text \<open>
  A device to evaluate the model on: scripts that print the first installation set, an archive
  whose entries hold the first letter of their names, and a package without objects.
\<close>

definition example_package_json :: json where
  "example_package_json = JObj [(''product'', JStr ''p''), (''version'', JStr ''1''),
     (''objects'', JArr [JArr [], JArr []])]"

definition example_package :: update_package where
  "example_package = \<lparr>inner = \<lparr>product = ''p'', version = ''1'', supported_hardware = AnyHardware,
     set_objects = ([], [])\<rparr>, raw = ''m''\<rparr>"

definition example_agent_env :: env where
  "example_agent_env = example_env\<lparr>run := (\<lambda>c s. (Inr \<lparr>stdout = ''0'', stderr = []\<rparr>, s)),
     json_parse := (\<lambda>_. Inr example_package_json), archive_entry := (\<lambda>_ n. Inr [hd n])\<rparr>"

definition example_context :: agent_context where
  "example_context = \<lparr>c_settings = settings_default, c_runtime = rs_default,
     c_firmware = \<lparr>product_uid = ''u'', fw_version = ''0'', hardware = ''h'', pub_key = None,
       device_identity = [], device_attributes = []\<rparr>,
     c_waker = 0, c_queue = [], c_replies = [], c_drain = drain_default,
     c_sys = example_sys\<lparr>files := [(''/p'', Regular ''pkg'')]\<rparr>\<rparr>"

definition local_request :: request where
  "local_request = \<lparr>rq_id = 1, rq_message = MsgLocalInstall ''/p'', rq_open = True\<rparr>"

text \<open>Some turns in a row, as long as none waits or fails.\<close>

fun turns :: "env \<Rightarrow> nat \<Rightarrow> state \<Rightarrow> agent_context \<Rightarrow> (state \<times> agent_context) option" where
  "turns E 0 st c = Some (st, c)"
| "turns E (Suc n) st c = (case turn E [] (0, 0) st c of
     (Inr (st', Immediate), c') \<Rightarrow> turns E n st' c'
   | _ \<Rightarrow> None)"

lemma turns_steps: "turns E n st c = Some (st', c') \<Longrightarrow> (mstep E)\<^sup>*\<^sup>* (Turning, st, c) (Turning, st', c')"
proof (induction n arbitrary: st c)
  case (Suc n)
  then obtain st1 c1 where t: "turn E [] (0, 0) st c = (Inr (st1, Immediate), c1)" "turns E n st1 c1 = Some (st', c')"
    by (auto split: prod.splits sum.splits step_transition.splits)
  have "mstep E (Turning, st, c) (Turning, st1, c1)" using mstep.turn [OF t(1)] by simp
  then show ?case using Suc.IH [OF t(2)] by (rule converse_rtranclp_into_rtranclp)
qed simp

lemma turns_reachable: "turns E n EntryPoint c0 = Some (st, c) \<Longrightarrow> reachable E c0 (Turning, st, c)"
  using turns_steps by (simp add: reachable_def)

end
