(* ===== verification/UH_Requests.thy ===== *)
theory UH_Requests
  imports UH_Examples
begin

text \<open>
  What the machine does with the requests of its clients (\<open>states/machine/mod.rs\<close>) and with the
  loop around the states.
\<close>

section \<open>Lemmas\<close>

lemma io_attempt_pair: "m s = (r, t) \<Longrightarrow> io_attempt m s = (Inr r, t)"
  by (simp add: io_attempt_def)

lemma download_each_cut: "fst (download_each E sv uid pkg dir (Some x) objs s) \<noteq> Inr True"
proof (induction objs arbitrary: x s)
  case (Cons ob obs)
  then show ?case
    by (cases x; cases "fst x"; cases ob)
      (auto simp: io_simps split: prod.splits sum.splits)
qed (simp add: io_return_def)

lemma start_download_cut: "fst (start_download E (Some x) p c) \<noteq> Inr True"
proof
  assume "fst (start_download E (Some x) p c) = Inr True"
  then obtain d where "start_download E (Some x) p c = (Inr True, d)" by (metis prod.collapse)
  then obtain sv uid dir objs e where
    "sys_act TeClient (download_each E sv uid (package_uid E p) dir (Some x) objs) e = (Inr True, d)"
    unfolding start_download_def
    by (auto elim!: io_bind_Inr_E io_then_Inr_E simp: io_gets_Inr split: prod.splits)
  then obtain t where "download_each E sv uid (package_uid E p) dir (Some x) objs (c_sys e) = (Inr True, t)"
    by (blast dest: sys_act_Inr)
  then show False using download_each_cut by (metis fst_conv)
qed

text \<open>A download that is dropped ends in the state it is dropped for.\<close>

lemma cut_inner:
  assumes "is_handling_download st"
  shows "yields (\<lambda>out. out = (new_state, Immediate)) (handle_inner E (Some (x, new_state)) st c)"
proof (cases st)
  case (Download p g)
  have "yields (\<lambda>b. \<not> b) (start_download E (Some x) p c)"
    using start_download_cut [of E x p c] by (auto simp: yields_def)
  then have "yields (\<lambda>out. out = (new_state, Immediate)) (handle_download E (Some (x, new_state)) p g c)"
    by (auto simp: yields_def handle_download_def io_simps split: prod.splits sum.splits)
  then show ?thesis using Download by simp
next
  case (DirectDownload u)
  then show ?thesis
    by (cases x) (simp, unfold handle_direct_download_def Let_def option.case prod.case, intro yield, simp_all)
qed (use assms in auto)

lemma report_yields:
  assumes "\<And>d. yields P (handle_inner E ct st d)"
  shows "yields P (handle_and_report_progress E ct st c)"
proof -
  have "yields P (io_bind (io_attempt (handle_inner E ct st)) (\<lambda>r. case r of
      Inr out \<Rightarrow> io_then (rep (leave_state_name st) None None None) (io_return out)
    | Inl (Fails e) \<Rightarrow> io_bind (io_gets (\<lambda>d. memory_log (c_drain d))) (\<lambda>lg.
        io_then (rep ''error'' (Some (enter_state_name st)) (Some (transition_error_text E e)) (Some lg))
          (io_throw (Fails e)))
    | Inl other \<Rightarrow> io_throw other) d)" for rep :: "string \<Rightarrow> string option \<Rightarrow> string option \<Rightarrow> string option \<Rightarrow> unit act" and d
    using assms [of d]
    by (auto simp: yields_def io_simps split: prod.splits sum.splits stop.splits)
  then show ?thesis unfolding handle_and_report_progress_def Let_def by (intro yields_then)
qed

lemma cut_move:
  assumes "is_handling_download st"
  shows "yields (\<lambda>out. out = (EntryPoint, Immediate)) (move_to_next_state E (Some (x, EntryPoint)) st c)"
proof (cases st)
  case (Download p g)
  have "yields (\<lambda>out. out = (EntryPoint, Immediate)) (handle_and_report_progress E (Some (x, EntryPoint)) st d)" for d
    using cut_inner [OF assms] by (rule report_yields)
  then show ?thesis using Download
    by (simp add: handle_with_callback_and_report_progress_def) (intro yield, simp_all)
next
  case (DirectDownload u)
  then show ?thesis using cut_inner [OF assms, of EntryPoint E x c] by simp
qed (use assms in auto)

section \<open>Requests that wake the machine\<close>

lemma send_probe_Inr: "send_probe E c = (Inr r, d) \<Longrightarrow> \<exists>t. d = c\<lparr>c_sys := t\<rparr>"
  unfolding send_probe_def by (blast dest: on_sys_result)

lemma now_poll_volatile: "\<not> persistent (c_runtime c) \<Longrightarrow> \<exists>r. now_poll E c = (Inr (), c\<lparr>c_runtime := r\<rparr>)"
  by (auto simp: now_poll_def runtime_act_def on_runtime_def io_zoom_def io_map_err_def
      last_poll_set.volatile)

lemma waker_frames [simp]:
  "c_waker (snd (now_poll E c)) = c_waker c"
  "c_waker (snd (send_reply rq r c)) = c_waker c"
  using untouched.now_poll [of c E]
  by (simp_all add: untouched_def send_reply_def io_modify_def)

lemma send_wake_Inr: "send_wake c = (Inr u, d) \<Longrightarrow> 0 < c_waker d"
  by (auto simp: send_wake_def split: if_splits)

definition woken :: "('e + 'r \<times> state option) \<times> agent_context \<Rightarrow> bool" where
  "woken res \<longleftrightarrow> (\<forall>r st. fst res = Inr (r, Some st) \<longrightarrow> 0 < c_waker (snd res))"

lemma woken_then: "(\<And>t. woken (n t)) \<Longrightarrow> woken (io_then m n s)"
  by (auto simp: woken_def io_simps split: prod.splits sum.splits)

lemma woken_bind: "(\<And>x t. woken (f x t)) \<Longrightarrow> woken (io_bind m f s)"
  by (auto simp: woken_def io_simps split: prod.splits sum.splits)

lemma woken_none: "woken (io_return (r, None) s)"
  by (simp add: woken_def io_return_def)

lemma woken_sent: "woken (io_then send_wake (io_return x) s)"
  by (auto simp: woken_def io_simps send_wake_def)

lemma woken_sent_poll: "woken (io_then send_wake (io_then (now_poll E) (io_return x)) s)"
proof -
  have "woken (io_then (now_poll E) (io_return x) t)" if "0 < c_waker t" for t
  proof -
    obtain res u where n: "now_poll E t = (res, u)" by fastforce
    have "c_waker u = c_waker t" using waker_frames(1) [of E t] unfolding n by simp
    then show ?thesis using n that by (auto simp: woken_def io_simps split: sum.splits)
  qed
  then show ?thesis by (auto simp: io_then_def io_bind_def send_wake_def woken_def)
qed

lemmas woken_rules = woken_sent_poll woken_sent woken_none woken_then woken_bind

lemma probe_wakes: "is_preemptive_state st \<Longrightarrow> woken (handle_probe E st sv c)"
  unfolding handle_probe_def by (auto intro!: woken_rules split: probe_response.split)

lemma request_wakes:
  assumes "is_preemptive_state st" "request_result E st m c = (Inr (r, Some st'), d)"
  shows "0 < c_waker d"
proof -
  have down: "\<not> is_handling_download st" using assms(1) by (cases st) auto
  show ?thesis
  proof (cases m)
    case (MsgProbe sv)
    then obtain a where "handle_probe E st sv c = (Inr (a, Some st'), d)"
      using assms(2) by (auto simp: answer_def io_return_Inr elim!: io_bind_Inr_E)
    then show ?thesis using probe_wakes [OF assms(1), of E sv c] by (simp add: woken_def)
  qed (use assms down in \<open>auto simp: answer_def handle_info_def handle_abort_download_def
      handle_local_install_def handle_remote_install_def io_return_Inr io_gets_Inr
      elim!: io_bind_Inr_E io_then_Inr_E dest: send_wake_Inr\<close>)
qed

lemma communication_wakes:
  assumes "is_preemptive_state st" "handle_communication E st rq c = (Inr (Some st'), d)"
  shows "0 < c_waker d"
proof -
  obtain x c1 where x: "request_result E st (rq_message rq) c = (x, c1)" by fastforce
  show ?thesis
  proof (cases x)
    case (Inr y)
    obtain r ns where y: "y = (r, ns)" by fastforce
    have f: "io_then (send_reply rq (Inr r)) (io_return (if rq_open rq then ns else None)) c1 = (Inr (Some st'), d)"
      using assms(2) x Inr y by (simp add: handle_communication_def io_bind_def io_attempt_def)
    then have "ns = Some st'" "c_waker d = c_waker c1"
      by (auto simp: io_simps send_reply_def split: if_splits)
    then show ?thesis using request_wakes [OF assms(1)] x Inr y by metis
  next
    case (Inl e)
    then show ?thesis using assms(2) x
      by (cases e) (auto simp: handle_communication_def io_simps split: prod.splits sum.splits)
  qed
qed

lemma turn_waits:
  assumes "turn E rqs at st c = (Inr out, d)"
  shows "waits_when out"
proof -
  obtain st' tr where out: "out = (st', tr)" by fastforce
  show ?thesis using assms unfolding out
    by (rule turn_cases) (auto dest: yieldsD [OF leads_move])
qed

section \<open>Invariants of the machine\<close>

definition awake :: "config \<Rightarrow> bool" where
  "awake cfg = (case cfg of (ph, st, c) \<Rightarrow> \<forall>tr. ph = Waiting tr \<longrightarrow>
     tr = Never \<and> st = Park \<or> (\<exists>d. tr = Delayed d) \<and> st = Probe \<or> 0 < c_waker c)"

lemma awake_step: "mstep E cfg cfg' \<Longrightarrow> awake cfg \<Longrightarrow> awake cfg'"
proof (induction rule: mstep.induct)
  case (turn rqs at st c st' tr c')
  then show ?case using turn_waits [OF turn.hyps] by (cases tr) (auto simp: awake_def waits_when_def)
next
  case (turn_stops rqs at st c e c')
  then show ?case by (cases e) (simp_all add: awake_def)
next
  case (answer c rq rqs st ns c' tr)
  then have "is_preemptive_state st" by (auto simp: awake_def)
  then show ?case using answer communication_wakes by (cases ns) (auto simp: awake_def)
next
  case (answer_stops c rq rqs st e c' tr)
  then show ?case by (cases e) (simp_all add: awake_def)
qed (auto simp: awake_def)

lemma awake_reachable:
  assumes "reachable E c0 cfg"
  shows "awake cfg"
  using assms unfolding reachable_def
proof (induction rule: rtranclp_induct)
  case base
  then show ?case by (simp add: awake_def)
next
  case (step y z)
  then show ?case by (blast intro: awake_step)
qed

definition configured :: "agent_context \<Rightarrow> config \<Rightarrow> bool" where
  "configured c0 cfg = (case cfg of (ph, st, c) \<Rightarrow>
     c_settings c = c_settings c0 \<and> c_firmware c = c_firmware c0)"

lemma keeps_configured: "keeps c d \<Longrightarrow> configured c0 (ph, st, c) \<Longrightarrow> configured c0 (ph', st', d)"
  by (simp add: keeps_def configured_def)

lemma configured_step: "mstep E cfg cfg' \<Longrightarrow> configured c0 cfg \<Longrightarrow> configured c0 cfg'"
proof (induction rule: mstep.induct)
  case (turn rqs at st c st' tr c')
  then show ?case using keeps_configured [OF turn_keeps] by blast
next
  case (turn_stops rqs at st c e c')
  then show ?case using keeps_configured [OF turn_keeps] by blast
next
  case (answer c rq rqs st ns c' tr)
  then show ?case using keeps_configured [OF communication_keeps [OF answer.hyps(3)]] by (simp add: configured_def)
next
  case (answer_stops c rq rqs st e c' tr)
  then show ?case using keeps_configured [OF communication_keeps [OF answer_stops.hyps(3)]] by (simp add: configured_def)
next
  case (lost_probe c rq rqs server st tr r c' d)
  then show ?case using keeps_lost_probe [OF lost_probe(5,6)] by (auto simp: configured_def keeps_def)
qed (auto simp: configured_def)

lemma configured_reachable:
  assumes "reachable E c0 cfg"
  shows "configured c0 cfg"
  using assms unfolding reachable_def
proof (induction rule: rtranclp_induct)
  case base
  then show ?case by (simp add: configured_def)
next
  case (step y z)
  then show ?case by (blast intro: configured_step)
qed

section \<open>Requests that block the machine\<close>

lemma set_drain_eq [simp]: "set_drain f c = (Inr (), c\<lparr>c_drain := f (c_drain c)\<rparr>)"
  by (simp add: set_drain_def io_modify_def)

lemma say_eq [simp]: "say E l m c = (Inr (), c\<lparr>c_drain := log_line E l m (c_sys c) (c_drain c)\<rparr>)"
  by (simp add: say_def io_modify_def)

lemma probe_without_update:
  assumes pre: "is_preemptive_state st" and server: "\<And>c. fst (send_probe E c) = Inr NoUpdate"
    and vol: "\<not> persistent (c_runtime c)" and w: "c_waker c = 0"
    and rq: "rq_message rq = MsgProbe None" "rq_open rq"
  shows "\<exists>d. handle_communication E st rq c = (Inr (Some EntryPoint), d) \<and> c_waker d = 1 \<and>
    c_queue d = c_queue c \<and> c_replies d = c_replies c @ [(rq_id rq, Inr (RespProbe Unavailable))]"
proof -
  let ?l = "log_line E ''info'' ''Probing the server as requested by the user'' (c_sys c) (start_logging (c_drain c))"
  let ?c1 = "c\<lparr>c_drain := ?l\<rparr>"
  obtain t where t: "send_probe E ?c1 = (Inr NoUpdate, ?c1\<lparr>c_sys := t\<rparr>)"
    using server [of ?c1] send_probe_Inr [of E ?c1 NoUpdate] by (metis prod.collapse)
  let ?c2 = "c\<lparr>c_sys := t,
    c_drain := log_line E ''info'' ''no update is current available for this device'' t ?l, c_waker := 1\<rparr>"
  obtain r where r: "now_poll E ?c2 = (Inr (), ?c2\<lparr>c_runtime := r\<rparr>)"
    using now_poll_volatile [of ?c2 E] vol by auto
  have "handle_probe E st None c = (Inr (Unavailable, Some EntryPoint), ?c2\<lparr>c_runtime := r\<rparr>)"
    using pre t r w by (simp add: handle_probe_def begin_probe_def io_simps send_wake_def)
  then show ?thesis using rq by (simp add: handle_communication_def answer_def io_simps send_reply_def)
qed

lemma install_request_blocks:
  assumes "is_preemptive_state st" "0 < c_waker c"
    "(\<exists>f. rq_message rq = MsgLocalInstall f) \<or> (\<exists>u. rq_message rq = MsgRemoteInstall u)"
  shows "handle_communication E st rq c = (Inl Blocks, c\<lparr>c_drain := start_logging (c_drain c)\<rparr>)"
  using assms by (auto simp: handle_communication_def answer_def handle_local_install_def
      handle_remote_install_def send_wake_def io_simps)

lemma stuck_step: "mstep E cfg cfg' \<Longrightarrow> fst cfg = Stuck \<Longrightarrow>
    fst cfg' = Stuck \<and> c_replies (snd (snd cfg')) = c_replies (snd (snd cfg))"
  by (induction rule: mstep.induct) auto

lemma stuck_forever:
  assumes "(mstep E)\<^sup>*\<^sup>* cfg cfg'" "fst cfg = Stuck"
  shows "fst cfg' = Stuck \<and> c_replies (snd (snd cfg')) = c_replies (snd (snd cfg))"
  using assms by (induction rule: rtranclp_induct) (auto dest: stuck_step)

section \<open>Properties\<close>

lemma example_install:
  "case turns example_agent_env 2 EntryPoint (example_context\<lparr>c_queue := [local_request]\<rparr>) of
     Some (Install p ctx, c) \<Rightarrow> p = example_package | _ \<Rightarrow> False"
  by code_simp

lemma example_install_reachable:
  obtains ctx c where "reachable example_agent_env (example_context\<lparr>c_queue := [local_request]\<rparr>)
    (Turning, Install example_package ctx, c)"
  using example_install turns_reachable [of example_agent_env 2 "example_context\<lparr>c_queue := [local_request]\<rparr>"]
  by (auto split: option.splits prod.splits state.splits)

text \<open>C11: An accepted request is never left waiting: when the machine waits in any state but the
  two in which it waits by itself, or holds a state a request asked for, the message that wakes it
  is in the channel.\<close>

theorem accepted_requests_wake:
  assumes "reachable E c0 (Waiting tr, st, c)"
  shows "tr = Never \<and> st = Park \<or> (\<exists>d. tr = Delayed d) \<and> st = Probe \<or> 0 < c_waker c"
  using awake_reachable [OF assms] by (simp add: awake_def)

definition parked_context :: agent_context where
  "parked_context = example_context\<lparr>c_settings := settings_default\<lparr>polling :=
     \<lparr>interval = seconds 60, enabled = False\<rparr>\<rparr>\<rparr>"

lemma example_parked:
  obtains c where "reachable example_agent_env parked_context (Waiting Never, Park, c)"
    "c_queue c = []" "c_waker c = 0"
proof -
  let ?E = example_agent_env
  let ?c = "snd (turn ?E [] (0, 0) EntryPoint parked_context)"
  let ?d = "snd (turn ?E [] (0, 0) Park ?c)"
  have f: "fst (turn ?E [] (0, 0) EntryPoint parked_context) = Inr (Park, Immediate)"
    "fst (turn ?E [] (0, 0) Park ?c) = Inr (Park, Never)" "c_queue ?d = []" "c_waker ?d = 0"
    by (simp_all add: turn_def run_state_def handle_entry_point_def handle_park_def consume_pending_def
        discharge_waker_def parked_context_def example_context_def is_polling_forced_def rs_default_def
        set_runtime_def io_simps)
  then have "turn ?E [] (0, 0) EntryPoint parked_context = (Inr (Park, Immediate), ?c)"
    "turn ?E [] (0, 0) Park ?c = (Inr (Park, Never), ?d)"
    by (metis prod.collapse)+
  from mstep.turn [OF this(1)] mstep.turn [OF this(2)]
  have "reachable ?E parked_context (Waiting Never, Park, ?d)"
    unfolding reachable_def by (simp add: rtranclp.rtrancl_into_rtrancl)
  then show ?thesis using f(3,4) by (rule that)
qed

theorem accepted_requests_wake_witness:
  "\<exists>c. reachable example_agent_env parked_context (Waiting Never, PrepareLocalInstall ''/p'', c) \<and> 0 < c_waker c"
proof -
  obtain c where c: "reachable example_agent_env parked_context (Waiting Never, Park, c)"
    "c_queue c = []" "c_waker c = 0" by (rule example_parked)
  let ?c = "c\<lparr>c_queue := [local_request]\<rparr>"
  have "mstep example_agent_env (Waiting Never, Park, c) (Waiting Never, Park, ?c)"
    using mstep.arrive [of c example_agent_env "Waiting Never" Park local_request] c(2) by (simp add: queue_cap_def)
  moreover obtain d where "handle_communication example_agent_env Park local_request (?c\<lparr>c_queue := []\<rparr>) =
      (Inr (Some (PrepareLocalInstall ''/p'')), d)"
    using c(3) by (simp add: handle_communication_def local_request_def answer_def handle_local_install_def
        send_wake_def send_reply_def io_simps)
  then have "mstep example_agent_env (Waiting Never, Park, ?c) (Waiting Never, PrepareLocalInstall ''/p'', d)"
    using mstep.answer [of ?c local_request "[]" example_agent_env Park "Some (PrepareLocalInstall ''/p'')" d Never] c(3)
    by simp
  ultimately have r: "reachable example_agent_env parked_context (Waiting Never, PrepareLocalInstall ''/p'', d)"
    using c(1) unfolding reachable_def by (meson rtranclp.rtrancl_into_rtrancl)
  show ?thesis using accepted_requests_wake [OF r] r by blast
qed

text \<open>C17: While the agent runs its configuration and the metadata of its firmware never change, the
  wake channel never holds more than its one message and the request queue never more than ten.\<close>

theorem context_is_kept:
  assumes "reachable E c0 (ph, st, c)" and "c_waker c0 \<le> 1" and "length (c_queue c0) \<le> queue_cap"
  shows "c_settings c = c_settings c0 \<and> c_firmware c = c_firmware c0 \<and>
    c_waker c \<le> 1 \<and> length (c_queue c) \<le> queue_cap"
  using configured_reachable [OF assms(1)] machine_ok_reachable [OF assms]
  by (simp add: configured_def machine_ok_def)

theorem context_is_kept_witness:
  "\<exists>ctx c. reachable example_agent_env (example_context\<lparr>c_queue := [local_request]\<rparr>)
       (Turning, Install example_package ctx, c) \<and> c_settings c = settings_default"
proof -
  obtain ctx c where r: "reachable example_agent_env (example_context\<lparr>c_queue := [local_request]\<rparr>)
    (Turning, Install example_package ctx, c)" by (rule example_install_reachable)
  show ?thesis using context_is_kept [OF r] r by (auto simp: example_context_def queue_cap_def)
qed

text \<open>C27: A state that must not be interrupted answers every request that would interrupt it with
  its name, and the request changes nothing but the list of answers.\<close>

theorem busy_states_refuse:
  assumes "\<not> is_preemptive_state st" and "rq_open rq"
    and "rq_message rq = MsgProbe sv \<or> rq_message rq = MsgLocalInstall f \<or> rq_message rq = MsgRemoteInstall u"
  shows "handle_communication E st rq c = (Inr None, c\<lparr>c_replies := c_replies c @ [(rq_id rq, Inr (
    case rq_message rq of MsgProbe _ \<Rightarrow> RespProbe (Busy (state_name st))
      | MsgLocalInstall _ \<Rightarrow> RespLocalInstall (InvalidState (state_name st))
      | _ \<Rightarrow> RespRemoteInstall (InvalidState (state_name st))))]\<rparr>)"
  using assms by (auto simp: handle_communication_def answer_def handle_probe_def handle_local_install_def
      handle_remote_install_def send_reply_def io_simps)

theorem busy_states_refuse_witness:
  "handle_communication example_agent_env (Reboot example_package) local_request example_context =
     (Inr None, example_context\<lparr>c_replies := [(1, Inr (RespLocalInstall (InvalidState ''reboot'')))]\<rparr>)"
  using busy_states_refuse [of "Reboot example_package" local_request _ "''/p''" _ example_agent_env example_context]
  by (simp add: local_request_def example_context_def)

text \<open>C12: A download that a client aborts ends at the entry point: whatever other requests arrive
  while it runs and wherever it stands when the request comes, it never goes on to the validation
  that precedes an installation.\<close>

theorem aborted_download_stops:
  assumes "is_handling_download st" and "rq \<in> set rqs" and "rq_open rq" and "rq_message rq = MsgAbortDownload"
    and "run_state E rqs at st c = (Inr out, d)"
  shows "out = (EntryPoint, Immediate)"
proof -
  have "\<exists>q \<in> set rqs. rq_open q \<and> rq_message q = MsgAbortDownload" using assms(2-4) by blast
  then obtain e where "serve E st rqs c = (Inr (Some EntryPoint), e)"
    using serve_spec [OF assms(1), of E rqs c] by auto
  then have "move_to_next_state E (Some (at, EntryPoint)) st e = (Inr out, d)"
    using assms(1,5) by (simp add: run_state_def io_bind_def)
  then show ?thesis using cut_move [OF assms(1), of E "at" e] by (auto dest: yieldsD)
qed

definition abort_request :: request where
  "abort_request = \<lparr>rq_id = 2, rq_message = MsgAbortDownload, rq_open = True\<rparr>"

theorem aborted_download_stops_witness:
  "\<exists>d. run_state example_agent_env [local_request, abort_request] (0, 0) (DirectDownload ''http://x'') example_context =
     (Inr (EntryPoint, Immediate), d)"
proof -
  let ?r = "run_state example_agent_env [local_request, abort_request] (0, 0) (DirectDownload ''http://x'') example_context"
  have "is_ok (fst ?r)" by code_simp
  then obtain out d where r: "?r = (Inr out, d)" by (cases ?r) (auto simp: is_ok_def split: sum.splits)
  have "out = (EntryPoint, Immediate)"
    by (rule aborted_download_stops [OF _ _ _ _ r, of abort_request]) (simp_all add: abort_request_def)
  with r show ?thesis by blast
qed

text \<open>C9: Two requests that are queued together can stop the agent for good. When the answer to the
  first is that there is no update, the state stays one that requests may interrupt and the wake
  channel is full; the second request then waits for room in the channel that only the loop it
  blocks would make. No answer is sent any more.\<close>

theorem two_requests_stop_the_agent:
  assumes "is_preemptive_state st" and "\<And>c. fst (send_probe E c) = Inr NoUpdate"
    and "\<not> persistent (c_runtime c)" and "c_queue c = [rq1, rq2]"
    and "rq_message rq1 = MsgProbe None" and "rq_open rq1" and "rq_message rq2 = MsgLocalInstall f"
  shows "\<exists>d. mstep E (Turning, st, c) (Stuck, st, d) \<and>
    c_replies d = c_replies c @ [(rq_id rq1, Inr (RespProbe Unavailable))] \<and>
    (\<forall>cfg. (mstep E)\<^sup>*\<^sup>* (Stuck, st, d) cfg \<longrightarrow> fst cfg = Stuck \<and> c_replies (snd (snd cfg)) = c_replies d)"
proof -
  let ?c1 = "c\<lparr>c_waker := 0, c_queue := [rq2]\<rparr>"
  obtain e where e: "handle_communication E st rq1 ?c1 = (Inr (Some EntryPoint), e)" "c_waker e = 1"
    "c_queue e = [rq2]" "c_replies e = c_replies c @ [(rq_id rq1, Inr (RespProbe Unavailable))]"
    using probe_without_update [of st E ?c1 rq1] assms by auto
  let ?e = "e\<lparr>c_queue := []\<rparr>"
  let ?d = "?e\<lparr>c_drain := start_logging (c_drain ?e)\<rparr>"
  have "handle_communication E EntryPoint rq2 ?e = (Inl Blocks, ?d)"
    using e(2) assms(7) by (intro install_request_blocks) simp_all
  then have "turn E [] (0, 0) st c = (Inl Blocks, ?d)"
    using e(1,3) assms(4)
    by (simp add: turn_def discharge_waker_def consume_pending_def pop_queue_def io_simps)
  then have "mstep E (Turning, st, c) (Stuck, st, ?d)" using mstep.turn_stops by fastforce
  moreover have "c_replies ?d = c_replies c @ [(rq_id rq1, Inr (RespProbe Unavailable))]" using e(4) by simp
  ultimately show ?thesis using stuck_forever [of E "(Stuck, st, ?d)"] by (metis fst_conv snd_conv)
qed

definition no_update_env :: env where
  "no_update_env = example_env\<lparr>http := \<lambda>_ s. (Inr \<lparr>status = 404, resp_headers = [], chunks = [], broken = None\<rparr>, s)\<rparr>"

theorem two_requests_stop_the_agent_witness:
  "\<exists>d. mstep no_update_env (Turning, Park, example_context\<lparr>c_queue := [\<lparr>rq_id = 0, rq_message = MsgProbe None, rq_open = True\<rparr>, local_request]\<rparr>)
     (Stuck, Park, d)"
proof -
  let ?c = "example_context\<lparr>c_queue := [\<lparr>rq_id = 0, rq_message = MsgProbe None, rq_open = True\<rparr>, local_request]\<rparr>"
  have "fst (send_probe no_update_env c) = Inr NoUpdate" for c
    by (simp add: send_probe_def on_sys_def io_zoom_def probe_def http_send_def no_update_env_def
        example_env_def probe_answer_def io_simps)
  from two_requests_stop_the_agent [of Park no_update_env ?c "\<lparr>rq_id = 0, rq_message = MsgProbe None, rq_open = True\<rparr>"
      local_request "''/p''", OF _ this]
  obtain d where "mstep no_update_env (Turning, Park, ?c) (Stuck, Park, d)"
    by (auto simp: local_request_def example_context_def rs_default_def)
  then show ?thesis by blast
qed

end
