(* ===== verification/UH_Updates.thy ===== *)
theory UH_Updates
  imports UH_Requests
begin

text \<open>
  What the states do on the way of an update: the delays between probes, the outcome of an
  installation, and what happens at the next start (\<open>states/probe.rs\<close>, \<open>poll.rs\<close>,
  \<open>validation.rs\<close>, \<open>install.rs\<close> and \<open>mod.rs\<close>).
\<close>

section \<open>Delays\<close>

lemma num_seconds_neg: "num_seconds d < 0 \<longleftrightarrow> d \<le> - seconds 1"
  by (simp add: num_seconds_neg_iff seconds_def)

lemma retry_delay_eq:
  "retry_delay r i = seconds (min (2 ^ min (unat r - 1) 12) (max 1 (min (num_seconds i) 3600)))"
proof -
  let ?k = "min (if r = 0 then 0 else r - 1) 12"
  have k: "unat ?k = min (unat r - 1) 12"
  proof -
    have "unat (if r = 0 then 0 else r - 1) = unat r - 1"
      by (simp add: unat_minus_one)
    then show ?thesis by (simp add: min_def word_le_nat_alt)
  qed
  have "sint (push_bit n 1 :: 64 word) = 2 ^ n" if "n \<le> 12" for n
  proof -
    have "n \<in> set [0..<13]" using that by simp
    then show ?thesis by (auto simp: upt_rec push_bit_eq_mult)
  qed
  then show ?thesis using k by (simp add: retry_delay_def Let_def)
qed

lemma handle_poll_eq:
  "handle_poll E c = (let i = interval (polling (c_settings c)); now = utc_now (c_sys c);
     last = last_poll (rs_polling (c_runtime c)) in
   if now < last \<or> last + i + seconds 1 \<le> now
   then (Inr (Probe, Immediate), c\<lparr>c_drain := log_line E ''info'' ''probing server as we are in time'' (c_sys c) (c_drain c)\<rparr>)
   else (Inr (Probe, Delayed (last + i - now)), c))"
  by (auto simp: handle_poll_def Let_def num_seconds_neg io_simps algebra_simps)

section \<open>Probing\<close>

lemma probe_state_failed:
  assumes "send_probe E c = (Inl e, d)" "e \<noteq> UrlParse"
  shows "handle_probe_state E c = probe_failed E e d"
  using assms by (cases e) (simp_all add: handle_probe_state_def io_attempt_def io_bind_def)

lemma probe_failed_eq:
  "probe_failed E e d = (let d' = d\<lparr>c_drain := record_out_of_scope (log_line E ''error''
       (''Probe failed: '' @ cloud_error_text E e) (c_sys d)) (c_drain d), c_runtime := inc_retries (c_runtime d)\<rparr>
     in (Inr (Probe, Delayed (retry_delay (poll_retries (rs_polling (c_runtime d'))) (interval (polling (c_settings d))))), d'))"
  by (simp add: probe_failed_def say_out_of_scope_def set_runtime_def Let_def io_simps)

section \<open>Installing\<close>

lemma runtime_act_Inr: "runtime_act m c = (Inr x, d) \<Longrightarrow>
    \<exists>r t. m (c_runtime c, c_sys c) = (Inr x, (r, t)) \<and> d = c\<lparr>c_runtime := r, c_sys := t\<rparr>"
  by (auto simp: runtime_act_def on_runtime_def io_zoom_def io_map_err_def split: prod.splits sum.splits)

lemma stored_runtime:
  "set_applied_package_uid E u (r, s) = (x, (r', t)) \<Longrightarrow> r' = upd_update (\<lambda>p. p\<lparr>applied_package_uid := Some u\<rparr>) r"
  "set_upgrading_to E a (r, s) = (x, (r', t)) \<Longrightarrow> r' = upd_update (\<lambda>p. p\<lparr>upgrade_to_installation := Some a\<rparr>) r"
  by (auto simp: applied_set.op_eq upgrading_set.op_eq split: prod.splits)

lemma inactive_set_Inr:
  "inactive_set E c = (Inr a, d) \<Longrightarrow> \<exists>t. get_inactive_installation_set E (c_runtime c) (c_sys c) = (Inr a, t) \<and> d = c\<lparr>c_sys := t\<rparr>"
  unfolding inactive_set_def by (rule sys_act_Inr)

lemma io_each_all:
  "io_each f xs s = (Inr u, t) \<Longrightarrow> x \<in> set xs \<Longrightarrow> \<exists>v z. f x v = (Inr (), z)"
proof (induction xs arbitrary: s)
  case (Cons y ys)
  then obtain w where "f y s = (Inr (), w)" "io_each f ys w = (Inr u, t)"
    by (auto elim!: io_then_Inr_E)
  then show ?case using Cons by auto
qed simp

lemma handler_act_Inr: "handler_act m c = (Inr x, d) \<Longrightarrow> \<exists>t. m (c_sys c) = (Inr x, t) \<and> d = c\<lparr>c_sys := t\<rparr>"
  unfolding handler_act_def io_map_err_Inr by (rule on_sys_result)

text \<open>The steps of an installation that succeeds.\<close>

lemma then_say [simp]: "io_then (say E l m) n c = n (c\<lparr>c_drain := log_line E l m (c_sys c) (c_drain c)\<rparr>)"
  by (simp add: io_then_def io_bind_def)

lemma handle_install_steps:
  assumes "handle_install E p ctx c = (Inr out, d)"
  obtains a c1 c2 s1 s2 s3 r1 r2 where
    "inactive_set E (c\<lparr>c_drain := log_line E ''info''
       (''installing update: '' @ package_version p @ '' ('' @ package_uid E p @ '')'') (c_sys c) (c_drain c)\<rparr>) = (Inr a, c1)"
    "io_each (\<lambda>x. handler_act (install_object E ctx x)) (sort_objects (objects p a))
       (c1\<lparr>c_drain := log_line E ''info'' (''using installation set as target '' @ set_display a) (c_sys c1) (c_drain c1)\<rparr>) = (Inr (), c2)"
    "set_applied_package_uid E (package_uid E p) (c_runtime c2, c_sys c2) = (Inr (), (r1, s1))"
    "set_upgrading_to E a (r1, s1) = (Inr (), (r2, s2))"
    "swap_active E s2 = (Inr (), s3)"
    "c_runtime d = r2" "c_sys d = s3"
    "out = (Reboot (with_objects a (sort_objects (objects p a)) p), Immediate)"
proof -
  let ?say = "\<lambda>m c. c\<lparr>c_drain := log_line E ''info'' m (c_sys c) (c_drain c)\<rparr>"
  let ?out = "\<lambda>a. (Reboot (with_objects a (sort_objects (objects p a)) p), Immediate)"
  let ?fin = "\<lambda>a. io_then (sys_act TeFirmware (swap_active E))
     (io_then (say E ''info'' ''update installed successfully'') (io_return (?out a)))"
  obtain a c1 where 1: "inactive_set E (?say (''installing update: '' @ package_version p @ '' ('' @ package_uid E p @ '')'') c) = (Inr a, c1)"
    and r1: "io_then (io_each (\<lambda>x. handler_act (install_object E ctx x)) (sort_objects (objects p a)))
     (io_then (runtime_act (set_applied_package_uid E (package_uid E p)))
     (io_then (runtime_act (set_upgrading_to E a))
     (io_then (say E ''info'' ''swapping active installation set'') (?fin a))))
     (?say (''using installation set as target '' @ set_display a) c1) = (Inr out, d)"
    using assms unfolding handle_install_def then_say by (rule io_bind_Inr_E) simp
  obtain c2 where 2: "io_each (\<lambda>x. handler_act (install_object E ctx x)) (sort_objects (objects p a))
       (?say (''using installation set as target '' @ set_display a) c1) = (Inr (), c2)"
    and r2: "io_then (runtime_act (set_applied_package_uid E (package_uid E p))) (io_then (runtime_act (set_upgrading_to E a))
     (io_then (say E ''info'' ''swapping active installation set'') (?fin a))) c2 = (Inr out, d)"
    using r1 by (rule io_then_Inr_E) simp
  obtain c3 where 3: "runtime_act (set_applied_package_uid E (package_uid E p)) c2 = (Inr (), c3)"
    and r3: "io_then (runtime_act (set_upgrading_to E a))
     (io_then (say E ''info'' ''swapping active installation set'') (?fin a)) c3 = (Inr out, d)"
    using r2 by (rule io_then_Inr_E) simp
  obtain c4 where 4: "runtime_act (set_upgrading_to E a) c3 = (Inr (), c4)"
    and r4: "io_then (say E ''info'' ''swapping active installation set'') (?fin a) c4 = (Inr out, d)"
    using r3 by (rule io_then_Inr_E) simp
  obtain c5 where 5: "sys_act TeFirmware (swap_active E) (?say ''swapping active installation set'' c4) = (Inr (), c5)"
    and r5: "(io_return (?out a) :: outcome act) (?say ''update installed successfully'' c5) = (Inr out, d)"
    using r4 unfolding then_say by (rule io_then_Inr_E) simp
  from runtime_act_Inr [OF 3] obtain r1 s1 where
    3: "set_applied_package_uid E (package_uid E p) (c_runtime c2, c_sys c2) = (Inr (), (r1, s1))"
      "c3 = c2\<lparr>c_runtime := r1, c_sys := s1\<rparr>" by blast
  from runtime_act_Inr [OF 4] 3(2) obtain r2 s2 where
    4: "set_upgrading_to E a (r1, s1) = (Inr (), (r2, s2))" "c4 = c3\<lparr>c_runtime := r2, c_sys := s2\<rparr>" by auto
  from sys_act_Inr [OF 5] 4(2) obtain s3 where
    5: "swap_active E s2 = (Inr (), s3)" "c_sys c5 = s3" "c_runtime c5 = r2" by auto
  have "out = (Reboot (with_objects a (sort_objects (objects p a)) p), Immediate)"
    "c_sys d = c_sys c5" "c_runtime d = c_runtime c5"
    using r5 by (auto simp: io_return_def)
  then show ?thesis using that [OF 1 2 3(1) 4(1) 5(1)] 5 by simp
qed

lemma handler_runtime: "c_runtime (snd (handler_act m c)) = c_runtime c"
  by (cases "m (c_sys c)") (auto simp: handler_act_def on_sys_def io_zoom_def io_map_err_def split: sum.splits)

lemma each_runtime: "c_runtime (snd (io_each (\<lambda>x. handler_act (f x)) xs c)) = c_runtime c"
proof (induction xs arbitrary: c)
  case (Cons x xs)
  obtain r d where d: "handler_act (f x) c = (r, d)" by fastforce
  have "c_runtime d = c_runtime c" using handler_runtime [of "f x" c] d by simp
  then show ?case using Cons.IH [of d] d by (simp add: io_then_def io_bind_def split: sum.split)
qed (simp add: io_return_def)

lemma inactive_set_runtime: "c_runtime (snd (inactive_set E c)) = c_runtime c"
  by (cases "get_inactive_installation_set E (c_runtime c) (c_sys c)")
    (auto simp: inactive_set_def sys_act_def on_sys_def io_zoom_def io_map_err_def split: sum.splits)

lemma install_stops_at_object:
  assumes "\<And>s. \<not> is_ok (fst (install_object E ctx x s))" "x \<in> set (objects p InstA)" "x \<in> set (objects p InstB)"
  shows "\<exists>e d. handle_install E p ctx c = (Inl e, d) \<and> c_runtime d = c_runtime c"
proof -
  let ?say = "\<lambda>m c. c\<lparr>c_drain := log_line E ''info'' m (c_sys c) (c_drain c)\<rparr>"
  let ?c = "?say (''installing update: '' @ package_version p @ '' ('' @ package_uid E p @ '')'') c"
  obtain r c1 where i: "inactive_set E ?c = (r, c1)" by fastforce
  have c1: "c_runtime c1 = c_runtime c" using inactive_set_runtime [of E ?c] i by simp
  show ?thesis
  proof (cases r)
    case (Inl e)
    then show ?thesis using i c1 by (simp add: handle_install_def then_say io_bind_def)
  next
    case (Inr a)
    let ?xs = "sort_objects (objects p a)"
    let ?c1 = "?say (''using installation set as target '' @ set_display a) c1"
    obtain q c2 where e: "io_each (\<lambda>x. handler_act (install_object E ctx x)) ?xs ?c1 = (q, c2)" by fastforce
    have "c_runtime c2 = c_runtime c"
      using each_runtime [of "install_object E ctx" ?xs ?c1] e c1 by simp
    moreover have "\<not> is_ok q"
    proof
      assume "is_ok q"
      then obtain u where u: "io_each (\<lambda>x. handler_act (install_object E ctx x)) ?xs ?c1 = (Inr u, c2)"
        using e by (cases q) auto
      have "x \<in> set ?xs" using assms(2,3) by (cases a) (simp_all add: sort_objects_def)
      from io_each_all [OF u this] obtain v z where "handler_act (install_object E ctx x) v = (Inr (), z)" by blast
      then obtain t where "install_object E ctx x (c_sys v) = (Inr (), t)" by (blast dest: handler_act_Inr)
      then show False using assms(1) [of "c_sys v"] by simp
    qed
    then obtain e where "q = Inl e" by (cases q) auto
    ultimately show ?thesis
      unfolding handle_install_def then_say io_bind_Inr [where m = "inactive_set E", OF i [unfolded Inr]] io_bind_return
        io_then_def [of "io_each _ _"]
        io_bind_Inl [where m = "io_each _ _", OF e [unfolded \<open>q = Inl e\<close>]] by simp
  qed
qed

text \<open>The objects are installed one after the other on the machine the installation found.\<close>

lemma each_on_sys:
  "io_each (\<lambda>x. handler_act (f x)) xs c = (Inr u, d) \<Longrightarrow>
   io_each f xs (c_sys c) = (Inr (), c_sys d) \<and> c_runtime d = c_runtime c"
proof (induction xs arbitrary: c)
  case (Cons x xs)
  then obtain y e where h: "handler_act (f x) c = (Inr y, e)" and r: "io_each (\<lambda>x. handler_act (f x)) xs e = (Inr u, d)"
    by (auto elim!: io_then_Inr_E)
  from handler_act_Inr [OF h] Cons.IH [OF r] show ?case by (auto simp: io_then_def io_bind_def)
qed (simp add: io_return_def)

text \<open>Larger objects first, those of one size in their order: this determines the list.\<close>

lemma sort_objects_larger: "sorted_wrt (\<lambda>x y. info_len y \<le> info_len x) (sort_objects xs)"
proof -
  have "sorted (map (\<lambda>x. - int (unat (info_len x))) (sort_objects xs))" by (simp add: sort_objects_def)
  then show ?thesis by (simp add: sorted_map word_le_def)
qed

lemma sort_objects_stable: "filter (\<lambda>x. info_len x = k) (sort_objects xs) = filter (\<lambda>x. info_len x = k) xs"
proof -
  have "(info_len x = k) = (- int (unat (info_len x)) = - int (unat k))" for x
    by (simp only: neg_equal_iff_equal of_nat_eq_iff word_unat_eq_iff)
  then show ?thesis by (simp only: sort_objects_def sort_key_stable)
qed

section \<open>The set an installation takes\<close>

text \<open>A state that neither is interrupted nor downloads goes on whatever is asked of it.\<close>

lemma communication_busy:
  assumes "\<not> is_preemptive_state st" "\<not> is_handling_download st"
  shows "\<exists>d. handle_communication E st rq c = (Inr None, d) \<and> c_runtime d = c_runtime c \<and> c_sys d = c_sys c"
  using assms
  by (cases "rq_message rq")
    (auto simp: handle_communication_def answer_def handle_info_def handle_probe_def
      handle_abort_download_def handle_local_install_def handle_remote_install_def send_reply_def io_simps)

lemma consume_busy:
  assumes "\<not> is_preemptive_state st" "\<not> is_handling_download st"
  shows "\<exists>d. consume E st rqs c = (Inr st, d) \<and> c_runtime d = c_runtime c \<and> c_sys d = c_sys c"
proof (induction rqs arbitrary: c)
  case (Cons rq rqs)
  let ?c = "c\<lparr>c_queue := tl (c_queue c)\<rparr>"
  obtain e where e: "handle_communication E st rq ?c = (Inr None, e)" "c_runtime e = c_runtime c" "c_sys e = c_sys c"
    using communication_busy [OF assms, of E rq ?c] by auto
  with Cons.IH [of e] show ?case by (auto simp: pop_queue_def io_simps)
qed (simp add: io_return_def)

text \<open>The callback and the reports around a state leave the target alone, on a device that obeys the law.\<close>

lemma targeting_callback:
  assumes "slot_law E slot"
  shows "io_rel (same (slot_of slot)) (state_change_callback E dir (state_name st))"
proof -
  have "last (state_name st) \<noteq> CHR ''0'' \<and> last (state_name st) \<noteq> CHR ''1'' \<and> state_name st \<noteq> []" by (cases st) simp_all
  then have "path_join dir STATE_CHANGE_CALLBACK @ '' '' @ state_name st \<notin> range set_command"
    by (intro not_set_command) simp_all
  from slot_exec [OF _ this] have e: "io_rel (same (slot_of slot)) (exec E (path_join dir STATE_CHANGE_CALLBACK @ '' '' @ state_name st))"
    using assms by (simp add: slot_law_def)
  have "io_rel (same (slot_of slot)) (io_bind (run_command_for_state E (path_join dir STATE_CHANGE_CALLBACK @ '' '' @ state_name st))
      (\<lambda>out. io_lift (callback_answer (stdout out))))"
    unfolding run_command_for_state_def by (intro frame e) simp_all
  then show ?thesis by (simp add: state_change_callback_def io_rel_def Let_def)
qed

lemma targeting_report:
  assumes "slot_law E slot"
  shows "io_rel (same (targeting slot)) (send_report E sv fw u n pr er lg)"
proof -
  have "slot (device (snd (http_send E q s))) = slot (device s)" for q s
    using assms by (cases "http E q s") (simp add: http_send_def slot_law_def, metis snd_conv)
  then have "io_rel (same (slot_of slot)) (http_send E q)" for q by (simp add: io_rel_def same_def)
  then have "io_rel (same (slot_of slot)) (report E sv n fw u pr er lg)"
    unfolding report_def by (intro frame) simp_all
  then show ?thesis unfolding send_report_def by (intro frame targeting_sys targeting_say) simp_all
qed

lemma install_records_target:
  assumes "slot_law E slot" "handle_install E p ctx c = (Inr out, d)"
  shows "upgrade_to_installation (rs_update (c_runtime d)) = Some (install_target slot c)"
proof -
  obtain a c1 c2 s1 s2 s3 r1 r2 where
    set: "inactive_set E (c\<lparr>c_drain := log_line E ''info''
       (''installing update: '' @ package_version p @ '' ('' @ package_uid E p @ '')'') (c_sys c) (c_drain c)\<rparr>) = (Inr a, c1)"
    and "io_each (\<lambda>x. handler_act (install_object E ctx x)) (sort_objects (objects p a))
       (c1\<lparr>c_drain := log_line E ''info'' (''using installation set as target '' @ set_display a) (c_sys c1) (c_drain c1)\<rparr>) = (Inr (), c2)"
    and "set_applied_package_uid E (package_uid E p) (c_runtime c2, c_sys c2) = (Inr (), (r1, s1))"
    and rec: "set_upgrading_to E a (r1, s1) = (Inr (), (r2, s2))" and "swap_active E s2 = (Inr (), s3)"
    and d: "c_runtime d = r2" "c_sys d = s3" and "out = (Reboot (with_objects a (sort_objects (objects p a)) p), Immediate)"
    using assms(2) by (rule handle_install_steps)
  have scr: "slot_scripts E slot" using assms(1) by (simp add: slot_law_def)
  from set have "a = install_target slot c"
    unfolding inactive_set_target [OF scr] by (auto simp: target_same [where d = "c\<lparr>c_drain := l\<rparr>" and c = c for l])
  then show ?thesis using stored_runtime(2) [OF rec] d by (simp add: upd_update_def)
qed

lemma install_turn_target:
  assumes "slot_law E slot" "turn E rqs at (Install p ctx) c = (Inr (Reboot q, tr), d)"
  shows "upgrade_to_installation (rs_update (c_runtime d)) = Some (install_target slot c)"
proof -
  let ?c = "c\<lparr>c_waker := 0\<rparr>"
  obtain e where e: "consume E (Install p ctx) (c_queue ?c) ?c = (Inr (Install p ctx), e)" "targeting slot e = targeting slot c"
    using consume_busy [of "Install p ctx" E "c_queue ?c" ?c] by auto
  have "run_state E rqs at (Install p ctx) e = (Inr (Reboot q, tr), d)"
    using assms(2) e(1)
    by (auto simp: turn_def discharge_waker_def consume_pending_def io_simps split: prod.splits sum.splits stop.splits)
  then obtain f where f: "sys_act TeFirmware (state_change_callback E (metadata_dir_of e) (state_name (Install p ctx))) e = (Inr Continue, f)"
    and h: "handle_and_report_progress E None (Install p ctx) f = (Inr (Reboot q, tr), d)"
    by (auto simp: run_state_def handle_with_callback_and_report_progress_def io_return_def elim!: io_bind_Inr_E
        split: transition.splits)
  have t: "targeting slot f = targeting slot e"
    using io_relD [OF io_rel_map_err [OF targeting_sys [OF targeting_callback [OF assms(1)]]] f [unfolded sys_act_def]]
    by (simp add: same_def)
  let ?rep = "\<lambda>n. send_report E (context_server f) (as_cloud_metadata (c_firmware f)) (package_uid E p) n None None None :: unit act"
  obtain u g k v where g: "?rep ''installing'' f = (u, g)" "handle_install E p ctx g = (Inr (Reboot q, tr), k)" "?rep ''installed'' k = (v, d)"
    using h by (auto simp: handle_and_report_progress_def Let_def io_attempt_def io_return_def io_throw_def io_then_def
        elim!: io_bind_Inr_E split: sum.splits stop.splits prod.splits)
  have "targeting slot g = targeting slot f" "c_runtime d = c_runtime k"
    using io_relD [OF targeting_report [OF assms(1)] g(1)] io_relD [OF targeting_report [OF assms(1)] g(3)] by (simp_all add: same_def)
  then show ?thesis
    using install_records_target [OF assms(1) g(2)] target_same [where c = c and d = g and slot = slot] t e(2) by simp
qed

section \<open>The next start\<close>

lemma no_set_command:
  "path_join p VALIDATE_CALLBACK \<notin> range set_command"
  "path_join p ROLLBACK_CALLBACK \<notin> range set_command"
  "''reboot'' \<notin> range set_command"
  by (rule not_set_command; simp add: last_path_join VALIDATE_CALLBACK_def ROLLBACK_CALLBACK_def)+

lemma validate_callback_slot:
  assumes "slot_kept E slot" "validate_callback E dir s = (r, t)"
  shows "slot (device t) = slot (device s)"
  using assms exec_slot [OF assms(1) no_set_command(1)]
  by (auto simp: validate_callback_def Let_def run_command_for_state_def io_map_err_def
      split: if_splits prod.splits sum.splits firmware_error.splits)

lemma rollback_callback_slot:
  assumes "slot_kept E slot" "rollback_callback E dir s = (r, t)"
  shows "slot (device t) = slot (device s)"
  using assms exec_slot [OF assms(1) no_set_command(2)]
  by (auto simp: rollback_callback_def Let_def run_command_for_state_def io_simps
      split: if_splits prod.splits sum.splits)

lemma startup_sys_Inr: "startup_sys f m (r, s) = (Inr x, (r', t)) \<longleftrightarrow> m s = (Inr x, t) \<and> r' = r"
  by (auto simp: startup_sys_def io_zoom_def io_map_err_def split: prod.splits sum.splits)

lemma startup_runtime_Inr: "startup_runtime m rs = (Inr x, rt) \<longleftrightarrow> m rs = (Inr x, rt)"
  by (auto simp: startup_runtime_def io_map_err_def split: prod.splits sum.splits)

text \<open>Confirming the set that was booted forgets the upgrade and asks for a probe.\<close>

lemma startup_confirm:
  assumes "slot_scripts E slot"
    and "io_then (startup_sys AeFirmware (validate_set E)) (startup_runtime (reset_installation_settings E)) (r, s) = (Inr (), (r', t))"
  shows "r' = cleared_installation r \<and> slot (device t) = slot (device s) \<and> commands t = commands s @ [VALIDATE_SCRIPT]"
proof -
  obtain r1 s1 where 1: "startup_sys AeFirmware (validate_set E) (r, s) = (Inr (), (r1, s1))"
    and 2: "startup_runtime (reset_installation_settings E) (r1, s1) = (Inr (), (r', t))"
    using assms(2) by (auto elim!: io_then_Inr_E)
  from validate_set_scripts [OF assms(1), of s] 1
  have s1: "slot (device s1) = slot (device s)" "commands s1 = commands s @ [VALIDATE_SCRIPT]" "r1 = r"
    by (auto simp: startup_sys_Inr)
  from 2 have 2: "reset_installation_settings E (r, s1) = (Inr (), (r', t))"
    by (simp add: startup_runtime_Inr s1)
  show ?thesis using installation_reset.in_memory [OF 2] installation_reset.is_quiet [OF 2] s1
    by (simp add: quiet_def)
qed

lemma startup_rollback_slot:
  assumes "slot_scripts E slot" "slot_kept E slot" "\<not> v1_parsing E"
    and "startup_rollback E dir (r, s) = (Inr (), (r', t))"
  shows "r' = r \<and> slot (device t) = other_set (slot (device s)) \<and> last (commands t) = ''reboot''"
proof -
  obtain r1 s1 r2 s2 r3 s3 u where 1: "startup_sys AeFirmware (swap_active E) (r, s) = (Inr (), (r1, s1))"
    and 2: "startup_sys AeFirmware (rollback_callback E dir) (r1, s1) = (Inr (), (r2, s2))"
    and 3: "startup_sys AeProcess (exec E ''reboot'') (r2, s2) = (Inr u, (r3, s3))" "(r', t) = (r3, s3)"
    using assms(3,4) by (auto simp: startup_rollback_def io_return_Inr elim!: io_then_Inr_E)
  have "slot (device s1) = other_set (slot (device s))" "r1 = r"
    using 1 swap_active_scripts [OF assms(1), of s] by (auto simp: startup_sys_Inr)
  moreover have "slot (device s2) = slot (device s1)" "r2 = r1"
    using 2 rollback_callback_slot [OF assms(2)] by (auto simp: startup_sys_Inr)
  moreover have "slot (device s3) = slot (device s2)" "r3 = r2" "last (commands s3) = ''reboot''"
    using 3 exec_slot [OF assms(2) no_set_command(3)] by (auto simp: startup_sys_Inr exec_def split: prod.splits)
  ultimately show ?thesis using 3 by simp
qed

lemma startup_cases:
  assumes "slot_scripts E slot" "upgrade_to_installation (rs_update r) = Some a"
  shows "handle_startup_callbacks E cfg (r, s) =
    (let s1 = s\<lparr>commands := commands s @ [GET_SCRIPT]\<rparr>; dir = metadata_dir (firmware cfg);
         confirm = io_then (startup_sys AeFirmware (validate_set E)) (startup_runtime (reset_installation_settings E))
     in if a = slot (device s)
        then io_bind (startup_sys AeFirmware (validate_callback E dir)) (\<lambda>tr. case tr of
               Cancel \<Rightarrow> startup_rollback E dir | Continue \<Rightarrow> confirm) (r, s1)
        else confirm (r, s1))"
  using assms(2)
  by (simp add: handle_startup_callbacks_def Let_def io_bind_def startup_sys_def io_map_err_def io_zoom_def
      active_scripts [OF assms(1)])

section \<open>Properties\<close>

text \<open>C1: Whenever the machine is about to install a package, whatever requests came and however
  the states were interleaved with them, the package is meant for the hardware of the device, its
  signature was accepted if the device has a key, and it is not the package that was applied last;
  and of the set that the installation takes, and records when it succeeds, the modes are allowed,
  the requirements of every object were met, and every object that has to be on disk was found
  complete and with its checksum.\<close>

theorem installs_checked_packages:
  assumes "reachable E c0 (Turning, Install p ctx, c)" and "slot_law E slot" and "a = install_target slot c"
  shows "compatible_with p (c_firmware c) = Inr () \<and>
    (\<forall>key. pub_key (c_firmware c) = Some key \<longrightarrow> (\<exists>sig s. signature_validate E key p sig s = Inr ())) \<and>
    applied_package_uid (rs_update (c_runtime c)) \<noteq> Some (package_uid E p) \<and>
    validate_install_modes p (c_settings c) a = Inr () \<and>
    (\<forall>x \<in> set (objects p a). \<exists>s t. check_requirements E ctx x s = (Inr (), t)) \<and>
    (\<exists>s. files s = files (c_sys c) \<and> (\<forall>x \<in> set (objects p a). \<not> allow_remote_install x \<longrightarrow>
       info_status E (download_dir_of c) x s = Inr Ready)) \<and>
    (\<forall>rqs at q tr d. turn E rqs at (Install p ctx) c = (Inr (Reboot q, tr), d) \<longrightarrow>
       upgrade_to_installation (rs_update (c_runtime d)) = Some a)"
proof -
  have "install_ok E slot p ctx c"
    using installation.held [OF assms(1), of slot] assms(2) by (simp add: install_checked_def)
  then show ?thesis
    using install_turn_target [OF assms(2)] unfolding install_ok_def objects_ready_def assms(3) by blast
qed

text \<open>C8: An installation that succeeds has taken the set of a pending upgrade or else the inactive
  one, has installed its objects one after the other, the larger ones first and those of one size
  in their order, on the machine it found; has then recorded the package and the set as the pending
  upgrade, on disk if the settings are kept there, and nothing else; and has swapped the active set
  after that. The machine goes on to reboot.\<close>

theorem installed_update_is_recorded:
  assumes "handle_install E p ctx c = (Inr out, d)"
  shows "\<exists>a xs s1 s2 s3. get_inactive_installation_set E (c_runtime c) (c_sys c) = (Inr a, s1) \<and>
    sorted_wrt (\<lambda>x y. info_len y \<le> info_len x) xs \<and>
    (\<forall>k. filter (\<lambda>x. info_len x = k) xs = filter (\<lambda>x. info_len x = k) (objects p a)) \<and>
    io_each (install_object E ctx) xs s1 = (Inr (), s2) \<and>
    c_runtime d = (c_runtime c)\<lparr>rs_update := \<lparr>upgrade_to_installation = Some a, applied_package_uid = Some (package_uid E p)\<rparr>\<rparr> \<and>
    quiet s2 s3 \<and>
    (persistent (c_runtime c) \<longrightarrow> (\<exists>n. node (rs_path (c_runtime c)) s3 = Some n \<and> node_bytes n = Some (rs_serialize E (c_runtime d)))) \<and>
    swap_active E s3 = (Inr (), c_sys d) \<and> out = (Reboot (with_objects a xs p), Immediate)"
proof -
  obtain a c1 c2 s1 s2 s3 r1 r2 where
    set: "inactive_set E (c\<lparr>c_drain := log_line E ''info''
       (''installing update: '' @ package_version p @ '' ('' @ package_uid E p @ '')'') (c_sys c) (c_drain c)\<rparr>) = (Inr a, c1)"
    and each: "io_each (\<lambda>x. handler_act (install_object E ctx x)) (sort_objects (objects p a))
       (c1\<lparr>c_drain := log_line E ''info'' (''using installation set as target '' @ set_display a) (c_sys c1) (c_drain c1)\<rparr>) = (Inr (), c2)"
    and rec: "set_applied_package_uid E (package_uid E p) (c_runtime c2, c_sys c2) = (Inr (), (r1, s1))"
      "set_upgrading_to E a (r1, s1) = (Inr (), (r2, s2))"
    and swap: "swap_active E s2 = (Inr (), s3)" "c_runtime d = r2" "c_sys d = s3"
    and out: "out = (Reboot (with_objects a (sort_objects (objects p a)) p), Immediate)"
    using assms by (rule handle_install_steps)
  from inactive_set_Inr [OF set] have a: "get_inactive_installation_set E (c_runtime c) (c_sys c) = (Inr a, c_sys c1)" "c_runtime c1 = c_runtime c"
    by auto
  from each_on_sys [OF each] a have e: "io_each (install_object E ctx) (sort_objects (objects p a)) (c_sys c1) = (Inr (), c_sys c2)"
    "c_runtime c2 = c_runtime c" by simp_all
  have r: "r2 = (c_runtime c)\<lparr>rs_update := \<lparr>upgrade_to_installation = Some a, applied_package_uid = Some (package_uid E p)\<rparr>\<rparr>"
    using stored_runtime(1) [OF rec(1)] stored_runtime(2) [OF rec(2)] e(2) by (simp add: upd_update_def)
  have q: "quiet (c_sys c2) s2"
    using applied_set.is_quiet [OF rec(1)] upgrading_set.is_quiet [OF rec(2)] transpD [OF transp_quiet] by blast
  have "\<exists>n. node (rs_path r2) s2 = Some n \<and> node_bytes n = Some (rs_serialize E r2)" if "persistent r2"
    using rec(2) that rs_save_stored upgrading_set.in_memory [OF rec(2)]
    by (auto simp: upgrading_set.op_eq split: prod.splits)
  then show ?thesis
    using a(1) e(1) q r swap out sort_objects_larger sort_objects_stable by (auto intro!: exI [of _ "sort_objects (objects p a)"])
qed

definition package_of :: "object list \<Rightarrow> update_package" where
  "package_of xs = example_package\<lparr>inner := (inner example_package)\<lparr>set_objects := (xs, xs)\<rparr>\<rparr>"

definition sized_test :: "64 word \<Rightarrow> object" where
  "sized_test n = Test \<lparr>filename = ''o'', file_size = n, sha256sum = ''61'', test_target = ''/dev/null'', force_check_requirements_fail = False\<rparr>"

theorem installed_update_is_recorded_witness:
  "let p = package_of [sized_test 1, sized_test 2] in
   \<exists>out d. handle_install example_device_env p \<lparr>ic_download_dir = ''/d'', offline_update = True, base_url = ''u''\<rparr> example_context = (Inr out, d) \<and>
     out = (Reboot (with_objects InstB [sized_test 2, sized_test 1] p), Immediate) \<and>
     rs_update (c_runtime d) = \<lparr>upgrade_to_installation = Some InstB, applied_package_uid = Some (package_uid example_device_env p)\<rparr>"
proof -
  let ?p = "package_of [sized_test 1, sized_test 2]"
  let ?r = "handle_install example_device_env ?p \<lparr>ic_download_dir = ''/d'', offline_update = True, base_url = ''u''\<rparr> example_context"
  have "is_ok (fst ?r)" by code_simp
  then obtain out d where r: "?r = (Inr out, d)" by (cases ?r) (auto simp: is_ok_def split: sum.splits)
  from installed_update_is_recorded [OF r] obtain a xs s1 where
    a: "get_inactive_installation_set example_device_env (c_runtime example_context) (c_sys example_context) = (Inr a, s1)"
    and xs: "sorted_wrt (\<lambda>x y. info_len y \<le> info_len x) xs"
      "\<And>k. filter (\<lambda>x. info_len x = k) xs = filter (\<lambda>x. info_len x = k) (objects ?p a)"
    and d: "rs_update (c_runtime d) = \<lparr>upgrade_to_installation = Some a, applied_package_uid = Some (package_uid example_device_env ?p)\<rparr>"
    and out: "out = (Reboot (with_objects a xs ?p), Immediate)" by auto
  have "fst (get_inactive_installation_set example_device_env (c_runtime example_context) (c_sys example_context)) = Inr InstB" by code_simp
  with a have b: "a = InstB" by simp
  have o: "objects ?p InstB = [sized_test 1, sized_test 2]" by (simp add: objects_def package_of_def)
  have l: "info_len (sized_test n) = n" for n by (simp add: sized_test_def)
  have "mset xs = mset [sized_test 1, sized_test 2]"
  proof (rule multiset_eqI)
    fix x
    have "count (mset ys) x = count (mset (filter (\<lambda>y. info_len y = info_len x) ys)) x" for ys :: "object list" by (simp add: mset_filter)
    then show "count (mset xs) x = count (mset [sized_test 1, sized_test 2]) x" using xs(2) [of "info_len x"] unfolding b o by metis
  qed
  note m = this
  have "length xs = 2" using arg_cong [OF m, of size] by simp
  then obtain y z where yz: "xs = [y, z]" by (cases xs; cases "tl xs") auto
  have "{y, z} = {sized_test 1, sized_test 2}" using arg_cong [OF m, of set_mset] unfolding yz by simp
  then have "xs = [sized_test 1, sized_test 2] \<or> xs = [sized_test 2, sized_test 1]"
    unfolding yz by (auto simp only: doubleton_eq_iff)
  moreover have "\<not> (2 :: 64 word) \<le> 1" by code_simp
  ultimately have "xs = [sized_test 2, sized_test 1]" using xs(1) by (auto simp: l)
  with r d out b show ?thesis by (auto simp: Let_def)
qed

text \<open>C13: When an object of the package cannot be installed the installation fails, and neither
  the package nor an upgrade is recorded.\<close>

theorem failed_object_stops_install:
  assumes "\<And>s. \<not> is_ok (fst (install_object E ctx x s))"
    and "x \<in> set (objects p InstA)" and "x \<in> set (objects p InstB)"
  shows "\<exists>e d. handle_install E p ctx c = (Inl e, d) \<and> c_runtime d = c_runtime c"
  using assms by (rule install_stops_at_object)

definition example_object :: object_file where
  "example_object = \<lparr>filename = ''o'', file_size = 1, sha256sum = ''61''\<rparr>"

theorem failed_object_stops_install_witness:
  "\<exists>e d. handle_install example_device_env (package_of [Mender example_object]) \<lparr>ic_download_dir = ''/d'',
     offline_update = True, base_url = ''u''\<rparr> example_context = (Inl e, d) \<and> c_runtime d = rs_default"
  using failed_object_stops_install [of example_device_env "\<lparr>ic_download_dir = ''/d'',
     offline_update = True, base_url = ''u''\<rparr>" "Mender example_object" "package_of [Mender example_object]" example_context]
  by (simp add: unsupported_def io_simps objects_def example_context_def package_of_def)

text \<open>C19: A second update that is installed before the device has rebooted undoes the swap of the
  first one: its objects go to the set that is recorded as the upgrade, but the active set, which is
  that one already, is swapped back. The next start finds the old set active and takes the update
  for one that was rolled back.\<close>

theorem second_install_swaps_back:
  assumes "slot_scripts E slot" and "\<And>x s. x \<in> set (objects p a) \<Longrightarrow> slot (device (snd (install_object E ctx x s))) = slot (device s)"
    and "upgrade_to_installation (rs_update (c_runtime c)) = Some a" and "slot (device (c_sys c)) = a"
    and "handle_install E p ctx c = (Inr out, d)"
  shows "upgrade_to_installation (rs_update (c_runtime d)) = Some a \<and> slot (device (c_sys d)) = other_set a"
proof -
  have keep: "slot (device (c_sys v)) = slot (device (c_sys u))"
    if "io_each (\<lambda>x. handler_act (install_object E ctx x)) xs u = (Inr w, v)" "set xs \<subseteq> set (objects p a)" for xs u v w
    using that
  proof (induction xs arbitrary: u)
    case (Cons x xs)
    then obtain y z where h: "handler_act (install_object E ctx x) u = (Inr y, z)"
      and r: "io_each (\<lambda>x. handler_act (install_object E ctx x)) xs z = (Inr w, v)"
      by (auto elim!: io_then_Inr_E)
    from handler_act_Inr [OF h] assms(2) [of x "c_sys u"] Cons.IH [OF r] Cons.prems(2) show ?case by auto
  qed (simp add: io_return_def)
  obtain b c1 c2 s1 s2 s3 r1 r2 where
    set: "inactive_set E (c\<lparr>c_drain := log_line E ''info''
       (''installing update: '' @ package_version p @ '' ('' @ package_uid E p @ '')'') (c_sys c) (c_drain c)\<rparr>) = (Inr b, c1)"
    and each: "io_each (\<lambda>x. handler_act (install_object E ctx x)) (sort_objects (objects p b))
       (c1\<lparr>c_drain := log_line E ''info'' (''using installation set as target '' @ set_display b) (c_sys c1) (c_drain c1)\<rparr>) = (Inr (), c2)"
    and rec: "set_applied_package_uid E (package_uid E p) (c_runtime c2, c_sys c2) = (Inr (), (r1, s1))"
      "set_upgrading_to E b (r1, s1) = (Inr (), (r2, s2))"
    and swap: "swap_active E s2 = (Inr (), s3)" "c_runtime d = r2" "c_sys d = s3"
    using assms(5) by (rule handle_install_steps)
  have b: "b = a" "c_sys c1 = c_sys c"
    using inactive_set_Inr [OF set] assms(3) by (auto simp: get_inactive_installation_set_def io_simps)
  have "slot (device (c_sys c2)) = a" using keep [OF each] b assms(4) by (simp add: sort_objects_def)
  moreover have "device s2 = device (c_sys c2)"
    using applied_set.is_quiet [OF rec(1)] upgrading_set.is_quiet [OF rec(2)] by (simp add: quiet_def)
  ultimately show ?thesis
    using swap swap_active_scripts [OF assms(1), of s2] stored_runtime(2) [OF rec(2)] b
    by (auto simp: upd_update_def)
qed

definition upgraded_context :: agent_context where
  "upgraded_context = example_context\<lparr>c_runtime := upd_update (\<lambda>u. u\<lparr>upgrade_to_installation := Some InstA\<rparr>) rs_default\<rparr>"

theorem second_install_swaps_back_witness:
  "\<exists>out d. handle_install example_device_env example_package \<lparr>ic_download_dir = ''/d'',
     offline_update = True, base_url = ''u''\<rparr> upgraded_context = (Inr out, d) \<and>
   upgrade_to_installation (rs_update (c_runtime d)) = Some InstA \<and> example_slot (device (c_sys d)) = InstB"
proof -
  let ?r = "handle_install example_device_env example_package \<lparr>ic_download_dir = ''/d'',
    offline_update = True, base_url = ''u''\<rparr> upgraded_context"
  have "is_ok (fst ?r)" by code_simp
  then obtain out d where r: "?r = (Inr out, d)" by (cases ?r) (auto simp: is_ok_def split: sum.splits)
  from r second_install_swaps_back [OF example_slot_scripts _ _ _ r] show ?thesis
    by (auto simp: example_package_def objects_def upgraded_context_def upd_update_def
        example_context_def example_sys_def example_slot_def)
qed

text \<open>A device whose validate callback exists, and fails or not.\<close>

definition callback_env :: "bool \<Rightarrow> env" where
  "callback_env fails = example_env\<lparr>run := \<lambda>c s.
     if fails \<and> c = ''/usr/share/updatehub/validate-callback''
     then (Inl (ProcFailure 1 \<lparr>stdout = [], stderr = []\<rparr>), s) else example_run c s\<rparr>"

definition callback_sys :: sys where
  "callback_sys = example_sys\<lparr>files := [(''/usr/share/updatehub/validate-callback'', Regular [])]\<rparr>"

definition upgraded_rs :: runtime_settings where
  "upgraded_rs = upd_update (\<lambda>u. u\<lparr>upgrade_to_installation := Some InstA\<rparr>) rs_default"

lemma callback_env_run: "c = GET_SCRIPT \<or> c = VALIDATE_SCRIPT \<or> c \<in> range set_command \<Longrightarrow>
    run (callback_env f) c s = run example_device_env c s"
  by (auto simp: callback_env_def example_device_env_def GET_SCRIPT_def VALIDATE_SCRIPT_def set_command_def
      SET_SCRIPT_def)

lemma callback_env_scripts: "slot_scripts (callback_env f) example_slot"
  using example_slot_scripts unfolding slot_scripts_def by (simp add: callback_env_run)

lemma callback_env_kept: "slot_kept (callback_env f) example_slot"
  by (auto simp: slot_kept_def callback_env_def example_run_def)

lemma callback_answer_example:
  "validate_callback (callback_env f) (metadata_dir (firmware settings_default)) (callback_sys\<lparr>commands := cs\<rparr>) =
     (Inr (if f then Cancel else Continue),
      callback_sys\<lparr>commands := cs @ [''/usr/share/updatehub/validate-callback'']\<rparr>)"
proof -
  have j: "path_join (metadata_dir (firmware settings_default)) VALIDATE_CALLBACK = ''/usr/share/updatehub/validate-callback''"
    by code_simp
  show ?thesis
    by (simp add: validate_callback_def j Let_def fs_exists_def node_def callback_sys_def callback_env_def example_env_def
        run_command_for_state_def exec_def example_run_def io_map_err_def GET_SCRIPT_def set_command_def SET_SCRIPT_def example_sys_def)
qed

text \<open>What is left of the runtime settings when an upgrade is over.\<close>

lemma cleared_installation_eq: "cleared_installation r = r\<lparr>rs_polling := (rs_polling r)\<lparr>poll_now := True\<rparr>,
    rs_update := \<lparr>upgrade_to_installation = None, applied_package_uid = None\<rparr>\<rparr>"
  by (cases r) (simp add: cleared_installation_def upd_polling_def upd_update_def)

text \<open>C6: An update whose validation fails at the first start after it is rolled back: that start
  swaps the active set back and reboots without forgetting the upgrade; the next one finds another
  set active than the recorded one, confirms it without running the callback again, forgets the
  upgrade and the package, and has the machine probe the server at once.\<close>

theorem failed_update_is_rolled_back:
  assumes "slot_scripts E slot" and "slot_kept E slot" and "\<not> v1_parsing E"
    and "upgrade_to_installation (rs_update r) = Some a" and "slot (device s) = a"
    and "validate_callback E (metadata_dir (firmware cfg)) (s\<lparr>commands := commands s @ [GET_SCRIPT]\<rparr>) = (Inr Cancel, s')"
    and "handle_startup_callbacks E cfg (r, s) = (Inr (), (r1, t1))"
    and "handle_startup_callbacks E cfg (r1, t1) = (Inr (), (r2, t2))"
  shows "r1 = r \<and> slot (device t1) = other_set a \<and> last (commands t1) = ''reboot'' \<and>
    r2 = r\<lparr>rs_polling := (rs_polling r)\<lparr>poll_now := True\<rparr>,
      rs_update := \<lparr>upgrade_to_installation = None, applied_package_uid = None\<rparr>\<rparr> \<and> is_polling_forced r2 \<and> slot (device t2) = other_set a \<and>
    commands t2 = commands t1 @ [GET_SCRIPT, VALIDATE_SCRIPT]"
proof -
  have "startup_rollback E (metadata_dir (firmware cfg)) (r, s') = (Inr (), (r1, t1))"
    using assms(5-7) by (simp add: startup_cases [OF assms(1,4)] Let_def io_bind_def startup_sys_def io_zoom_def io_map_err_def)
  moreover have "slot (device s') = a" using validate_callback_slot [OF assms(2,6)] assms(5) by simp
  ultimately have 1: "r1 = r" "slot (device t1) = other_set a" "last (commands t1) = ''reboot''"
    using startup_rollback_slot [OF assms(1-3)] by auto
  have "io_then (startup_sys AeFirmware (validate_set E)) (startup_runtime (reset_installation_settings E))
      (r, t1\<lparr>commands := commands t1 @ [GET_SCRIPT]\<rparr>) = (Inr (), (r2, t2))"
    using assms(8) 1 by (simp add: startup_cases [OF assms(1,4)] Let_def)
  from startup_confirm [OF assms(1) this] 1 show ?thesis
    by (simp add: cleared_installation_eq is_polling_forced_def)
qed

theorem failed_update_is_rolled_back_witness:
  "\<exists>r1 t1 r2 t2. handle_startup_callbacks (callback_env True) settings_default (upgraded_rs, callback_sys) = (Inr (), (r1, t1)) \<and>
     handle_startup_callbacks (callback_env True) settings_default (r1, t1) = (Inr (), (r2, t2)) \<and>
     upgrade_to_installation (rs_update r2) = None \<and> is_polling_forced r2 \<and> example_slot (device t2) = InstB"
proof -
  let ?h = "handle_startup_callbacks (callback_env True) settings_default"
  obtain r1 t1 r2 t2 where b: "?h (upgraded_rs, callback_sys) = (fst (?h (upgraded_rs, callback_sys)), (r1, t1))"
    "?h (r1, t1) = (fst (?h (r1, t1)), (r2, t2))" by (metis prod.collapse)
  have "is_ok (fst (?h (upgraded_rs, callback_sys)))"
    "is_ok (fst (?h (snd (?h (upgraded_rs, callback_sys)))))" by code_simp+
  with b have r: "?h (upgraded_rs, callback_sys) = (Inr (), (r1, t1))" "?h (r1, t1) = (Inr (), (r2, t2))"
    by (auto simp: is_ok_def split: sum.splits)
  have "upgrade_to_installation (rs_update upgraded_rs) = Some InstA" "example_slot (device callback_sys) = InstA"
    "\<not> v1_parsing (callback_env True)"
    by (simp_all add: upgraded_rs_def upd_update_def callback_sys_def example_sys_def example_slot_def callback_env_def example_env_def)
  with failed_update_is_rolled_back [OF callback_env_scripts callback_env_kept _ _ _ _ r]
    callback_answer_example [of True] r
  show ?thesis by (auto simp: is_polling_forced_def)
qed

text \<open>An update that passes its validation is confirmed at the first start after it: the active
  set stays, the upgrade and the package are forgotten, and the server is probed at once.\<close>

lemma validated_update_is_confirmed:
  assumes "slot_scripts E slot" and "slot_kept E slot"
    and "upgrade_to_installation (rs_update r) = Some a" and "slot (device s) = a"
    and "validate_callback E (metadata_dir (firmware cfg)) (s\<lparr>commands := commands s @ [GET_SCRIPT]\<rparr>) = (Inr Continue, s')"
    and "handle_startup_callbacks E cfg (r, s) = (Inr (), (r1, t1))"
  shows "r1 = r\<lparr>rs_polling := (rs_polling r)\<lparr>poll_now := True\<rparr>,
      rs_update := \<lparr>upgrade_to_installation = None, applied_package_uid = None\<rparr>\<rparr> \<and> is_polling_forced r1 \<and> slot (device t1) = a \<and>
    commands t1 = commands s' @ [VALIDATE_SCRIPT]"
proof -
  have "io_then (startup_sys AeFirmware (validate_set E)) (startup_runtime (reset_installation_settings E)) (r, s') = (Inr (), (r1, t1))"
    using assms(4-6) by (simp add: startup_cases [OF assms(1,3)] Let_def io_bind_def startup_sys_def io_zoom_def io_map_err_def)
  from startup_confirm [OF assms(1) this] validate_callback_slot [OF assms(2,5)] assms(4) show ?thesis
    by (simp add: cleared_installation_eq is_polling_forced_def)
qed

lemma validated_update_is_confirmed_witness:
  "\<exists>r1 t1. handle_startup_callbacks (callback_env False) settings_default (upgraded_rs, callback_sys) = (Inr (), (r1, t1)) \<and>
     upgrade_to_installation (rs_update r1) = None \<and> is_polling_forced r1 \<and> example_slot (device t1) = InstA"
proof -
  let ?h = "handle_startup_callbacks (callback_env False) settings_default"
  have "is_ok (fst (?h (upgraded_rs, callback_sys)))" by code_simp
  then obtain r1 t1 where r: "?h (upgraded_rs, callback_sys) = (Inr (), (r1, t1))"
    by (cases "?h (upgraded_rs, callback_sys)") (auto simp: is_ok_def split: sum.splits)
  have "upgrade_to_installation (rs_update upgraded_rs) = Some InstA" "example_slot (device callback_sys) = InstA"
    by (simp_all add: upgraded_rs_def upd_update_def callback_sys_def example_sys_def example_slot_def)
  with validated_update_is_confirmed [OF callback_env_scripts callback_env_kept _ _ _ r]
    callback_answer_example [of False] r
  show ?thesis by (auto simp: is_polling_forced_def)
qed

text \<open>C25: The delay before a failed probe is repeated doubles with every failure, from one second,
  and never exceeds an hour, nor the polling interval when that is at least a second; it never
  shrinks while failures go on. The shift is done on a word of 64 bits and does not overflow.\<close>

theorem retry_delay_backs_off:
  "retry_delay r i = seconds (min (2 ^ min (unat r - 1) 12) (max 1 (min (num_seconds i) 3600))) \<and>
   seconds 1 \<le> retry_delay r i \<and> retry_delay r i \<le> seconds 3600 \<and>
   (1 \<le> num_seconds i \<longrightarrow> retry_delay r i \<le> i) \<and>
   (\<forall>r'. r \<le> r' \<longrightarrow> retry_delay r i \<le> retry_delay r' i)"
proof (intro conjI allI impI)
  have p: "(1 :: int) \<le> 2 ^ k" for k by simp
  show "seconds 1 \<le> retry_delay r i" using p [of "min (unat r - 1) 12"]
    by (simp add: retry_delay_eq seconds_def nanos_def)
  show "retry_delay r i \<le> seconds 3600" by (simp add: retry_delay_eq seconds_def nanos_def)
  show "retry_delay r i \<le> i" if "1 \<le> num_seconds i"
  proof -
    have "0 \<le> \<bar>i\<bar> div nanos" by (simp add: nanos_def pos_imp_zdiv_nonneg_iff)
    then have "0 < i" using that by (cases i "0 :: int" rule: linorder_cases) (auto simp: num_seconds_def)
    then have "seconds (num_seconds i) \<le> i"
      using div_mult_mod_eq [of i nanos] pos_mod_sign [of nanos i]
      by (simp add: num_seconds_def seconds_def nanos_def)
    moreover have "retry_delay r i \<le> seconds (num_seconds i)"
      using that by (simp add: retry_delay_eq seconds_def nanos_def)
    ultimately show ?thesis by simp
  qed
  show "retry_delay r i \<le> retry_delay r' i" if "r \<le> r'" for r'
  proof -
    have "unat r - 1 \<le> unat r' - 1" using that by (simp add: word_le_nat_alt)
    then have "(2 :: int) ^ min (unat r - 1) 12 \<le> 2 ^ min (unat r' - 1) 12"
      by (intro power_increasing) simp_all
    then show ?thesis unfolding retry_delay_eq seconds_def
      by (intro mult_right_mono min.mono order_refl) (simp_all add: nanos_def)
  qed
qed (rule retry_delay_eq)

theorem retry_delay_backs_off_witness:
  "retry_delay 3 (seconds 86400) \<le> retry_delay 5 (seconds 86400) \<and> retry_delay 3 (seconds 86400) = seconds 4"
proof -
  have "(3 :: 64 word) \<le> 5" by simp
  then have "retry_delay 3 (seconds 86400) \<le> retry_delay 5 (seconds 86400)"
    using retry_delay_backs_off [of 3 "seconds 86400"] by blast
  then show ?thesis by (simp add: retry_delay_eq num_seconds_seconds)
qed

text \<open>The next probe comes one polling interval after the last one: at once when that time is
  over by a second or more or the last probe seems to lie in the future, and otherwise after exactly
  the time that is left.\<close>

lemma poll_keeps_interval:
  "fst (handle_poll E c) = Inr (Probe,
     let i = interval (polling (c_settings c)); now = utc_now (c_sys c); last = last_poll (rs_polling (c_runtime c))
     in if now < last \<or> last + i + seconds 1 \<le> now then Immediate else Delayed (last + i - now))"
  by (simp add: handle_poll_eq Let_def)

text \<open>C24: A probe that fails, other than by an address that is no URL, keeps the agent probing: the
  failure is counted and, unless the logger drops errors, logged even though no operation is being recorded,
  whether the log records is left as it was, and the probe is repeated after the delay for that many failures.\<close>

theorem failed_probe_is_repeated:
  assumes "send_probe E c = (Inl e, d)" and "e \<noteq> UrlParse"
  shows "\<exists>d'. handle_probe_state E c = (Inr (Probe, Delayed (retry_delay
        (poll_retries (rs_polling (c_runtime c)) + 1) (interval (polling (c_settings c))))), d') \<and>
    poll_retries (rs_polling (c_runtime d')) = poll_retries (rs_polling (c_runtime c)) + 1 \<and>
    logging (c_drain d') = logging (c_drain c) \<and>
    (log_enabled E ''error'' \<longrightarrow> message (last (entries (UH_Log.records (c_drain d')))) = ''Probe failed: '' @ cloud_error_text E e)"
proof -
  obtain t where d: "d = c\<lparr>c_sys := t\<rparr>" using assms(1) unfolding send_probe_def by (blast dest: on_sys_result)
  have "message (last (entries (push_record x rs))) = message x" for x rs
  proof (cases "entries rs = []")
    case False
    show ?thesis
    proof (cases "repeats (last (entries rs)) x")
      case True
      then show ?thesis using False by (simp add: push_record_def repeats_def)
    next
      case False
      have "last (fst (evict es b)) = last es" for es b
        by (induction es b rule: evict.induct) simp_all
      from this [of "entries rs @ [x]" "bytes rs + record_size x"] False show ?thesis
        by (cases "evict (entries rs @ [x]) (bytes rs + record_size x)") (simp add: push_record_def)
    qed
  qed (simp add: push_record_def)
  then show ?thesis
    by (simp add: probe_state_failed [OF assms] probe_failed_eq Let_def d inc_retries_def upd_polling_def
        record_out_of_scope_def set_logging_def drain_log_def log_line_def)
qed

theorem failed_probe_is_repeated_witness:
  "\<exists>d'. handle_probe_state example_env example_context = (Inr (Probe, Delayed (seconds 1)), d') \<and>
     poll_retries (rs_polling (c_runtime d')) = 1"
proof -
  have "send_probe example_env example_context = (Inl (HttpFailed (HttpError ''unreachable'')),
      snd (send_probe example_env example_context))"
    by (simp add: send_probe_def on_sys_def io_zoom_def probe_def http_send_def example_env_def io_simps)
  from failed_probe_is_repeated [OF this] show ?thesis
    by (auto simp: example_context_def rs_default_def settings_default_def retry_delay_eq num_seconds_def nanos_def)
qed

text \<open>C23: A package with a delta object for the set it would be installed to is never installed: the
  check that precedes an installation takes the path of the object in the download directory in
  quotes, which is neither a file nor a URL, although such objects are fetched while they are
  installed.\<close>

theorem delta_objects_never_install:
  assumes "\<And>r s. \<not> fs_exists E (dquote # r) s" and "\<And>r. \<not> url_ok E (dquote # r)" and "slot_law E slot"
    and "reachable E c0 (Turning, Install p ctx, c)"
  shows "RawDelta x \<notin> set (objects p (install_target slot c))"
proof
  have ok: "install_ok E slot p ctx c"
    using installation.held [OF assms(4), of slot] assms(3) by (simp add: install_checked_def)
  assume "RawDelta x \<in> set (objects p (install_target slot c))"
  then obtain s t where chk: "raw_delta_check E ctx x s = (Inr (), t)" using ok by (fastforce simp: install_ok_def)
  obtain r where r: "get_seed_path x ctx = dquote # r"
    using ok debug_head [of "path_join (ic_download_dir ctx) (sha256sum x)"]
    by (auto simp: get_seed_path_def install_ok_def)
  have "get_required_size E (dquote # r) dev u = Inl BitaUrl" for dev u
    using assms(1,2) by (simp add: get_required_size_def delta_archive_def io_simps)
  then show False using chk r
    by (auto simp: raw_delta_check_def obj_utils_def io_ask_def io_map_err_def io_throw_def io_bind_def
        elim!: io_then_Inr_E split: target_type.splits)
qed

text \<open>A device on which no path in quotes exists, and a package with an object for each set.\<close>

definition small_json :: json where
  "small_json = (let t = JObj [(''mode'', JStr ''test''), (''filename'', JStr ''o''), (''sha256sum'', JStr ''33''),
       (''target'', JStr ''/dev/null''), (''size'', JNum 1), (''force-check-requirements-fail'', JBool False)]
     in JObj [(''product'', JStr ''p''), (''version'', JStr ''1''), (''objects'', JArr [JArr [t], JArr [t]])])"

definition unquoted_env :: env where
  "unquoted_env = example_agent_env\<lparr>run := example_run, json_parse := (\<lambda>_. Inr small_json),
     io_fault := (\<lambda>_ p _. if p \<noteq> [] \<and> hd p = dquote then Some NotFound else None),
     url_ok := (\<lambda>u. u = [] \<or> hd u \<noteq> dquote)\<rparr>"

definition unquoted_context :: agent_context where
  "unquoted_context = example_context\<lparr>c_settings := settings_default\<lparr>update :=
     \<lparr>download_dir = ''/d'', supported_install_modes = [''test'']\<rparr>\<rparr>, c_queue := [local_request]\<rparr>"

lemma unquoted_law: "slot_law unquoted_env example_slot"
proof -
  have "run unquoted_env = run example_device_env" by (simp add: unquoted_env_def example_device_env_def)
  moreover have "slot_kept example_device_env example_slot"
    by (auto simp: slot_kept_def example_device_env_def example_run_def)
  ultimately show ?thesis
    using example_slot_scripts
    by (simp add: slot_law_def slot_scripts_def slot_kept_def) (simp add: unquoted_env_def example_agent_env_def example_env_def)
qed

lemma unquoted_install:
  obtains p ctx c where "reachable unquoted_env unquoted_context (Turning, Install p ctx, c)" "length (objects p InstB) = 1"
    "install_target example_slot c = InstB"
proof -
  have "case turns unquoted_env 2 EntryPoint unquoted_context of
     Some (Install p ctx, c) \<Rightarrow> length (objects p InstB) = 1 \<and> install_target example_slot c = InstB | _ \<Rightarrow> False"
    by code_simp
  then show ?thesis
    using that turns_reachable [of unquoted_env 2 unquoted_context] by (auto split: option.splits prod.splits state.splits)
qed

theorem delta_objects_never_install_witness:
  "\<exists>p ctx c y. reachable unquoted_env unquoted_context (Turning, Install p ctx, c) \<and>
     objects p (install_target example_slot c) = [y] \<and> (\<forall>x. y \<noteq> RawDelta x)"
proof -
  obtain p ctx c where r: "reachable unquoted_env unquoted_context (Turning, Install p ctx, c)"
    and o: "length (objects p InstB) = 1" "install_target example_slot c = InstB" by (rule unquoted_install)
  obtain y where y: "objects p InstB = [y]" using o(1) by (auto simp: length_Suc_conv)
  have "\<not> fs_exists unquoted_env (dquote # r) s" for r s
    by (simp add: fs_exists_def unquoted_env_def)
  moreover have "\<not> url_ok unquoted_env (dquote # r)" for r by (simp add: unquoted_env_def)
  ultimately have "RawDelta x \<notin> set (objects p (install_target example_slot c))" for x
    using delta_objects_never_install [OF _ _ unquoted_law r] by blast
  then show ?thesis using r y o(2) by (metis list.set_intros(1))
qed

end
