(* ===== verification/UH_Storage.thy ===== *)
theory UH_Storage
  imports UH_Updates
begin

text \<open>
  What the download directory and the devices hold: the clearing and the filling of the directory
  an update is downloaded to (\<open>update_package/mod.rs\<close>, \<open>states/download.rs\<close>) and what the raw
  installer writes (\<open>object/installer/raw.rs\<close>).
\<close>

section \<open>Names in the download directory\<close>

text \<open>A directory without a trailing slash and a name without any, as hexadecimal digits are.\<close>

definition plain_dir :: "string \<Rightarrow> bool" where
  "plain_dir d \<longleftrightarrow> d \<noteq> [] \<and> last d \<noteq> CHR ''/''"

definition plain_name :: "string \<Rightarrow> bool" where
  "plain_name a \<longleftrightarrow> a \<noteq> [] \<and> CHR ''/'' \<notin> set a \<and> a \<noteq> ''..''"

text \<open>The name of a file right in the directory.\<close>

definition plain_sum :: "string \<Rightarrow> string \<Rightarrow> bool" where
  "plain_sum dir a \<longleftrightarrow> path_parent (path_join dir a) = Some dir \<and> path_file_name (path_join dir a) = Some a"

lemma plain_sumI: "plain_dir dir \<Longrightarrow> plain_name a \<Longrightarrow> plain_sum dir a"
proof -
  assume d: "plain_dir dir" and a: "plain_name a"
  have n: "\<forall>c \<in> set (rev a). c \<noteq> CHR ''/''" using a by (auto simp: plain_name_def)
  have "\<not> starts_with ''/'' a" using a by (cases a) (auto simp: plain_name_def)
  then have j: "path_join dir a = dir @ ''/'' @ a" using d by (simp add: path_join_def plain_dir_def)
  have "takeWhile (\<lambda>c. c \<noteq> CHR ''/'') (rev (dir @ ''/'' @ a)) = rev a"
    "dropWhile (\<lambda>c. c \<noteq> CHR ''/'') (rev (dir @ ''/'' @ a)) = ''/'' @ rev dir"
    using n by (auto simp: takeWhile_append dropWhile_append)
  then have "path_split (dir @ ''/'' @ a) = (dir @ ''/'', a)" by (simp add: path_split_def)
  moreover have "dir \<noteq> []" "dir @ ''/'' \<noteq> ''/''" "dir @ ''/'' @ a \<noteq> ''/''"
    using d a by (cases dir; simp add: plain_dir_def plain_name_def)+
  ultimately show ?thesis using a unfolding plain_sum_def j
    by (simp add: path_parent_def path_file_name_def plain_name_def)
qed

lemma plain_sum_inj: "plain_sum dir a \<Longrightarrow> plain_sum dir b \<Longrightarrow> path_join dir a = path_join dir b \<longleftrightarrow> a = b"
  by (metis option.inject plain_sum_def)

lemma plain_sum_notin:
  "plain_sum dir a \<Longrightarrow> \<forall>b \<in> A. plain_sum dir b \<Longrightarrow> a \<notin> A \<Longrightarrow> path_join dir a \<notin> path_join dir ` A"
  using plain_sum_inj by blast

lemma plain_sum_present: "plain_sum dir a \<Longrightarrow> node dir s = Some Directory \<Longrightarrow> dir_present (path_join dir a) s"
  by (simp add: dir_present_def plain_sum_def)

lemma status_missing: "fault_free E \<Longrightarrow> info_status E dir x s = Inr Missing \<longleftrightarrow> node (path_join dir (info_sha256sum x)) s = None"
  by (auto simp: info_status_def status_of_def fs_exists_def io_simps Let_def split: sum.splits if_splits)

section \<open>Downloading\<close>

text \<open>A server that has the objects: \<open>body\<close> gives the response for each sum.\<close>

definition serves_objects :: "env \<Rightarrow> string \<Rightarrow> string \<Rightarrow> string \<Rightarrow> (string \<Rightarrow> http_response) \<Rightarrow> object list \<Rightarrow> bool" where
  "serves_objects E server uid pkg body xs \<longleftrightarrow> (\<forall>x \<in> set xs.
     (\<forall>s. served_download E (object_url server uid pkg (info_sha256sum x)) [] (body (info_sha256sum x)) s) \<and>
     sha256_text E (concat (chunks (body (info_sha256sum x)))) = info_sha256sum x \<and>
     info_len x \<le> of_nat (length (concat (chunks (body (info_sha256sum x))))))"

lemma download_each_stores:
  assumes "fault_free E" "url_ok E server" "node dir s = Some Directory"
    and "distinct (map snd ps)"
    and "\<forall>a \<in> set (map snd ps). plain_sum dir a \<and> node (path_join dir a) s = None \<and>
      (\<forall>s. served_download E (object_url server uid pkg a) [] (body a) s)"
  shows "\<exists>t. download_each E server uid pkg dir None ps s = (Inr True, t) \<and>
    (\<forall>a \<in> set (map snd ps). node (path_join dir a) t = Some (Regular (concat (chunks (body a))))) \<and>
    (\<forall>q. q \<notin> path_join dir ` set (map snd ps) \<longrightarrow> node q t = node q s)"
  using assms(3-5)
proof (induction ps arbitrary: s)
  case (Cons e ps)
  obtain nm a where e: "e = (nm, a)" by fastforce
  have pl: "plain_sum dir a" and no: "node (path_join dir a) s = None" using Cons.prems(3) e by auto
  obtain w where w: "download_object E server uid pkg dir a s = (Inr (), w)"
    "node (path_join dir a) w = Some (Regular (concat (chunks (body a))))"
    "\<And>q. q \<noteq> path_join dir a \<Longrightarrow> node q w = node q s"
    using download_fresh [of E server dir s a uid pkg "body a"] assms(1,2) Cons.prems e pl no
      plain_sum_present [OF pl] by auto
  have "path_join dir a \<noteq> dir" using no Cons.prems(1) by auto
  then have d: "node dir w = Some Directory" using w(3) [of dir] Cons.prems(1) by simp
  have rest: "\<forall>b \<in> set (map snd ps). plain_sum dir b \<and> node (path_join dir b) w = None \<and>
      (\<forall>s. served_download E (object_url server uid pkg b) [] (body b) s)"
  proof
    fix b assume b: "b \<in> set (map snd ps)"
    then have "b \<noteq> a" "plain_sum dir b" using Cons.prems(2,3) e by auto
    then have "path_join dir b \<noteq> path_join dir a" using plain_sum_inj pl by metis
    then show "plain_sum dir b \<and> node (path_join dir b) w = None \<and>
      (\<forall>s. served_download E (object_url server uid pkg b) [] (body b) s)"
      using w(3) b Cons.prems(3) by auto
  qed
  obtain t where t: "download_each E server uid pkg dir None ps w = (Inr True, t)"
    "\<forall>b \<in> set (map snd ps). node (path_join dir b) t = Some (Regular (concat (chunks (body b))))"
    "\<forall>q. q \<notin> path_join dir ` set (map snd ps) \<longrightarrow> node q t = node q w"
    using Cons.IH [OF d _ rest] Cons.prems(2) by auto
  have "path_join dir a \<notin> path_join dir ` set (map snd ps)"
    using plain_sum_notin [OF pl] rest Cons.prems(2) e by simp
  then have "node (path_join dir a) t = Some (Regular (concat (chunks (body a))))" using t(3) w(2) by simp
  then show ?case using t w(1,3) e by (auto simp: io_simps)
qed (simp add: io_simps)

lemma pending_sums: "a \<in> set (map snd (pending_download E dir xs s)) \<longleftrightarrow>
    (\<exists>x \<in> set xs. \<not> allow_remote_install x \<and> info_status E dir x s \<noteq> Inr Ready \<and> a = info_sha256sum x)"
  by (force simp: pending_download_def)

text \<open>Of objects that are ready or missing, those to fetch are the missing ones.\<close>

lemma pending_missing:
  assumes "fault_free E" "\<forall>x \<in> set xs. plain_sum dir (info_sha256sum x)" "serves_objects E server uid pkg body xs"
    and "\<forall>x \<in> set xs. allow_remote_install x \<or> info_status E dir x s \<in> {Inr Ready, Inr Missing}"
    and a: "a \<in> set (map snd (pending_download E dir xs s))"
  shows "plain_sum dir a \<and> node (path_join dir a) s = None \<and>
    (\<forall>s. served_download E (object_url server uid pkg a) [] (body a) s)"
proof -
  obtain x where x: "x \<in> set xs" "\<not> allow_remote_install x" "info_status E dir x s \<noteq> Inr Ready"
    "a = info_sha256sum x" using a unfolding pending_sums by blast
  then have "info_status E dir x s = Inr Missing" using assms(4) by auto
  then show ?thesis using x assms(2,3) status_missing [OF assms(1)] by (simp add: serves_objects_def)
qed

lemma download_readies:
  assumes "fault_free E" "url_ok E server" "node dir s = Some Directory"
    and "plain_dir dir" "\<forall>x \<in> set xs. plain_name (info_sha256sum x)" "serves_objects E server uid pkg body xs"
    and "\<forall>x \<in> set xs. allow_remote_install x \<or> info_status E dir x s \<in> {Inr Ready, Inr Missing}"
    and "distinct (map snd (pending_download E dir xs s))"
  shows "\<exists>t. download_each E server uid pkg dir None (pending_download E dir xs s) s = (Inr True, t) \<and>
    (\<forall>x \<in> set xs. allow_remote_install x \<or> info_status E dir x t = Inr Ready) \<and>
    (\<forall>q. node q t = node q s \<or> path_parent q = Some dir \<and> (\<exists>b. node q t = Some (Regular b)))"
proof -
  have pl: "\<forall>x \<in> set xs. plain_sum dir (info_sha256sum x)" using plain_sumI assms(4,5) by blast
  let ?ps = "pending_download E dir xs s"
  have ps: "\<forall>a \<in> set (map snd ?ps). plain_sum dir a \<and> node (path_join dir a) s = None \<and>
      (\<forall>s. served_download E (object_url server uid pkg a) [] (body a) s)"
    using pending_missing [OF assms(1) pl assms(6,7)] by blast
  obtain t where t: "download_each E server uid pkg dir None ?ps s = (Inr True, t)"
    "\<forall>a \<in> set (map snd ?ps). node (path_join dir a) t = Some (Regular (concat (chunks (body a))))"
    "\<forall>q. q \<notin> path_join dir ` set (map snd ?ps) \<longrightarrow> node q t = node q s"
    using download_each_stores [OF assms(1-3,8) ps] by blast
  have "info_status E dir x t = Inr Ready" if x: "x \<in> set xs" "\<not> allow_remote_install x" for x
  proof (cases "info_sha256sum x \<in> set (map snd ?ps)")
    case True
    with t(2) have n: "node (path_join dir (info_sha256sum x)) t =
        Some (Regular (concat (chunks (body (info_sha256sum x)))))" by blast
    show ?thesis using objects.stored [OF n] assms(1,6) x(1) by (simp add: serves_objects_def not_less)
  next
    case False
    then have r: "info_status E dir x s = Inr Ready" using pending_sums x by blast
    have "path_join dir (info_sha256sum x) \<notin> path_join dir ` set (map snd ?ps)"
      using plain_sum_notin [OF _ _ False] pl ps x(1) by blast
    then have "node (path_join dir (info_sha256sum x)) t = node (path_join dir (info_sha256sum x)) s" using t(3) by blast
    then show ?thesis using objects.same_file [of dir x t s E] assms(1) r by simp
  qed
  moreover have "node q t = node q s \<or> path_parent q = Some dir \<and> (\<exists>b. node q t = Some (Regular b))" for q
    using t(2,3) ps by (cases "q \<in> path_join dir ` set (map snd ?ps)") (auto simp: plain_sum_def)
  ultimately show ?thesis using t(1) by blast
qed

section \<open>Clearing\<close>

text \<open>The file of an object survives all of the clearing but the removal of corrupted objects.\<close>

lemma clear_keeps_objects:
  assumes "fault_free E" "node dir s \<noteq> None" "plain_dir dir" "x \<in> set (objects p a)" "plain_sum dir (info_sha256sum x)"
    and "info_sha256sum x \<noteq> ''metadata''" "info_sha256sum x \<noteq> ''signature''"
  shows "path_join dir (info_sha256sum x) \<notin> set (unrelated_files E p dir a s)"
    "path_join dir (info_sha256sum x) \<noteq> path_join dir ''metadata''"
    "path_join dir (info_sha256sum x) \<noteq> path_join dir ''signature''"
proof -
  show "path_join dir (info_sha256sum x) \<notin> set (unrelated_files E p dir a s)"
    using unrelated_files_iff [OF assms(1,2)] assms(4,5) by (auto simp: plain_sum_def)
  have "plain_sum dir ''metadata''" "plain_sum dir ''signature''"
    by (auto intro!: plain_sumI [OF assms(3)] simp: plain_name_def)
  then show "path_join dir (info_sha256sum x) \<noteq> path_join dir ''metadata''"
    "path_join dir (info_sha256sum x) \<noteq> path_join dir ''signature''"
    using plain_sum_inj [OF assms(5)] assms(6,7) by simp_all
qed

text \<open>One file cannot be ready for an object and corrupted for another with the same sum.\<close>

lemma corrupted_not_ready:
  "info_status E dir y s = Inr Corrupted \<Longrightarrow> info_sha256sum x = info_sha256sum y \<Longrightarrow> info_status E dir x s \<noteq> Inr Ready"
  by (auto simp: info_status_def status_of_def io_simps Let_def split: if_splits sum.splits)

lemma has_status_Corrupted: "has_status E dir Corrupted s x \<longleftrightarrow> info_status E dir x s = Inr Corrupted"
  by (auto simp: has_status_def split: sum.splits)

section \<open>Properties\<close>

text \<open>C10: A download that is not aborted, from a server that has the objects of the package, makes
  every object ready that an installation needs on disk. Required is that none was left incomplete
  by an earlier download and that no sum occurs twice among those to fetch.\<close>

theorem download_makes_ready:
  assumes "fault_free E" "url_ok E server" "node dir s = Some Directory"
    and "plain_dir dir" "\<forall>x \<in> set xs. plain_name (info_sha256sum x)" "serves_objects E server uid pkg body xs"
    and "\<forall>x \<in> set xs. allow_remote_install x \<or> info_status E dir x s \<in> {Inr Ready, Inr Missing}"
    and "distinct (map snd (pending_download E dir xs s))"
  shows "\<exists>t. download_each E server uid pkg dir None (pending_download E dir xs s) s = (Inr True, t) \<and>
    (\<forall>x \<in> set xs. allow_remote_install x \<or> info_status E dir x t = Inr Ready)"
  using download_readies [OF assms] by blast

theorem download_makes_ready_witness:
  "let E = example_server [''a'']; x = Mender example_object; s = example_sys\<lparr>files := [(''/d'', Directory)]\<rparr>
   in \<exists>t. download_each E ''http://s'' ''u'' ''p'' ''/d'' None (pending_download E ''/d'' [x] s) s = (Inr True, t) \<and>
        info_status E ''/d'' x t = Inr Ready"
proof -
  let ?E = "example_server [''a'']" and ?x = "Mender example_object"
  let ?s = "example_sys\<lparr>files := [(''/d'', Directory)]\<rparr>"
  let ?body = "\<lambda>_::string. \<lparr>status = 200, resp_headers = [], chunks = [''a''], broken = None\<rparr>"
  have f: "fault_free ?E" "url_ok ?E ''http://s''" by (simp_all add: fault_free_def example_server_def example_env_def)
  have d: "node ''/d'' ?s = Some Directory" by code_simp
  have p: "plain_dir ''/d''" "\<forall>x \<in> set [?x]. plain_name (info_sha256sum x)" by code_simp+
  have o: "serves_objects ?E ''http://s'' ''u'' ''p'' ?body [?x]"
  proof -
    have "sha256_text ?E ''a'' = ''61''" by code_simp
    then show ?thesis by (simp add: serves_objects_def example_served example_object_def)
  qed
  have m: "info_status ?E ''/d'' ?x ?s = Inr Missing" by code_simp
  have "distinct (map snd (pending_download ?E ''/d'' [?x] ?s))" by (simp add: pending_download_def m)
  then show ?thesis unfolding Let_def
    using download_makes_ready [OF f d p o] m by simp
qed

text \<open>C26: A clearing of the download directory that succeeds leaves in it no regular file but those
  named by the sums of objects of the package, none of them with a wrong sum, and every object that
  was ready still is.\<close>

theorem cleared_directory:
  assumes "clear_unrelated_files E p dir a c s = (Inr u, t)" "fault_free E" "dir = download_dir (update c)"
    and "node dir s \<noteq> None" "plain_dir dir" "\<forall>x \<in> set (objects p a). plain_name (info_sha256sum x) \<and>
      info_sha256sum x \<noteq> ''metadata'' \<and> info_sha256sum x \<noteq> ''signature''"
  shows "(\<forall>q b. node q t = Some (Regular b) \<and> path_parent q = Some dir \<longrightarrow>
      (\<exists>x \<in> set (objects p a). path_file_name q = Some (info_sha256sum x))) \<and>
    (\<forall>x \<in> set (objects p a). info_status E dir x t \<noteq> Inr Corrupted \<and>
      (info_status E dir x s = Inr Ready \<longrightarrow> info_status E dir x t = Inr Ready))"
proof -
  obtain v where v: "\<And>q. node q v = (if q \<in> set (unrelated_files E p dir a s) \<or> q = path_join dir ''metadata'' \<or>
        q = path_join dir ''signature'' then None else node q s)"
    and t: "\<And>q. node q t = (if \<exists>x \<in> set (filter_objects E p c a Corrupted v). q = path_join dir (info_sha256sum x)
        then None else node q v)"
    using clear_unrelated_nodes [OF assms(1,2)] by blast
  have pl: "plain_sum dir (info_sha256sum x)" if "x \<in> set (objects p a)" for x
    using plain_sumI assms(5,6) that by blast
  have files: "\<exists>x \<in> set (objects p a). path_file_name q = Some (info_sha256sum x)"
    if q: "node q t = Some (Regular b)" "path_parent q = Some dir" for q b
  proof -
    have "node q v = Some (Regular b)" using q(1) t [of q] by (simp split: if_splits)
    then have "q \<notin> set (unrelated_files E p dir a s)" "node q s = Some (Regular b)"
      using v [of q] by (simp_all split: if_splits)
    then show ?thesis using unrelated_files_iff [OF assms(2,4), of q p a] q(2) by auto
  qed
  have status: "info_status E dir x v = info_status E dir x s" if x: "x \<in> set (objects p a)" for x
    using objects.same_file [of dir x v s E] v clear_keeps_objects [OF assms(2,4,5) x pl [OF x]] assms(2,6) x by simp
  have after: "info_status E dir x t \<noteq> Inr Corrupted \<and>
      (info_status E dir x s = Inr Ready \<longrightarrow> info_status E dir x t = Inr Ready)" if x: "x \<in> set (objects p a)" for x
  proof (cases "\<exists>y \<in> set (filter_objects E p c a Corrupted v). path_join dir (info_sha256sum x) = path_join dir (info_sha256sum y)")
    case True
    then obtain y where y: "y \<in> set (objects p a)" "info_status E dir y v = Inr Corrupted"
      "path_join dir (info_sha256sum x) = path_join dir (info_sha256sum y)"
      by (auto simp: filter_objects_def assms(3) has_status_Corrupted)
    have "info_sha256sum x = info_sha256sum y" using plain_sum_inj pl x y by blast
    moreover have "info_status E dir x t = Inr Missing" using True t status_missing [OF assms(2)] by simp
    ultimately show ?thesis using status [OF x] corrupted_not_ready [OF y(2), of x] by simp
  next
    case False
    then have "info_status E dir x t = info_status E dir x v"
      using t objects.same_file [of dir x t v E] assms(2) by simp
    moreover have "info_status E dir x v \<noteq> Inr Corrupted"
      using False x by (auto simp: filter_objects_def assms(3) has_status_Corrupted)
    ultimately show ?thesis using status [OF x] by simp
  qed
  show ?thesis using files after by blast
qed

theorem cleared_directory_witness:
  "let c = settings_default\<lparr>update := \<lparr>download_dir = ''/d'', supported_install_modes = []\<rparr>\<rparr>;
       p = package_of [Mender example_object];
       s = example_sys\<lparr>files := [(''/d'', Directory), (''/d/61'', Regular ''a''), (''/d/old'', Regular ''b'')]\<rparr>;
       t = snd (clear_unrelated_files example_env p ''/d'' InstA c s)
   in info_status example_env ''/d'' (Mender example_object) t = Inr Ready \<and> (\<forall>b. node ''/d/old'' t \<noteq> Some (Regular b))"
proof -
  let ?c = "settings_default\<lparr>update := \<lparr>download_dir = ''/d'', supported_install_modes = []\<rparr>\<rparr>"
  let ?p = "package_of [Mender example_object]"
  let ?s = "example_sys\<lparr>files := [(''/d'', Directory), (''/d/61'', Regular ''a''), (''/d/old'', Regular ''b'')]\<rparr>"
  let ?r = "clear_unrelated_files example_env ?p ''/d'' InstA ?c ?s"
  have "is_ok (fst ?r)" by code_simp
  then obtain u t where r: "?r = (Inr u, t)" by (cases ?r) (auto simp: is_ok_def split: sum.splits)
  have f: "fault_free example_env" by (simp add: fault_free_def example_env_def)
  have d: "''/d'' = download_dir (update ?c)" "node ''/d'' ?s \<noteq> None" "plain_dir ''/d''" by code_simp+
  have n: "\<forall>x \<in> set (objects ?p InstA). plain_name (info_sha256sum x) \<and>
      info_sha256sum x \<noteq> ''metadata'' \<and> info_sha256sum x \<noteq> ''signature''" by code_simp
  have q: "path_parent ''/d/old'' = Some ''/d''" "path_file_name ''/d/old'' = Some ''old''" by code_simp+
  have o: "objects ?p InstA = [Mender example_object]" "info_sha256sum (Mender example_object) = ''61''" by code_simp+
  have "info_status example_env ''/d'' (Mender example_object) ?s = Inr Ready" by code_simp
  then show ?thesis unfolding Let_def using cleared_directory [OF r f d n] r q o by auto
qed

text \<open>What an installation writes that is not skipped.\<close>

lemma raw_install_written:
  assumes "fault_free E" "target r = Device dev" "should_skip_install E (raw_if_different r) (sha256sum r) (raw_handle E r dev) s = (Inr False, s)" "\<not> compressed r"
    and "node dev s = Some (BlockDev i b)" "node (source_of ctx (sha256sum r)) s = Some (Regular full)"
    and "unat (seek r) * unat (chunk_bytes (chunk_size r)) < 2 ^ 63" "unat (skip_blocks (skip r)) * unat (chunk_bytes (chunk_size r)) < 2 ^ 63"
    and "off = unat (seek r) * unat (chunk_bytes (chunk_size r))"
    and "rest = drop (unat (skip_blocks (skip r)) * unat (chunk_bytes (chunk_size r))) full"
    and "payload = (case raw_limit r of None \<Rightarrow> rest | Some n \<Rightarrow> take n rest)" "payload \<noteq> []" "off \<le> length b"
  shows "\<exists>t. raw_install E ctx r s =
      (if off + length payload \<le> length b then Inr () else Inl (Fails (ObjIo (OtherIo ''no space''))), t) \<and>
    node dev t = Some (BlockDev i (take (length b) (take off b @ payload @ drop (off + length payload) b))) \<and>
    (\<forall>q. q \<noteq> dev \<longrightarrow> node q t = node q s)"
proof -
  have w: "unat (x * y) = unat x * unat y" if "unat x * unat y < 2 ^ 63" for x y :: "64 word"
  proof -
    have "unat x * unat y < 2 ^ LENGTH(64)" using that by simp
    then show ?thesis by (simp only: unat_mult_lem)
  qed
  have big: "\<not> (2 ^ 63 \<le> x * y)" if "unat x * unat y < 2 ^ 63" for x y :: "64 word"
  proof -
    have "unat (2 ^ 63 :: 64 word) = 2 ^ 63" by simp
    then show ?thesis using that w [OF that] by (simp only: word_le_nat_alt not_le)
  qed
  have seek: "unat (raw_seek r) = off" "\<not> (2 ^ 63 \<le> raw_seek r)"
    using w big assms(7,9) by (simp_all add: raw_seek_def)
  have skip: "unat (raw_skip r) = unat (skip_blocks (skip r)) * unat (chunk_bytes (chunk_size r))" "\<not> (2 ^ 63 \<le> raw_skip r)"
    using w big assms(8) by (simp_all add: raw_skip_def)
  have p: "handle_rest \<lparr>whole = full, cursor = unat (raw_skip r), read_limit = raw_limit r\<rparr> = payload"
    using skip(1) assms(10,11) by (simp add: handle_rest_def split: option.split)
  let ?new = "splice b off (take (length b - off) payload)"
  have "raw_install E ctx r s = (if off + length payload \<le> length b then Inr () else Inl (Fails (ObjIo (OtherIo ''no space''))),
      set_node dev (BlockDev i ?new) s)"
    using assms(1-6) seek skip p
    by (simp add: raw_install_def open_handle_def guarded_def io_simps obj_io_def seek_start_def lift_io_result_def
        open_existing_def write_at_def payload_of_def)
  moreover have "?new = take (length b) (take off b @ payload @ drop (off + length payload) b)"
  proof (cases "off = length b")
    case True
    then show ?thesis by (simp add: splice_def)
  next
    case False
    then have "take (length b - off) payload \<noteq> []" using assms(12,13) by simp
    then show ?thesis using assms(13) by (simp add: splice_def min_def)
  qed
  ultimately show ?thesis by (intro exI [of _ "set_node dev (BlockDev i ?new) s"]) simp
qed

text \<open>C14: A raw object written to a block device, with offsets that a seek can take: exactly the bytes of the payload, after the blocks to skip and up to the count,
  replace those of the device from the seek offset on, and nothing else changes. When the device
  ends before the payload, what fits is written and the installation fails.\<close>

theorem raw_install_writes:
  assumes "fault_free E" "target r = Device dev" "raw_if_different r = None" "\<not> compressed r"
    and "node dev s = Some (BlockDev i b)" "node (source_of ctx (sha256sum r)) s = Some (Regular full)"
    and "unat (seek r) * unat (chunk_bytes (chunk_size r)) < 2 ^ 63" "unat (skip_blocks (skip r)) * unat (chunk_bytes (chunk_size r)) < 2 ^ 63"
    and "off = unat (seek r) * unat (chunk_bytes (chunk_size r))"
    and "rest = drop (unat (skip_blocks (skip r)) * unat (chunk_bytes (chunk_size r))) full"
    and "payload = (case raw_limit r of None \<Rightarrow> rest | Some n \<Rightarrow> take n rest)" "payload \<noteq> []" "off \<le> length b"
  shows "\<exists>t. raw_install E ctx r s =
      (if off + length payload \<le> length b then Inr () else Inl (Fails (ObjIo (OtherIo ''no space''))), t) \<and>
    node dev t = Some (BlockDev i (take (length b) (take off b @ payload @ drop (off + length payload) b))) \<and>
    (\<forall>q. q \<noteq> dev \<longrightarrow> node q t = node q s)"
  using raw_install_written [OF assms(1,2) _ assms(4-13)] assms(3) by (simp add: io_return_def)

definition example_raw :: raw_object where
  "example_raw = \<lparr>filename = ''o'', file_size = 2, sha256sum = ''o'', target = Device ''/dev/x'', compressed = False,
     required_uncompressed_size = 0, raw_if_different = None, chunk_size = ChunkSize 2, skip = Skip 0, seek = 1,
     count = All, raw_truncate = Truncate False\<rparr>"

theorem raw_install_writes_witness:
  "let s = example_sys\<lparr>files := [(''/dev/x'', BlockDev (8, 1) ''abcdef''), (''/d/o'', Regular ''XY'')]\<rparr>
   in \<exists>t. raw_install example_env \<lparr>ic_download_dir = ''/d'', offline_update = False, base_url = ''u''\<rparr> example_raw s = (Inr (), t) \<and>
        node ''/dev/x'' t = Some (BlockDev (8, 1) ''abXYef'')"
proof -
  let ?s = "example_sys\<lparr>files := [(''/dev/x'', BlockDev (8, 1) ''abcdef''), (''/d/o'', Regular ''XY'')]\<rparr>"
  let ?ctx = "\<lparr>ic_download_dir = ''/d'', offline_update = False, base_url = ''u''\<rparr>"
  have f: "fault_free example_env" by (simp add: fault_free_def example_env_def)
  have r: "target example_raw = Device ''/dev/x''" "raw_if_different example_raw = None" "\<not> compressed example_raw"
    "raw_limit example_raw = None"
    by (simp_all add: example_raw_def raw_limit_def)
  have k: "unat (seek example_raw) * unat (chunk_bytes (chunk_size example_raw)) = 2"
    "unat (skip_blocks (skip example_raw)) * unat (chunk_bytes (chunk_size example_raw)) = 0"
    by (simp_all add: example_raw_def chunk_bytes_def skip_blocks_def)
  have n: "node ''/dev/x'' ?s = Some (BlockDev (8, 1) ''abcdef'')" "node (source_of ?ctx (sha256sum example_raw)) ?s = Some (Regular ''XY'')"
    by code_simp+
  have lt: "unat (seek example_raw) * unat (chunk_bytes (chunk_size example_raw)) < 2 ^ 63"
    "unat (skip_blocks (skip example_raw)) * unat (chunk_bytes (chunk_size example_raw)) < 2 ^ 63"
    unfolding k by simp_all
  have d: "''XY'' = drop (unat (skip_blocks (skip example_raw)) * unat (chunk_bytes (chunk_size example_raw))) ''XY''"
    "''XY'' = (case raw_limit example_raw of None \<Rightarrow> ''XY'' | Some m \<Rightarrow> take m ''XY'')" "''XY'' \<noteq> []" "2 \<le> length ''abcdef''"
    unfolding k r(4) by simp_all
  obtain t where "raw_install example_env ?ctx example_raw ?s =
      (if 2 + length ''XY'' \<le> length ''abcdef'' then Inr () else Inl (Fails (ObjIo (OtherIo ''no space''))), t)"
    "node ''/dev/x'' t = Some (BlockDev (8, 1) (take (length ''abcdef'') (take 2 ''abcdef'' @ ''XY'' @ drop (2 + length ''XY'') ''abcdef'')))"
    using raw_install_writes [OF f r(1-3) n lt k(1) [symmetric] d] by blast
  then show ?thesis unfolding Let_def by (intro exI [of _ t]) simp
qed

end
