(* ===== verification/UH_Progress.thy ===== *)
theory UH_Progress
  imports UH_Storage "HOL-Library.Countable"
begin

text \<open>
  That an update is carried out when nothing stands in its way: from the probe that finds it to
  the reboot, through both validations, the download and the installation. The states are those of
  \<open>states/probe.rs\<close>, \<open>validation.rs\<close>, \<open>download.rs\<close>, \<open>install.rs\<close> and \<open>reboot.rs\<close>.
\<close>

section \<open>Computations that succeed\<close>

text \<open>\<open>succeeds m s Q\<close>: the run from \<open>s\<close> ends without an error, with a value and a state of which \<open>Q\<close>
  holds. The equations of \<open>success\<close> take a computation apart.\<close>

definition succeeds :: "('s, 'e, 'a) io \<Rightarrow> 's \<Rightarrow> ('a \<Rightarrow> 's \<Rightarrow> bool) \<Rightarrow> bool" where
  "succeeds m s Q \<longleftrightarrow> (\<exists>x t. m s = (Inr x, t) \<and> Q x t)"

named_theorems success \<open>what it takes for a computation to succeed\<close>

lemma succeeds_mono: "succeeds m s P \<Longrightarrow> (\<And>x t. P x t \<Longrightarrow> Q x t) \<Longrightarrow> succeeds m s Q"
  by (auto simp: succeeds_def)

lemma succeedsI: "m s = (Inr x, t) \<Longrightarrow> Q x t \<Longrightarrow> succeeds m s Q"
  by (auto simp: succeeds_def)

lemma succeeds_cong: "m s = n s \<Longrightarrow> succeeds m s Q \<longleftrightarrow> succeeds n s Q"
  by (simp add: succeeds_def)

lemma succeeds_at: "m s = (Inr x, t) \<Longrightarrow> succeeds m s Q \<longleftrightarrow> Q x t"
  by (simp add: succeeds_def)

lemma succeeds_return [success]: "succeeds (io_return x) s Q \<longleftrightarrow> Q x s"
  by (simp add: succeeds_def io_return_def)

lemma succeeds_bind [success]: "succeeds (io_bind m f) s Q \<longleftrightarrow> succeeds m s (\<lambda>x t. succeeds (f x) t Q)"
  by (auto simp: succeeds_def io_bind_def split: prod.splits sum.splits)

lemma succeeds_then [success]: "succeeds (io_then m n) s Q \<longleftrightarrow> succeeds m s (\<lambda>_ t. succeeds n t Q)"
  by (simp add: io_then_def succeeds_bind)

lemma succeeds_bindI: "succeeds m s P \<Longrightarrow> (\<And>x t. P x t \<Longrightarrow> succeeds (f x) t Q) \<Longrightarrow> succeeds (io_bind m f) s Q"
  unfolding succeeds_bind by (rule succeeds_mono)

lemma succeeds_thenI: "succeeds m s P \<Longrightarrow> (\<And>x t. P x t \<Longrightarrow> succeeds n t Q) \<Longrightarrow> succeeds (io_then m n) s Q"
  unfolding succeeds_then by (rule succeeds_mono)

lemma succeeds_gets [success]: "succeeds (io_gets f) s Q \<longleftrightarrow> Q (f s) s"
  by (simp add: succeeds_def io_gets_def)

lemma succeeds_modify [success]: "succeeds (io_modify f) s Q \<longleftrightarrow> Q () (f s)"
  by (simp add: succeeds_def io_modify_def)

lemma succeeds_lift [success]: "succeeds (io_lift r) s Q \<longleftrightarrow> (\<exists>x. r = Inr x \<and> Q x s)"
  by (auto simp: succeeds_def io_lift_def)

lemma succeeds_ask [success]: "succeeds (io_ask f) s Q \<longleftrightarrow> (\<exists>x. f s = Inr x \<and> Q x s)"
  by (auto simp: succeeds_def io_ask_def)

lemma succeeds_map_err [success]: "succeeds (io_map_err g m) s Q \<longleftrightarrow> succeeds m s Q"
  by (auto simp: succeeds_def io_map_err_def split: prod.splits sum.splits)

lemma succeeds_attempt: "succeeds m s (\<lambda>x. Q (Inr x)) \<Longrightarrow> succeeds (io_attempt m) s Q"
  by (auto simp: succeeds_def io_attempt_def)

lemma succeeds_catch: "succeeds m s Q \<Longrightarrow> succeeds (io_catch m h) s Q"
  by (auto simp: succeeds_def io_catch_def)

lemma succeeds_each:
  "I s \<Longrightarrow> (\<And>x t. x \<in> set xs \<Longrightarrow> I t \<Longrightarrow> succeeds (f x) t (\<lambda>_. I)) \<Longrightarrow> succeeds (io_each f xs) s (\<lambda>_. I)"
proof (induction xs arbitrary: s)
  case (Cons x xs)
  have "succeeds (f x) s (\<lambda>_. I)" using Cons.prems by simp
  then show ?case unfolding io_each.simps succeeds_then
    by (rule succeeds_mono) (use Cons in simp)
qed (simp add: success)

lemma succeeds_on_sys [success]: "succeeds (on_sys m) c Q \<longleftrightarrow> succeeds m (c_sys c) (\<lambda>x t. Q x (c\<lparr>c_sys := t\<rparr>))"
  by (auto simp: succeeds_def on_sys_def io_zoom_def split: prod.splits)

lemma succeeds_sys_act [success]: "succeeds (sys_act f m) c Q \<longleftrightarrow> succeeds m (c_sys c) (\<lambda>x t. Q x (c\<lparr>c_sys := t\<rparr>))"
  by (simp add: sys_act_def success)

lemma succeeds_handler_act [success]:
  "succeeds (handler_act m) c Q \<longleftrightarrow> succeeds m (c_sys c) (\<lambda>x t. Q x (c\<lparr>c_sys := t\<rparr>))"
  by (simp add: handler_act_def success)

lemma succeeds_runtime_act [success]: "succeeds (runtime_act m) c Q \<longleftrightarrow>
    succeeds m (c_runtime c, c_sys c) (\<lambda>x (r, t). Q x (c\<lparr>c_runtime := r, c_sys := t\<rparr>))"
  by (auto simp: runtime_act_def success) (auto simp: succeeds_def on_runtime_def io_zoom_def split: prod.splits)

lemma succeeds_say [success]: "succeeds (say E l m) c Q \<longleftrightarrow> Q () (c\<lparr>c_drain := log_line E l m (c_sys c) (c_drain c)\<rparr>)"
  by (simp add: say_def success)

lemma succeeds_set_drain [success]: "succeeds (set_drain f) c Q \<longleftrightarrow> Q () (c\<lparr>c_drain := f (c_drain c)\<rparr>)"
  by (simp add: set_drain_def success)

lemma succeeds_set_runtime [success]: "succeeds (set_runtime f) c Q \<longleftrightarrow> Q () (c\<lparr>c_runtime := f (c_runtime c)\<rparr>)"
  by (simp add: set_runtime_def success)

section \<open>What it takes\<close>

text \<open>The runtime settings can be stored.\<close>

definition storable :: "runtime_settings \<Rightarrow> sys \<Rightarrow> bool" where
  "storable r s \<longleftrightarrow> (persistent r \<longrightarrow> (\<exists>d. path_parent (rs_path r) = Some d \<and> node d s = Some Directory \<and>
     (\<forall>n. node (rs_path r) s = Some n \<longrightarrow> (\<exists>b. n = Regular b))))"

text \<open>The paths the agent itself writes to on the way.\<close>

definition own_path :: "agent_context \<Rightarrow> string \<Rightarrow> bool" where
  "own_path c q \<longleftrightarrow> q = rs_path (c_runtime c) \<or> path_parent q = Some (download_dir_of c)"

definition callback_path :: "agent_context \<Rightarrow> string" where
  "callback_path c = path_join (metadata_dir_of c) STATE_CHANGE_CALLBACK"

text \<open>
  The device: the set to install to is not active, the download directory is there and holds
  files only, there is no state change callback, and \<open>J\<close>, whatever the installation of the objects
  and the verification of the signature need of the paths that the agent does not write to.
\<close>

definition device_ready :: "((string \<Rightarrow> string) \<Rightarrow> installation_set) \<Rightarrow> installation_set \<Rightarrow> (sys \<Rightarrow> bool) \<Rightarrow>
    agent_context \<Rightarrow> sys \<Rightarrow> bool" where
  "device_ready slot a J c s \<longleftrightarrow>
     slot (device s) = other_set a \<and> node (download_dir_of c) s = Some Directory \<and>
     (\<forall>q n. path_parent q = Some (download_dir_of c) \<and> node q s = Some n \<longrightarrow> (\<exists>b. n = Regular b)) \<and>
     node (callback_path c) s = None \<and> storable (c_runtime c) s \<and> J s"

text \<open>The outside: nothing fails, the scripts behave as documented, servers do not change the device.\<close>

definition outside_helps :: "env \<Rightarrow> ((string \<Rightarrow> string) \<Rightarrow> installation_set) \<Rightarrow> bool" where
  "outside_helps E slot \<longleftrightarrow> fault_free E \<and> slot_scripts E slot \<and> (\<forall>q s. snd (http E q s) = s) \<and>
     (\<forall>s. \<exists>out. run E ''reboot'' s = (Inr out, s))"

text \<open>The configuration: its paths do not get in each other's way.\<close>

definition paths_apart :: "agent_context \<Rightarrow> (sys \<Rightarrow> bool) \<Rightarrow> bool" where
  "paths_apart c J \<longleftrightarrow> plain_dir (download_dir_of c) \<and> \<not> own_path c (callback_path c) \<and>
     \<not> own_path c (download_dir_of c) \<and> path_parent (rs_path (c_runtime c)) \<noteq> Some (download_dir_of c) \<and>
     (\<forall>s t. J s \<and> (\<forall>q. \<not> own_path c q \<longrightarrow> node q t = node q s) \<longrightarrow> J t)"

text \<open>The package: meant for the device, new to it, and signed for its key.\<close>

definition package_fits :: "env \<Rightarrow> installation_set \<Rightarrow> (sys \<Rightarrow> bool) \<Rightarrow>
    update_package \<Rightarrow> signature option \<Rightarrow> agent_context \<Rightarrow> bool" where
  "package_fits E a J p g c \<longleftrightarrow>
     compatible_with p (c_firmware c) = Inr () \<and> validate_install_modes p (c_settings c) a = Inr () \<and>
     applied_package_uid (rs_update (c_runtime c)) \<noteq> Some (package_uid E p) \<and>
     upgrade_to_installation (rs_update (c_runtime c)) = None \<and>
     (\<forall>key. pub_key (c_firmware c) = Some key \<longrightarrow>
        (\<exists>sig. g = Some sig \<and> (\<forall>s. J s \<longrightarrow> signature_validate E key p sig s = Inr ()))) \<and>
     (\<forall>x \<in> set (objects p a). plain_name (info_sha256sum x) \<and>
        info_sha256sum x \<noteq> ''metadata'' \<and> info_sha256sum x \<noteq> ''signature'')"

text \<open>The server has the objects of the package; no two of those to fetch have one sum.\<close>

definition server_has :: "env \<Rightarrow> installation_set \<Rightarrow> (string \<Rightarrow> http_response) \<Rightarrow> update_package \<Rightarrow> agent_context \<Rightarrow> bool" where
  "server_has E a body p c \<longleftrightarrow> url_ok E (context_server c) \<and>
     distinct (map info_sha256sum (filter (\<lambda>x. \<not> allow_remote_install x) (objects p a))) \<and>
     serves_objects E (context_server c) (product_uid (c_firmware c)) (package_uid E p) body (objects p a)"

text \<open>Two states of the device with the same download directory.\<close>

definition same_downloads :: "string \<Rightarrow> sys \<Rightarrow> sys \<Rightarrow> bool" where
  "same_downloads dir s t \<longleftrightarrow> (\<forall>q. path_parent q = Some dir \<longrightarrow> node q t = node q s)"

text \<open>The objects: on a device that is ready each meets its requirements, and is installed once its
  file is ready, without harm to what the agent still needs.\<close>

definition installs_on :: "env \<Rightarrow> (sys \<Rightarrow> bool) \<Rightarrow> string \<Rightarrow> installer_context \<Rightarrow> object \<Rightarrow> bool" where
  "installs_on E ready dir ctx x \<longleftrightarrow> (\<forall>s. ready s \<longrightarrow>
     succeeds (check_requirements E ctx x) s (\<lambda>_ t. ready t \<and> same_downloads dir s t) \<and>
     (allow_remote_install x \<or> info_status E dir x s = Inr Ready \<longrightarrow>
        succeeds (install_object E ctx x) s (\<lambda>_ t. ready t \<and> same_downloads dir s t)))"

definition favourable :: "env \<Rightarrow> ((string \<Rightarrow> string) \<Rightarrow> installation_set) \<Rightarrow> installation_set \<Rightarrow> (sys \<Rightarrow> bool) \<Rightarrow>
    update_package \<Rightarrow> signature option \<Rightarrow> agent_context \<Rightarrow> bool" where
  "favourable E slot a J p g c \<longleftrightarrow> outside_helps E slot \<and> paths_apart c J \<and> package_fits E a J p g c \<and>
     (\<forall>x \<in> set (objects p a). \<forall>b. installs_on E (device_ready slot a J c) (download_dir_of c) (installer_context_for E c p b) x)"

section \<open>On the way\<close>

text \<open>What stays true of the context from the probe to the installation.\<close>

definition en_route :: "((string \<Rightarrow> string) \<Rightarrow> installation_set) \<Rightarrow> installation_set \<Rightarrow> (sys \<Rightarrow> bool) \<Rightarrow>
    agent_context \<Rightarrow> agent_context \<Rightarrow> bool" where
  "en_route slot a J c0 c \<longleftrightarrow> c_settings c = c_settings c0 \<and> c_firmware c = c_firmware c0 \<and> c_queue c = [] \<and>
     poll_server (rs_polling (c_runtime c)) = poll_server (rs_polling (c_runtime c0)) \<and>
     rs_path (c_runtime c) = rs_path (c_runtime c0) \<and> persistent (c_runtime c) = persistent (c_runtime c0) \<and>
     rs_update (c_runtime c) = rs_update (c_runtime c0) \<and> device_ready slot a J c0 (c_sys c)"

lemma route_same:
  assumes "en_route slot a J c0 c"
  shows "download_dir_of c = download_dir_of c0" "metadata_dir_of c = metadata_dir_of c0" "context_server c = context_server c0"
    "installer_context_for E c p b = installer_context_for E c0 p b" "c_firmware c = c_firmware c0" "c_settings c = c_settings c0"
    "rs_update (c_runtime c) = rs_update (c_runtime c0)" "c_queue c = []"
    "device_ready slot a J c0 (c_sys c)"
  using assms
  by (simp_all add: en_route_def download_dir_of_def metadata_dir_of_def context_server_def custom_server_address_def
      installer_context_for_def split: option.split)

lemma route_env [simp]:
  "en_route slot a J c0 (c\<lparr>c_drain := l\<rparr>) = en_route slot a J c0 c"
  "en_route slot a J c0 (c\<lparr>c_waker := w\<rparr>) = en_route slot a J c0 c"
  by (simp_all add: en_route_def)

lemma route_sys: "en_route slot a J c0 c \<Longrightarrow> device_ready slot a J c0 t \<Longrightarrow> en_route slot a J c0 (c\<lparr>c_sys := t\<rparr>)"
  by (simp add: en_route_def)

lemma ready_slot: "device_ready slot a J c s \<Longrightarrow> slot (device s) = other_set a"
  by (simp add: device_ready_def)

text \<open>A step that changes only the agent's own paths, and these to files, leaves the device ready.\<close>

lemma ready_transfer:
  assumes "paths_apart c J" "device_ready slot a J c s" "slot (device t) = slot (device s)"
    and other: "\<And>q. \<not> own_path c q \<Longrightarrow> node q t = node q s"
    and own: "\<And>q. own_path c q \<Longrightarrow> node q t = node q s \<or> node q t = None \<or> (\<exists>b. node q t = Some (Regular b))"
  shows "device_ready slot a J c t"
proof -
  have j: "J t" using assms(1,2) other unfolding paths_apart_def device_ready_def by blast
  have "node (download_dir_of c) t = Some Directory" "node (callback_path c) t = None"
    using assms(1,2) other by (simp_all add: paths_apart_def device_ready_def)
  moreover have "\<exists>b. n = Regular b" if "path_parent q = Some (download_dir_of c)" "node q t = Some n" for q n
    using that own [of q] assms(2) by (auto simp: own_path_def device_ready_def)
  moreover have "storable (c_runtime c) t"
  proof (cases "persistent (c_runtime c)")
    case True
    then obtain d where d: "path_parent (rs_path (c_runtime c)) = Some d" "node d s = Some Directory"
      "\<forall>n. node (rs_path (c_runtime c)) s = Some n \<longrightarrow> (\<exists>b. n = Regular b)"
      using assms(2) by (auto simp: device_ready_def storable_def)
    have "d \<noteq> rs_path (c_runtime c)" using path_parent_shorter [OF d(1)] by auto
    moreover have "path_parent d \<noteq> Some (download_dir_of c)" using assms(2) d(2) by (auto simp: device_ready_def)
    ultimately have "node d t = Some Directory" using other [of d] d(2) by (simp add: own_path_def)
    moreover have "\<forall>n. node (rs_path (c_runtime c)) t = Some n \<longrightarrow> (\<exists>b. n = Regular b)"
      using own [of "rs_path (c_runtime c)"] d(3) by (auto simp: own_path_def)
    ultimately show ?thesis using d(1) by (auto simp: storable_def)
  qed (simp add: storable_def)
  ultimately show ?thesis using assms(2,3) j unfolding device_ready_def by metis
qed

lemma ready_logs:
  "paths_apart c J \<Longrightarrow> device_ready slot a J c s \<Longrightarrow> device_ready slot a J c (s\<lparr>commands := cs\<rparr>)"
  "paths_apart c J \<Longrightarrow> device_ready slot a J c s \<Longrightarrow> device_ready slot a J c (s\<lparr>requests := rs\<rparr>)"
  by (erule (1) ready_transfer; simp add: node_def)+

lemma same_downloads_refl [simp]: "same_downloads dir s s"
  by (simp add: same_downloads_def)

lemma same_downloads_trans: "same_downloads dir s t \<Longrightarrow> same_downloads dir t u \<Longrightarrow> same_downloads dir s u"
  by (simp add: same_downloads_def)

lemma same_downloads_logs [simp]:
  "same_downloads dir s (t\<lparr>commands := cs\<rparr>) = same_downloads dir s t"
  "same_downloads dir s (t\<lparr>requests := rs\<rparr>) = same_downloads dir s t"
  by (simp_all add: same_downloads_def node_def)

lemma same_downloads_status:
  assumes "fault_free E" "plain_dir dir" "plain_name (info_sha256sum x)" "same_downloads dir s t"
  shows "info_status E dir x t = info_status E dir x s"
proof -
  have "path_parent (path_join dir (info_sha256sum x)) = Some dir"
    using plain_sumI [OF assms(2,3)] by (simp add: plain_sum_def)
  then show ?thesis using objects.same_file [of dir x t s E] assms(1,4) by (simp add: same_downloads_def)
qed

subsection \<open>Storing the runtime settings\<close>

lemma rs_save_succeeds:
  assumes "fault_free E" "storable r s"
  shows "\<exists>t. rs_save E r s = (Inr (), t) \<and> (t = s \<or> t = set_node (rs_path r) (Regular (rs_serialize E r)) s)"
proof (cases "persistent r")
  case True
  then obtain d where d: "path_parent (rs_path r) = Some d" "node d s = Some Directory"
    "\<forall>n. node (rs_path r) s = Some n \<longrightarrow> (\<exists>b. n = Regular b)"
    using assms(2) by (auto simp: storable_def)
  have "fs_exists E d s" using d(2) assms(1) by (simp add: fs_exists_def)
  moreover have "fs_write E (rs_path r) b s = (Inr (), set_node (rs_path r) (Regular b) s)" for b
    using d assms(1) by (auto simp: fs_write_def guarded_def dir_present_def split: option.split)
  ultimately show ?thesis using True d(1) by (simp add: rs_save_def io_map_err_def)
qed (simp add: rs_save_def)

text \<open>Every operation that stores a change succeeds and leaves the download directory alone.\<close>

lemma stored_change_succeeds:
  assumes "stored_change E op upd" "fault_free E" "paths_apart c J" "device_ready slot a J c s"
    and "rs_path r = rs_path (c_runtime c)" "persistent r = persistent (c_runtime c)"
  shows "succeeds op (r, s) (\<lambda>_ (r', t). r' = upd r \<and> device_ready slot a J c t \<and> same_downloads (download_dir_of c) s t)"
proof -
  note sc = stored_change.op_eq [OF assms(1)] stored_change.upd_path [OF assms(1)] stored_change.upd_persistent [OF assms(1)]
  have "storable (upd r) s" using assms(4-6) by (simp add: device_ready_def storable_def sc)
  from rs_save_succeeds [OF assms(2) this] obtain t where t: "rs_save E (upd r) s = (Inr (), t)"
    "t = s \<or> t = set_node (rs_path (c_runtime c)) (Regular (rs_serialize E (upd r))) s"
    using assms(5) sc(2) by auto
  have ready: "device_ready slot a J c t"
    by (rule ready_transfer [OF assms(3,4)]) (use t(2) in \<open>auto simp: own_path_def\<close>)
  moreover have "same_downloads (download_dir_of c) s t"
    using t(2) assms(3) by (auto simp: same_downloads_def paths_apart_def)
  ultimately show ?thesis using t(1) by (simp add: succeeds_def sc(1))
qed

subsection \<open>Validation\<close>

lemma res_map_err_simps [simp]: "res_map_err f (Inr x) = Inr x" "res_map_err f (Inl e) = Inl (f e)"
  by (simp_all add: res_map_err_def)

lemma io_lift_Inr_then [simp]: "io_then (io_lift (Inr x)) m = m"
  by (simp add: io_simps)

text \<open>The steps take the context and the download directory from \<open>c\<close> to \<open>t\<close>.\<close>

definition on_course :: "((string \<Rightarrow> string) \<Rightarrow> installation_set) \<Rightarrow> installation_set \<Rightarrow> (sys \<Rightarrow> bool) \<Rightarrow>
    agent_context \<Rightarrow> agent_context \<Rightarrow> agent_context \<Rightarrow> bool" where
  "on_course slot a J c0 c t \<longleftrightarrow> en_route slot a J c0 t \<and> same_downloads (download_dir_of c0) (c_sys c) (c_sys t)"

lemma on_course_refl: "en_route slot a J c0 c \<Longrightarrow> on_course slot a J c0 c c"
  by (simp add: on_course_def)

lemma on_course_trans: "on_course slot a J c0 c t \<Longrightarrow> on_course slot a J c0 t u \<Longrightarrow> on_course slot a J c0 c u"
  by (auto simp: on_course_def intro: same_downloads_trans)

lemma on_course_drain [simp]: "on_course slot a J c0 c (t\<lparr>c_drain := l\<rparr>) = on_course slot a J c0 c t"
  by (simp add: on_course_def)

lemma on_course_sys: "en_route slot a J c0 c \<Longrightarrow> device_ready slot a J c0 t \<Longrightarrow>
    same_downloads (download_dir_of c0) (c_sys c) t \<Longrightarrow> on_course slot a J c0 c (c\<lparr>c_sys := t\<rparr>)"
  by (simp add: on_course_def route_sys)

lemma check_signature_succeeds:
  assumes "package_fits E a J p g c0" "en_route slot a J c0 c"
  shows "succeeds (check_signature E p g) c (\<lambda>_. on_course slot a J c0 c)"
proof (cases "pub_key (c_firmware c0)")
  case None
  then have "check_signature E p g c =
      say E ''info'' ''no signature key available on device, ignoring signature validation'' c"
    by (simp add: check_signature_def route_same(5) [OF assms(2)])
  then show ?thesis using assms(2) by (simp only: succeeds_cong [where n = "say E _ _"] success) (simp add: on_course_refl)
next
  case (Some key)
  have "J (c_sys c)" using route_same(9) [OF assms(2)] by (simp add: device_ready_def)
  with assms(1) Some obtain sig where "g = Some sig" "signature_validate E key p sig (c_sys c) = Inr ()"
    unfolding package_fits_def by blast
  then have "check_signature E p g c = (Inr (), c)"
    using Some by (simp add: check_signature_def route_same(5) [OF assms(2)] sys_act_def on_sys_def io_simps)
  then show ?thesis using assms(2) by (simp add: succeeds_def on_course_refl)
qed

lemma inactive_succeeds:
  assumes "slot_scripts E slot" "paths_apart c0 J" "device_ready slot a J c0 s"
  shows "succeeds (inactive E) s (\<lambda>b t. b = a \<and> device_ready slot a J c0 t \<and> same_downloads dir s t)"
proof -
  have "other_set (other_set a) = a" by (cases a) simp_all
  then show ?thesis
    using inactive_scripts [OF assms(1), of s] ready_slot [OF assms(3)] ready_logs(1) [OF assms(2,3)]
    by (simp add: succeeds_def)
qed

lemma inactive_set_succeeds:
  assumes "outside_helps E slot" "paths_apart c0 J" "package_fits E a J p g c0" "en_route slot a J c0 c"
  shows "succeeds (inactive_set E) c (\<lambda>b t. b = a \<and> on_course slot a J c0 c t)"
proof -
  have "upgrade_to_installation (rs_update (c_runtime c)) = None"
    using assms(3) route_same(7) [OF assms(4)] by (simp add: package_fits_def)
  moreover have "succeeds (inactive E) (c_sys c) (\<lambda>b t. b = a \<and> device_ready slot a J c0 t \<and>
      same_downloads (download_dir_of c0) (c_sys c) t)"
    using inactive_succeeds assms(1,2) route_same(9) [OF assms(4)] by (simp add: outside_helps_def)
  moreover have "inactive_set E c = sys_act TeRuntimeSettings (io_map_err RsFirmware (inactive E)) c"
    using calculation(1) by (simp add: inactive_set_def get_inactive_installation_set_def)
  ultimately show ?thesis
    by (simp only: succeeds_cong [where m = "inactive_set E"] success)
      (erule succeeds_mono, simp add: on_course_sys [OF assms(4)])
qed

lemma check_object_succeeds:
  assumes "installs_on E (device_ready slot a J c0) (download_dir_of c0) ctx x" "en_route slot a J c0 c"
  shows "succeeds (check_object E ctx p x) c (\<lambda>_. on_course slot a J c0 c)"
proof -
  have "succeeds (check_requirements E ctx x) (c_sys c)
      (\<lambda>_ t. device_ready slot a J c0 t \<and> same_downloads (download_dir_of c0) (c_sys c) t)"
    using assms(1) route_same(9) [OF assms(2)] by (simp add: installs_on_def)
  then show ?thesis unfolding check_object_def
    by (intro succeeds_catch) (simp add: success, erule succeeds_mono, simp add: on_course_sys [OF assms(2)])
qed

text \<open>Every object that has to be on disk is ready.\<close>

definition all_ready :: "env \<Rightarrow> string \<Rightarrow> object list \<Rightarrow> sys \<Rightarrow> bool" where
  "all_ready E dir xs s \<longleftrightarrow> (\<forall>x \<in> set xs. allow_remote_install x \<or> info_status E dir x s = Inr Ready)"

lemma require_ready_succeeds: "all_ready E dir xs (c_sys c) \<Longrightarrow> succeeds (require_ready E dir xs) c (\<lambda>_ t. t = c)"
  by (auto simp: succeeds_def require_ready_def not_ready_def all_ready_def Let_def filter_empty_conv)

lemma on_course_ready:
  assumes "outside_helps E slot" "paths_apart c0 J" "package_fits E a J p g c0" "on_course slot a J c0 c t"
  shows "all_ready E (download_dir_of c0) (objects p a) (c_sys t) = all_ready E (download_dir_of c0) (objects p a) (c_sys c)"
proof -
  have "info_status E (download_dir_of c0) x (c_sys t) = info_status E (download_dir_of c0) x (c_sys c)"
    if "x \<in> set (objects p a)" for x
    using same_downloads_status [of E "download_dir_of c0" x "c_sys c" "c_sys t"] assms that
    by (simp add: outside_helps_def paths_apart_def package_fits_def on_course_def)
  then show ?thesis by (simp add: all_ready_def)
qed

lemma favourable_ready:
  assumes "favourable E slot a J p g c0" "on_course slot a J c0 c t"
  shows "all_ready E (download_dir_of c0) (objects p a) (c_sys t) = all_ready E (download_dir_of c0) (objects p a) (c_sys c)"
proof -
  have "outside_helps E slot" "paths_apart c0 J" "package_fits E a J p g c0" using assms(1) by (simp_all add: favourable_def)
  from on_course_ready [OF this assms(2)] show ?thesis .
qed

text \<open>A validation passes all its checks; what is left is whether the objects are there.\<close>

lemma validation_checked:
  assumes fav: "favourable E slot a J p g c0" and c: "en_route slot a J c0 c"
  shows "\<exists>w. on_course slot a J c0 c w \<and> handle_validation E p g b c = (if b then io_return (Download p g, Immediate) w
    else io_then (require_ready E (download_dir_of c0) (objects p a))
      (io_return (Install p (installer_context_for E c0 p b), Immediate)) w)"
proof -
  let ?ctx = "installer_context_for E c0 p b"
  have out: "outside_helps E slot" and pth: "paths_apart c0 J" and pkg: "package_fits E a J p g c0"
    and ins: "\<And>x b. x \<in> set (objects p a) \<Longrightarrow>
      installs_on E (device_ready slot a J c0) (download_dir_of c0) (installer_context_for E c0 p b) x"
    using fav by (auto simp: favourable_def)
  have ok: "applied_package_uid (rs_update (c_runtime t)) \<noteq> Some (package_uid E p)"
    "compatible_with p (c_firmware t) = Inr ()" "validate_install_modes p (c_settings t) a = Inr ()"
    "download_dir (update (c_settings t)) = download_dir_of c0" "installer_context_for E t p b' = installer_context_for E c0 p b'"
    "en_route slot a J c0 t" if "on_course slot a J c0 c t" for t b'
    using that pkg route_same(4) [of slot a J c0 t] by (auto simp: on_course_def en_route_def package_fits_def download_dir_of_def)
  obtain x1 t where t: "check_signature E p g c = (Inr x1, t)" "on_course slot a J c0 c t"
    using check_signature_succeeds [OF pkg c] by (auto simp: succeeds_def)
  obtain t' where t': "inactive_set E t = (Inr a, t')" "on_course slot a J c0 c t'"
    using inactive_set_succeeds [OF out pth pkg ok(6) [OF t(2)]] on_course_trans [OF t(2)] by (auto simp: succeeds_def)
  have "succeeds (io_each (check_object E ?ctx p) (objects p a)) t' (\<lambda>_. on_course slot a J c0 c)"
  proof (rule succeeds_each [where I = "on_course slot a J c0 c"], rule t'(2))
    fix x u assume x: "x \<in> set (objects p a)" and u: "on_course slot a J c0 c u"
    show "succeeds (check_object E ?ctx p x) u (\<lambda>_. on_course slot a J c0 c)"
      by (rule succeeds_mono [OF check_object_succeeds [OF ins [OF x] ok(6) [OF u]]]) (rule on_course_trans [OF u])
  qed
  then obtain x2 w where w: "io_each (check_object E ?ctx p) (objects p a) t' = (Inr x2, w)" "on_course slot a J c0 c w"
    by (auto simp: succeeds_def)
  have "handle_validation E p g b c = (if b then io_return (Download p g, Immediate) w
    else io_then (require_ready E (download_dir_of c0) (objects p a)) (io_return (Install p ?ctx, Immediate)) w)"
    using t'(1) w(1) ok(1) [OF w(2)] ok(2-4) [OF t'(2)] ok(5) [OF t(2)]
    by (simp add: handle_validation_def io_then_def io_bind_def io_gets_def io_lift_def t(1))
  with w(2) show ?thesis by blast
qed

lemma validation_succeeds:
  assumes fav: "favourable E slot a J p g c0" and c: "en_route slot a J c0 c"
    and r: "b \<or> all_ready E (download_dir_of c0) (objects p a) (c_sys c)"
  shows "succeeds (handle_validation E p g b) c (\<lambda>out t. on_course slot a J c0 c t \<and>
    out = (if b then Download p g else Install p (installer_context_for E c0 p b), Immediate))"
proof -
  obtain w where w: "on_course slot a J c0 c w" and e: "handle_validation E p g b c = (if b then io_return (Download p g, Immediate) w
    else io_then (require_ready E (download_dir_of c0) (objects p a)) (io_return (Install p (installer_context_for E c0 p b), Immediate)) w)"
    using validation_checked [OF fav c] by blast
  have "all_ready E (download_dir_of c0) (objects p a) (c_sys w)" if "\<not> b"
    using favourable_ready [OF fav w] r that by simp
  then have "require_ready E (download_dir_of c0) (objects p a) w = (Inr (), w)" if "\<not> b"
    using require_ready_succeeds [of E "download_dir_of c0" "objects p a" w] that by (auto simp: succeeds_def)
  then show ?thesis using e w by (simp add: succeeds_def io_return_def io_then_def io_bind_def)
qed

lemma validation_fails:
  assumes fav: "favourable E slot a J p g c0" and c: "en_route slot a J c0 c"
    and r: "\<not> all_ready E (download_dir_of c0) (objects p a) (c_sys c)"
  shows "fst (handle_validation E p g False c) = Inl (Fails SomeObjectsAreNotReady)"
proof -
  obtain w where w: "on_course slot a J c0 c w" and e: "handle_validation E p g False c =
      io_then (require_ready E (download_dir_of c0) (objects p a)) (io_return (Install p (installer_context_for E c0 p False), Immediate)) w"
    using validation_checked [OF fav c, of False] by auto
  have nr: "not_ready E (download_dir_of c0) (objects p a) (c_sys w) \<noteq> []"
    using favourable_ready [OF fav w] r by (simp add: all_ready_def not_ready_def filter_empty_conv)
  have "\<exists>d. io_each (say_not_ready E dir) xs u = (Inr (), d)" for dir xs u
    by (induction xs arbitrary: u) (simp_all add: io_simps say_not_ready_def say_def)
  then obtain d where "io_each (say_not_ready E (download_dir_of c0)) (not_ready E (download_dir_of c0) (objects p a) (c_sys w))
    (snd (say E ''error'' ''some objects are not ready for use:'' w)) = (Inr (), d)" by blast
  then show ?thesis using e nr by (simp add: require_ready_def Let_def io_simps say_def)
qed

subsection \<open>Download\<close>

lemma remove_each_succeeds:
  "fault_free E \<Longrightarrow> distinct qs \<Longrightarrow> \<forall>q \<in> set qs. \<exists>b. node q s = Some (Regular b) \<Longrightarrow>
   \<exists>t. io_each (fs_remove E) qs s = (Inr (), t) \<and> quiet s t"
proof (induction qs arbitrary: s)
  case (Cons q qs)
  then have r: "fs_remove E q s = (Inr (), del_node q s)" by (auto simp: fs_remove_def guarded_def)
  have "\<forall>p \<in> set qs. \<exists>b. node p (del_node q s) = Some (Regular b)" using Cons.prems(2,3) by auto
  with Cons.IH [OF Cons.prems(1), of "del_node q s"] Cons.prems(2)
  obtain t where "io_each (fs_remove E) qs (del_node q s) = (Inr (), t)" "quiet (del_node q s) t" by auto
  then show ?case using r by (simp add: io_simps quiet_def)
qed (simp add: io_simps quiet_def)

lemma remove_if_exists_succeeds:
  "fault_free E \<Longrightarrow> (\<And>n. node q s = Some n \<Longrightarrow> \<exists>b. n = Regular b) \<Longrightarrow>
   \<exists>t. remove_if_exists E q s = (Inr (), t) \<and> quiet s t"
  by (cases "node q s") (auto simp: remove_if_exists_def fs_exists_def fs_remove_def guarded_def quiet_def)

text \<open>What clearing a directory that holds files only does before it removes corrupted files, which are removed
  once for every object.\<close>

lemma io_each_map: "io_each f (map g xs) = io_each (\<lambda>x. f (g x)) xs"
  by (induction xs) simp_all

lemma clear_result:
  assumes ff: "fault_free E" and dir: "dir = download_dir (update cfg)" "node dir s = Some Directory" "plain_dir dir"
    and reg: "\<forall>q n. path_parent q = Some dir \<and> node q s = Some n \<longrightarrow> (\<exists>b. n = Regular b)"
    and names: "\<forall>x \<in> set (objects p a). plain_name (info_sha256sum x) \<and>
      info_sha256sum x \<noteq> ''metadata'' \<and> info_sha256sum x \<noteq> ''signature''"
  shows "\<exists>v. clear_unrelated_files E p dir a cfg s = io_each (fs_remove E) (map (\<lambda>x. path_join dir (info_sha256sum x))
        (filter (\<lambda>x. info_status E dir x s = Inr Corrupted) (objects p a))) v \<and> quiet s v \<and>
    (\<forall>q. node q v = node q s \<or> path_parent q = Some dir \<and> node q v = None) \<and>
    (\<forall>x \<in> set (objects p a). node (path_join dir (info_sha256sum x)) v = node (path_join dir (info_sha256sum x)) s)"
proof -
  let ?U = "unrelated_files E p dir a s" and ?m = "path_join dir ''metadata''" and ?g = "path_join dir ''signature''"
  have here: "path_parent ?m = Some dir" "path_parent ?g = Some dir" "?m \<noteq> ?g"
    using plain_sumI [OF dir(3), of "''metadata''"] plain_sumI [OF dir(3), of "''signature''"]
      plain_sum_inj [of dir "''metadata''" "''signature''"] by (auto simp: plain_sum_def plain_name_def)
  have U: "q \<in> set ?U \<Longrightarrow> path_parent q = Some dir \<and> (\<exists>b. node q s = Some (Regular b))" for q
    using unrelated_files_iff [OF ff, of dir s q p a] dir(2) by auto
  have "distinct ?U" by (simp add: unrelated_files_def read_dir_def dir_entries_def split: option.split)
  then obtain w where w: "io_each (fs_remove E) ?U s = (Inr (), w)" "quiet s w"
    using remove_each_succeeds [OF ff, of ?U s] U by blast
  have nw: "node q w = (if q \<in> set ?U then None else node q s)" for q
    using remove_each [where f = "\<lambda>x. x", OF w(1)] by simp
  obtain v1 where v1: "remove_if_exists E ?m w = (Inr (), v1)" "quiet w v1"
    using remove_if_exists_succeeds [OF ff, of ?m w] reg here(1) nw [of ?m] by (auto split: if_splits)
  have nv1: "node q v1 = (if q = ?m then None else node q w)" for q
    using remove_if_exists_Inr [OF v1(1)] ff by simp
  obtain v where v: "remove_if_exists E ?g v1 = (Inr (), v)" "quiet v1 v"
    using remove_if_exists_succeeds [OF ff, of ?g v1] reg here(2) nw [of ?g] nv1 [of ?g] by (auto split: if_splits)
  have nv: "node q v = (if q \<in> set ?U \<or> q = ?m \<or> q = ?g then None else node q s)" for q
    using remove_if_exists_Inr [OF v(1), of q] ff nv1 [of q] nw [of q] by auto
  have keep: "node (path_join dir (info_sha256sum x)) v = node (path_join dir (info_sha256sum x)) s" if "x \<in> set (objects p a)" for x
    using clear_keeps_objects [OF ff _ dir(3) that] plain_sumI [OF dir(3)] names that nv dir(2) by auto
  have st: "info_status E dir x v = info_status E dir x s" if "x \<in> set (objects p a)" for x
    using objects.same_file [of dir x v s E] keep [OF that] ff by simp
  then have "filter_objects E p cfg a Corrupted v = filter (\<lambda>x. info_status E dir x s = Inr Corrupted) (objects p a)"
    by (auto simp: filter_objects_def has_status_Corrupted dir(1) intro!: filter_cong)
  then have "clear_unrelated_files E p dir a cfg s = io_each (fs_remove E) (map (\<lambda>x. path_join dir (info_sha256sum x))
      (filter (\<lambda>x. info_status E dir x s = Inr Corrupted) (objects p a))) v"
    using w(1) v1(1) v(1) by (simp add: clear_unrelated_files_def io_then_def io_bind_def io_return_def io_each_map)
  moreover have "quiet s v" using w(2) v1(2) v(2) by (simp add: quiet_def)
  moreover have "node q v = node q s \<or> path_parent q = Some dir \<and> node q v = None" for q
    using nv [of q] U [of q] here by auto
  ultimately show ?thesis using keep by blast
qed

text \<open>No file is corrupted.\<close>

lemma clear_succeeds:
  assumes "fault_free E" and "dir = download_dir (update cfg)" "node dir s = Some Directory" "plain_dir dir"
    and "\<forall>q n. path_parent q = Some dir \<and> node q s = Some n \<longrightarrow> (\<exists>b. n = Regular b)"
    and "\<forall>x \<in> set (objects p a). plain_name (info_sha256sum x) \<and>
      info_sha256sum x \<noteq> ''metadata'' \<and> info_sha256sum x \<noteq> ''signature''"
    and "\<forall>x \<in> set (objects p a). info_status E dir x s \<noteq> Inr Corrupted"
  shows "\<exists>t. clear_unrelated_files E p dir a cfg s = (Inr (), t) \<and> quiet s t \<and>
    (\<forall>q. node q t = node q s \<or> path_parent q = Some dir \<and> node q t = None) \<and>
    (\<forall>x \<in> set (objects p a). node (path_join dir (info_sha256sum x)) t = node (path_join dir (info_sha256sum x)) s)"
proof -
  have "filter (\<lambda>x. info_status E dir x s = Inr Corrupted) (objects p a) = []" using assms(7) by (simp add: filter_empty_conv)
  with clear_result [OF assms(1-6)] show ?thesis by (simp add: io_return_def)
qed

text \<open>Files that are removed one by one: one that is named twice is not found the second time.\<close>

lemma remove_each_result:
  "fault_free E \<Longrightarrow> \<forall>q \<in> set qs. node q s = None \<or> (\<exists>b. node q s = Some (Regular b)) \<Longrightarrow>
   fst (io_each (fs_remove E) qs s) = (if distinct qs \<and> (\<forall>q \<in> set qs. node q s \<noteq> None) then Inr () else Inl NotFound)"
proof (induction qs arbitrary: s)
  case (Cons q qs)
  show ?case
  proof (cases "node q s")
    case None
    then have "fs_remove E q s = (Inl NotFound, s)" using Cons.prems(1) by (simp add: fs_remove_def guarded_def)
    then show ?thesis using None by (simp add: io_simps)
  next
    case (Some n)
    then have r: "fs_remove E q s = (Inr (), del_node q s)" using Cons.prems by (auto simp: fs_remove_def guarded_def)
    have "\<forall>r \<in> set qs. node r (del_node q s) = None \<or> (\<exists>b. node r (del_node q s) = Some (Regular b))" using Cons.prems(2) by simp
    from Cons.IH [OF Cons.prems(1) this] r Some show ?thesis by (auto simp: io_simps)
  qed
qed (simp add: io_simps)

lemma download_device:
  assumes "\<And>q s. snd (http E q s) = s"
  shows "io_rel (same device) (download_each E server uid pkg dir None ps)"
proof (induction ps)
  case (Cons e ps)
  have h: "io_rel (same device) (http_send E q)" for q
    using assms [of q] by (auto simp: io_rel_def http_send_def same_def split: prod.splits) (metis snd_conv)
  have f: "io_rel (same device) (fs_create_dir_all E d)" "io_rel (same device) (fs_open_append E d)" "io_rel (same device) (fs_append E d b)" for d b
    unfolding fs_create_dir_all_def fs_open_append_def fs_append_def guarded_def
    by (auto simp: io_rel_def same_def simp del: mkdirs.simps split: option.splits fnode.splits)
  have b: "io_rel (same device) (save_body_to resp (\<lambda>b. io_map_err CloudIo (fs_append E d b)))" for resp d
    unfolding save_body_to_def by (auto intro!: frame f split: option.split)
  have m: "io_rel (same device) (\<lambda>s. if fs_exists E dir s then (Inr (), s) else io_map_err CloudIo (fs_create_dir_all E dir) s)"
    using io_rel_map_err [OF f(1)] by (auto simp: io_rel_def)
  have "io_rel (same device) (download_object E server uid pkg dir ob)" for ob
    unfolding download_object_def Let_def by (auto intro!: frame f b h m)
  with Cons show ?case by (cases e) (auto intro!: frame)
qed (simp add: frame)

lemma context_server_sys [simp]: "context_server (c\<lparr>c_sys := t\<rparr>) = context_server c"
  by (simp add: context_server_def split: option.split)

lemma distinct_pending:
  assumes "distinct (map info_sha256sum (filter (\<lambda>x. \<not> allow_remote_install x) xs))"
  shows "distinct (map snd (pending_download E dir xs s))"
proof -
  let ?ys = "filter (\<lambda>x. info_status E dir x s \<noteq> Inr Ready) (filter (\<lambda>x. \<not> allow_remote_install x) xs)"
  let ?e = "\<lambda>x. (info_filename x, info_sha256sum x)"
  have d: "distinct (map snd (map ?e ?ys))" using distinct_map_filter [OF assms] by (simp add: comp_def)
  then have "distinct (map ?e ?ys)" by (simp only: distinct_map [of snd])
  then show ?thesis using d by (simp add: pending_download_def remdups_adj_distinct)
qed

lemma device_ready_dir:
  "device_ready slot a J c s \<Longrightarrow> node (download_dir_of c) s = Some Directory"
  "device_ready slot a J c s \<Longrightarrow> path_parent q = Some (download_dir_of c) \<Longrightarrow> node q s = Some n \<Longrightarrow> \<exists>b. n = Regular b"
  by (auto simp: device_ready_def)

text \<open>Fetching starts from objects none of which is incomplete or corrupted.\<close>

definition fetchable :: "env \<Rightarrow> string \<Rightarrow> object list \<Rightarrow> sys \<Rightarrow> bool" where
  "fetchable E dir xs s \<longleftrightarrow> (\<forall>x \<in> set xs. info_status E dir x s \<in> {Inr Ready, Inr Missing})"

lemma fetch_succeeds:
  assumes fav: "favourable E slot a J p g c0" and rdy: "device_ready slot a J c0 s"
    and fe: "fetchable E (download_dir_of c0) (objects p a) s" and cfg: "cfg = c_settings c0" and srv: "server_has E a body p c0"
  shows "succeeds (clear_unrelated_files E p (download_dir_of c0) a cfg) s (\<lambda>_ t. device_ready slot a J c0 t \<and>
    succeeds (download_each E (context_server c0) (product_uid (c_firmware c0)) (package_uid E p) (download_dir_of c0) None
      (pending_download E (download_dir_of c0) (objects p a) t)) t
      (\<lambda>b u. b \<and> device_ready slot a J c0 u \<and> all_ready E (download_dir_of c0) (objects p a) u))"
proof -
  let ?dir = "download_dir_of c0" and ?xs = "objects p a"
  have ff: "fault_free E" and psv: "\<And>q s. snd (http E q s) = s"
    and pth: "paths_apart c0 J" and pd: "plain_dir ?dir" and pkg: "package_fits E a J p g c0"
    using fav unfolding favourable_def outside_helps_def paths_apart_def by blast+
  have names: "\<forall>x \<in> set ?xs. plain_name (info_sha256sum x) \<and> info_sha256sum x \<noteq> ''metadata'' \<and> info_sha256sum x \<noteq> ''signature''"
    and serves: "serves_objects E (context_server c0) (product_uid (c_firmware c0)) (package_uid E p) body ?xs"
    and url: "url_ok E (context_server c0)" and dist: "\<And>t. distinct (map snd (pending_download E ?dir ?xs t))"
    using pkg srv distinct_pending by (auto simp: package_fits_def server_has_def)
  have st: "\<forall>x \<in> set ?xs. info_status E ?dir x s \<noteq> Inr Corrupted" using fe by (auto simp: fetchable_def)
  have d: "?dir = download_dir (update cfg)" using cfg by (simp add: download_dir_of_def)
  have reg: "\<forall>q n. path_parent q = Some ?dir \<and> node q s = Some n \<longrightarrow> (\<exists>b. n = Regular b)"
    using device_ready_dir(2) [OF rdy] by blast
  obtain t where t: "clear_unrelated_files E p ?dir a cfg s = (Inr (), t)" "quiet s t"
    "\<And>q. node q t = node q s \<or> path_parent q = Some ?dir \<and> node q t = None"
    "\<And>x. x \<in> set ?xs \<Longrightarrow> node (path_join ?dir (info_sha256sum x)) t = node (path_join ?dir (info_sha256sum x)) s"
    using clear_succeeds [OF ff d device_ready_dir(1) [OF rdy] pd reg names st] by blast
  have rt: "device_ready slot a J c0 t"
    by (rule ready_transfer [OF pth rdy]) (use t(2,3) in \<open>auto simp: quiet_def own_path_def\<close>)
  have "info_status E ?dir x t = info_status E ?dir x s" if "x \<in> set ?xs" for x
    using objects.same_file [of ?dir x t s E] t(4) [OF that] ff by simp
  then have "\<forall>x \<in> set ?xs. allow_remote_install x \<or> info_status E ?dir x t \<in> {Inr Ready, Inr Missing}"
    using fe by (simp add: fetchable_def)
  then obtain u where u: "download_each E (context_server c0) (product_uid (c_firmware c0)) (package_uid E p) ?dir None
      (pending_download E ?dir ?xs t) t = (Inr True, u)"
    "all_ready E ?dir ?xs u" "\<And>q. node q u = node q t \<or> path_parent q = Some ?dir \<and> (\<exists>b. node q u = Some (Regular b))"
    using download_readies [OF ff url device_ready_dir(1) [OF rt] pd _ serves _ dist] names unfolding all_ready_def by blast
  have "device u = device t" using io_relD [OF download_device [OF psv] u(1)] by (simp add: same_def)
  then have "device_ready slot a J c0 u"
    by (intro ready_transfer [OF pth rt]) (use u(3) in \<open>auto simp: own_path_def\<close>)
  then show ?thesis using t(1) rt u by (auto simp: succeeds_def)
qed

lemma fetchable_same:
  assumes "outside_helps E slot" "paths_apart c0 J" "package_fits E a J p g c0" "same_downloads (download_dir_of c0) s t"
  shows "fetchable E (download_dir_of c0) (objects p a) t = fetchable E (download_dir_of c0) (objects p a) s"
proof -
  have "info_status E (download_dir_of c0) x t = info_status E (download_dir_of c0) x s" if "x \<in> set (objects p a)" for x
    using same_downloads_status [of E "download_dir_of c0" x s t] assms that
    by (simp add: outside_helps_def paths_apart_def package_fits_def)
  then show ?thesis by (simp add: fetchable_def)
qed

lemma download_succeeds:
  assumes fav: "favourable E slot a J p g c0" and c: "en_route slot a J c0 c"
    and fe: "fetchable E (download_dir_of c0) (objects p a) (c_sys c)" and srv: "server_has E a body p c0"
  shows "succeeds (handle_download E None p g) c (\<lambda>out t. out = (Validation p g False, Immediate) \<and>
    en_route slot a J c0 t \<and> all_ready E (download_dir_of c0) (objects p a) (c_sys t))"
proof -
  have out: "outside_helps E slot" and pth: "paths_apart c0 J" and pkg: "package_fits E a J p g c0"
    using fav by (simp_all add: favourable_def)
  have scr: "slot_scripts E slot" using out by (simp add: outside_helps_def)
  have "succeeds (inactive E) (c_sys c) (\<lambda>b t. b = a \<and> device_ready slot a J c0 t \<and> same_downloads (download_dir_of c0) (c_sys c) t)"
    by (rule inactive_succeeds [OF scr pth route_same(9) [OF c]])
  then show ?thesis unfolding handle_download_def start_download_def success option.map
  proof (rule succeeds_mono, goal_cases)
    case (1 b t)
    then have t: "b = a" "device_ready slot a J c0 t" "fetchable E (download_dir_of c0) (objects p a) t"
      using fetchable_same [OF out pth pkg] fe by auto
    let ?c = "c\<lparr>c_sys := t\<rparr>"
    have eqs: "download_dir_of ?c = download_dir_of c0" "c_settings ?c = c_settings c0" "c_sys ?c = t"
      using route_same(1,6) [OF c] by (simp_all add: download_dir_of_def)
    show ?case unfolding eqs t(1)
    proof (rule succeeds_mono [OF fetch_succeeds [OF fav t(2,3) refl srv]], goal_cases)
      case (1 v u)
      have eqs: "context_server (c\<lparr>c_sys := t, c_sys := u\<rparr>) = context_server c0"
        "c_firmware (c\<lparr>c_sys := t, c_sys := u\<rparr>) = c_firmware c0" "c_sys (c\<lparr>c_sys := t, c_sys := u\<rparr>) = u"
        using route_same(3,5) [OF c] by simp_all
      show ?case using 1 unfolding prod.case eqs success
        by (elim conjE, elim succeeds_mono) (use route_sys [OF c] in \<open>simp add: success\<close>)
    qed
  qed
qed

section \<open>Callbacks and reports on the way\<close>

lemma no_callback:
  "device_ready slot a J c s \<Longrightarrow> state_change_callback E (metadata_dir_of c) st s = (Inr Continue, s)"
  by (simp add: state_change_callback_def Let_def fs_exists_def device_ready_def callback_path_def)

text \<open>What a report leaves: more requests and perhaps a warning in the log.\<close>

definition after_report :: "agent_context \<Rightarrow> agent_context \<Rightarrow> bool" where
  "after_report c t \<longleftrightarrow> (\<exists>rs l. t = c\<lparr>c_sys := (c_sys c)\<lparr>requests := rs\<rparr>, c_drain := l\<rparr>)"

lemma send_report_succeeds:
  assumes "\<And>q s. snd (http E q s) = s"
  shows "succeeds (send_report E server fw uid st prev err log) c (\<lambda>_. after_report c)"
proof -
  obtain r t where rt: "report E server st fw uid prev err log (c_sys c) = (r, t)" by fastforce
  have h: "snd (http_send E q s) = s\<lparr>requests := requests s @ [q]\<rparr>" for q s
    using assms [of q s] by (cases "http E q s") (simp add: http_send_def)
  have t: "\<exists>rs. t = (c_sys c)\<lparr>requests := rs\<rparr>"
  proof (cases "url_ok E server")
    case True
    then have "t = snd (http_send E (post_request (server @ ''/report'') client_headers (report_payload st fw uid prev err log)) (c_sys c))"
      using rt by (auto simp: report_def io_simps split: prod.splits sum.splits)
    then show ?thesis using h by blast
  next
    case False
    then have "t = (c_sys c)\<lparr>requests := requests (c_sys c)\<rparr>" using rt by (auto simp: report_def io_simps)
    then show ?thesis by blast
  qed
  then obtain rs where "t = (c_sys c)\<lparr>requests := rs\<rparr>" by blast
  moreover have "c\<lparr>c_sys := t\<rparr> = c\<lparr>c_sys := t, c_drain := c_drain c\<rparr>" by simp
  ultimately have "after_report c (c\<lparr>c_sys := t\<rparr>)" "after_report c (c\<lparr>c_sys := t, c_drain := l\<rparr>)" for l
    unfolding after_report_def by metis+
  then show ?thesis
    using rt by (cases r) (auto simp: succeeds_def send_report_def io_catch_def on_sys_def io_zoom_def say_def io_modify_def)
qed

lemma report_progress_succeeds:
  assumes "\<And>q s. snd (http E q s) = s"
    and "\<And>c'. after_report c c' \<Longrightarrow> succeeds (handle_inner E ct st) c' P"
    and "\<And>out t t'. P out t \<Longrightarrow> after_report t t' \<Longrightarrow> Q out t'"
  shows "succeeds (handle_and_report_progress E ct st) c Q"
proof -
  let ?uid = "case reported_package st of Some p \<Rightarrow> package_uid E p | None \<Rightarrow> []"
  let ?rep = "send_report E (context_server c) (as_cloud_metadata (c_firmware c)) ?uid"
  have "succeeds (io_then (?rep (enter_state_name st) None None None)
      (io_bind (io_attempt (handle_inner E ct st)) (\<lambda>r. case r of
             Inr out \<Rightarrow> io_then (?rep (leave_state_name st) None None None) (io_return out)
           | Inl (Fails e) \<Rightarrow>
               io_bind (io_gets (\<lambda>d. memory_log (c_drain d))) (\<lambda>log.
               io_then (?rep ''error'' (Some (enter_state_name st)) (Some (transition_error_text E e)) (Some log))
                 (io_throw (Fails e)))
           | Inl other \<Rightarrow> io_throw other))) c Q"
  proof (rule succeeds_thenI [OF send_report_succeeds [OF assms(1)]])
    fix u c' assume "after_report c c'"
    from assms(2) [OF this] show "succeeds (io_bind (io_attempt (handle_inner E ct st)) (\<lambda>r. case r of
             Inr out \<Rightarrow> io_then (?rep (leave_state_name st) None None None) (io_return out)
           | Inl (Fails e) \<Rightarrow>
               io_bind (io_gets (\<lambda>d. memory_log (c_drain d))) (\<lambda>log.
               io_then (?rep ''error'' (Some (enter_state_name st)) (Some (transition_error_text E e)) (Some log))
                 (io_throw (Fails e)))
           | Inl other \<Rightarrow> io_throw other)) c' Q"
      unfolding succeeds_bind
      by (intro succeeds_attempt) (auto simp: success elim!: succeeds_mono intro: assms(3) intro!: succeeds_mono [OF send_report_succeeds [OF assms(1)]])
  qed
  then show ?thesis by (simp add: succeeds_def handle_and_report_progress_def Let_def)
qed

lemma callback_report_succeeds:
  assumes "\<And>q s. snd (http E q s) = s"
    and "state_change_callback E (metadata_dir_of c) (state_name st) (c_sys c) = (Inr Continue, c_sys c)"
    and "\<And>c'. after_report c c' \<Longrightarrow> succeeds (handle_inner E ct st) c' P"
    and "\<And>out t t'. P out t \<Longrightarrow> after_report t t' \<Longrightarrow> Q out t'"
  shows "succeeds (handle_with_callback_and_report_progress E ct st) c Q"
proof -
  have "handle_with_callback_and_report_progress E ct st c = handle_and_report_progress E ct st c"
    using assms(2) by (simp add: handle_with_callback_and_report_progress_def sys_act_def on_sys_def io_simps)
  then show ?thesis using report_progress_succeeds [OF assms(1,3,4)] by (simp add: succeeds_def)
qed

lemma after_report_route:
  assumes "paths_apart c0 J" "en_route slot a J c0 c" "after_report c t"
  shows "on_course slot a J c0 c t"
proof -
  obtain rs l where t: "t = c\<lparr>c_sys := (c_sys c)\<lparr>requests := rs\<rparr>, c_drain := l\<rparr>" using assms(3) by (auto simp: after_report_def)
  have "on_course slot a J c0 c (c\<lparr>c_sys := (c_sys c)\<lparr>requests := rs\<rparr>\<rparr>)"
    by (rule on_course_sys [OF assms(2) ready_logs(2) [OF assms(1) route_same(9) [OF assms(2)]]]) simp
  then show ?thesis by (simp add: t)
qed

section \<open>Turns\<close>

lemma turn_succeeds:
  assumes "c_queue c = []" "succeeds (move_to_next_state E None st) (c\<lparr>c_waker := 0\<rparr>) Q"
  shows "succeeds (turn E [] (0, 0) st) c Q"
proof -
  have "succeeds (run_state E [] (0, 0) st) (c\<lparr>c_waker := 0\<rparr>) Q"
    using assms(2) by (simp add: run_state_def)
  then show ?thesis using assms(1)
    by (auto simp: turn_def discharge_waker_def success consume_pending_def succeeds_def io_simps)
qed

lemma turns_Suc:
  assumes "succeeds (turn E [] (0, 0) st) c (\<lambda>out t. out = (st', Immediate) \<and> P t)"
  shows "\<exists>t. P t \<and> (\<forall>n. turns E (Suc n) st c = turns E n st' t)"
  using assms by (auto simp: succeeds_def)

lemma small_numbers: "(6 :: nat) = Suc 5" "(5 :: nat) = Suc 4" "(4 :: nat) = Suc 3" "(3 :: nat) = Suc 2" "(2 :: nat) = Suc 1" "(1 :: nat) = Suc 0"
  by simp_all

section \<open>Installation and reboot\<close>

text \<open>What holds once the update is installed: it is recorded, on disk if the settings are kept there, and its
  set is the active one.\<close>

definition on_disk :: "env \<Rightarrow> runtime_settings \<Rightarrow> sys \<Rightarrow> bool" where
  "on_disk E r s \<longleftrightarrow> storable r s \<and> (persistent r \<longrightarrow> node (rs_path r) s = Some (Regular (rs_serialize E r)))"

lemma on_disk_files: "files t = files s \<Longrightarrow> on_disk E r t = on_disk E r s"
  by (simp add: on_disk_def storable_def node_def)

lemma on_disk_logs [simp]:
  "on_disk E r (s\<lparr>commands := cs\<rparr>) = on_disk E r s"
  "on_disk E r (s\<lparr>requests := rs\<rparr>) = on_disk E r s"
  "on_disk E r (s\<lparr>device := d\<rparr>) = on_disk E r s"
  by (simp_all add: on_disk_def storable_def node_def)

definition arrived :: "env \<Rightarrow> ((string \<Rightarrow> string) \<Rightarrow> installation_set) \<Rightarrow> installation_set \<Rightarrow> (sys \<Rightarrow> bool) \<Rightarrow> update_package \<Rightarrow>
    agent_context \<Rightarrow> agent_context \<Rightarrow> bool" where
  "arrived E slot a J p c0 t \<longleftrightarrow> c_settings t = c_settings c0 \<and> c_firmware t = c_firmware c0 \<and> c_queue t = [] \<and>
     rs_update (c_runtime t) = \<lparr>upgrade_to_installation = Some a, applied_package_uid = Some (package_uid E p)\<rparr> \<and>
     slot (device (c_sys t)) = a \<and> node (callback_path c0) (c_sys t) = None \<and>
     rs_path (c_runtime t) = rs_path (c_runtime c0) \<and> persistent (c_runtime t) = persistent (c_runtime c0) \<and>
     on_disk E (c_runtime t) (c_sys t) \<and> (\<exists>s. J s \<and> files (c_sys t) = files s)"

lemma after_report_arrived: "arrived E slot a J p c0 c \<Longrightarrow> after_report c t \<Longrightarrow> arrived E slot a J p c0 t"
  by (auto simp: arrived_def after_report_def node_def)

lemma install_each_succeeds:
  assumes fav: "favourable E slot a J p g c0" and c: "en_route slot a J c0 c"
    and r: "all_ready E (download_dir_of c0) (objects p a) (c_sys c)" and xs: "set xs = set (objects p a)"
  shows "succeeds (io_each (\<lambda>x. handler_act (install_object E (installer_context_for E c0 p b) x)) xs) c (\<lambda>_. on_course slot a J c0 c)"
proof (rule succeeds_each [where I = "on_course slot a J c0 c"], rule on_course_refl [OF c])
  fix x t assume "x \<in> set xs" and t: "on_course slot a J c0 c t"
  then have x: "x \<in> set (objects p a)" and rt: "en_route slot a J c0 t" using xs by (simp_all add: on_course_def)
  have out: "outside_helps E slot" and pth: "paths_apart c0 J" and pkg: "package_fits E a J p g c0"
    using fav by (simp_all add: favourable_def)
  have "all_ready E (download_dir_of c0) (objects p a) (c_sys t)" using on_course_ready [OF out pth pkg t] r by simp
  then have "allow_remote_install x \<or> info_status E (download_dir_of c0) x (c_sys t) = Inr Ready"
    using x by (simp add: all_ready_def)
  moreover have "installs_on E (device_ready slot a J c0) (download_dir_of c0) (installer_context_for E c0 p b) x"
    using fav x unfolding favourable_def by blast
  ultimately have "succeeds (install_object E (installer_context_for E c0 p b) x) (c_sys t)
      (\<lambda>_ u. device_ready slot a J c0 u \<and> same_downloads (download_dir_of c0) (c_sys t) u)"
    using route_same(9) [OF rt] unfolding installs_on_def by blast
  then show "succeeds (handler_act (install_object E (installer_context_for E c0 p b) x)) t (\<lambda>_. on_course slot a J c0 c)"
    unfolding succeeds_handler_act by (rule succeeds_mono) (rule on_course_trans [OF t], simp add: on_course_sys [OF rt])
qed

text \<open>Recording the update and making its set the active one.\<close>

lemma record_succeeds:
  assumes fav: "favourable E slot a J p g c0" and c: "en_route slot a J c0 c"
  shows "succeeds (io_then (runtime_act (set_applied_package_uid E (package_uid E p)))
     (io_then (runtime_act (set_upgrading_to E a))
     (io_then (say E ''info'' ''swapping active installation set'')
     (io_then (sys_act TeFirmware (swap_active E))
     (io_then (say E ''info'' ''update installed successfully'') (io_return out)))))) c
    (\<lambda>o' t. o' = out \<and> arrived E slot a J p c0 t)"
proof -
  have ff: "fault_free E" and scr: "slot_scripts E slot" and pth: "paths_apart c0 J"
    using fav by (simp_all add: favourable_def outside_helps_def)
  let ?r = "c_runtime c" and ?u = "package_uid E p"
  have r: "rs_path ?r = rs_path (c_runtime c0)" "persistent ?r = persistent (c_runtime c0)"
    using c by (simp_all add: en_route_def)
  from stored_change_succeeds [OF applied_set.stored_change_axioms [of E ?u] ff pth route_same(9) [OF c] r]
  obtain s1 where 1: "set_applied_package_uid E ?u (?r, c_sys c) =
      (Inr (), (upd_update (\<lambda>q. q\<lparr>applied_package_uid := Some ?u\<rparr>) ?r, s1))" "device_ready slot a J c0 s1"
    by (auto simp: succeeds_def)
  let ?r1 = "upd_update (\<lambda>q. q\<lparr>applied_package_uid := Some ?u\<rparr>) ?r"
  have r1: "rs_path ?r1 = rs_path (c_runtime c0)" "persistent ?r1 = persistent (c_runtime c0)"
    using r by (simp_all add: upd_update_def)
  from stored_change_succeeds [OF upgrading_set.stored_change_axioms [of E a] ff pth 1(2) r1]
  obtain s2 where 2: "set_upgrading_to E a (?r1, s1) =
      (Inr (), (upd_update (\<lambda>q. q\<lparr>upgrade_to_installation := Some a\<rparr>) ?r1, s2))" "device_ready slot a J c0 s2"
    by (auto simp: succeeds_def)
  have "other_set (slot (device s2)) = a" using ready_slot [OF 2(2)] by (cases a) simp_all
  with swap_active_scripts [OF scr, of s2] obtain d where
    3: "swap_active E s2 = (Inr (), s2\<lparr>device := d, commands := commands s2 @ [GET_SCRIPT, set_command a]\<rparr>)" "slot d = a"
    by auto
  let ?r2 = "upd_update (\<lambda>q. q\<lparr>upgrade_to_installation := Some a\<rparr>) ?r1"
  have cb: "node (callback_path c0) s2 = None" "\<exists>s. J s \<and> files s2 = files s" using 2(2) by (auto simp: device_ready_def)
  have r2: "rs_path ?r2 = rs_path (c_runtime c0)" "persistent ?r2 = persistent (c_runtime c0)"
    using r1 by (simp_all add: upd_update_def)
  have st: "storable ?r2 s2" using 2(2) r2 by (simp add: device_ready_def storable_def)
  have "rs_save E ?r2 s1 = (Inr (), s2)" using 2(1) upgrading_set.op_eq [of E a ?r1 s1] by (auto split: prod.splits)
  then have "persistent ?r2 \<longrightarrow> node (rs_path ?r2) s2 = Some (Regular (rs_serialize E ?r2))"
    using rs_save_stored [of E ?r2 s1 "()" s2] st by (auto simp: storable_def node_bytes_def)
  then have "on_disk E ?r2 (s2\<lparr>device := d, commands := commands s2 @ [GET_SCRIPT, set_command a]\<rparr>)"
    using st unfolding on_disk_logs by (simp add: on_disk_def)
  with cb have "arrived E slot a J p c0 (c\<lparr>c_runtime := upd_update (\<lambda>q. q\<lparr>upgrade_to_installation := Some a\<rparr>) ?r1,
      c_sys := s2\<lparr>device := d, commands := commands s2 @ [GET_SCRIPT, set_command a]\<rparr>, c_drain := l\<rparr>)" for l
    using c 3(2) r2 by (simp add: arrived_def en_route_def upd_update_def node_def)
  then show ?thesis unfolding success
    by (simp add: succeeds_at [where m = "set_applied_package_uid E ?u", OF 1(1)]
        succeeds_at [where m = "set_upgrading_to E a", OF 2(1)] succeeds_at [where m = "swap_active E", OF 3(1)])
qed

lemma install_succeeds:
  assumes fav: "favourable E slot a J p g c0" and c: "en_route slot a J c0 c"
    and r: "all_ready E (download_dir_of c0) (objects p a) (c_sys c)"
  shows "succeeds (handle_install E p (installer_context_for E c0 p b)) c (\<lambda>out t.
    out = (Reboot (with_objects a (sort_objects (objects p a)) p), Immediate) \<and> arrived E slot a J p c0 t)"
proof -
  have out: "outside_helps E slot" and pth: "paths_apart c0 J" and pkg: "package_fits E a J p g c0"
    using fav by (simp_all add: favourable_def)
  show ?thesis unfolding handle_install_def succeeds_then [of "say _ _ _"] succeeds_say
  proof (rule succeeds_bindI [OF inactive_set_succeeds [OF out pth pkg]], goal_cases)
    case 1
    show ?case using c by simp
  next
    case (2 b' t)
    then have t: "b' = a" "on_course slot a J c0 c t" by (simp_all add: on_course_def)
    let ?t = "t\<lparr>c_drain := log_line E ''info'' (''using installation set as target '' @ set_display a) (c_sys t) (c_drain t)\<rparr>"
    have rt: "en_route slot a J c0 ?t" "all_ready E (download_dir_of c0) (objects p a) (c_sys ?t)"
      using t(2) on_course_ready [OF out pth pkg t(2)] r by (simp_all add: on_course_def)
    show ?case unfolding t(1) succeeds_then [of "say _ _ _"] succeeds_say io_bind_return
    proof (rule succeeds_thenI [OF install_each_succeeds [OF fav rt]], goal_cases)
      case (2 u v)
      then have "en_route slot a J c0 v" by (simp add: on_course_def)
      from record_succeeds [OF fav this] show ?case .
    qed (simp add: sort_objects_def)
  qed
qed

lemma reboot_succeeds:
  assumes "outside_helps E slot" "arrived E slot a J p c0 c"
  shows "succeeds (handle_reboot E) c (\<lambda>out t. out = (EntryPoint, Immediate) \<and> arrived E slot a J p c0 t \<and>
    last (commands (c_sys t)) = ''reboot'')"
proof -
  obtain o' where o: "run E ''reboot'' (c_sys c) = (Inr o', c_sys c)" using assms(1) unfolding outside_helps_def by blast
  then have e: "exec E ''reboot'' (c_sys c) = (Inr o', (c_sys c)\<lparr>commands := commands (c_sys c) @ [''reboot'']\<rparr>)"
    by (simp add: exec_def)
  have "arrived E slot a J p c0 (c\<lparr>c_drain := l, c_sys := (c_sys c)\<lparr>commands := cs\<rparr>, c_drain := k\<rparr>)" for l cs k
    using assms(2) by (simp add: arrived_def node_def)
  then show ?thesis unfolding handle_reboot_def succeeds_then [of "say _ _ _"] succeeds_say
    by (simp add: succeeds_bind succeeds_then succeeds_sys_act succeeds_at [where m = "exec E _", OF e])
      (auto simp: success arrived_def node_def)
qed

section \<open>The turns of an update\<close>

lemma probe_leaves:
  assumes "\<And>q s. snd (http E q s) = s" "probe E server n fw s = (Inr r, t)"
  shows "\<exists>rs. t = s\<lparr>requests := rs\<rparr>"
proof -
  obtain q where "t = snd (http_send E q s)"
    using assms(2) by (auto simp: probe_def io_simps split: prod.splits sum.splits if_splits) (metis snd_conv)
  moreover have "snd (http_send E q s) = s\<lparr>requests := requests s @ [q]\<rparr>"
    using assms(1) [of q s] by (cases "http E q s") (simp add: http_send_def)
  ultimately show ?thesis by blast
qed

lemma now_poll_succeeds:
  assumes "fault_free E" "paths_apart c0 J" "en_route slot a J c0 c"
  shows "succeeds (now_poll E) c (\<lambda>_. on_course slot a J c0 c)"
proof -
  have r: "rs_path (c_runtime c) = rs_path (c_runtime c0)" "persistent (c_runtime c) = persistent (c_runtime c0)"
    using assms(3) by (simp_all add: en_route_def)
  from stored_change_succeeds [OF last_poll_set.stored_change_axioms [of E "utc_now (c_sys c)"] assms(1,2) route_same(9) [OF assms(3)] r]
  obtain s where s: "set_last_polling E (utc_now (c_sys c)) (c_runtime c, c_sys c) =
      (Inr (), (upd_polling (\<lambda>p. p\<lparr>last_poll := utc_now (c_sys c)\<rparr>) (c_runtime c), s))"
    "device_ready slot a J c0 s" "same_downloads (download_dir_of c0) (c_sys c) s"
    by (auto simp: succeeds_def)
  have "succeeds (runtime_act (set_last_polling E (utc_now (c_sys c)))) c (\<lambda>_. on_course slot a J c0 c)"
    using assms(3) s(2,3) by (simp add: success succeeds_at [where m = "set_last_polling E _", OF s(1)]
        on_course_def en_route_def upd_polling_def)
  then show ?thesis by (simp add: succeeds_def now_poll_def)
qed

lemma probe_turn:
  assumes fav: "favourable E slot a J p g c" and ready: "device_ready slot a J c (c_sys c)" and q: "c_queue c = []"
    and pr: "fst (send_probe E c) = Inr (Update p g)"
  shows "succeeds (turn E [] (0, 0) Probe) c (\<lambda>out t. out = (Validation p g True, Immediate) \<and> on_course slot a J c c t)"
proof (rule turn_succeeds [OF q])
  have ff: "fault_free E" and pth: "paths_apart c J" and psv: "\<And>q s. snd (http E q s) = s"
    using fav by (simp_all add: favourable_def outside_helps_def)
  let ?c = "c\<lparr>c_waker := 0\<rparr>"
  have rc: "en_route slot a J c c" using ready q by (simp add: en_route_def)
  have w: "context_server ?c = context_server c" by (simp add: context_server_def split: option.split)
  obtain s where s: "probe E (context_server c) (unat (poll_retries (rs_polling (c_runtime c)))) (as_cloud_metadata (c_firmware c)) (c_sys c)
      = (Inr (Update p g), s)"
    using pr by (auto simp: send_probe_def on_sys_def io_zoom_def split: prod.splits)
  then obtain rs where s': "s = (c_sys c)\<lparr>requests := rs\<rparr>" using probe_leaves [OF psv] by blast
  have sp: "send_probe E ?c = (Inr (Update p g), ?c\<lparr>c_sys := s\<rparr>)"
    using s w by (simp add: send_probe_def on_sys_def io_zoom_def)
  let ?d = "?c\<lparr>c_sys := s, c_runtime := clear_retries (c_runtime c)\<rparr>"
  have "device_ready slot a J c s" using ready_logs(2) [OF pth ready] s' by simp
  then have d: "en_route slot a J c ?d" "same_downloads (download_dir_of c) (c_sys c) s"
    using rc s' by (simp_all add: en_route_def clear_retries_def upd_polling_def)
  have "succeeds (handle_probe_state E) ?c (\<lambda>out t. out = (Validation p g True, Immediate) \<and> on_course slot a J c c t)"
    unfolding handle_probe_state_def succeeds_bind
  proof (rule succeeds_attempt, simp add: succeeds_at [where m = "send_probe E", OF sp] probe_done_def update_received_def success,
      rule succeeds_mono [OF now_poll_succeeds [OF ff pth d(1)]])
    fix u t assume "on_course slot a J c ?d t"
    then show "on_course slot a J c c t" using d(2) by (auto simp: on_course_def intro: same_downloads_trans)
  qed
  moreover have "state_change_callback E (metadata_dir_of ?c) ''probe'' (c_sys ?c) = (Inr Continue, c_sys ?c)"
    using no_callback [OF ready, of E "''probe''"] by (simp add: metadata_dir_of_def)
  ultimately show "succeeds (move_to_next_state E None Probe) ?c (\<lambda>out t. out = (Validation p g True, Immediate) \<and> on_course slot a J c c t)"
    by (simp add: succeeds_def handle_with_callback_def io_bind_def io_attempt_def on_sys_def io_zoom_def)
qed

lemma route_turn:
  assumes "en_route slot a J c0 c"
    and "\<And>c'. c' = c\<lparr>c_waker := 0\<rparr> \<Longrightarrow> en_route slot a J c0 c' \<Longrightarrow> c_sys c' = c_sys c \<Longrightarrow>
      succeeds (move_to_next_state E None st) c' Q"
  shows "succeeds (turn E [] (0, 0) st) c Q"
  by (rule turn_succeeds [OF route_same(8) [OF assms(1)]], rule assms(2) [OF refl]) (use assms(1) in simp_all)

lemma validation_turn:
  assumes fav: "favourable E slot a J p g c0" and c: "en_route slot a J c0 c"
    and r: "b \<or> all_ready E (download_dir_of c0) (objects p a) (c_sys c)"
  shows "succeeds (turn E [] (0, 0) (Validation p g b)) c (\<lambda>out t.
    out = (if b then Download p g else Install p (installer_context_for E c0 p b), Immediate) \<and>
    en_route slot a J c0 t \<and> same_downloads (download_dir_of c0) (c_sys c) (c_sys t))"
proof (rule route_turn [OF c], goal_cases)
  case (1 c')
  then have "succeeds (handle_validation E p g b) c' (\<lambda>out t. on_course slot a J c0 c' t \<and>
      out = (if b then Download p g else Install p (installer_context_for E c0 p b), Immediate))"
    using validation_succeeds [OF fav] r by simp
  then show ?case unfolding move_to_next_state.simps handle_inner.simps
    by (rule succeeds_mono) (use 1(3) in \<open>auto simp: on_course_def\<close>)
qed

lemma callback_report_turn:
  assumes fav: "favourable E slot a J p g c0" and c: "en_route slot a J c0 c"
    and mv: "\<And>d. move_to_next_state E None st d = handle_with_callback_and_report_progress E None st d"
    and inner: "\<And>c'. on_course slot a J c0 c c' \<Longrightarrow> succeeds (handle_inner E None st) c' P"
    and stable: "\<And>out t t'. P out t \<Longrightarrow> after_report t t' \<Longrightarrow> Q out t'"
  shows "succeeds (turn E [] (0, 0) st) c Q"
proof (rule route_turn [OF c], goal_cases)
  case (1 c')
  have psv: "\<And>q s. snd (http E q s) = s" and pth: "paths_apart c0 J"
    using fav by (simp_all add: favourable_def outside_helps_def)
  have cb: "state_change_callback E (metadata_dir_of c') (state_name st) (c_sys c') = (Inr Continue, c_sys c')"
    using no_callback [OF route_same(9) [OF 1(2)]] route_same(2) [OF 1(2)] by simp
  have "on_course slot a J c0 c d" if "after_report c' d" for d
    using after_report_route [OF pth 1(2) that] 1(3) by (simp add: on_course_def)
  then have "succeeds (handle_with_callback_and_report_progress E None st) c' Q"
    using callback_report_succeeds [OF psv cb, of None P Q] inner stable by blast
  then show ?case using mv by (simp add: succeeds_def)
qed

lemma download_turn:
  assumes fav: "favourable E slot a J p g c0" and c: "en_route slot a J c0 c"
    and fe: "fetchable E (download_dir_of c0) (objects p a) (c_sys c)" and srv: "server_has E a body p c0"
  shows "succeeds (turn E [] (0, 0) (Download p g)) c (\<lambda>out t. out = (Validation p g False, Immediate) \<and>
    en_route slot a J c0 t \<and> all_ready E (download_dir_of c0) (objects p a) (c_sys t))"
proof (rule callback_report_turn [OF fav c, where P = "\<lambda>out t. out = (Validation p g False, Immediate) \<and>
    en_route slot a J c0 t \<and> all_ready E (download_dir_of c0) (objects p a) (c_sys t)"], goal_cases)
  case (2 c')
  have "fetchable E (download_dir_of c0) (objects p a) (c_sys c')"
    using fe fetchable_same 2 fav unfolding favourable_def on_course_def by blast
  then show ?case unfolding handle_inner.simps using download_succeeds [OF fav _ _ srv] 2 by (simp add: on_course_def)
next
  case (3 out t t')
  have h: "outside_helps E slot" "paths_apart c0 J" "package_fits E a J p g c0" using fav by (simp_all add: favourable_def)
  have "on_course slot a J c0 t t'" using after_report_route [OF h(2)] 3 by blast
  then show ?case using 3 on_course_ready [OF h, of t t'] by (auto simp: on_course_def)
qed simp

lemma install_turn:
  assumes fav: "favourable E slot a J p g c0" and c: "en_route slot a J c0 c"
    and r: "all_ready E (download_dir_of c0) (objects p a) (c_sys c)"
  shows "succeeds (turn E [] (0, 0) (Install p (installer_context_for E c0 p b))) c (\<lambda>out t.
    out = (Reboot (with_objects a (sort_objects (objects p a)) p), Immediate) \<and> arrived E slot a J p c0 t)"
proof (rule callback_report_turn [OF fav c, where P = "\<lambda>out t.
    out = (Reboot (with_objects a (sort_objects (objects p a)) p), Immediate) \<and> arrived E slot a J p c0 t"], goal_cases)
  case (2 c')
  have h: "outside_helps E slot" "paths_apart c0 J" "package_fits E a J p g c0" using fav by (simp_all add: favourable_def)
  show ?case unfolding handle_inner.simps
    using install_succeeds [OF fav] 2 r on_course_ready [OF h 2] by (simp add: on_course_def)
next
  case (3 out t t')
  then show ?case using after_report_arrived by blast
qed simp

lemma reboot_turn:
  assumes out: "outside_helps E slot" and c: "arrived E slot a J p c0 c"
  shows "succeeds (turn E [] (0, 0) (Reboot q)) c (\<lambda>out t. out = (EntryPoint, Immediate) \<and> arrived E slot a J p c0 t \<and>
    last (commands (c_sys t)) = ''reboot'')"
proof (rule turn_succeeds, use c in \<open>simp add: arrived_def\<close>)
  let ?c = "c\<lparr>c_waker := 0\<rparr>"
  have psv: "\<And>q s. snd (http E q s) = s" using out by (simp add: outside_helps_def)
  have "metadata_dir_of ?c = metadata_dir_of c0" "node (callback_path c0) (c_sys ?c) = None"
    using c by (simp_all add: arrived_def metadata_dir_of_def)
  then have cb: "state_change_callback E (metadata_dir_of ?c) (state_name (Reboot q)) (c_sys ?c) = (Inr Continue, c_sys ?c)"
    by (simp add: state_change_callback_def Let_def fs_exists_def callback_path_def)
  have a: "arrived E slot a J p c0 ?c" using c by (simp add: arrived_def)
  show "succeeds (move_to_next_state E None (Reboot q)) ?c (\<lambda>out t. out = (EntryPoint, Immediate) \<and> arrived E slot a J p c0 t \<and>
      last (commands (c_sys t)) = ''reboot'')"
    unfolding move_to_next_state.simps
  proof (rule callback_report_succeeds [OF psv cb, where P = "\<lambda>out t. out = (EntryPoint, Immediate) \<and> arrived E slot a J p c0 t \<and>
      last (commands (c_sys t)) = ''reboot''"], goal_cases)
    case (1 c')
    then show ?case unfolding handle_inner.simps using reboot_succeeds [OF out after_report_arrived [OF a]] by blast
  next
    case (2 o' t t')
    then have "arrived E slot a J p c0 t'" using after_report_arrived by blast
    then show ?case using 2 by (auto simp: after_report_def)
  qed
qed

text \<open>The whole way, from the probe to the reboot.\<close>

lemma update_runs:
  assumes "favourable E slot a J p g c" and "device_ready slot a J c (c_sys c)" and "c_queue c = []"
    and "fetchable E (download_dir_of c) (objects p a) (c_sys c)" and "fst (send_probe E c) = Inr (Update p g)"
    and "server_has E a body p c"
  shows "map (\<lambda>n. map_option fst (turns E n Probe c)) [1, 2, 3, 4, 5] =
      map Some [Validation p g True, Download p g, Validation p g False, Install p (installer_context_for E c p False),
        Reboot (with_objects a (sort_objects (objects p a)) p)] \<and>
    (\<exists>d. turns E 6 Probe c = Some (EntryPoint, d) \<and> arrived E slot a J p c d \<and> last (commands (c_sys d)) = ''reboot'') \<and>
    (\<exists>d. turns E 5 Probe c = Some (Reboot (with_objects a (sort_objects (objects p a)) p), d) \<and> arrived E slot a J p c d)"
proof -
  note fav = assms(1)
  have out: "outside_helps E slot" and pth: "paths_apart c J" and pkg: "package_fits E a J p g c"
    using fav by (simp_all add: favourable_def)
  let ?ctx = "installer_context_for E c p False" and ?q = "with_objects a (sort_objects (objects p a)) p"
  obtain c1 where 1: "on_course slot a J c c c1" "\<And>n. turns E (Suc n) Probe c = turns E n (Validation p g True) c1"
    using turns_Suc [OF probe_turn [OF fav assms(2,3,5)]] by blast
  then have r1: "en_route slot a J c c1" "fetchable E (download_dir_of c) (objects p a) (c_sys c1)"
    using fetchable_same [OF out pth pkg] assms(4) by (auto simp: on_course_def)
  obtain c2 where 2: "en_route slot a J c c2 \<and> same_downloads (download_dir_of c) (c_sys c1) (c_sys c2)"
    "\<And>n. turns E (Suc n) (Validation p g True) c1 = turns E n (Download p g) c2"
    using turns_Suc [OF validation_turn [OF fav r1(1), of True, simplified]] by blast
  then have r2: "fetchable E (download_dir_of c) (objects p a) (c_sys c2)"
    using fetchable_same [OF out pth pkg] r1(2) by blast
  obtain c3 where 3: "en_route slot a J c c3 \<and> all_ready E (download_dir_of c) (objects p a) (c_sys c3)"
    "\<And>n. turns E (Suc n) (Download p g) c2 = turns E n (Validation p g False) c3"
    using turns_Suc [OF download_turn [OF fav conjunct1 [OF 2(1)] r2 assms(6)]] by blast
  obtain c4 where 4: "en_route slot a J c c4 \<and> same_downloads (download_dir_of c) (c_sys c3) (c_sys c4)"
    "\<And>n. turns E (Suc n) (Validation p g False) c3 = turns E n (Install p ?ctx) c4"
    using turns_Suc [OF validation_turn [OF fav conjunct1 [OF 3(1)], of False, simplified, OF conjunct2 [OF 3(1)]]] by blast
  then have r4: "all_ready E (download_dir_of c) (objects p a) (c_sys c4)"
    using on_course_ready [OF out pth pkg, of c3 c4] 3(1) by (simp add: on_course_def)
  obtain c5 where 5: "arrived E slot a J p c c5" "\<And>n. turns E (Suc n) (Install p ?ctx) c4 = turns E n (Reboot ?q) c5"
    using turns_Suc [OF install_turn [OF fav conjunct1 [OF 4(1)] r4]] by blast
  obtain c6 where 6: "arrived E slot a J p c c6 \<and> last (commands (c_sys c6)) = ''reboot''"
    "\<And>n. turns E (Suc n) (Reboot ?q) c5 = turns E n EntryPoint c6"
    using turns_Suc [OF reboot_turn [OF out 5(1)]] by blast
  show ?thesis using 5(1) 6(1) unfolding small_numbers list.map
    by (simp only: 1(2) 2(2) 3(2) 4(2) 5(2) 6(2) turns.simps(1)) simp
qed

section \<open>Properties\<close>

text \<open>An update that nothing prevents is carried out. When the server offers a package that fits
  the device and has its objects, no object was left half downloaded, and each object meets its
  requirements and can be installed, six turns of the machine lead from the probe over the first
  validation, the download, the second validation and the installation to the reboot; then the
  package and its set are recorded, that set is the active one, and the last program started is
  the reboot.\<close>

lemma update_completes:
  assumes "favourable E slot a J p g c" and "device_ready slot a J c (c_sys c)" and "c_queue c = []"
    and "fetchable E (download_dir_of c) (objects p a) (c_sys c)" and "fst (send_probe E c) = Inr (Update p g)"
    and "server_has E a body p c"
  shows "map (\<lambda>n. map_option fst (turns E n Probe c)) [1, 2, 3, 4, 5] =
      map Some [Validation p g True, Download p g, Validation p g False, Install p (installer_context_for E c p False),
        Reboot (with_objects a (sort_objects (objects p a)) p)] \<and>
    (\<exists>d. turns E 6 Probe c = Some (EntryPoint, d) \<and>
      rs_update (c_runtime d) = \<lparr>upgrade_to_installation = Some a, applied_package_uid = Some (package_uid E p)\<rparr> \<and>
      slot (device (c_sys d)) = a \<and> last (commands (c_sys d)) = ''reboot'')"
  using update_runs [OF assms] by (auto simp: arrived_def)

text \<open>Two packages, read from one byte each. Both have the same object for the first set; the second has
  another object for the other set.\<close>

definition served_sum :: "string \<Rightarrow> string" where
  "served_sum b = (if b = ''a'' then ''61'' else ''62'')"

definition served_test :: "string \<Rightarrow> test_object" where
  "served_test k = \<lparr>filename = ''o'', file_size = 1, sha256sum = k, test_target = ''/dev/null'',
     force_check_requirements_fail = False\<rparr>"

definition served_json :: "string \<Rightarrow> json" where
  "served_json k = (let t = \<lambda>k. JObj [(''mode'', JStr ''test''), (''filename'', JStr ''o''), (''sha256sum'', JStr k),
       (''target'', JStr ''/dev/null''), (''size'', JNum 1), (''force-check-requirements-fail'', JBool False)]
     in JObj [(''product'', JStr ''p''), (''version'', JStr ''1''), (''objects'', JArr [JArr [t ''61''], JArr [t k]])])"

definition served_package :: "string \<Rightarrow> update_package" where
  "served_package b = \<lparr>inner = \<lparr>product = ''p'', version = ''1'', supported_hardware = AnyHardware,
     set_objects = ([Test (served_test ''61'')], [Test (served_test (served_sum b))])\<rparr>, raw = b\<rparr>"

text \<open>Texts of values and of times that can be read back: as many characters as their number.\<close>

instance json :: countable by countable_datatype

definition number_text :: "'a :: countable \<Rightarrow> string" where
  "number_text x = CHR ''#'' # replicate (to_nat x) (CHR ''x'')"

definition number_read :: "string \<Rightarrow> 'a :: countable" where
  "number_read t = from_nat (length t - 1)"

lemma number_read_text [simp]: "number_read (number_text x) = x"
  by (simp add: number_read_def number_text_def)

text \<open>A server that answers every request with one byte, which stands for the package and for its object, and
  archives that consist of their metadata.\<close>

definition update_settings :: settings where
  "update_settings = settings_default\<lparr>storage := \<lparr>read_only = False, runtime_settings_file = ''/rs''\<rparr>,
     update := \<lparr>download_dir = ''/d'', supported_install_modes = [''test'']\<rparr>\<rparr>"

text \<open>Settings whose socket is no address.\<close>

definition homeless_settings :: settings where
  "homeless_settings = update_settings\<lparr>network := (network update_settings)\<lparr>listen_socket := ''localhost''\<rparr>\<rparr>"

definition update_run :: "bool \<Rightarrow> string \<Rightarrow> sys \<Rightarrow> (process_error + process_output) \<times> sys" where
  "update_run f c s = (if c = ''/usr/share/updatehub/product-uid'' then (Inr \<lparr>stdout = replicate 64 (CHR ''a''), stderr = []\<rparr>, s)
     else if c = ''/usr/share/updatehub/device-identity.d/id'' then (Inr \<lparr>stdout = ''id=1'', stderr = []\<rparr>, s)
     else run (callback_env f) c s)"

lemma update_run_script: "c = GET_SCRIPT \<or> c = VALIDATE_SCRIPT \<or> c \<in> range set_command \<or> c = ''reboot'' \<Longrightarrow>
    update_run f c s = run (callback_env f) c s"
  by (auto simp: update_run_def GET_SCRIPT_def VALIDATE_SCRIPT_def set_command_def SET_SCRIPT_def)

definition update_env :: "bool \<Rightarrow> env" where
  "update_env f = example_env\<lparr>run := update_run f, socket_ok := \<lambda>a. a = ''127.0.0.1:8080'',
     toml_parse := \<lambda>b. Inr (enc_settings (if b = [] then update_settings else homeless_settings)), duration_parse := \<lambda>_. Some 86400000,
     json_text := number_text, time_text := number_text, time_parse := \<lambda>t. Some (number_read t),
     json_parse := \<lambda>b. Inr (if b = ''a'' \<or> b = ''b'' then served_json (served_sum b) else number_read b),
     archive_entry := \<lambda>a n. if n = ''metadata'' then Inr a else if n = ''signature'' then Inr ''s''
       else if n = ''61'' then Inr ''a'' else Inl (ArchiveIo NotFound),
     http := \<lambda>q s. (Inr \<lparr>status = 200, resp_headers = [], chunks = [''a''], broken = None\<rparr>, s)\<rparr>"

definition update_context :: agent_context where
  "update_context = example_context\<lparr>
     c_settings := update_settings,
     c_runtime := rs_default\<lparr>rs_path := ''/rs'', persistent := True\<rparr>,
     c_sys := example_sys\<lparr>files := [(''/'', Directory), (''/d'', Directory), (''/u'', Regular ''a''), (''/v'', Regular ''b''),
       (''/c'', Regular []), (''/usr/share/updatehub/validate-callback'', Regular []),
       (''/usr/share/updatehub/product-uid'', Regular []), (''/usr/share/updatehub/device-identity.d'', Directory),
       (''/usr/share/updatehub/device-identity.d/id'', Regular [])]\<rparr>\<rparr>"

text \<open>The configuration, the hooks and the callback that decides on the update stay where they are.\<close>

definition update_J :: "sys \<Rightarrow> bool" where
  "update_J s \<longleftrightarrow> node ''/c'' s = Some (Regular []) \<and> node ''/usr/share/updatehub/validate-callback'' s = Some (Regular []) \<and>
     node ''/usr/share/updatehub/product-uid'' s = Some (Regular []) \<and> node ''/usr/share/updatehub/device-identity.d'' s = Some Directory \<and>
     (\<forall>q \<in> {''version'', ''hardware'', ''device-attributes.d''}. node (''/usr/share/updatehub/'' @ q) s = None) \<and>
     (\<forall>q. path_parent q = Some ''/usr/share/updatehub/device-identity.d'' \<longrightarrow>
        node q s = (if q = ''/usr/share/updatehub/device-identity.d/id'' then Some (Regular []) else None))"

lemma update_text_round_trip: "text_round_trip (update_env f) r"
proof -
  have "number_text x \<noteq> ''a''" "number_text x \<noteq> ''b''" for x :: json by (simp_all add: number_text_def)
  then show ?thesis by (simp add: text_round_trip_def update_env_def)
qed

lemma served_objects: "objects (served_package b) a = [Test (served_test (if a = InstA then ''61'' else served_sum b))]"
  by (cases a) (simp_all add: objects_def served_package_def)

lemma update_slot_scripts: "slot_scripts (update_env f) example_slot"
  using callback_env_scripts [of f] by (simp add: slot_scripts_def update_env_def update_run_script)

lemma update_download_dir: "download_dir_of update_context = ''/d''"
  by (simp add: update_context_def update_settings_def download_dir_of_def)

lemma update_favourable:
  "favourable (update_env f) example_slot InstB update_J (served_package b) g update_context"
  unfolding favourable_def
proof (intro conjI)
  have "run (update_env f) ''reboot'' s = (Inr \<lparr>stdout = [], stderr = []\<rparr>, s)" for s
    by (simp add: update_env_def update_run_script callback_env_def example_run_def GET_SCRIPT_def set_command_def SET_SCRIPT_def)
  then show "outside_helps (update_env f) example_slot"
    using update_slot_scripts
    by (auto simp: outside_helps_def fault_free_def update_env_def example_env_def)
  have apart: "path_parent ''/usr/share/updatehub/validate-callback'' \<noteq> Some ''/d''" "path_parent ''/c'' \<noteq> Some ''/d''"
    "path_parent ''/usr/share/updatehub/product-uid'' \<noteq> Some ''/d''" "path_parent ''/usr/share/updatehub/device-identity.d'' \<noteq> Some ''/d''"
    "\<forall>q \<in> {''version'', ''hardware'', ''device-attributes.d''}. path_parent (''/usr/share/updatehub/'' @ q) \<noteq> Some ''/d''" by code_simp+
  have r: "path_parent ''/rs'' \<noteq> Some ''/usr/share/updatehub/device-identity.d''" by code_simp
  have J: "update_J t" if "update_J s" "\<And>q. q \<noteq> ''/rs'' \<and> path_parent q \<noteq> Some ''/d'' \<longrightarrow> node q t = node q s" for s t
  proof -
    have "node q t = node q s" if "q \<in> {''/c'', ''/usr/share/updatehub/validate-callback'', ''/usr/share/updatehub/product-uid'',
        ''/usr/share/updatehub/device-identity.d''}" for q
      using that \<open>\<And>q. q \<noteq> ''/rs'' \<and> path_parent q \<noteq> Some ''/d'' \<longrightarrow> node q t = node q s\<close> [of q] apart by auto
    moreover have "node q t = node q s" if "path_parent q = Some ''/usr/share/updatehub/device-identity.d''" for q
      using that \<open>\<And>q. q \<noteq> ''/rs'' \<and> path_parent q \<noteq> Some ''/d'' \<longrightarrow> node q t = node q s\<close> [of q] r by auto
    moreover have "node (''/usr/share/updatehub/'' @ q) t = node (''/usr/share/updatehub/'' @ q) s" if "q \<in> {''version'', ''hardware'', ''device-attributes.d''}" for q
      using that \<open>\<And>q. q \<noteq> ''/rs'' \<and> path_parent q \<noteq> Some ''/d'' \<longrightarrow> node q t = node q s\<close> [of "''/usr/share/updatehub/'' @ q"] apart(5) by auto
    ultimately show ?thesis using that(1) unfolding update_J_def by simp
  qed
  have "path_parent (callback_path update_context) \<noteq> Some ''/d''" "callback_path update_context \<noteq> []" "path_parent ''/d'' \<noteq> Some ''/d''"
    "plain_dir ''/d''" by code_simp+
  moreover have "path_parent ''/rs'' \<noteq> Some ''/d''" "callback_path update_context \<noteq> ''/rs''" by code_simp+
  moreover have rs: "rs_path (c_runtime update_context) = ''/rs''" by (simp add: update_context_def)
  ultimately show "paths_apart update_context update_J"
    unfolding paths_apart_def own_path_def update_download_dir rs using J by (simp only: de_Morgan_disj) blast
  have "compatible_with (served_package b) (c_firmware update_context) = Inr ()"
    "validate_install_modes (served_package b) (c_settings update_context) InstB = Inr ()"
    by (simp_all add: compatible_with_def served_package_def hardware_compatible_def validate_install_modes_def objects_def
        update_context_def update_settings_def)
  moreover have "applied_package_uid (rs_update (c_runtime update_context)) = None"
    "upgrade_to_installation (rs_update (c_runtime update_context)) = None" "pub_key (c_firmware update_context) = None"
    by (simp_all add: update_context_def example_context_def rs_default_def)
  ultimately show "package_fits (update_env f) InstB update_J (served_package b) g update_context"
    by (simp add: package_fits_def served_objects served_test_def served_sum_def plain_name_def)
  show "\<forall>x \<in> set (objects (served_package b) InstB). \<forall>b'. installs_on (update_env f) (device_ready example_slot InstB update_J update_context)
      (download_dir_of update_context) (installer_context_for (update_env f) update_context (served_package b) b') x"
    by (simp add: served_objects installs_on_def test_check_def served_test_def success)
qed

lemma update_server_has:
  "server_has (update_env f) InstB (\<lambda>_. \<lparr>status = 200, resp_headers = [], chunks = [''a''], broken = None\<rparr>) (served_package ''a'') update_context"
proof -
  have "sha256_text (update_env f) ''a'' = ''61''" by code_simp
  then show ?thesis
    by (simp add: server_has_def served_objects serves_objects_def served_download_def update_env_def example_env_def
        is_success_def content_length_def header_value_def served_test_def served_sum_def)
qed

lemma update_ready: "device_ready example_slot InstB update_J update_context (c_sys update_context)"
proof -
  let ?s = "c_sys update_context"
  have f: "\<forall>q \<in> set (map fst (files ?s)). path_parent q \<noteq> Some ''/d'' \<and> q \<noteq> callback_path update_context"
    "\<forall>q \<in> set (map fst (files ?s)). path_parent q = Some ''/usr/share/updatehub/device-identity.d'' \<longrightarrow>
       q = ''/usr/share/updatehub/device-identity.d/id''" by code_simp+
  have m: "q \<in> set (map fst (files ?s))" if "node q ?s \<noteq> None" for q using that by (auto simp: node_def map_of_eq_None_iff)
  have "\<exists>b. k = Regular b" if "path_parent q = Some ''/d''" "node q ?s = Some k" for q k
    using that f(1) m [of q] by auto
  moreover have "node (callback_path update_context) ?s = None" using f(1) m by blast
  moreover have "node ''/d'' ?s = Some Directory" "example_slot (device ?s) = other_set InstB" by code_simp+
  moreover have "storable (c_runtime update_context) ?s"
  proof -
    have "node ''/'' ?s = Some Directory" "node ''/rs'' ?s = None" "path_parent ''/rs'' = Some ''/''"
      "rs_path (c_runtime update_context) = ''/rs''" by code_simp+
    then show ?thesis unfolding storable_def by auto
  qed
  moreover have "update_J ?s"
  proof -
    have "node q ?s = (if q = ''/usr/share/updatehub/device-identity.d/id'' then Some (Regular []) else None)"
      if "path_parent q = Some ''/usr/share/updatehub/device-identity.d''" for q
    proof (cases "q = ''/usr/share/updatehub/device-identity.d/id''")
      case True
      have "node ''/usr/share/updatehub/device-identity.d/id'' ?s = Some (Regular [])" by code_simp
      then show ?thesis using True by simp
    next
      case False
      have "node q ?s \<noteq> None \<Longrightarrow> q = ''/usr/share/updatehub/device-identity.d/id''" using m that f(2) by blast
      then show ?thesis using False by (cases "node q ?s") simp_all
    qed
    moreover have "node ''/c'' ?s = Some (Regular [])" "node ''/usr/share/updatehub/validate-callback'' ?s = Some (Regular [])"
      "node ''/usr/share/updatehub/product-uid'' ?s = Some (Regular [])" "node ''/usr/share/updatehub/device-identity.d'' ?s = Some Directory"
      "\<forall>q \<in> {''version'', ''hardware'', ''device-attributes.d''}. node (''/usr/share/updatehub/'' @ q) ?s = None"
      by code_simp+
    ultimately show ?thesis unfolding update_J_def by blast
  qed
  ultimately show ?thesis unfolding device_ready_def update_download_dir by blast
qed

lemma update_completes_witness:
  "\<exists>d. turns (update_env False) 6 Probe update_context = Some (EntryPoint, d) \<and> example_slot (device (c_sys d)) = InstB \<and>
     last (commands (c_sys d)) = ''reboot''"
proof -
  have s: "c_queue update_context = []" by (simp add: update_context_def example_context_def)
  have f: "fetchable (update_env False) (download_dir_of update_context) (objects (served_package ''a'') InstB) (c_sys update_context)"
    unfolding served_objects by code_simp
  have "fst (send_probe (update_env False) update_context) = Inr (Update (served_package ''a'') None)" by code_simp
  from update_completes [OF update_favourable update_ready s f this update_server_has] show ?thesis by auto
qed

end
