(* ===== verification/UH_Installing.thy ===== *)
theory UH_Installing
  imports UH_Storage
begin

text \<open>
  Installing objects a second time and through a file system: the rule that skips a raw object
  already installed (\<open>object/installer/mod.rs\<close>, \<open>raw.rs\<close>), what the copy of a file leaves
  (\<open>object/installer/copy.rs\<close>, \<open>utils/fs.rs\<close>) and what a delta update reuses (\<open>utils/delta.rs\<close>).
\<close>

section \<open>Raw objects\<close>

text \<open>The bytes of the device a raw object goes to, as the rule reads them.\<close>

definition raw_region :: "raw_object \<Rightarrow> string \<Rightarrow> string" where
  "raw_region r b = (let rest = drop (unat (raw_seek r)) b in
     case raw_limit r of None \<Rightarrow> rest | Some n \<Rightarrow> take n rest)"

lemma raw_checksum_rule:
  assumes "fault_free E" "raw_if_different r = Some CheckSum" "node dev s = Some (BlockDev i b)" "raw_seek r < 2 ^ 63"
  shows "should_skip_install E (raw_if_different r) (sha256sum r) (raw_handle E r dev) s =
    (Inr (sha256_text E (raw_region r b) = sha256sum r), s)"
proof -
  have "\<not> 2 ^ 63 \<le> raw_seek r" using assms(4) by simp
  then show ?thesis using assms(1-3)
    by (simp add: should_skip_install_def raw_handle_def open_handle_def guarded_def obj_io_def seek_start_def
        lift_io_result_def check_if_different_def handle_rest_def raw_region_def io_simps Let_def split: option.split)
qed

lemma raw_install_skips:
  "target r = Device dev \<Longrightarrow> should_skip_install E (raw_if_different r) (sha256sum r) (raw_handle E r dev) s = (Inr True, s) \<Longrightarrow>
   raw_install E ctx r s = (Inr (), s)"
  by (simp add: raw_install_def io_simps)

lemma raw_region_written:
  assumes "unat (raw_seek r) = off" "raw_limit r = Some (length full)" "off + length full \<le> length b"
  shows "raw_region r (take (length b) (take off b @ full @ drop (off + length full) b)) = full"
  using assms by (simp add: raw_region_def Let_def min_def)

section \<open>Copied files\<close>

text \<open>Owners a device knows, as the numbers they stand for.\<close>

definition owner_number :: "(owner_id \<Rightarrow> nat option) \<Rightarrow> owner_id option \<Rightarrow> nat option \<Rightarrow> bool" where
  "owner_number f i n \<longleftrightarrow> (case i of None \<Rightarrow> n = None | Some x \<Rightarrow> f x = n \<and> n \<noteq> None)"

lemma resolve_owner_number: "resolve_owner f i = Inr n \<longleftrightarrow> owner_number f i n"
  by (auto simp: resolve_owner_def owner_number_def split: option.splits)

lemma write_file:
  assumes "fault_free E" "\<forall>n. node p s = Some n \<longrightarrow> (\<exists>b. n = Regular b)" "node p s = None \<longrightarrow> dir_present p s"
  shows "fs_write E p content s = (Inr (), set_node p (Regular content) s)"
  using assms by (auto simp: fs_write_def guarded_def split: option.split)

text \<open>The mode and the owners of a file that is there.\<close>

definition set_permissions :: "env \<Rightarrow> target_permissions \<Rightarrow> string \<Rightarrow> unit handler" where
  "set_permissions E p dest = io_then (case target_mode p of Some m \<Rightarrow> obj_utils_stop (chmod E dest m) | None \<Rightarrow> io_return ())
     (obj_utils_stop (chown E dest (target_uid p) (target_gid p)))"

lemma chown_known:
  assumes "fault_free E" "owner_number (uid_as_u32 E) i u" "owner_number (gid_as_u32 E) j g" "node dest s = Some n"
  shows "obj_utils_stop (chown E dest i j) s = (Inr (), s\<lparr>owners := (dest, u, g) # owners s\<rparr>)"
  using assms by (simp add: chown_def resolve_owner_number [symmetric] fs_chown_def guarded_def io_simps obj_utils_stop_def)

lemma chmod_known:
  assumes "fault_free E" "node dest s = Some n"
  shows "obj_utils_stop (chmod E dest m) s =
    (if m < 4096 then (Inr (), s\<lparr>modes := (dest, m) # modes s\<rparr>) else (Inl Panics, s))"
  using assms by (simp add: chmod_def fs_chmod_def guarded_def io_simps obj_utils_stop_def)

lemma set_permissions_known:
  assumes "fault_free E" "owner_number (uid_as_u32 E) (target_uid p) u" "owner_number (gid_as_u32 E) (target_gid p) g"
    and n: "node dest s = Some n"
  shows "set_permissions E p dest s = (case target_mode p of
      None \<Rightarrow> (Inr (), s\<lparr>owners := (dest, u, g) # owners s\<rparr>)
    | Some m \<Rightarrow> if m < 4096 then (Inr (), s\<lparr>modes := (dest, m) # modes s, owners := (dest, u, g) # owners s\<rparr>)
        else (Inl Panics, s))"
proof -
  have "node dest (s\<lparr>modes := ms\<rparr>) = Some n" for ms using n by (simp add: node_def)
  note o = chown_known [OF assms(1-3)]
  show ?thesis using o [OF n] o [OF \<open>node dest (s\<lparr>modes := _\<rparr>) = Some n\<close>] chmod_known [OF assms(1) n]
    by (simp add: set_permissions_def io_then_def io_bind_def io_return_def split: option.split)
qed

text \<open>A copy up to its permissions.\<close>

lemma copy_write_content:
  assumes "fault_free E" "mount_fs E dev (filesystem_name (filesystem c)) (mount_options c) s = (Inr dir, s1)"
    and "dest = path_join dir (relative_path (target_path c))"
    and "node (source_of ctx (sha256sum c)) s1 = Some (Regular b)" "payload_of E (compressed c) b = Inr content"
    and "\<forall>n. node dest s1 = Some n \<longrightarrow> (\<exists>old. n = Regular old)" "node dest s1 = None \<longrightarrow> dir_present dest s1"
  shows "copy_write E ctx c dev s = (case set_permissions E (target_permissions c) dest
      (set_node dest (Regular content) (set_node dest (Regular []) s1)) of (r, t) \<Rightarrow> (r, unmount_fs E dir t))"
proof -
  let ?s2 = "set_node dest (Regular []) s1"
  let ?body = "io_bind (read_source E ctx (sha256sum c)) (\<lambda>b.
       io_then (obj_io (fs_write E dest []))
       (io_bind (obj_io (fs_metadata E dest)) (\<lambda>_.
       io_bind (io_lift (res_map_err Fails (payload_of E (compressed c) b))) (\<lambda>content.
       io_then (obj_io (fs_write E dest content)) (set_permissions E (target_permissions c) dest)))))"
  have src: "fs_read E (source_of ctx (sha256sum c)) s1 = (Inr b, s1)"
    using assms(1,4) by (simp add: fs_read_def guarded_def)
  have w: "fs_write E dest [] s1 = (Inr (), ?s2)" "fs_write E dest content ?s2 = (Inr (), set_node dest (Regular content) ?s2)"
    using write_file [OF assms(1)] assms(6,7) by simp_all
  have md: "fs_metadata E dest ?s2 = (Inr (Regular []), ?s2)" using assms(1) by (simp add: fs_metadata_def guarded_def)
  have "copy_write E ctx c dev s = (case ?body s1 of (r, t) \<Rightarrow> (r, unmount_fs E dir t))"
    unfolding copy_write_def with_mount_def set_permissions_def io_bind_def [of "io_map_err _ _"]
    by (simp add: assms(2,3) io_map_err_def Let_def cong: option.case_cong)
  moreover have "?body s1 = set_permissions E (target_permissions c) dest (set_node dest (Regular content) ?s2)"
    using assms(5) src w md by (simp add: io_simps read_source_def obj_io_def)
  ultimately show ?thesis by simp
qed

section \<open>Delta updates\<close>

lemma update_update: "AList.update k v (AList.update k w xs) = AList.update k v xs"
  by (induction xs) auto

lemma set_node_again [simp]: "set_node p m (set_node p n s) = set_node p m s"
  by (simp add: set_node_def update_update)

lemma bad_chunk_stops:
  assumes "\<And>i s. feed_chunk E p i r s = (Inl e, s)"
  shows "feed_chunks E p (rs @ r # qs) i s = feed_chunks E p (rs @ [r]) i s"
proof (induction rs arbitrary: i s)
  case Nil
  show ?case using assms by (simp add: io_bind_def)
next
  case (Cons q rs)
  show ?case by (simp add: io_bind_def Cons.IH split: prod.split sum.split)
qed

text \<open>A chunk that cannot be read, unpacked or verified ends the update with its error, whatever the
  archive has after it.\<close>

lemma bad_chunk:
  assumes "r = Inl x \<or> (\<exists>b t. r = Inr b \<and> delta_decompress E b = Inl t) \<or>
    (\<exists>b c t. r = Inr b \<and> delta_decompress E b = Inr c \<and> delta_verify E c = Inl t)"
  shows "\<exists>e. \<forall>i s. feed_chunk E p i r s = (Inl e, s)"
  using assms by (auto simp: feed_chunk_def io_simps res_map_err_def)

section \<open>Properties\<close>

text \<open>C15: Installing a raw object is idempotent under the checksum rule: an object that is written
  from its start, with a count that is its size, is recognised when it is installed again, and then
  nothing is written and nothing changes.\<close>

theorem raw_install_again:
  assumes "fault_free E" "target r = Device dev" "raw_if_different r = Some CheckSum" "\<not> compressed r"
    and "node dev s = Some (BlockDev i b)" "node (source_of ctx (sha256sum r)) s = Some (Regular full)"
    and "unat (seek r) * unat (chunk_bytes (chunk_size r)) < 2 ^ 63" "skip_blocks (skip r) = 0"
    and "raw_limit r = Some (length full)" "full \<noteq> []" "sha256_text E full = sha256sum r"
    and "unat (seek r) * unat (chunk_bytes (chunk_size r)) + length full \<le> length b"
  shows "\<exists>t. raw_install E ctx r s = (Inr (), t) \<and> raw_install E ctx r t = (Inr (), t)"
proof -
  let ?off = "unat (seek r) * unat (chunk_bytes (chunk_size r))"
  have "?off < 2 ^ LENGTH(64)" using assms(7) by simp
  then have off: "unat (raw_seek r) = ?off" unfolding raw_seek_def by (simp only: unat_mult_lem)
  have "unat (2 ^ 63 :: 64 word) = 2 ^ 63" by simp
  then have small: "raw_seek r < 2 ^ 63" using off assms(7) by (simp only: word_less_nat_alt)
  have check: "should_skip_install E (raw_if_different r) (sha256sum r) (raw_handle E r dev) u =
      (Inr (sha256_text E (raw_region r c) = sha256sum r), u)" if "node dev u = Some (BlockDev i c)" for u c
    using raw_checksum_rule [OF assms(1,3) that small] .
  show ?thesis
  proof (cases "sha256_text E (raw_region r b) = sha256sum r")
    case True
    then have "raw_install E ctx r s = (Inr (), s)" using raw_install_skips [OF assms(2)] check [OF assms(5)] by simp
    then show ?thesis by blast
  next
    case False
    let ?c = "take (length b) (take ?off b @ full @ drop (?off + length full) b)"
    have payload: "full = drop (unat (skip_blocks (skip r)) * unat (chunk_bytes (chunk_size r))) full"
      "full = (case raw_limit r of None \<Rightarrow> full | Some n \<Rightarrow> take n full)"
      using assms(8,9) by simp_all
    have le: "?off \<le> length b" and sk: "unat (skip_blocks (skip r)) * unat (chunk_bytes (chunk_size r)) < 2 ^ 63"
      using assms(8,12) by simp_all
    have no: "should_skip_install E (raw_if_different r) (sha256sum r) (raw_handle E r dev) s = (Inr False, s)"
      using check [OF assms(5)] False by simp
    obtain t where t: "raw_install E ctx r s = (Inr (), t)" "node dev t = Some (BlockDev i ?c)"
      using raw_install_written [OF assms(1,2) no assms(4-7) sk refl payload assms(10) le] assms(12) by auto
    have "raw_region r ?c = full" by (rule raw_region_written [OF off assms(9,12)])
    then have "raw_install E ctx r t = (Inr (), t)"
      using raw_install_skips [OF assms(2)] check [OF t(2)] assms(11) by simp
    with t(1) show ?thesis by blast
  qed
qed

definition limited_raw :: raw_object where
  "limited_raw = example_raw\<lparr>sha256sum := ''5859'', raw_if_different := Some CheckSum, count := Limited 1\<rparr>"

theorem raw_install_again_witness:
  "let s = example_sys\<lparr>files := [(''/dev/x'', BlockDev (8, 1) ''abcdef''), (''/d/5859'', Regular ''XY'')]\<rparr>;
       install = raw_install example_env \<lparr>ic_download_dir = ''/d'', offline_update = False, base_url = ''u''\<rparr> limited_raw
   in \<exists>t. install s = (Inr (), t) \<and> install t = (Inr (), t)"
proof -
  let ?s = "example_sys\<lparr>files := [(''/dev/x'', BlockDev (8, 1) ''abcdef''), (''/d/5859'', Regular ''XY'')]\<rparr>"
  let ?ctx = "\<lparr>ic_download_dir = ''/d'', offline_update = False, base_url = ''u''\<rparr>"
  have f: "fault_free example_env" by (simp add: fault_free_def example_env_def)
  have r: "target limited_raw = Device ''/dev/x''" "raw_if_different limited_raw = Some CheckSum" "\<not> compressed limited_raw"
    by (simp_all add: limited_raw_def example_raw_def)
  have n: "node ''/dev/x'' ?s = Some (BlockDev (8, 1) ''abcdef'')"
    "node (source_of ?ctx (sha256sum limited_raw)) ?s = Some (Regular ''XY'')" by code_simp+
  have k: "unat (seek limited_raw) * unat (chunk_bytes (chunk_size limited_raw)) = 2" "skip_blocks (skip limited_raw) = 0"
    by (simp_all add: limited_raw_def example_raw_def chunk_bytes_def skip_blocks_def)
  have l: "raw_limit limited_raw = Some (length ''XY'')"
    by (simp add: limited_raw_def example_raw_def raw_limit_def chunk_bytes_def)
  have h: "sha256_text example_env ''XY'' = sha256sum limited_raw" by code_simp
  show ?thesis unfolding Let_def
    using raw_install_again [OF f r n _ k(2) l _ h] k(1) by simp
qed

text \<open>C16: A copied file. On a file system that can be mounted the target holds exactly the content of
  the object, unpacked if it was compressed, and belongs to the owners the package names; every other
  file stays as it is, and the file system is unmounted whatever happens. The mode is set when it is
  one of the twelve permission bits; any other mode, which the schema lets through, stops the agent
  with the file written.\<close>

theorem copy_write_stores:
  assumes "fault_free E" "mount_fs E dev (filesystem_name (filesystem c)) (mount_options c) s = (Inr dir, s1)"
    and "dest = path_join dir (relative_path (target_path c))"
    and "node (source_of ctx (sha256sum c)) s1 = Some (Regular b)" "payload_of E (compressed c) b = Inr content"
    and "\<forall>n. node dest s1 = Some n \<longrightarrow> (\<exists>old. n = Regular old)" "node dest s1 = None \<longrightarrow> dir_present dest s1"
    and "owner_number (uid_as_u32 E) (target_uid (target_permissions c)) u"
    and "owner_number (gid_as_u32 E) (target_gid (target_permissions c)) g"
  shows "\<exists>t. copy_write E ctx c dev s =
      (case target_mode (target_permissions c) of Some m \<Rightarrow> if m < 4096 then Inr () else Inl Panics | None \<Rightarrow> Inr (), unmount_fs E dir t) \<and>
    node dest t = Some (Regular content) \<and> (\<forall>q. q \<noteq> dest \<longrightarrow> node q t = node q s1) \<and>
    (case target_mode (target_permissions c) of
       Some m \<Rightarrow> if m < 4096 then modes t = (dest, m) # modes s1 \<and> owners t = (dest, u, g) # owners s1
         else modes t = modes s1 \<and> owners t = owners s1
     | None \<Rightarrow> modes t = modes s1 \<and> owners t = (dest, u, g) # owners s1)"
proof -
  let ?t = "set_node dest (Regular content) (set_node dest (Regular []) s1)"
  have n: "node q ?t = (if q = dest then Some (Regular content) else node q s1)" for q by simp
  then have "node dest ?t = Some (Regular content)" by simp
  note p = set_permissions_known [OF assms(1,8,9) this]
  have "modes ?t = modes s1" "owners ?t = owners s1" by (simp_all add: set_node_def)
  then show ?thesis using n unfolding copy_write_content [OF assms(1-7)] p
    by (cases "target_mode (target_permissions c)") (auto simp: node_def)
qed

definition example_copy :: "nat \<Rightarrow> copy_object" where
  "example_copy m = \<lparr>filename = ''o'', file_size = 2, sha256sum = ''o'', target = Device ''/dev/x'', compressed = False,
     required_uncompressed_size = 0, filesystem = Ext4, target_path = ''/f'', target_format = \<lparr>should_format = False, format_options = None\<rparr>,
     mount_options = [], copy_if_different = None,
     target_permissions = \<lparr>target_mode = Some m, target_gid = None, target_uid = Some (OwnerName ''root'')\<rparr>\<rparr>"

theorem copy_write_stores_witness:
  "let s = example_sys\<lparr>files := [(''/mnt'', Directory), (''/d/o'', Regular ''XY'')]\<rparr>;
       copy = \<lambda>m. copy_write example_env \<lparr>ic_download_dir = ''/d'', offline_update = False, base_url = ''u''\<rparr> (example_copy m) ''/dev/x'' s
   in (\<exists>t. copy 420 = (Inr (), t) \<and> node ''/mnt/f'' t = Some (Regular ''XY'') \<and> owners t = [(''/mnt/f'', Some 0, None)]) \<and>
      (\<exists>t. copy 4096 = (Inl Panics, t) \<and> node ''/mnt/f'' t = Some (Regular ''XY''))"
proof -
  let ?s = "example_sys\<lparr>files := [(''/mnt'', Directory), (''/d/o'', Regular ''XY'')]\<rparr>"
  let ?ctx = "\<lparr>ic_download_dir = ''/d'', offline_update = False, base_url = ''u''\<rparr>"
  have f: "fault_free example_env" by (simp add: fault_free_def example_env_def)
  have e: "unmount_fs example_env dir t = t" for dir t by (simp add: example_env_def)
  have m: "mount_fs example_env ''/dev/x'' fs opts s = (Inr ''/mnt'', s)" for fs opts s by (simp add: example_env_def)
  have d: "''/mnt/f'' = path_join ''/mnt'' (relative_path (target_path (example_copy k)))" for k
    by (simp add: example_copy_def relative_path_def path_join_def)
  have n: "node (source_of ?ctx (sha256sum (example_copy k))) ?s = Some (Regular ''XY'')"
    "node ''/mnt/f'' ?s = None" "dir_present ''/mnt/f'' ?s" for k
    by (simp add: example_copy_def source_of_def path_join_def node_def, code_simp+)
  have p: "payload_of example_env (compressed (example_copy k)) ''XY'' = Inr ''XY''" for k
    by (simp add: payload_of_def example_copy_def)
  have o: "owner_number (uid_as_u32 example_env) (target_uid (target_permissions (example_copy k))) (Some 0)"
    "owner_number (gid_as_u32 example_env) (target_gid (target_permissions (example_copy k))) None" for k
    by (simp_all add: owner_number_def example_copy_def uid_as_u32_def example_env_def)
  have q: "target_mode (target_permissions (example_copy k)) = Some k" "owners ?s = []" for k
    by (simp_all add: example_copy_def example_sys_def)
  obtain t where "copy_write example_env ?ctx (example_copy 420) ''/dev/x'' ?s = (Inr (), t)"
    "node ''/mnt/f'' t = Some (Regular ''XY'')" "owners t = [(''/mnt/f'', Some 0, None)]"
    using copy_write_stores [OF f m d n(1) p _ _ o, of 420] n(2,3) q e by auto
  moreover obtain t' where "copy_write example_env ?ctx (example_copy 4096) ''/dev/x'' ?s = (Inl Panics, t')"
    "node ''/mnt/f'' t' = Some (Regular ''XY'')"
    using copy_write_stores [OF f m d n(1) p _ _ o, of 4096] n(2,3) q e by auto
  ultimately show ?thesis unfolding Let_def by blast
qed

text \<open>The target is opened for truncation before its chunks are looked for: on a target that is a
  regular file nothing of its old content is reused. A block device keeps its content.\<close>

lemma delta_reuses_nothing:
  assumes "fault_free E" "node p s = Some (Regular old)"
  shows "clone_to_file E a p k s = clone_to_file E a p k (set_node p (Regular other) s)"
proof -
  have "fs_open_truncate E p s = fs_open_truncate E p (set_node p (Regular other) s)"
    using assms by (simp add: fs_open_truncate_def fs_write_def guarded_def)
  then show ?thesis by (simp add: clone_to_file_def io_then_def io_bind_def io_map_err_def)
qed

lemma delta_reuses_nothing_witness:
  "clone_to_file example_env ''x'' ''/t'' 0 (example_sys\<lparr>files := [(''/t'', Regular ''old'')]\<rparr>) =
   clone_to_file example_env ''x'' ''/t'' 0 (set_node ''/t'' (Regular ''new'') (example_sys\<lparr>files := [(''/t'', Regular ''old'')]\<rparr>))"
  by (rule delta_reuses_nothing [where old = "''old''"]) (simp_all add: fault_free_def example_env_def node_def)

end
