(* ===== verification/UH_Local.thy ===== *)
theory UH_Local
  imports UH_Progress UH_Installing
begin

text \<open>
  Updates from a local package: \<open>states/prepare_local_install.rs\<close> unpacks the archive, and the
  validation, the installation and the reboot follow as they do after a download.
\<close>

section \<open>Extracting the objects\<close>

lemma extract_object_stores:
  assumes "fault_free E" "plain_sum dir (info_sha256sum x)" "node dir s = Some Directory"
    and "\<forall>n. node (path_join dir (info_sha256sum x)) s = Some n \<longrightarrow> (\<exists>b. n = Regular b)"
    and "archive_entry E pkg (info_sha256sum x) = Inr b"
  shows "extract_object E pkg dir x (c\<lparr>c_sys := s\<rparr>) = (Inr (), c\<lparr>c_sys := set_node (path_join dir (info_sha256sum x)) (Regular b)
    (set_node (path_join dir (info_sha256sum x)) (Regular []) s)\<rparr>)"
proof -
  let ?f = "path_join dir (info_sha256sum x)"
  have "dir_present ?f s" using assms(2,3) by (simp add: dir_present_def plain_sum_def)
  then have "fs_write E ?f [] s = (Inr (), set_node ?f (Regular []) s)"
    "fs_write E ?f b (set_node ?f (Regular []) s) = (Inr (), set_node ?f (Regular b) (set_node ?f (Regular []) s))"
    using write_file [OF assms(1)] assms(4) by simp_all
  then show ?thesis using assms(5)
    by (simp add: extract_object_def Let_def io_simps sys_act_def on_sys_def io_zoom_def)
qed

lemma extract_each:
  assumes "fault_free E" "\<forall>x \<in> set xs. plain_sum dir (info_sha256sum x) \<and> (\<exists>b. archive_entry E pkg (info_sha256sum x) = Inr b)"
    and "node dir s = Some Directory"
    and "\<forall>q n. path_parent q = Some dir \<and> node q s = Some n \<longrightarrow> (\<exists>b. n = Regular b)"
  shows "\<exists>t. io_each (extract_object E pkg dir) xs (c\<lparr>c_sys := s\<rparr>) = (Inr (), c\<lparr>c_sys := t\<rparr>) \<and> device t = device s \<and>
    (\<forall>a \<in> info_sha256sum ` set xs. \<exists>b. archive_entry E pkg a = Inr b \<and> node (path_join dir a) t = Some (Regular b)) \<and>
    (\<forall>q. q \<notin> path_join dir ` info_sha256sum ` set xs \<longrightarrow> node q t = node q s)"
  using assms(2-4)
proof (induction xs arbitrary: s)
  case Nil
  show ?case by (rule exI [where x = s]) (simp add: io_simps)
next
  case (Cons x xs)
  let ?f = "path_join dir (info_sha256sum x)"
  obtain b where b: "archive_entry E pkg (info_sha256sum x) = Inr b" using Cons.prems(1) by auto
  have px: "plain_sum dir (info_sha256sum x)" "path_parent ?f = Some dir" using Cons.prems(1) by (simp_all add: plain_sum_def)
  let ?s = "set_node ?f (Regular b) (set_node ?f (Regular []) s)"
  have e: "extract_object E pkg dir x (c\<lparr>c_sys := s\<rparr>) = (Inr (), c\<lparr>c_sys := ?s\<rparr>)"
    by (rule extract_object_stores [OF assms(1) px(1) Cons.prems(2) _ b]) (use Cons.prems(3) px in blast)
  have n: "node q ?s = (if q = ?f then Some (Regular b) else node q s)" for q by simp
  have "dir \<noteq> ?f" using path_parent_shorter [OF px(2)] by auto
  then have "node dir ?s = Some Directory" using n Cons.prems(2) by simp
  moreover have "\<forall>q n. path_parent q = Some dir \<and> node q ?s = Some n \<longrightarrow> (\<exists>b. n = Regular b)"
    using n Cons.prems(3) by auto
  ultimately obtain t where t: "io_each (extract_object E pkg dir) xs (c\<lparr>c_sys := ?s\<rparr>) = (Inr (), c\<lparr>c_sys := t\<rparr>)"
    "device t = device ?s"
    "\<And>a. a \<in> info_sha256sum ` set xs \<Longrightarrow> \<exists>b. archive_entry E pkg a = Inr b \<and> node (path_join dir a) t = Some (Regular b)"
    "\<And>q. q \<notin> path_join dir ` info_sha256sum ` set xs \<Longrightarrow> node q t = node q ?s"
    using Cons.IH [of ?s] Cons.prems(1) by (simp del: node_set) blast
  have "\<exists>d. archive_entry E pkg (info_sha256sum x) = Inr d \<and> node ?f t = Some (Regular d)"
  proof (cases "info_sha256sum x \<in> info_sha256sum ` set xs")
    case False
    then have "?f \<notin> path_join dir ` info_sha256sum ` set xs"
      using plain_sum_notin [OF px(1)] Cons.prems(1) by simp
    then show ?thesis using t(4) n b by simp
  qed (rule t(3))
  moreover have "device ?s = device s" by (simp add: set_node_def)
  ultimately show ?case using e t n by (auto simp: io_simps)
qed

section \<open>Preparing a local installation\<close>

text \<open>The archive: it has a package, a signature, and an entry for every object given.\<close>

definition archive_holds :: "env \<Rightarrow> string \<Rightarrow> update_package \<Rightarrow> signature \<Rightarrow> object list \<Rightarrow> bool" where
  "archive_holds E pkg p g xs \<longleftrightarrow>
     (\<exists>md. archive_entry E pkg ''metadata'' = Inr md \<and> parse_package E md = Inr p) \<and>
     (\<exists>sig. archive_entry E pkg ''signature'' = Inr sig \<and> utf8_ok sig \<and> signature_from_base64_str E sig = Inr g) \<and>
     (\<forall>x \<in> set xs. plain_name (info_sha256sum x) \<and> (\<exists>b. archive_entry E pkg (info_sha256sum x) = Inr b))"

text \<open>The objects of the set to install to: of each that shares its sum with an object of the other
  set the archive has the content; of the others there is no damaged file on disk.\<close>

definition extracted :: "update_package \<Rightarrow> installation_set \<Rightarrow> object \<Rightarrow> bool" where
  "extracted p a x \<longleftrightarrow> info_sha256sum x \<in> info_sha256sum ` set (objects p (other_set a))"

definition archive_genuine :: "env \<Rightarrow> string \<Rightarrow> update_package \<Rightarrow> installation_set \<Rightarrow> string \<Rightarrow> sys \<Rightarrow> bool" where
  "archive_genuine E pkg p a dir s \<longleftrightarrow> (\<forall>x \<in> set (objects p a).
     if extracted p a x
     then \<forall>b. archive_entry E pkg (info_sha256sum x) = Inr b \<longrightarrow> sha256_text E b = info_sha256sum x \<and> info_len x \<le> of_nat (length b)
     else info_status E dir x s \<in> {Inr Ready, Inr Missing})"

text \<open>What the preparation leaves of the objects.\<close>

definition prepared :: "env \<Rightarrow> update_package \<Rightarrow> installation_set \<Rightarrow> string \<Rightarrow> sys \<Rightarrow> sys \<Rightarrow> bool" where
  "prepared E p a dir s t \<longleftrightarrow> (\<forall>x \<in> set (objects p a).
     info_status E dir x t = (if extracted p a x then Inr Ready else info_status E dir x s))"

lemma other_other [simp]: "other_set (other_set a) = a"
  by (cases a) simp_all

lemma prepare_succeeds:
  assumes fav: "favourable E slot a J p (Some g) c0" and c: "en_route slot a J c0 c"
    and f: "node f (c_sys c) = Some (Regular pkg)" and h: "archive_holds E pkg p g (objects p (other_set a))"
    and gen: "archive_genuine E pkg p a (download_dir_of c0) (c_sys c)"
  shows "succeeds (handle_prepare_local_install E f) c (\<lambda>out t. out = (Validation p (Some g) False, Immediate) \<and>
    en_route slot a J c0 t \<and> prepared E p a (download_dir_of c0) (c_sys c) (c_sys t))"
proof -
  let ?dir = "download_dir_of c0" and ?say = "say E ''info'' (''installing local package: '' @ path_debug f) :: unit act"
  have ff: "fault_free E" and sl: "slot_scripts E slot" and pth: "paths_apart c0 J" and pd: "plain_dir ?dir"
    and pkg: "package_fits E a J p (Some g) c0"
    using fav unfolding favourable_def outside_helps_def paths_apart_def by blast+
  note rdy = route_same(9) [OF c]
  obtain md sig where md: "archive_entry E pkg ''metadata'' = Inr md" "parse_package E md = Inr p"
    and sig: "archive_entry E pkg ''signature'' = Inr sig" "utf8_ok sig" "signature_from_base64_str E sig = Inr g"
    and ents: "\<forall>x \<in> set (objects p (other_set a)). plain_sum ?dir (info_sha256sum x) \<and> (\<exists>b. archive_entry E pkg (info_sha256sum x) = Inr b)"
    using h plain_sumI [OF pd] unfolding archive_holds_def by blast
  obtain c1 where c1: "?say c = (Inr (), c1)" "c_sys c1 = c_sys c" "en_route slot a J c0 c1"
    using c by (simp add: say_def io_modify_def)
  let ?s2 = "(c_sys c)\<lparr>commands := commands (c_sys c) @ [GET_SCRIPT]\<rparr>"
  have act: "active E (c_sys c) = (Inr (other_set a), ?s2)" using active_scripts [OF sl] ready_slot [OF rdy] by simp
  have rdy2: "device_ready slot a J c0 ?s2" and n2: "node q ?s2 = node q (c_sys c)" for q
    using ready_logs(1) [OF pth rdy] by (simp_all add: node_def)
  have reg2: "\<forall>q n. path_parent q = Some ?dir \<and> node q ?s2 = Some n \<longrightarrow> (\<exists>b. n = Regular b)"
    using device_ready_dir(2) [OF rdy2] by blast
  let ?sums = "info_sha256sum ` set (objects p (other_set a))"
  from extract_each [OF ff ents device_ready_dir(1) [OF rdy2] reg2, of c1]
  obtain t where t: "io_each (extract_object E pkg ?dir) (objects p (other_set a)) (c1\<lparr>c_sys := ?s2\<rparr>) = (Inr (), c1\<lparr>c_sys := t\<rparr>)"
    "device t = device ?s2" "\<forall>k \<in> ?sums. \<exists>b. archive_entry E pkg k = Inr b \<and> node (path_join ?dir k) t = Some (Regular b)"
    "\<forall>q. q \<notin> path_join ?dir ` ?sums \<longrightarrow> node q t = node q ?s2"
    by (elim exE conjE)
  have rt: "device_ready slot a J c0 t"
  proof (rule ready_transfer [OF pth rdy2], goal_cases)
    case 1 then show ?case using t(2) by simp
  next
    case (2 q)
    then have "q \<notin> path_join ?dir ` ?sums"
      using ents by (auto simp: own_path_def plain_sum_def)
    then show ?case using t(4) by blast
  next
    case (3 q)
    then show ?case using t(3,4) by (cases "q \<in> path_join ?dir ` ?sums") blast+
  qed
  have names: "\<forall>x \<in> set (objects p a). plain_name (info_sha256sum x) \<and> info_sha256sum x \<noteq> ''metadata'' \<and> info_sha256sum x \<noteq> ''signature''"
    using pkg by (simp add: package_fits_def)
  have st: "info_status E ?dir x t = (if extracted p a x then Inr Ready else info_status E ?dir x (c_sys c))"
    if x: "x \<in> set (objects p a)" for x
  proof (cases "extracted p a x")
    case True
    then obtain b where b: "archive_entry E pkg (info_sha256sum x) = Inr b" "node (path_join ?dir (info_sha256sum x)) t = Some (Regular b)"
      using t(3) by (auto simp: extracted_def)
    moreover have "sha256_text E b = info_sha256sum x" "\<not> of_nat (length b) < info_len x"
      using gen x b(1) True unfolding archive_genuine_def by (metis linorder_not_less)+
    ultimately show ?thesis using objects.stored [OF b(2)] ff True by simp
  next
    case False
    then have "path_join ?dir (info_sha256sum x) \<notin> path_join ?dir ` ?sums"
      using plain_sum_notin [OF plain_sumI [OF pd]] names x ents by (simp add: extracted_def)
    then show ?thesis using objects.same_file [of ?dir x t "c_sys c" E] t(4) n2 ff False by simp
  qed
  have ok: "\<forall>x \<in> set (objects p a). info_status E ?dir x t \<noteq> Inr Corrupted"
    using st gen by (auto simp: archive_genuine_def)
  let ?s3 = "t\<lparr>commands := commands t @ [GET_SCRIPT]\<rparr>"
  have inact: "inactive E t = (Inr a, ?s3)" using inactive_scripts [OF sl] ready_slot [OF rt] by simp
  have r3: "device_ready slot a J c0 ?s3" and n3: "node q ?s3 = node q t" for q
    using ready_logs(1) [OF pth rt] by (simp_all add: node_def)
  have st3: "info_status E ?dir x ?s3 = info_status E ?dir x t" for x
    using objects.same_file [of ?dir x ?s3 t E] n3 ff by simp
  have cfg: "?dir = download_dir (update (c_settings c))" using route_same(1) [OF c] by (simp add: download_dir_of_def)
  have reg: "\<forall>q n. path_parent q = Some ?dir \<and> node q ?s3 = Some n \<longrightarrow> (\<exists>b. n = Regular b)"
    using device_ready_dir(2) [OF r3] by blast
  obtain u where u: "clear_unrelated_files E p ?dir a (c_settings c) ?s3 = (Inr (), u)" "quiet ?s3 u"
    "\<And>q. node q u = node q ?s3 \<or> path_parent q = Some ?dir \<and> node q u = None"
    "\<And>x. x \<in> set (objects p a) \<Longrightarrow> node (path_join ?dir (info_sha256sum x)) u = node (path_join ?dir (info_sha256sum x)) ?s3"
    using clear_succeeds [OF ff cfg device_ready_dir(1) [OF r3] pd reg names] ok st3 by auto
  have ru: "device_ready slot a J c0 u"
    by (rule ready_transfer [OF pth r3]) (use u(2,3) in \<open>auto simp: quiet_def own_path_def\<close>)
  have "info_status E ?dir x u = info_status E ?dir x t" if "x \<in> set (objects p a)" for x
    using objects.same_file [of ?dir x u ?s3 E] u(4) [OF that] st3 ff by simp
  then have "prepared E p a ?dir (c_sys c) u" using st by (simp add: prepared_def)
  moreover have "en_route slot a J c0 (c1\<lparr>c_sys := u, c_drain := l\<rparr>)" for l using route_sys [OF c1(3) ru] by simp
  moreover have "download_dir_of c1 = ?dir" "c_settings c1 = c_settings c"
    using route_same(1,6) [OF c] route_same(1,6) [OF c1(3)] by simp_all
  moreover have "fs_create_dir_all E ?dir (c_sys c) = (Inr (), c_sys c)" "fs_read E f (c_sys c) = (Inr pkg, c_sys c)"
    using ff device_ready_dir(1) [OF rdy] f by (simp_all add: fs_create_dir_all_def fs_read_def guarded_def)
  ultimately show ?thesis using c1(1,2) md sig act t(1) inact u(1)
    by (simp add: succeeds_def handle_prepare_local_install_def local_signature_def io_simps sys_act_def on_sys_def io_zoom_def del: then_say)
qed

section \<open>The turns of a local update\<close>

lemma prepare_turn:
  assumes fav: "favourable E slot a J p (Some g) c" and rdy: "device_ready slot a J c (c_sys c)" and q: "c_queue c = []"
    and f: "node f (c_sys c) = Some (Regular pkg)" and h: "archive_holds E pkg p g (objects p (other_set a))"
    and gen: "archive_genuine E pkg p a (download_dir_of c) (c_sys c)"
  shows "succeeds (turn E [] (0, 0) (PrepareLocalInstall f)) c (\<lambda>out t. out = (Validation p (Some g) False, Immediate) \<and>
    en_route slot a J c t \<and> prepared E p a (download_dir_of c) (c_sys c) (c_sys t))"
proof (rule turn_succeeds [OF q])
  let ?c = "c\<lparr>c_waker := 0\<rparr>"
  have "en_route slot a J c ?c" using rdy q by (simp add: en_route_def)
  moreover have "state_change_callback E (metadata_dir_of ?c) ''prepare_local_install'' (c_sys ?c) = (Inr Continue, c_sys ?c)"
    using no_callback [OF rdy, of E "''prepare_local_install''"] by (simp add: metadata_dir_of_def)
  ultimately show "succeeds (move_to_next_state E None (PrepareLocalInstall f)) ?c (\<lambda>out t. out = (Validation p (Some g) False, Immediate) \<and>
      en_route slot a J c t \<and> prepared E p a (download_dir_of c) (c_sys c) (c_sys t))"
    using prepare_succeeds [OF fav, of ?c f pkg] f h gen
    by (simp add: succeeds_def handle_with_callback_def io_bind_def io_attempt_def on_sys_def io_zoom_def)
qed

lemma failing_turn:
  assumes "c_queue c = []" "fst (move_to_next_state E None st (c\<lparr>c_waker := 0\<rparr>)) = Inl (Fails e)"
  shows "succeeds (turn E [] (0, 0) st) c (\<lambda>out t. out = (ErrorState e, Immediate) \<and> True)"
proof -
  obtain d where "move_to_next_state E None st (c\<lparr>c_waker := 0\<rparr>) = (Inl (Fails e), d)" using assms(2) by (metis prod.collapse)
  then show ?thesis using assms(1)
    by (auto simp: turn_def discharge_waker_def success consume_pending_def succeeds_def io_simps run_state_def)
qed

lemma prepared_ready:
  assumes "prepared E p a dir s t"
  shows "all_ready E dir (objects p a) t \<longleftrightarrow>
    (\<forall>x \<in> set (objects p a). allow_remote_install x \<or> extracted p a x \<or> info_status E dir x s = Inr Ready)"
  using assms by (auto simp: prepared_def all_ready_def)

section \<open>Properties\<close>

text \<open>C7: What becomes of a local update that nothing prevents. The archive is unpacked and, when every
  object of the set to install to is there, four turns lead over the validation and the
  installation to the reboot, with the package and its set recorded and that set active. But the objects that
  are unpacked are those of the set that is active: when the package lists, for the set to install to, an object
  that the active set has not and that is not on disk already, the validation ends in an error.\<close>

theorem local_update_outcome:
  assumes "favourable E slot a J p (Some g) c" and "device_ready slot a J c (c_sys c)" and "c_queue c = []"
    and "node f (c_sys c) = Some (Regular pkg)" and "archive_holds E pkg p g (objects p (other_set a))"
    and "archive_genuine E pkg p a (download_dir_of c) (c_sys c)"
  shows "map_option fst (turns E 1 (PrepareLocalInstall f) c) = Some (Validation p (Some g) False) \<and>
    (if \<forall>x \<in> set (objects p a). allow_remote_install x \<or> extracted p a x \<or> info_status E (download_dir_of c) x (c_sys c) = Inr Ready
     then map_option fst (turns E 2 (PrepareLocalInstall f) c) = Some (Install p (installer_context_for E c p False)) \<and>
       (\<exists>d. turns E 4 (PrepareLocalInstall f) c = Some (EntryPoint, d) \<and>
         rs_update (c_runtime d) = \<lparr>upgrade_to_installation = Some a, applied_package_uid = Some (package_uid E p)\<rparr> \<and>
         slot (device (c_sys d)) = a \<and> last (commands (c_sys d)) = ''reboot'')
     else map_option fst (turns E 2 (PrepareLocalInstall f) c) = Some (ErrorState SomeObjectsAreNotReady))"
proof -
  note fav = assms(1)
  have out: "outside_helps E slot" and pth: "paths_apart c J" using fav by (simp_all add: favourable_def)
  let ?dir = "download_dir_of c" and ?ctx = "installer_context_for E c p False" and ?q = "with_objects a (sort_objects (objects p a)) p"
  obtain c1 where 1: "en_route slot a J c c1 \<and> prepared E p a ?dir (c_sys c) (c_sys c1)"
    "\<And>n. turns E (Suc n) (PrepareLocalInstall f) c = turns E n (Validation p (Some g) False) c1"
    using turns_Suc [OF prepare_turn [OF assms]] by blast
  note ready = prepared_ready [OF conjunct2 [OF 1(1)]]
  show ?thesis
  proof (cases "all_ready E ?dir (objects p a) (c_sys c1)")
    case True
    obtain c2 where 2: "en_route slot a J c c2 \<and> same_downloads ?dir (c_sys c1) (c_sys c2)"
      "\<And>n. turns E (Suc n) (Validation p (Some g) False) c1 = turns E n (Install p ?ctx) c2"
      using turns_Suc [OF validation_turn [OF fav conjunct1 [OF 1(1)], of False, simplified, OF True]] by blast
    then have r2: "all_ready E ?dir (objects p a) (c_sys c2)"
      using favourable_ready [OF fav, of c1 c2] True by (simp add: on_course_def)
    obtain c3 where 3: "arrived E slot a J p c c3" "\<And>n. turns E (Suc n) (Install p ?ctx) c2 = turns E n (Reboot ?q) c3"
      using turns_Suc [OF install_turn [OF fav conjunct1 [OF 2(1)] r2]] by blast
    obtain c4 where 4: "arrived E slot a J p c c4 \<and> last (commands (c_sys c4)) = ''reboot''"
      "\<And>n. turns E (Suc n) (Reboot ?q) c3 = turns E n EntryPoint c4"
      using turns_Suc [OF reboot_turn [OF out 3(1)]] by blast
    show ?thesis using 4(1) ready True unfolding small_numbers
      by (simp only: 1(2) 2(2) 3(2) 4(2) turns.simps(1)) (simp add: arrived_def)
  next
    case False
    have "fst (move_to_next_state E None (Validation p (Some g) False) (c1\<lparr>c_waker := 0\<rparr>)) = Inl (Fails SomeObjectsAreNotReady)"
      using validation_fails [OF fav, of "c1\<lparr>c_waker := 0\<rparr>"] 1(1) False by simp
    from turns_Suc [OF failing_turn [OF route_same(8) [OF conjunct1 [OF 1(1)]] this]]
    obtain c2 where 2: "\<And>n. turns E (Suc n) (Validation p (Some g) False) c1 = turns E n (ErrorState SomeObjectsAreNotReady) c2"
      by blast
    show ?thesis using ready False unfolding small_numbers by (simp only: 1(2) 2 turns.simps(1)) simp
  qed
qed

lemma update_archive:
  assumes "b = ''a'' \<or> b = ''b''"
  shows "archive_holds (update_env f) b (served_package b) (Signature ''s'') (objects (served_package b) (other_set InstB))"
    and "archive_genuine (update_env f) b (served_package b) InstB (download_dir_of update_context) (c_sys update_context)"
proof -
  have "parse_package (update_env f) ''a'' = Inr (served_package ''a'')" "parse_package (update_env f) ''b'' = Inr (served_package ''b'')"
    by code_simp+
  then have m: "archive_entry (update_env f) b ''metadata'' = Inr b \<and> parse_package (update_env f) b = Inr (served_package b)"
    using assms by (auto simp: update_env_def)
  have e: "archive_entry (update_env f) b ''signature'' = Inr ''s''" "utf8_ok ''s''"
    "signature_from_base64_str (update_env f) ''s'' = Inr (Signature ''s'')"
    "archive_entry (update_env f) b ''61'' = Inr ''a''"
    by (simp_all add: update_env_def signature_from_base64_str_def example_env_def io_simps byte_in_def)
  from m e show "archive_holds (update_env f) b (served_package b) (Signature ''s'') (objects (served_package b) (other_set InstB))"
    by (auto simp: archive_holds_def served_objects served_test_def plain_name_def)
  have "sha256_text (update_env f) ''a'' = ''61''"
    "info_status (update_env f) ''/d'' (Test (served_test ''62'')) (c_sys update_context) = Inr Missing" by code_simp+
  then show "archive_genuine (update_env f) b (served_package b) InstB (download_dir_of update_context) (c_sys update_context)"
    using assms e(4) unfolding archive_genuine_def served_objects update_download_dir
    by (elim disjE) (simp_all add: extracted_def served_objects served_sum_def served_test_def)
qed

theorem local_update_outcome_witness:
  "(\<exists>d. turns (update_env False) 4 (PrepareLocalInstall ''/u'') update_context = Some (EntryPoint, d) \<and>
      example_slot (device (c_sys d)) = InstB) \<and>
   map_option fst (turns (update_env False) 2 (PrepareLocalInstall ''/v'') update_context) = Some (ErrorState SomeObjectsAreNotReady)"
proof -
  have q: "c_queue update_context = []" by (simp add: update_context_def example_context_def)
  have f: "node ''/u'' (c_sys update_context) = Some (Regular ''a'')" "node ''/v'' (c_sys update_context) = Some (Regular ''b'')"
    by (simp_all add: update_context_def node_def)
  have x: "extracted (served_package ''a'') InstB (Test (served_test ''61''))"
    "\<not> extracted (served_package ''b'') InstB (Test (served_test ''62''))"
    by (simp_all add: extracted_def served_objects served_test_def)
  have m: "info_status (update_env False) ''/d'' (Test (served_test ''62'')) (c_sys update_context) = Inr Missing" by code_simp
  note u = local_update_outcome [OF update_favourable [where f = False] update_ready q _ update_archive]
  have A: "\<forall>y \<in> set (objects (served_package ''a'') InstB). allow_remote_install y \<or> extracted (served_package ''a'') InstB y \<or>
      info_status (update_env False) (download_dir_of update_context) y (c_sys update_context) = Inr Ready"
    and B: "\<not> (\<forall>y \<in> set (objects (served_package ''b'') InstB). allow_remote_install y \<or> extracted (served_package ''b'') InstB y \<or>
      info_status (update_env False) (download_dir_of update_context) y (c_sys update_context) = Inr Ready)"
    using x m by (simp_all add: served_objects served_sum_def update_download_dir)
  from conjunct2 [OF u [OF f(1) disjI1 [OF refl] disjI1 [OF refl]], unfolded if_P [OF A]]
    conjunct2 [OF u [OF f(2) disjI2 [OF refl] disjI2 [OF refl]], unfolded if_not_P [OF B]]
  show ?thesis by blast
qed

text \<open>C20: What a corrupted file can do to a download. The files that do not match their sum are removed once for
  every object that names them: a download fails, before it asks the server for anything, exactly when
  two objects of the set to install to share a file that is corrupted.\<close>

theorem shared_corrupted_stops:
  assumes "fault_free E" and "slot_scripts E slot" and "a = other_set (slot (device (c_sys c)))"
    and "node (download_dir_of c) (c_sys c) = Some Directory" and "plain_dir (download_dir_of c)"
    and "\<forall>q n. path_parent q = Some (download_dir_of c) \<and> node q (c_sys c) = Some n \<longrightarrow> (\<exists>b. n = Regular b)"
    and "\<forall>x \<in> set (objects p a). plain_name (info_sha256sum x) \<and> info_sha256sum x \<noteq> ''metadata'' \<and> info_sha256sum x \<noteq> ''signature''"
  shows "fst (handle_download E ct p g c) = Inl (Fails (TeIo NotFound)) \<longleftrightarrow>
    \<not> distinct (map info_sha256sum (filter (\<lambda>x. info_status E (download_dir_of c) x (c_sys c) = Inr Corrupted) (objects p a)))"
proof -
  let ?dir = "download_dir_of c" and ?s = "(c_sys c)\<lparr>commands := commands (c_sys c) @ [GET_SCRIPT]\<rparr>"
  let ?F = "filter (\<lambda>x. info_status E ?dir x (c_sys c) = Inr Corrupted) (objects p a)" and ?path = "\<lambda>x. path_join ?dir (info_sha256sum x)"
  have n: "node q ?s = node q (c_sys c)" for q by (simp add: node_def)
  have ia: "inactive E (c_sys c) = (Inr a, ?s)" using inactive_scripts [OF assms(2), of "c_sys c"] assms(3) by simp
  have st: "info_status E ?dir x ?s = info_status E ?dir x (c_sys c)" for x
    using objects.same_file [of ?dir x ?s "c_sys c" E] n assms(1) by simp
  obtain v where v: "clear_unrelated_files E p ?dir a (c_settings c) ?s = io_each (fs_remove E) (map ?path ?F) v"
    "\<forall>x \<in> set (objects p a). node (?path x) v = node (?path x) (c_sys c)"
    using clear_result [OF assms(1), of ?dir "c_settings c" ?s p a] assms(4-7) unfolding n st
    by (auto simp: download_dir_of_def)
  have ps: "plain_sum ?dir (info_sha256sum x)" if "x \<in> set (objects p a)" for x
    using plain_sumI [OF assms(5)] assms(7) that by blast
  have there: "\<exists>b. node (?path x) v = Some (Regular b)" if "x \<in> set ?F" for x
  proof -
    have x: "x \<in> set (objects p a)" "info_status E ?dir x (c_sys c) = Inr Corrupted" using that by simp_all
    then have "node (?path x) (c_sys c) \<noteq> None" using status_missing [OF assms(1), of ?dir x "c_sys c"] by auto
    moreover have "path_parent (?path x) = Some ?dir" using ps [OF x(1)] by (simp add: plain_sum_def)
    ultimately show ?thesis using assms(6) v(2) x(1) by fastforce
  qed
  have "distinct (map ?path ?F) \<longleftrightarrow> distinct (map info_sha256sum ?F)"
    using ps plain_sum_inj [of ?dir] by (auto simp: distinct_map inj_on_def)
  moreover have "\<forall>q \<in> set (map ?path ?F). node q v \<noteq> None \<and> (\<exists>b. node q v = Some (Regular b))" using there by fastforce
  ultimately have cl: "fst (clear_unrelated_files E p ?dir a (c_settings c) ?s) =
      (if distinct (map info_sha256sum ?F) then Inr () else Inl NotFound)"
    using remove_each_result [OF assms(1), of "map ?path ?F" v] unfolding v(1) by auto
  obtain r u where ru: "clear_unrelated_files E p ?dir a (c_settings c) ?s = (r, u)" by fastforce
  have "download_dir_of (c\<lparr>c_sys := t\<rparr>) = ?dir" for t by (simp add: download_dir_of_def)
  then show ?thesis using cl ru
    by (auto simp: handle_download_def start_download_def sys_act_def on_sys_def io_zoom_def io_map_err_def io_simps ia
        split: sum.splits prod.splits if_splits)
qed

definition shared_context :: agent_context where
  "shared_context = example_context\<lparr>
     c_settings := settings_default\<lparr>update := \<lparr>download_dir = ''/d'', supported_install_modes = []\<rparr>\<rparr>,
     c_sys := example_sys\<lparr>files := [(''/d'', Directory), (''/d/61'', Regular ''b'')]\<rparr>\<rparr>"

theorem shared_corrupted_stops_witness:
  "fst (handle_download example_device_env None (package_of [Mender example_object, Mender example_object]) None shared_context) =
     Inl (Fails (TeIo NotFound)) \<and>
   fst (handle_download example_device_env None (package_of [Mender example_object]) None shared_context) \<noteq>
     Inl (Fails (TeIo NotFound))"
proof -
  have s: "c_sys shared_context = example_sys\<lparr>files := [(''/d'', Directory), (''/d/61'', Regular ''b'')]\<rparr>" "download_dir_of shared_context = ''/d''"
    by (simp_all add: shared_context_def download_dir_of_def)
  have f: "fault_free example_device_env" by (simp add: fault_free_def example_device_env_def example_env_def)
  have i: "InstB = other_set (example_slot (device (c_sys shared_context)))" by code_simp
  have d: "node (download_dir_of shared_context) (c_sys shared_context) = Some Directory" "plain_dir (download_dir_of shared_context)" by code_simp+
  have "path_parent ''/d'' \<noteq> Some ''/d''" by code_simp
  then have r: "\<forall>q n. path_parent q = Some (download_dir_of shared_context) \<and> node q (c_sys shared_context) = Some n \<longrightarrow> (\<exists>b. n = Regular b)"
    unfolding s by (auto simp: node_def split: if_splits)
  have n: "\<forall>x \<in> set (objects (package_of xs) InstB). plain_name (info_sha256sum x) \<and> info_sha256sum x \<noteq> ''metadata'' \<and> info_sha256sum x \<noteq> ''signature''"
    if "xs = [Mender example_object, Mender example_object] \<or> xs = [Mender example_object]" for xs
    using that by (elim disjE) (simp, code_simp)+
  note o = shared_corrupted_stops [OF f example_slot_scripts i d r n, of _ None None]
  show ?thesis
    unfolding o [OF disjI1 [OF refl]] o [OF disjI2 [OF refl]] by code_simp
qed

end
