(* ===== verification/UH_Packages.thy ===== *)
theory UH_Packages
  imports UH_Requests
begin

text \<open>
  Where the packages come from that the machine works on: every one was read, by the parser of
  \<open>updatehub-cloud-sdk\<close>, from the bytes its signature and its identity are taken of.
\<close>

section \<open>Properties of the state that the machine holds\<close>

text \<open>
  A property of states that the machine starts with and that transitions, failures and requests
  keep: the machine never holds a state without it.
\<close>

locale state_property =
  fixes E :: env and I :: "state \<Rightarrow> bool"
  assumes start: "I EntryPoint"
    and failure: "I (ErrorState e)"
    and move: "I st \<Longrightarrow> goes_to_start ab \<Longrightarrow> move_to_next_state E ab st c = (Inr (st', tr), d) \<Longrightarrow> I st'"
    and request: "I st \<Longrightarrow> handle_communication E st rq c = (Inr (Some st'), d) \<Longrightarrow> I st'"
begin

lemma answered: "I st \<Longrightarrow> handle_communication E st rq c = (Inr ns, d) \<Longrightarrow> I (case ns of Some st' \<Rightarrow> st' | None \<Rightarrow> st)"
  by (cases ns) (auto intro: request)

lemma consumed: "I st \<Longrightarrow> consume E st rqs c = (Inr st', d) \<Longrightarrow> I st'"
proof (induction rqs arbitrary: st c)
  case (Cons rq rqs)
  obtain ns e f where "handle_communication E st rq e = (Inr ns, f)"
    "consume E (case ns of Some st' \<Rightarrow> st' | None \<Rightarrow> st) rqs f = (Inr st', d)"
    using Cons.prems(2) by (auto elim!: io_then_Inr_E io_bind_Inr_E)
  then show ?case using Cons.IH answered [OF Cons.prems(1)] by blast
qed (simp add: io_return_Inr)

lemma turned:
  assumes "I st" "turn E rqs pos st c = (Inr (st', tr), d)"
  shows "I st'"
  using assms(2)
proof (rule turn_cases)
  fix e s f assume s: "consume_pending E st e = (Inr s, f)"
    and r: "(\<exists>ab g. goes_to_start ab \<and> move_to_next_state E ab s g = (Inr (st', tr), d)) \<or> (\<exists>x. st' = ErrorState x \<and> tr = Immediate)"
  have "I s" using s consumed [OF assms(1)] by (auto simp: consume_pending_def)
  with r show "I st'" using move failure by blast
qed

lemma step: "mstep E cfg cfg' \<Longrightarrow> I (fst (snd cfg)) \<Longrightarrow> I (fst (snd cfg'))"
  by (induction rule: mstep.induct) (auto dest: turned answered)

lemma holds: "reachable E c0 (ph, st, c) \<Longrightarrow> I st"
proof -
  assume r: "reachable E c0 (ph, st, c)"
  have "I (fst (snd cfg))" if "(mstep E)\<^sup>*\<^sup>* (Turning, EntryPoint, c0) cfg" for cfg
    using that by (induction rule: rtranclp_induct) (auto simp: start intro: step)
  then show "I st" using r by (fastforce simp: reachable_def)
qed

end

section \<open>Genuine packages\<close>

text \<open>The package a state is going to install. A state that follows the installation has none.\<close>

fun carried :: "state \<Rightarrow> update_package option" where
  "carried (Validation p g b) = Some p"
| "carried (Download p g) = Some p"
| "carried (Install p ctx) = Some p"
| "carried _ = None"

definition genuine :: "env \<Rightarrow> state \<Rightarrow> bool" where
  "genuine E st \<longleftrightarrow> (\<forall>p. carried st = Some p \<longrightarrow> parse_package E (raw p) = Inr p)"

lemma parse_genuine: "parse_package E b = Inr p \<Longrightarrow> parse_package E (raw p) = Inr p"
  using parse_package_raw by metis

lemma probe_genuine:
  assumes "send_probe E c = (Inr (Update p g), d)"
  shows "parse_package E (raw p) = Inr p"
proof -
  obtain resp where "probe_answer E resp = Inr (Update p g)"
    using assms by (auto simp: send_probe_def on_sys_def probe_def io_simps split: prod.splits sum.splits if_splits)
  then obtain b where "parse_package E b = Inr p"
    by (auto simp: probe_answer_def io_simps split: if_splits option.splits sum.splits)
  then show ?thesis by (rule parse_genuine)
qed

lemma genuine_none [simp]: "carried st = None \<Longrightarrow> genuine E st"
  by (simp add: genuine_def)

lemma probe_state_genuine: "yields (\<lambda>out. genuine E (fst out)) (handle_probe_state E c)"
proof -
  obtain r e where r: "send_probe E c = (r, e)" by fastforce
  show ?thesis
  proof (cases r)
    case (Inl x)
    have "yields (\<lambda>out. genuine E (fst out)) (probe_failed E x e)"
      unfolding probe_failed_def by (intro yield) simp
    then show ?thesis using r Inl
      by (cases x) (simp_all add: handle_probe_state_def io_bind_def io_attempt_def yields_throw)
  next
    case (Inr a)
    have "yields (\<lambda>out. genuine E (fst out)) (probe_done E a t)" for t
    proof (cases a)
      case (Update p g)
      show ?thesis unfolding Update probe_done_def probe_response.case
        by (intro yield) (use probe_genuine r Inr Update in \<open>simp add: genuine_def\<close>)
    next
      case NoUpdate
      show ?thesis unfolding NoUpdate probe_done_def probe_response.case by (intro yield) simp
    next
      case (ExtraPoll n)
      show ?thesis unfolding ExtraPoll probe_done_def probe_response.case by (intro yield) simp
    qed
    then have "yields (\<lambda>out. genuine E (fst out)) (io_then (set_runtime clear_retries) (probe_done E a) e)"
      by (intro yields_then)
    then show ?thesis using r Inr by (simp add: handle_probe_state_def io_bind_def io_attempt_def)
  qed
qed

lemma prepare_genuine:
  assumes "handle_prepare_local_install E f c = (Inr (st', tr), d)"
  shows "genuine E st'"
proof -
  obtain md p sig where "parse_package E md = Inr p" "st' = Validation p (Some sig) False"
    using assms unfolding handle_prepare_local_install_def
    by (auto elim!: io_bind_Inr_E io_then_Inr_E simp: io_lift_Inr io_return_Inr)
  then show ?thesis using parse_genuine by (simp add: genuine_def)
qed

lemma yields_prepare: "yields (\<lambda>out. genuine E (fst out)) (handle_prepare_local_install E f c)"
  by (cases "handle_prepare_local_install E f c") (auto simp: yields_def dest: prepare_genuine)

lemma callback_genuine: "(\<And>c. yields (\<lambda>out. genuine E (fst out)) (handle_inner E ab st c)) \<Longrightarrow>
    yields (\<lambda>out. genuine E (fst out)) (handle_with_callback E ab st c)"
  unfolding handle_with_callback_def by (intro yield) simp_all

lemma move_genuine:
  assumes "genuine E st" "goes_to_start ab" "move_to_next_state E ab st c = (Inr (st', tr), d)"
  shows "genuine E st'"
proof (cases "st = Probe \<or> (\<exists>f. st = PrepareLocalInstall f)")
  case True
  have "yields (\<lambda>out. genuine E (fst out)) (handle_inner E ab st c)" for c
    using True probe_state_genuine yields_prepare by auto
  from yieldsD [OF callback_genuine [OF this]] assms(3) True show ?thesis by auto
next
  case False
  have "successor st st'" using yieldsD [OF leads_move [OF assms(2)] assms(3)] by simp
  then show ?thesis using assms(1) False by (cases st) (auto simp: genuine_def split: if_splits)
qed

text \<open>Of the requests only a probe asks for a state with a package, the one the server sent.\<close>

lemma handle_probe_genuine:
  assumes "handle_probe E st server c = (Inr (r, Some st'), d)"
  shows "genuine E st'"
proof -
  have "is_preemptive_state st" using assms by (cases "is_preemptive_state st") (auto simp: handle_probe_def io_simps)
  let ?F = "\<lambda>a. case a of
           ExtraPoll n \<Rightarrow>
             io_then (say E ''info'' (''server responded with extra poll of '' @ show_int n @ '' seconds''))
               (io_return (Delayed_for n, None))
         | NoUpdate \<Rightarrow>
             io_then (say E ''info'' ''no update is current available for this device'')
             (io_then send_wake (io_then (now_poll E) (io_return (Unavailable, Some EntryPoint))))
         | Update p sig \<Rightarrow>
             io_then (update_received E p)
             (io_then send_wake (io_then (now_poll E)
               (io_return (Available, Some (Validation p sig True)))))"
  have "io_then (begin_probe E server) (io_bind (io_map_err (Fails \<circ> TeClient) (send_probe E)) ?F) c = (Inr (r, Some st'), d)"
    using assms \<open>is_preemptive_state st\<close> by (simp only: handle_probe_def if_True not_True_eq_False if_False)
  then obtain a e f where a: "send_probe E e = (Inr a, f)" and rest: "?F a f = (Inr (r, Some st'), d)"
    by (rule io_then_Inr_E, elim io_bind_Inr_E) (simp only: io_map_err_Inr)
  show ?thesis
  proof (cases a)
    case (Update p g)
    then have "st' = Validation p g True" using rest by (auto simp: io_return_Inr elim!: io_then_Inr_E)
    then show ?thesis using probe_genuine a Update by (simp add: genuine_def)
  qed (use rest in \<open>auto simp: io_return_Inr elim!: io_then_Inr_E\<close>)
qed

lemma request_genuine:
  assumes "request_result E st m c = (Inr (r, Some st'), d)"
  shows "genuine E st'"
proof (cases m)
  case (MsgProbe sv)
  then obtain x where "handle_probe E st sv c = (Inr (x, Some st'), d)"
    using assms by (auto simp: answer_def io_return_Inr elim!: io_bind_Inr_E)
  then show ?thesis by (rule handle_probe_genuine)
qed (use assms in \<open>auto simp: answer_def handle_info_def handle_abort_download_def handle_local_install_def
      handle_remote_install_def io_simps split: if_splits sum.splits prod.splits\<close>)

lemma communication_genuine:
  assumes "handle_communication E st rq c = (Inr (Some st'), d)"
  shows "genuine E st'"
proof -
  obtain r e where "request_result E st (rq_message rq) c = (Inr (r, Some st'), e)"
    using assms by (auto simp: handle_communication_def io_simps split: prod.splits sum.splits stop.splits if_splits)
  then show ?thesis by (rule request_genuine)
qed

interpretation genuine: state_property E "genuine E" for E
  by unfold_locales (auto intro: move_genuine communication_genuine)

section \<open>Properties\<close>

text \<open>C3: What is installed is what was signed: whatever requests came and however they were
  interleaved with the states, the package that the machine installs is the one its parser reads from
  the very bytes that its signature and its identity are taken of, and its objects are well formed:
  blocks of more than one byte, counts that are no negative numbers, modes of 32 bits.\<close>

theorem installs_what_was_signed:
  assumes "reachable E c0 (ph, Install p ctx, c)"
  shows "parse_package E (raw p) = Inr p \<and> (\<forall>a. \<forall>x \<in> set (objects p a). object_ok x)"
proof -
  have p: "parse_package E (raw p) = Inr p" using genuine.holds [OF assms] by (simp add: genuine_def)
  then obtain j where "dec_package j = Some (inner p)"
    by (auto simp: parse_package_def io_simps split: sum.splits option.splits) (metis update_package.select_convs(1))
  then have "object_ok x" if "x \<in> set (objects p a)" for a x
    using dec_package_ok that by (cases a) (auto simp: objects_def)
  with p show ?thesis by blast
qed

theorem installs_what_was_signed_witness:
  "\<exists>c ctx. reachable example_agent_env (example_context\<lparr>c_queue := [local_request]\<rparr>) (Turning, Install example_package ctx, c) \<and>
     parse_package example_agent_env ''m'' = Inr example_package"
proof -
  obtain ctx c where r: "reachable example_agent_env (example_context\<lparr>c_queue := [local_request]\<rparr>)
    (Turning, Install example_package ctx, c)" by (rule example_install_reachable)
  from installs_what_was_signed [OF r] r show ?thesis by (auto simp: example_package_def)
qed

end
