(* ===== verification/UH_Lifecycle.thy ===== *)
theory UH_Lifecycle
  imports UH_Updates "HOL-Library.Sublist"
begin

text \<open>
  The life cycle of an update as a client would draw it, and the proof that the state machine of
  \<open>updatehub/src/states\<close> follows it step by step: whatever requests arrive and however they
  interleave, every change of stage is a move of the life cycle.
\<close>

section \<open>Simulations\<close>

lemma steps_path: "r\<^sup>*\<^sup>* x y \<Longrightarrow> \<exists>p. successively r (p @ [y]) \<and> hd (p @ [y]) = x"
proof (induction rule: rtranclp_induct)
  case base
  then show ?case by (intro exI [of _ "[]"]) simp
next
  case (step y z)
  then obtain p where "successively r (p @ [y])" "hd (p @ [y]) = x" by blast
  with step.hyps(2) show ?case
    by (intro exI [of _ "p @ [y]"]) (auto simp: successively_append_iff hd_append)
qed

text \<open>Each step of the detailed system is one step of the abstract one, or none.\<close>

locale simulation =
  fixes cstep :: "'c \<Rightarrow> 'c \<Rightarrow> bool" and astep :: "'a \<Rightarrow> 'a \<Rightarrow> bool" and abs :: "'c \<Rightarrow> 'a"
  assumes sim: "cstep s t \<Longrightarrow> abs t = abs s \<or> astep (abs s) (abs t)"
begin

lemma run_refines: "successively cstep cs \<Longrightarrow> successively astep (remdups_adj (map abs cs))"
proof (induction cs rule: induct_list012)
  case (3 c d cs)
  then have "successively astep (remdups_adj (map abs (d # cs)))" "abs d = abs c \<or> astep (abs c) (abs d)"
    using sim [of c d] by auto
  moreover obtain rest where "remdups_adj (map abs (d # cs)) = abs d # rest"
    by (metis hd_remdups_adj list.collapse list.simps(8,9) list.distinct(1) list.sel(1) remdups_adj_Nil_iff)
  ultimately show ?case by auto
qed simp_all

end

section \<open>The life cycle\<close>

text \<open>What a client knows of the agent: where it is with which package (its manifest).\<close>

datatype stage = Idle | Fetching | Unpacking | Checking string bool | Downloading string | Installing string
  | Restarting string | Broken

text \<open>
  A client may ask for something else while the agent is idle or checks a package, and may stop a
  download; it can have the agent probe, fetch a package or unpack one. An installation, an
  unpacking, a reboot and the handling of an error are not interrupted.
\<close>

fun open_stage :: "stage \<Rightarrow> bool" where
  "open_stage Idle = True"
| "open_stage (Checking _ _) = True"
| "open_stage (Downloading _) = True"
| "open_stage Fetching = True"
| "open_stage _ = False"

fun on_request :: "stage \<Rightarrow> bool" where
  "on_request Idle = True"
| "on_request (Checking _ b) = b"
| "on_request Fetching = True"
| "on_request Unpacking = True"
| "on_request _ = False"

text \<open>
  What the agent does by itself. \<open>Checking m True\<close> comes before the download of \<open>m\<close>,
  \<open>Checking m False\<close> before its installation.
\<close>

inductive move :: "stage \<Rightarrow> stage \<Rightarrow> bool" where
  offered: "move Idle (Checking m True)"
| download: "move (Checking m True) (Downloading m)"
| downloaded: "move (Downloading m) (Checking m False)"
| fetched: "move Fetching Unpacking"
| unpacked: "move Unpacking (Checking m False)"
| install: "move (Checking m False) (Installing m)"
| installed: "move (Installing m) (Restarting m)"
| ended: "move s Idle"
| failed: "move s Broken"

text \<open>A step: a request is taken up, or the agent moves, or both in one turn.\<close>

inductive life :: "stage \<Rightarrow> stage \<Rightarrow> bool" where
  taken: "open_stage s \<Longrightarrow> on_request t \<Longrightarrow> life s t"
| moved: "move s t \<Longrightarrow> life s t"
| taken_moved: "open_stage s \<Longrightarrow> on_request r \<Longrightarrow> move r t \<Longrightarrow> life s t"

inductive_cases move_to: "move s (Installing m)" "move s (Restarting m)" "move s (Downloading m)" "move s (Checking m False)"
inductive_cases move_from: "move (Installing m) t" "move (Restarting m) t" "move Broken t"

lemma life_to_Installing: "life s (Installing m) \<longleftrightarrow> s = Checking m False"
  by (auto simp: life.simps elim: move_to intro: move.intros)

lemma life_to_Restarting: "life s (Restarting m) \<longleftrightarrow> s = Installing m"
  by (auto simp: life.simps elim: move_to intro: move.intros)

lemma life_to_Downloading: "life s (Downloading m) \<longleftrightarrow> s = Checking m True \<or> open_stage s"
  by (auto simp: life.simps elim: move_to intro: move.intros exI [of _ "Checking m True"])

lemma life_to_Checking: "life s (Checking m False) \<longleftrightarrow> s = Downloading m \<or> s = Unpacking \<or> open_stage s"
  by (auto simp: life.simps elim: move_to intro: move.intros exI [of _ Unpacking])

lemma life_from:
  "life (Installing m) t \<longleftrightarrow> t = Restarting m \<or> t = Idle \<or> t = Broken"
  "life (Restarting m) t \<longleftrightarrow> t = Idle \<or> t = Broken"
  by (auto simp: life.simps elim: move_from intro: move.intros)

text \<open>The order that the life cycle imposes on neighbouring stages.\<close>

lemma life_order: "life s t \<Longrightarrow>
   (\<forall>m. t = Restarting m \<longrightarrow> s = Installing m) \<and> (\<forall>m. t = Installing m \<longrightarrow> s = Checking m False) \<and>
   (\<forall>m. t = Checking m False \<longrightarrow> s = Downloading m \<or> s = Unpacking \<or> open_stage s) \<and>
   (\<forall>m. t = Downloading m \<longrightarrow> s = Checking m True \<or> open_stage s) \<and>
   (\<forall>m. s = Installing m \<longrightarrow> t = Restarting m \<or> t = Idle \<or> t = Broken) \<and>
   (\<forall>m. s = Restarting m \<longrightarrow> t = Idle \<or> t = Broken)"
  using life_to_Restarting life_to_Installing life_to_Checking life_to_Downloading life_from by auto

fun stage_of :: "state \<Rightarrow> stage" where
  "stage_of (Validation p _ b) = Checking (raw p) b"
| "stage_of (Download p _) = Downloading (raw p)"
| "stage_of (Install p _) = Installing (raw p)"
| "stage_of (Reboot p) = Restarting (raw p)"
| "stage_of (DirectDownload _) = Fetching"
| "stage_of (PrepareLocalInstall _) = Unpacking"
| "stage_of (ErrorState _) = Broken"
| "stage_of _ = Idle"

section \<open>The machine follows it\<close>

lemma raw_with_objects [simp]: "raw (with_objects a xs p) = raw p"
  by (simp add: with_objects_def)

lemma successor_move: "successor st t \<Longrightarrow> move (stage_of st) (stage_of t)"
  by (cases st) (auto split: if_splits intro: move.intros)

text \<open>A request moves the machine only out of a state that takes requests, or ends a download.\<close>

lemma request_moves:
  assumes "request_result E st m c = (Inr (r, Some st'), d)"
  shows "is_preemptive_state st \<or> is_handling_download st \<and> st' = EntryPoint"
proof (cases m)
  case (MsgProbe sv)
  then show ?thesis using assms
    by (cases "is_preemptive_state st") (auto simp: answer_def handle_probe_def io_simps)
qed (use assms in \<open>auto simp: answer_def handle_info_def handle_abort_download_def handle_local_install_def
      handle_remote_install_def io_simps split: if_splits sum.splits prod.splits\<close>)

lemma communication_moves:
  assumes "handle_communication E st rq c = (Inr (Some st'), d)"
  shows "open_stage (stage_of st) \<and> on_request (stage_of st')"
proof -
  obtain r e where "request_result E st (rq_message rq) c = (Inr (r, Some st'), e)"
    using assms by (auto simp: handle_communication_def io_simps split: prod.splits sum.splits stop.splits if_splits)
  from request_moves [OF this] have "open_stage (stage_of st)" by (cases st) auto
  moreover have "requested (Some st')" using yieldsD [OF requested_communication assms] .
  then have "on_request (stage_of st')" by (cases st') auto
  ultimately show ?thesis ..
qed

abbreviation taken_up :: "stage \<Rightarrow> stage \<Rightarrow> bool" where
  "taken_up s t \<equiv> t = s \<or> open_stage s \<and> on_request t"

lemma communication_life:
  "handle_communication E st rq c = (Inr ns, d) \<Longrightarrow> taken_up (stage_of st) (stage_of (case ns of Some st' \<Rightarrow> st' | None \<Rightarrow> st))"
  by (cases ns) (auto dest: communication_moves)

lemma consume_life: "consume E st rqs c = (Inr st', d) \<Longrightarrow> taken_up (stage_of st) (stage_of st')"
proof (induction rqs arbitrary: st c)
  case (Cons rq rqs)
  obtain ns e f where "handle_communication E st rq e = (Inr ns, f)"
    "consume E (case ns of Some st' \<Rightarrow> st' | None \<Rightarrow> st) rqs f = (Inr st', d)"
    using Cons.prems by (auto elim!: io_then_Inr_E io_bind_Inr_E)
  from communication_life [OF this(1)] Cons.IH [OF this(2)] show ?case by auto
qed (simp add: io_return_Inr)

lemma turn_life:
  assumes "turn E rqs at st c = (Inr (st', tr), d)"
  shows "life (stage_of st) (stage_of st')"
  using assms
proof (rule turn_cases)
  fix e s f assume s: "consume_pending E st e = (Inr s, f)"
    and r: "(\<exists>ab g. goes_to_start ab \<and> move_to_next_state E ab s g = (Inr (st', tr), d)) \<or> (\<exists>x. st' = ErrorState x \<and> tr = Immediate)"
  have "taken_up (stage_of st) (stage_of s)" using s consume_life by (auto simp: consume_pending_def)
  moreover have "move (stage_of s) (stage_of st')"
    using r by (auto dest!: yieldsD [OF leads_move] intro: successor_move move.failed)
  ultimately show ?thesis by (auto intro: life.intros)
qed

definition config_stage :: "config \<Rightarrow> stage" where
  "config_stage cfg = stage_of (fst (snd cfg))"

lemma step_life: "mstep E cfg cfg' \<Longrightarrow> config_stage cfg' = config_stage cfg \<or> life (config_stage cfg) (config_stage cfg')"
  by (induction rule: mstep.induct) (auto simp: config_stage_def dest: turn_life communication_life intro: life.taken)

interpretation machine: simulation "mstep E" life config_stage for E
  by unfold_locales (rule step_life)

lemma successively_nth: "successively r (us @ [s, t] @ vs) \<Longrightarrow> r s t"
  by (auto simp: successively_append_iff)

section \<open>Properties\<close>

text \<open>C4: Every change of stage of the machine is one step of the life cycle, whatever the run: a
  package is rebooted into only from its own installation, installed only from its own check
  before an installation, and an installation or a reboot is left only forwards, to the start or
  by an error. That check follows its download, or an unpacking, or a request that was taken up
  in the same turn while the agent was open to it; and a download follows its own check or such a
  request.\<close>

theorem machine_refines_life:
  assumes "successively (mstep E) cfgs"
  shows "successively life (remdups_adj (map config_stage cfgs)) \<and>
    (\<forall>us s t vs. remdups_adj (map config_stage cfgs) = us @ [s, t] @ vs \<longrightarrow>
       (\<forall>m. t = Restarting m \<longrightarrow> s = Installing m) \<and> (\<forall>m. t = Installing m \<longrightarrow> s = Checking m False) \<and>
       (\<forall>m. t = Checking m False \<longrightarrow> s = Downloading m \<or> s = Unpacking \<or> open_stage s) \<and>
       (\<forall>m. t = Downloading m \<longrightarrow> s = Checking m True \<or> open_stage s) \<and>
       (\<forall>m. s = Installing m \<longrightarrow> t = Restarting m \<or> t = Idle \<or> t = Broken) \<and>
       (\<forall>m. s = Restarting m \<longrightarrow> t = Idle \<or> t = Broken))"
proof -
  have r: "successively life (remdups_adj (map config_stage cfgs))" using assms by (rule machine.run_refines)
  have l: "life s t" if "remdups_adj (map config_stage cfgs) = us @ [s, t] @ vs" for us s t vs
    using r that successively_nth by metis
  show ?thesis by (intro conjI [OF r] allI impI life_order l)
qed

theorem machine_refines_life_witness:
  "\<exists>cfgs us. successively (mstep unquoted_env) cfgs \<and> fst (snd (hd cfgs)) = EntryPoint \<and>
     (\<exists>m. remdups_adj (map config_stage cfgs) = us @ [Checking m False, Installing m])"
proof -
  obtain p ctx c where r: "reachable unquoted_env unquoted_context (Turning, Install p ctx, c)" by (rule unquoted_install)
  obtain cs where cs: "successively (mstep unquoted_env) (cs @ [(Turning, Install p ctx, c)])"
    "hd (cs @ [(Turning, Install p ctx, c)]) = (Turning, EntryPoint, unquoted_context)"
    using steps_path [OF r [unfolded reachable_def]] by blast
  let ?ss = "remdups_adj (map config_stage (cs @ [(Turning, Install p ctx, c)]))"
  have i: "last ?ss = Installing (raw p)" "?ss \<noteq> []" by (simp_all add: config_stage_def)
  have "hd ?ss = Idle" using cs(2) by (cases cs) (auto simp: config_stage_def)
  then obtain us s where us: "?ss = us @ [s, Installing (raw p)]"
    using i by (metis append_butlast_last_id append_assoc append_Cons append_Nil list.sel(1) stage.distinct(9))
  then have "?ss = us @ [s, Installing (raw p)] @ []" by simp
  with machine_refines_life [OF cs(1)] have "s = Checking (raw p) False" by blast
  then show ?thesis using cs us by (intro exI [of _ "cs @ [(Turning, Install p ctx, c)]"] exI [of _ us]) auto
qed

end
