(* ===== verification/UH_Sdk.thy ===== *)
theory UH_Sdk
  imports UH_States
begin

text \<open>
  \<open>updatehub-sdk/src/api\<close>, \<open>client.rs\<close> and \<open>error.rs\<close>: the bodies of the requests and answers of
  the agent's HTTP API, with the JSON they are read from and written to, and the client that sends
  the requests. The transport is a parameter: \<open>send\<close> delivers a request and brings the reply.
\<close>

section \<open>A codec\<close>

text \<open>
  What a pair of derived \<open>Serialize\<close> and \<open>Deserialize\<close> implementations promises on the values
  \<open>good\<close> describes.
\<close>

locale json_codec =
  fixes enc :: "'a \<Rightarrow> json" and dec :: "json \<Rightarrow> 'a option" and good :: "'a \<Rightarrow> bool"
  assumes dec_enc: "good x \<Longrightarrow> dec (enc x) = Some x"
begin

lemma enc_eqD: "enc x = enc y \<Longrightarrow> good x \<Longrightarrow> good y \<Longrightarrow> x = y"
  by (metis dec_enc option.inject)

lemma dec_list_enc: "list_all good xs \<Longrightarrow> dec_list dec (JArr (map enc xs)) = Some xs"
  by (induction xs) (simp_all add: dec_enc)

end

section \<open>Bodies\<close>

text \<open>\<open>probe\<close>.\<close>

record probe_request =
  custom_server :: string

definition enc_probe_request :: "probe_request \<Rightarrow> json" where
  "enc_probe_request q = JObj [(''custom_server'', JStr (custom_server q))]"

definition dec_probe_request :: "json \<Rightarrow> probe_request option" where
  "dec_probe_request j = do {
     m \<leftarrow> struct_fields True [''custom_server''] j;
     s \<leftarrow> field m ''custom_server'' dec_str;
     Some \<lparr>custom_server = s\<rparr> }"

datatype probe_result = Updating | NoUpdateNow | TryAgain int

fun enc_probe_answer :: "probe_result \<Rightarrow> json" where
  "enc_probe_answer Updating = JStr ''updating''"
| "enc_probe_answer NoUpdateNow = JStr ''no_update''"
| "enc_probe_answer (TryAgain n) = JObj [(''try_again'', JNum n)]"

definition in_i64 :: "int \<Rightarrow> bool" where
  "in_i64 n \<longleftrightarrow> - (2 ^ 63) \<le> n \<and> n < 2 ^ 63"

fun dec_i64 :: "json \<Rightarrow> int option" where
  "dec_i64 (JNum n) = (if in_i64 n then Some n else None)"
| "dec_i64 _ = None"

fun dec_probe_answer :: "json \<Rightarrow> probe_result option" where
  "dec_probe_answer (JObj [(k, v)]) =
     (if k = ''try_again'' then map_option TryAgain (dec_i64 v)
      else dec_unit_variant [(''updating'', Updating), (''no_update'', NoUpdateNow)] (JObj [(k, v)]))"
| "dec_probe_answer j = dec_unit_variant [(''updating'', Updating), (''no_update'', NoUpdateNow)] j"

text \<open>\<open>local_install\<close> and \<open>remote_install\<close>.\<close>

record local_install_request =
  install_file :: string

definition enc_local_install :: "local_install_request \<Rightarrow> json" where
  "enc_local_install q = JObj [(''file'', JStr (install_file q))]"

definition dec_local_install :: "json \<Rightarrow> local_install_request option" where
  "dec_local_install j = do {
     m \<leftarrow> struct_fields True [''file''] j;
     f \<leftarrow> field m ''file'' dec_str;
     Some \<lparr>install_file = f\<rparr> }"

record remote_install_request =
  install_url :: string

definition enc_remote_install :: "remote_install_request \<Rightarrow> json" where
  "enc_remote_install q = JObj [(''url'', JStr (install_url q))]"

definition dec_remote_install :: "json \<Rightarrow> remote_install_request option" where
  "dec_remote_install j = do {
     m \<leftarrow> struct_fields True [''url''] j;
     u \<leftarrow> field m ''url'' dec_str;
     Some \<lparr>install_url = u\<rparr> }"

text \<open>\<open>state\<close>, with the names \<open>rename_all = "lowercase"\<close> gives.\<close>

datatype api_state = ApiPark | ApiEntryPoint | ApiPoll | ApiProbe | ApiValidation | ApiDownload
  | ApiInstall | ApiReboot | ApiDirectDownload | ApiPrepareLocalInstall | ApiError

definition api_states :: "(string \<times> api_state) list" where
  "api_states = [(''park'', ApiPark), (''entrypoint'', ApiEntryPoint), (''poll'', ApiPoll),
     (''probe'', ApiProbe), (''validation'', ApiValidation), (''download'', ApiDownload),
     (''install'', ApiInstall), (''reboot'', ApiReboot), (''directdownload'', ApiDirectDownload),
     (''preparelocalinstall'', ApiPrepareLocalInstall), (''error'', ApiError)]"

fun api_state_name :: "api_state \<Rightarrow> string" where
  "api_state_name ApiPark = ''park''"
| "api_state_name ApiEntryPoint = ''entrypoint''"
| "api_state_name ApiPoll = ''poll''"
| "api_state_name ApiProbe = ''probe''"
| "api_state_name ApiValidation = ''validation''"
| "api_state_name ApiDownload = ''download''"
| "api_state_name ApiInstall = ''install''"
| "api_state_name ApiReboot = ''reboot''"
| "api_state_name ApiDirectDownload = ''directdownload''"
| "api_state_name ApiPrepareLocalInstall = ''preparelocalinstall''"
| "api_state_name ApiError = ''error''"

definition enc_api_state :: "api_state \<Rightarrow> json" where
  "enc_api_state s = JStr (api_state_name s)"

definition dec_api_state :: "json \<Rightarrow> api_state option" where
  "dec_api_state = dec_unit_variant api_states"

text \<open>\<open>abort_download\<close>.\<close>

record abort_response =
  abort_message :: string

definition enc_abort_response :: "abort_response \<Rightarrow> json" where
  "enc_abort_response r = JObj [(''message'', JStr (abort_message r))]"

record abort_refused =
  abort_error :: string

definition enc_refused :: "abort_refused \<Rightarrow> json" where
  "enc_refused r = JObj [(''error'', JStr (abort_error r))]"

definition dec_refused :: "json \<Rightarrow> abort_refused option" where
  "dec_refused j = do {
     m \<leftarrow> struct_fields True [''error''] j;
     e \<leftarrow> field m ''error'' dec_str;
     Some \<lparr>abort_error = e\<rparr> }"

section \<open>The log\<close>

datatype api_level = LvCritical | LvError | LvWarning | LvInfo | LvDebug | LvTrace

text \<open>The names in lower case, and the aliases.\<close>

definition api_levels :: "(string \<times> api_level) list" where
  "api_levels = [(''critical'', LvCritical), (''crit'', LvCritical), (''error'', LvError), (''erro'', LvError),
     (''warning'', LvWarning), (''warn'', LvWarning), (''info'', LvInfo),
     (''debug'', LvDebug), (''debg'', LvDebug), (''trace'', LvTrace), (''trce'', LvTrace)]"

fun level_text :: "api_level \<Rightarrow> string" where
  "level_text LvCritical = ''CRIT''"
| "level_text LvError = ''ERRO''"
| "level_text LvWarning = ''WARN''"
| "level_text LvInfo = ''INFO''"
| "level_text LvDebug = ''DEBG''"
| "level_text LvTrace = ''TRCE''"

record api_entry =
  e_level :: api_level
  e_message :: string
  e_time :: string
  e_data :: "string \<rightharpoonup> string"

record api_log =
  log_entries :: "api_entry list"
  log_first :: nat

text \<open>A \<open>HashMap<String, String>\<close>: the last of the entries with a key stays.\<close>

fun dec_str_map :: "json \<Rightarrow> (string \<rightharpoonup> string) option" where
  "dec_str_map (JObj kvs) = map_option (\<lambda>l. map_of (rev l)) (those (map (\<lambda>(k, v). map_option (Pair k) (dec_str v)) kvs))"
| "dec_str_map _ = None"

definition dec_entry :: "json \<Rightarrow> api_entry option" where
  "dec_entry j = do {
     m \<leftarrow> struct_fields True [''level'', ''message'', ''time'', ''data''] j;
     l \<leftarrow> field m ''level'' (dec_unit_variant api_levels);
     x \<leftarrow> field m ''message'' dec_str;
     t \<leftarrow> field m ''time'' dec_str;
     d \<leftarrow> field m ''data'' dec_str_map;
     Some \<lparr>e_level = l, e_message = x, e_time = t, e_data = d\<rparr> }"

text \<open>A defaulted last field may be missing from the positional form too.\<close>

definition dec_log :: "json \<Rightarrow> api_log option" where
  "dec_log j = do {
     m \<leftarrow> struct_fields False [''entries'', ''first_index'']
            (case j of JArr [es] \<Rightarrow> JArr [es, JNum 0] | _ \<Rightarrow> j);
     es \<leftarrow> field m ''entries'' (dec_list dec_entry);
     i \<leftarrow> default_field m ''first_index'' (dec_nat (2 ^ 64 - 1)) 0;
     Some \<lparr>log_entries = es, log_first = i\<rparr> }"

definition entry_text :: "api_entry \<Rightarrow> string" where
  "entry_text e = e_time e @ '' '' @ level_text (e_level e) @ '' '' @ e_message e"

definition log_text :: "api_log \<Rightarrow> string" where
  "log_text l = concat (map (\<lambda>e. entry_text e @ [newline]) (log_entries l))"

section \<open>Information on the agent\<close>

definition enc_fw_value :: "metadata_value \<Rightarrow> json" where
  "enc_fw_value m = JObj (map (\<lambda>(k, vs). (k, case vs of [v] \<Rightarrow> JStr v | _ \<Rightarrow> JArr (map JStr vs))) m)"

fun dec_fw_entry :: "json \<Rightarrow> string list option" where
  "dec_fw_entry (JStr s) = Some [s]"
| "dec_fw_entry j = dec_list dec_str j"

text \<open>\<open>BTreeMap::insert\<close>.\<close>

fun mv_insert :: "string \<Rightarrow> string list \<Rightarrow> metadata_value \<Rightarrow> metadata_value" where
  "mv_insert k vs [] = [(k, vs)]"
| "mv_insert k vs ((k', vs') # m) =
     (if k = k' then (k', vs) # m
      else if k < k' then (k, vs) # (k', vs') # m
      else (k', vs') # mv_insert k vs m)"

fun dec_fw_entries :: "(string \<times> json) list \<Rightarrow> metadata_value \<Rightarrow> metadata_value option" where
  "dec_fw_entries [] m = Some m"
| "dec_fw_entries ((k, j) # kvs) m =
     (case dec_fw_entry j of None \<Rightarrow> None | Some vs \<Rightarrow> dec_fw_entries kvs (mv_insert k vs m))"

fun dec_fw_value :: "json \<Rightarrow> metadata_value option" where
  "dec_fw_value (JObj kvs) = dec_fw_entries kvs []"
| "dec_fw_value _ = None"

definition enc_firmware :: "metadata \<Rightarrow> json" where
  "enc_firmware f = JObj [(''product_uid'', JStr (product_uid f)), (''version'', JStr (fw_version f)),
     (''hardware'', JStr (hardware f)),
     (''pub_key'', case pub_key f of None \<Rightarrow> JNull | Some k \<Rightarrow> JStr k),
     (''device_identity'', enc_fw_value (device_identity f)),
     (''device_attributes'', enc_fw_value (device_attributes f))]"

definition dec_firmware :: "json \<Rightarrow> metadata option" where
  "dec_firmware j = do {
     m \<leftarrow> struct_fields True [''product_uid'', ''version'', ''hardware'', ''pub_key'',
            ''device_identity'', ''device_attributes''] j;
     u \<leftarrow> field m ''product_uid'' dec_str;
     v \<leftarrow> field m ''version'' dec_str;
     h \<leftarrow> field m ''hardware'' dec_str;
     k \<leftarrow> opt_field m ''pub_key'' dec_str;
     i \<leftarrow> field m ''device_identity'' dec_fw_value;
     a \<leftarrow> field m ''device_attributes'' dec_fw_value;
     Some \<lparr>product_uid = u, fw_version = v, hardware = h, pub_key = k, device_identity = i,
       device_attributes = a\<rparr> }"

record api_info =
  ai_state :: string
  ai_version :: string
  ai_config :: settings
  ai_firmware :: metadata
  ai_runtime :: runtime_settings

definition enc_info :: "env \<Rightarrow> api_info \<Rightarrow> json" where
  "enc_info E i = JObj [(''state'', JStr (ai_state i)), (''version'', JStr (ai_version i)),
     (''config'', enc_settings (ai_config i)), (''firmware'', enc_firmware (ai_firmware i)),
     (''runtime_settings'', enc_rs E (ai_runtime i))]"

definition dec_info :: "env \<Rightarrow> json \<Rightarrow> api_info option" where
  "dec_info E j = do {
     m \<leftarrow> struct_fields True [''state'', ''version'', ''config'', ''firmware'', ''runtime_settings''] j;
     s \<leftarrow> field m ''state'' dec_str;
     v \<leftarrow> field m ''version'' dec_str;
     c \<leftarrow> field m ''config'' (dec_settings E);
     f \<leftarrow> field m ''firmware'' dec_firmware;
     r \<leftarrow> field m ''runtime_settings'' (dec_rs E);
     Some \<lparr>ai_state = s, ai_version = v, ai_config = c, ai_firmware = f, ai_runtime = r\<rparr> }"

section \<open>The client\<close>

datatype sdk_error = AgentIsBusy api_state | AbortDownloadRefused abort_refused
  | UnexpectedResponse nat | SdkClient string | SdkIo io_error | SdkEnv

record sdk_client =
  client_server :: string

definition client_default :: sdk_client where
  "client_default = \<lparr>client_server = ''http://localhost:8080''\<rparr>"

definition client_new :: "string \<Rightarrow> sdk_client" where
  "client_new a = client_default\<lparr>client_server := ''http://'' @ a\<rparr>"

record http_reply =
  reply_status :: nat
  reply_body :: string

definition client_get :: "sdk_client \<Rightarrow> string \<Rightarrow> http_request" where
  "client_get c path = \<lparr>req_method = GET, req_url = client_server c @ path, req_headers = [], req_body = None\<rparr>"

definition client_post :: "sdk_client \<Rightarrow> string \<Rightarrow> json option \<Rightarrow> http_request" where
  "client_post c path body =
     \<lparr>req_method = POST, req_url = client_server c @ path, req_headers = [], req_body = body\<rparr>"

text \<open>\<open>response.json().await?\<close>.\<close>

definition reply_json :: "env \<Rightarrow> (json \<Rightarrow> 'a option) \<Rightarrow> http_reply \<Rightarrow> sdk_error + 'a" where
  "reply_json E d r = (case json_parse E (reply_body r) of
      Inl e \<Rightarrow> Inl (SdkClient e)
    | Inr j \<Rightarrow> ok_or (SdkClient ''invalid value'') (d j))"

definition info_answer :: "env \<Rightarrow> http_reply \<Rightarrow> sdk_error + api_info" where
  "info_answer E r = (if reply_status r = 200 then reply_json E (dec_info E) r
     else Inl (UnexpectedResponse (reply_status r)))"

definition busy_answer :: "env \<Rightarrow> http_reply \<Rightarrow> sdk_error + 'a" where
  "busy_answer E r = res_bind (reply_json E dec_api_state r) (\<lambda>s. Inl (AgentIsBusy s))"

definition probe_answer_of :: "env \<Rightarrow> http_reply \<Rightarrow> sdk_error + probe_result" where
  "probe_answer_of E r = (if reply_status r = 200 then reply_json E dec_probe_answer r
     else if reply_status r = 406 then busy_answer E r
     else Inl (UnexpectedResponse (reply_status r)))"

definition local_install_answer :: "env \<Rightarrow> http_reply \<Rightarrow> sdk_error + api_state" where
  "local_install_answer E r = (if reply_status r = 200 then reply_json E dec_api_state r
     else if reply_status r = 406 then busy_answer E r
     else Inl (UnexpectedResponse (reply_status r)))"

definition remote_install_answer :: "env \<Rightarrow> http_reply \<Rightarrow> sdk_error + api_state" where
  "remote_install_answer E r = (if reply_status r = 200 then reply_json E dec_api_state r
     else Inl (UnexpectedResponse (reply_status r)))"

definition abort_answer :: "env \<Rightarrow> http_reply \<Rightarrow> sdk_error + api_state" where
  "abort_answer E r = (if reply_status r = 200 then reply_json E dec_api_state r
     else if reply_status r = 406 then res_bind (reply_json E dec_refused r) (\<lambda>x. Inl (AbortDownloadRefused x))
     else Inl (UnexpectedResponse (reply_status r)))"

definition log_answer :: "env \<Rightarrow> http_reply \<Rightarrow> sdk_error + api_log" where
  "log_answer E r = (if reply_status r = 200 then reply_json E dec_log r
     else Inl (UnexpectedResponse (reply_status r)))"

text \<open>A call: the request is sent, and its reply is read.\<close>

type_synonym 's transport = "http_request \<Rightarrow> ('s, string, http_reply) io"

definition client_call :: "'s transport \<Rightarrow> http_request \<Rightarrow> (http_reply \<Rightarrow> sdk_error + 'a) \<Rightarrow> ('s, sdk_error, 'a) io" where
  "client_call send rq f = io_bind (io_map_err SdkClient (send rq)) (\<lambda>r. io_lift (f r))"

definition client_info :: "env \<Rightarrow> 's transport \<Rightarrow> sdk_client \<Rightarrow> ('s, sdk_error, api_info) io" where
  "client_info E send c = client_call send (client_get c ''/info'') (info_answer E)"

definition client_probe :: "env \<Rightarrow> 's transport \<Rightarrow> sdk_client \<Rightarrow> string option \<Rightarrow> ('s, sdk_error, probe_result) io" where
  "client_probe E send c custom = client_call send
     (client_post c ''/probe'' (map_option (\<lambda>a. enc_probe_request \<lparr>custom_server = a\<rparr>) custom)) (probe_answer_of E)"

definition client_local_install :: "env \<Rightarrow> 's transport \<Rightarrow> sdk_client \<Rightarrow> string \<Rightarrow> ('s, sdk_error, api_state) io" where
  "client_local_install E send c path = client_call send
     (client_post c ''/local_install'' (Some (enc_local_install \<lparr>install_file = path\<rparr>))) (local_install_answer E)"

definition client_remote_install :: "env \<Rightarrow> 's transport \<Rightarrow> sdk_client \<Rightarrow> string \<Rightarrow> ('s, sdk_error, api_state) io" where
  "client_remote_install E send c u = client_call send
     (client_post c ''/remote_install'' (Some (enc_remote_install \<lparr>install_url = u\<rparr>))) (remote_install_answer E)"

definition client_abort_download :: "env \<Rightarrow> 's transport \<Rightarrow> sdk_client \<Rightarrow> ('s, sdk_error, api_state) io" where
  "client_abort_download E send c =
     client_call send (client_post c ''/update/download/abort'' None) (abort_answer E)"

definition client_log :: "env \<Rightarrow> 's transport \<Rightarrow> sdk_client \<Rightarrow> ('s, sdk_error, api_log) io" where
  "client_log E send c = client_call send (client_get c ''/log'') (log_answer E)"

section \<open>The codecs keep what they encode\<close>

interpretation probe_request_codec: json_codec enc_probe_request dec_probe_request "\<lambda>_. True"
  by unfold_locales (simp add: enc_probe_request_def dec_probe_request_def struct_fields_def field_def)

interpretation probe_answer_codec: json_codec enc_probe_answer dec_probe_answer
  "\<lambda>a. case a of TryAgain n \<Rightarrow> in_i64 n | _ \<Rightarrow> True"
  by unfold_locales (auto split: probe_result.splits)

interpretation local_install_codec: json_codec enc_local_install dec_local_install "\<lambda>_. True"
  by unfold_locales (simp add: enc_local_install_def dec_local_install_def struct_fields_def field_def)

interpretation remote_install_codec: json_codec enc_remote_install dec_remote_install "\<lambda>_. True"
  by unfold_locales (simp add: enc_remote_install_def dec_remote_install_def struct_fields_def field_def)

interpretation api_state_codec: json_codec enc_api_state dec_api_state "\<lambda>_. True"
proof
  show "dec_api_state (enc_api_state s) = Some s" for s
    by (cases s) (simp_all add: enc_api_state_def dec_api_state_def api_states_def)
qed

interpretation refused_codec: json_codec enc_refused dec_refused "\<lambda>_. True"
  by unfold_locales (simp add: enc_refused_def dec_refused_def struct_fields_def field_def)

lemma mv_insert_last: "\<forall>k' \<in> set (map fst m). k' < k \<Longrightarrow> mv_insert k vs m = m @ [(k, vs)]"
  by (induction m) (auto dest: less_asym)

lemma dec_fw_entry_enc [simp]: "dec_fw_entry (case vs of [v] \<Rightarrow> JStr v | _ \<Rightarrow> JArr (map JStr vs)) = Some vs"
  by (auto split: list.splits)

lemma dec_fw_entries_enc:
  "mv_sorted (acc @ m) \<Longrightarrow>
   dec_fw_entries (map (\<lambda>(k, vs). (k, case vs of [v] \<Rightarrow> JStr v | _ \<Rightarrow> JArr (map JStr vs))) m) acc = Some (acc @ m)"
proof (induction m arbitrary: acc)
  case (Cons e m)
  obtain k vs where e: "e = (k, vs)" by fastforce
  have "mv_insert k vs acc = acc @ [(k, vs)]"
    using Cons.prems e by (intro mv_insert_last) (auto simp: mv_sorted_def sorted_wrt_append)
  then show ?case using Cons.IH [of "acc @ [e]"] Cons.prems e by (simp del: dec_fw_entry.simps)
qed simp

interpretation fw_value_codec: json_codec enc_fw_value dec_fw_value mv_sorted
  by unfold_locales (simp add: enc_fw_value_def dec_fw_entries_enc)

interpretation firmware_codec: json_codec enc_firmware dec_firmware
  "\<lambda>f. mv_sorted (device_identity f) \<and> mv_sorted (device_attributes f)"
  by unfold_locales (auto simp: enc_firmware_def dec_firmware_def struct_fields_def field_def opt_field_def
      fw_value_codec.dec_enc split: option.splits)

definition info_ok :: "env \<Rightarrow> api_info \<Rightarrow> bool" where
  "info_ok E i \<longleftrightarrow> mv_sorted (device_identity (ai_firmware i)) \<and> mv_sorted (device_attributes (ai_firmware i)) \<and>
     duration_of_text E (duration_text (interval (polling (ai_config i)))) = Some (interval (polling (ai_config i))) \<and>
     time_parse E (time_text E (last_poll (rs_polling (ai_runtime i)))) = Some (last_poll (rs_polling (ai_runtime i))) \<and>
     v1_content (ai_runtime i) = None"

interpretation info_codec: json_codec "enc_info E" "dec_info E" "info_ok E" for E
  by unfold_locales (simp add: enc_info_def dec_info_def struct_fields_def field_def info_ok_def
      dec_enc_settings firmware_codec.dec_enc dec_enc_rs)

end
