(* ===== verification/UH_Listener.thy ===== *)
theory UH_Listener
  imports UH_Sdk
begin

text \<open>
  \<open>updatehub-sdk/src/listener.rs\<close>: the program that is told of the agent's changes of state on a
  socket and may cancel them. A connection is what arrived on it and what was written to it; a
  callback is an action on it. The trigger that connects the agent's callback to the socket is not
  part of the repository.
\<close>

section \<open>States\<close>

datatype listener_state = LsProbe | LsDownload | LsInstall | LsReboot | LsError

definition listener_state_from_str :: "string \<Rightarrow> io_error + listener_state" where
  "listener_state_from_str s =
     (if s = ''probe'' then Inr LsProbe
      else if s = ''download'' then Inr LsDownload
      else if s = ''install'' then Inr LsInstall
      else if s = ''reboot'' then Inr LsReboot
      else if s = ''error'' then Inr LsError
      else Inl InvalidInput)"

definition SDK_TRIGGER_FILENAME :: string where
  "SDK_TRIGGER_FILENAME = ''/usr/share/updatehub/state-change-callbacks.d/10-updatehub-sdk-statechange-trigger''"

definition SOCKET_PATH :: string where
  "SOCKET_PATH = ''/run/updatehub-statechange.sock''"

section \<open>Handlers\<close>

text \<open>A connection, with the errors reading from it and writing to it end with.\<close>

record stream =
  inbound :: string
  outbound :: string
  read_error :: "io_error option"
  write_error :: "io_error option"

type_synonym callback = "(stream, sdk_error, unit) io"

definition handler_cancel :: callback where
  "handler_cancel = (\<lambda>s. case write_error s of
      Some e \<Rightarrow> (Inl (SdkIo e), s)
    | None \<Rightarrow> (Inr (), s\<lparr>outbound := outbound s @ ''cancel''\<rparr>))"

definition handler_proceed :: callback where
  "handler_proceed = io_return ()"

section \<open>The listener\<close>

type_synonym state_change = "listener_state \<Rightarrow> callback list option"

definition state_change_new :: state_change where
  "state_change_new = (\<lambda>_. None)"

definition on_state :: "listener_state \<Rightarrow> callback \<Rightarrow> state_change \<Rightarrow> state_change" where
  "on_state st f m = m(st \<mapsto> (case m st of None \<Rightarrow> [] | Some fs \<Rightarrow> fs) @ [f])"

definition emit :: "state_change \<Rightarrow> string \<Rightarrow> callback" where
  "emit m input = io_bind (io_lift (res_map_err SdkIo (listener_state_from_str input))) (\<lambda>st.
     case m st of None \<Rightarrow> io_return () | Some fs \<Rightarrow> io_each id fs)"

definition read_line :: "string \<Rightarrow> string" where
  "read_line s = takeWhile (\<lambda>c. c \<noteq> newline) s @ take 1 (dropWhile (\<lambda>c. c \<noteq> newline) s)"

definition handle_connection :: "state_change \<Rightarrow> callback" where
  "handle_connection m = (\<lambda>s. case read_error s of
      Some e \<Rightarrow> (Inl (SdkIo e), s)
    | None \<Rightarrow> emit m (str_trim (read_line (inbound s))) s)"

text \<open>\<open>test_path\<close>: the variable \<open>UH_LISTENER_TEST\<close>. Binding the socket may fail.\<close>

definition prepare_socket :: "env \<Rightarrow> string option \<Rightarrow> io_error option \<Rightarrow> (sys, sdk_error, unit) io" where
  "prepare_socket E test_path bind_error = (\<lambda>s.
     let path = (case test_path of Some p \<Rightarrow> p | None \<Rightarrow> SOCKET_PATH) in
     io_then (if fs_exists E path s then io_map_err SdkIo (fs_remove E path) else io_return ())
       (case bind_error of Some e \<Rightarrow> io_throw (SdkIo e) | None \<Rightarrow> io_return ()) s)"

text \<open>The loop over the connections, each accepted or failing: those handled, and the error that
  ended it.\<close>

fun serve_connections :: "state_change \<Rightarrow> (io_error + stream) list \<Rightarrow> stream list \<times> sdk_error option" where
  "serve_connections m [] = ([], None)"
| "serve_connections m (Inl e # cs) = ([], Some (SdkIo e))"
| "serve_connections m (Inr s # cs) = (case handle_connection m s of
     (Inl e, t) \<Rightarrow> ([t], Some e)
   | (Inr _, t) \<Rightarrow> (case serve_connections m cs of (ts, e) \<Rightarrow> (t # ts, e)))"

section \<open>Callbacks that cancel or proceed\<close>

text \<open>What arrives when the agent enters a state.\<close>

definition told :: "string \<Rightarrow> stream" where
  "told name = \<lparr>inbound = name @ [newline], outbound = [], read_error = None, write_error = None\<rparr>"

fun decide :: "bool \<Rightarrow> callback" where
  "decide True = handler_cancel"
| "decide False = handler_proceed"

definition cancels :: "bool list \<Rightarrow> string" where
  "cancels bs = concat (map (\<lambda>b. if b then ''cancel'' else []) bs)"

lemma cancels_simps [simp]: "cancels [] = []" "cancels (b # bs) = (if b then ''cancel'' else []) @ cancels bs"
  by (simp_all add: cancels_def)

lemma each_decide: "write_error s = None \<Longrightarrow>
    io_each id (map decide bs) s = (Inr (), s\<lparr>outbound := outbound s @ cancels bs\<rparr>)"
proof (induction bs arbitrary: s)
  case (Cons b bs)
  then show ?case by (cases b) (simp_all add: handler_cancel_def handler_proceed_def io_simps)
qed (simp add: io_simps)

lemma read_line_newline [simp]: "newline \<notin> set s \<Longrightarrow> read_line (s @ [newline]) = s @ [newline]"
  by (simp add: read_line_def takeWhile_append dropWhile_append)

text \<open>A listener whose callbacks for a state decide as \<open>f\<close> tells, in order.\<close>

definition deciding :: "(listener_state \<Rightarrow> bool list) \<Rightarrow> state_change" where
  "deciding f = (\<lambda>st. Some (map decide (f st)))"

lemma handle_told:
  assumes "newline \<notin> set name" "str_trim (name @ [newline]) = name"
  shows "handle_connection (deciding f) (told name) = (case listener_state_from_str name of
      Inl e \<Rightarrow> (Inl (SdkIo e), told name)
    | Inr st \<Rightarrow> (Inr (), (told name)\<lparr>outbound := cancels (f st)\<rparr>))"
  using assms each_decide [of "told name"]
  by (simp add: handle_connection_def told_def emit_def deciding_def io_simps res_map_err_def split: sum.splits)

lemma str_trim_newline: "(\<forall>c \<in> set s. \<not> is_ws c) \<Longrightarrow> str_trim (s @ [newline]) = s"
proof -
  assume s: "\<forall>c \<in> set s. \<not> is_ws c"
  have d: "dropWhile is_ws (rev s) = rev s"
    using s by (cases "rev s") (auto simp: dropWhile_eq_self_iff)
  have w: "is_ws newline" by (simp add: is_ws_def newline_def)
  show ?thesis
  proof (cases s)
    case (Cons c cs)
    then have "dropWhile is_ws (s @ [newline]) = s @ [newline]" using s by simp
    then show ?thesis using d w by (simp add: str_trim_def)
  qed (simp add: str_trim_def w)
qed

lemma state_name_plain: "c \<in> set (state_name st) \<Longrightarrow> \<not> is_ws c"
  by (cases st) (auto simp: is_ws_def)

lemma state_name_trimmed: "newline \<notin> set (state_name st)" "str_trim (state_name st @ [newline]) = state_name st"
proof -
  show "newline \<notin> set (state_name st)"
    using state_name_plain [of newline st] by (auto simp: is_ws_def newline_def)
  show "str_trim (state_name st @ [newline]) = state_name st"
    using state_name_plain by (intro str_trim_newline) blast
qed

text \<open>The states of the agent the listener knows.\<close>

fun heard :: "state \<Rightarrow> listener_state option" where
  "heard Probe = Some LsProbe"
| "heard (Download _ _) = Some LsDownload"
| "heard (Install _ _) = Some LsInstall"
| "heard (Reboot _) = Some LsReboot"
| "heard (ErrorState _) = Some LsError"
| "heard _ = None"

lemma from_state_name: "listener_state_from_str (state_name st) = (case heard st of None \<Rightarrow> Inl InvalidInput | Some l \<Rightarrow> Inr l)"
  by (cases st) (simp_all add: listener_state_from_str_def)

definition replied :: "(listener_state \<Rightarrow> bool list) \<Rightarrow> state \<Rightarrow> stream" where
  "replied f st = (told (state_name st))\<lparr>outbound := case heard st of None \<Rightarrow> [] | Some l \<Rightarrow> cancels (f l)\<rparr>"

lemma handle_state:
  "handle_connection (deciding f) (told (state_name st)) =
     (case heard st of None \<Rightarrow> Inl (SdkIo InvalidInput) | Some _ \<Rightarrow> Inr (), replied f st)"
  by (simp add: handle_told [OF state_name_trimmed] from_state_name replied_def split: option.splits)
    (simp add: told_def)

lemma cancels_replicate: "cancels bs = concat (replicate (length (filter id bs)) ''cancel'')"
  by (induction bs) simp_all

lemma str_trim_cancels: "str_trim (cancels bs) = cancels bs"
  by (rule str_trim_id) (auto simp: cancels_replicate is_ws_def)

lemma cancels_iff:
  "cancels bs = [] \<longleftrightarrow> length (filter id bs) = 0" "cancels bs = ''cancel'' \<longleftrightarrow> length (filter id bs) = 1"
proof -
  have l: "length (cancels bs) = 6 * length (filter id bs)"
    by (simp add: cancels_replicate length_concat sum_list_replicate)
  show "cancels bs = [] \<longleftrightarrow> length (filter id bs) = 0" using l by (metis length_0_conv mult_is_0 zero_neq_numeral)
  show "cancels bs = ''cancel'' \<longleftrightarrow> length (filter id bs) = 1"
  proof
    assume "cancels bs = ''cancel''"
    then have "6 * length (filter id bs) = 6" using l by simp
    then show "length (filter id bs) = 1" by simp
  qed (simp add: cancels_replicate)
qed

section \<open>Properties\<close>

text \<open>C22: A listener and the agent together: when the callback of the agent prints what the listener
  wrote, a state is entered if none of the callbacks registered for it cancels and left out if one
  does; when two cancel, their two words run together and the agent takes the answer for an
  error.\<close>

theorem listener_decides:
  assumes "fs_exists E (path_join path STATE_CHANGE_CALLBACK) s" "heard st = Some l"
    and "exec E (path_join path STATE_CHANGE_CALLBACK @ '' '' @ state_name st) s = (Inr out, t)"
    and "stdout out = outbound (snd (handle_connection (deciding f) (told (state_name st))))"
  shows "state_change_callback E path (state_name st) s =
    (let n = length (filter id (f l)) in
     (if n = 0 then Inr Continue else if n = 1 then Inr Cancel else Inl (FwIo InvalidInput), t))"
proof -
  have "stdout out = cancels (f l)" using assms(2,4) by (simp add: handle_state replied_def)
  then have "callback_answer (stdout out) = (let n = length (filter id (f l)) in
      if n = 0 then Inr Continue else if n = 1 then Inr Cancel else Inl (FwIo InvalidInput))"
    using cancels_iff [of "f l"] by (simp add: callback_answer_def str_trim_cancels Let_def)
  then show ?thesis
    using assms(1,3) by (simp add: state_change_callback_def run_command_for_state_def io_simps Let_def)
qed

theorem listener_decides_witness:
  "let E = example_env\<lparr>run := \<lambda>c s. (Inr \<lparr>stdout = ''cancelcancel'', stderr = []\<rparr>, s)\<rparr>;
       s = example_sys\<lparr>files := [(''/fw/state-change-callback'', Regular [])]\<rparr>
   in fst (state_change_callback E ''/fw'' ''probe'' s) = Inl (FwIo InvalidInput)"
proof -
  let ?E = "example_env\<lparr>run := \<lambda>c s. (Inr \<lparr>stdout = ''cancelcancel'', stderr = []\<rparr>, s)\<rparr>"
  let ?s = "example_sys\<lparr>files := [(''/fw/state-change-callback'', Regular [])]\<rparr>"
  let ?c = "path_join ''/fw'' STATE_CHANGE_CALLBACK"
  let ?f = "\<lambda>_::listener_state. [True, False, True]"
  have ex: "fs_exists ?E ?c ?s" by code_simp
  have r: "exec ?E (?c @ '' '' @ state_name Probe) ?s = (Inr \<lparr>stdout = ''cancelcancel'', stderr = []\<rparr>,
      ?s\<lparr>commands := commands ?s @ [?c @ '' '' @ state_name Probe], requests := requests ?s\<rparr>)"
    by (simp add: exec_def)
  have h: "heard Probe = Some LsProbe" by simp
  have o: "stdout \<lparr>stdout = ''cancelcancel'', stderr = []\<rparr> = outbound (snd (handle_connection (deciding ?f) (told (state_name Probe))))"
    unfolding handle_state by (simp add: replied_def)
  show ?thesis using listener_decides [OF ex h r o] by (simp add: Let_def)
qed

text \<open>C37: The listener serves the states it is told of one after the other, each by its callbacks in
  the order they were registered, up to the first state it does not know; that one ends it with
  an error. The agent tells it of such a state when a local package is installed.\<close>

theorem listener_serves:
  "serve_connections (deciding f) (map (Inr \<circ> told \<circ> state_name) sts) =
     (map (replied f) (takeWhile (\<lambda>st. heard st \<noteq> None) sts @ take 1 (dropWhile (\<lambda>st. heard st \<noteq> None) sts)),
      if list_all (\<lambda>st. heard st \<noteq> None) sts then None else Some (SdkIo InvalidInput)) \<and>
   heard (PrepareLocalInstall p) = None"
  by (induction sts) (simp_all add: handle_state split: option.splits)

end
