(* ===== verification/UH_Http.thy ===== *)
theory UH_Http
  imports UH_Sdk UH_Machine
begin

text \<open>
  \<open>updatehub/src/http_api.rs\<close> and \<open>states/machine/address.rs\<close>: the routes of the agent's HTTP
  API, the requests they pass to the machine, and the bodies of the replies. The HTTP server is a
  library; the reply it makes of a rejected request is a parameter.
\<close>

section \<open>Asking the machine\<close>

text \<open>
  What a handler receives from the machine: an answer, an error, or nothing when the machine drops
  the channel. An answer of another kind, or none, is \<open>unreachable!\<close>.
\<close>

type_synonym received = "(transition_error + response) option"

fun request_info :: "received \<Rightarrow> transition_error stop + info_response" where
  "request_info (Some (Inr (RespInfo i))) = Inr i"
| "request_info (Some (Inl e)) = Inl (Fails e)"
| "request_info _ = Inl Panics"

fun request_probe :: "received \<Rightarrow> transition_error stop + probe_reply" where
  "request_probe (Some (Inr (RespProbe r))) = Inr r"
| "request_probe (Some (Inl e)) = Inl (Fails e)"
| "request_probe _ = Inl Panics"

fun request_abort_download :: "received \<Rightarrow> transition_error stop + abort_reply" where
  "request_abort_download (Some (Inr (RespAbortDownload r))) = Inr r"
| "request_abort_download (Some (Inl e)) = Inl (Fails e)"
| "request_abort_download _ = Inl Panics"

fun request_local_install :: "received \<Rightarrow> transition_error stop + state_reply" where
  "request_local_install (Some (Inr (RespLocalInstall r))) = Inr r"
| "request_local_install (Some (Inl e)) = Inl (Fails e)"
| "request_local_install _ = Inl Panics"

fun request_remote_install :: "received \<Rightarrow> transition_error stop + state_reply" where
  "request_remote_install (Some (Inr (RespRemoteInstall r))) = Inr r"
| "request_remote_install (Some (Inl e)) = Inl (Fails e)"
| "request_remote_install _ = Inl Panics"

section \<open>Routes\<close>

text \<open>
  A request as the server sees it: the segments of its path, whether its content type, if it has
  one, is JSON, and its body.
\<close>

record incoming =
  in_method :: http_method
  in_segments :: "string list"
  in_json :: bool
  in_body :: string

datatype api_call = ReadLog | Ask message

datatype rejection = NoRoute | BadBody | HandlerFailed transition_error

definition body_of :: "env \<Rightarrow> (json \<Rightarrow> 'a option) \<Rightarrow> incoming \<Rightarrow> rejection + 'a" where
  "body_of E d q = (if \<not> in_json q then Inl BadBody
     else case json_parse E (in_body q) of Inl _ \<Rightarrow> Inl BadBody | Inr j \<Rightarrow> ok_or BadBody (d j))"

text \<open>\<open>warp::path\<close> matches the first segment, whatever follows it; \<open>warp::path!\<close> all of them.\<close>

definition on_path :: "string \<Rightarrow> incoming \<Rightarrow> bool" where
  "on_path p q \<longleftrightarrow> (case in_segments q of [] \<Rightarrow> False | x # _ \<Rightarrow> x = p)"

text \<open>A body that is missing or does not parse makes a probe without a custom server.\<close>

definition route :: "env \<Rightarrow> incoming \<Rightarrow> rejection + api_call" where
  "route E q = (case in_method q of
      GET \<Rightarrow> if on_path ''info'' q then Inr (Ask MsgInfo)
        else if on_path ''log'' q then Inr ReadLog else Inl NoRoute
    | POST \<Rightarrow>
        if on_path ''probe'' q
        then Inr (Ask (MsgProbe (case body_of E dec_probe_request q of
            Inl _ \<Rightarrow> None | Inr b \<Rightarrow> Some (custom_server b))))
        else if on_path ''local_install'' q
        then res_bind (body_of E dec_local_install q) (\<lambda>b. Inr (Ask (MsgLocalInstall (install_file b))))
        else if on_path ''remote_install'' q
        then res_bind (body_of E dec_remote_install q) (\<lambda>b. Inr (Ask (MsgRemoteInstall (install_url b))))
        else if in_segments q = [''update'', ''download'', ''abort''] then Inr (Ask MsgAbortDownload)
        else Inl NoRoute)"

section \<open>Replies\<close>

definition json_reply :: "env \<Rightarrow> nat \<Rightarrow> json \<Rightarrow> http_reply" where
  "json_reply E st j = \<lparr>reply_status = st, reply_body = json_text E j\<rparr>"

fun abort_http :: "env \<Rightarrow> abort_reply \<Rightarrow> http_reply" where
  "abort_http E AbortAccepted = json_reply E 200
     (enc_abort_response \<lparr>abort_message = ''request accepted, download aborted''\<rparr>)"
| "abort_http E AbortInvalidState = json_reply E 406
     (enc_refused \<lparr>abort_error = ''there is no download to be aborted''\<rparr>)"

fun probe_json :: "probe_reply \<Rightarrow> json" where
  "probe_json Available = enc_probe_answer Updating"
| "probe_json Unavailable = enc_probe_answer NoUpdateNow"
| "probe_json (Delayed_for d) = enc_probe_answer (TryAgain d)"
| "probe_json (Busy st) = JStr st"

definition probe_http :: "env \<Rightarrow> probe_reply \<Rightarrow> http_reply" where
  "probe_http E r = json_reply E 200 (probe_json r)"

fun state_http :: "env \<Rightarrow> state_reply \<Rightarrow> http_reply" where
  "state_http E (RequestAccepted st) = json_reply E 200 (JStr st)"
| "state_http E (InvalidState st) = json_reply E 406 (JStr st)"

text \<open>\<open>v\<close>: the version the build was given.\<close>

definition info_http :: "env \<Rightarrow> string \<Rightarrow> info_response \<Rightarrow> http_reply" where
  "info_http E v i = json_reply E 200 (enc_info E
     \<lparr>ai_state = ir_state i, ai_version = v, ai_config = ir_config i, ai_firmware = ir_firmware i,
      ai_runtime = ir_runtime i\<rparr>)"

definition log_http :: "env \<Rightarrow> mem_drain \<Rightarrow> http_reply" where
  "log_http E d = json_reply E 200 (enc_drain d)"

text \<open>A handler: the machine's answer becomes a reply, or an error that rejects the request.\<close>

fun ask :: "env \<Rightarrow> string \<Rightarrow> message \<Rightarrow> received \<Rightarrow> transition_error stop + http_reply" where
  "ask E v MsgInfo r = res_bind (request_info r) (\<lambda>i. Inr (info_http E v i))"
| "ask E v (MsgProbe _) r = res_bind (request_probe r) (\<lambda>p. Inr (probe_http E p))"
| "ask E v MsgAbortDownload r = res_bind (request_abort_download r) (\<lambda>a. Inr (abort_http E a))"
| "ask E v (MsgLocalInstall _) r = res_bind (request_local_install r) (\<lambda>x. Inr (state_http E x))"
| "ask E v (MsgRemoteInstall _) r = res_bind (request_remote_install r) (\<lambda>x. Inr (state_http E x))"

section \<open>The agent behind its HTTP API\<close>

text \<open>
  A request served while the machine is in state \<open>st\<close> and takes requests. \<open>refuse\<close> is the reply
  the HTTP server makes of a rejection; a panic closes the connection. A
  machine that stops for good answers no request, which is an error of the transport as well.
\<close>

definition serve_request ::
  "env \<Rightarrow> string \<Rightarrow> (rejection \<Rightarrow> http_reply) \<Rightarrow> incoming \<Rightarrow> (state \<times> agent_context, string, http_reply) io" where
  "serve_request E v refuse q = (\<lambda>(st, c). case route E q of
      Inl e \<Rightarrow> (Inr (refuse e), (st, c))
    | Inr ReadLog \<Rightarrow> (Inr (log_http E (c_drain c)), (st, c))
    | Inr (Ask m) \<Rightarrow>
        (case handle_communication E st \<lparr>rq_id = length (c_replies c), rq_message = m, rq_open = True\<rparr> c of
           (Inr ns, d) \<Rightarrow>
             (case ask E v m (Some (snd (last (c_replies d)))) of
                Inr r \<Rightarrow> Inr r
              | Inl (Fails e) \<Rightarrow> Inr (refuse (HandlerFailed e))
              | Inl _ \<Rightarrow> Inl ''connection closed'',
              (case ns of Some st' \<Rightarrow> st' | None \<Rightarrow> st, d))
         | (Inl _, d) \<Rightarrow> (Inl ''connection closed'', (st, d))))"

text \<open>
  The way of a request from the client to the server: the path after the address is cut at its
  slashes and the body, if any, is sent as the text of its JSON.
\<close>

definition deliver :: "env \<Rightarrow> sdk_client \<Rightarrow> http_request \<Rightarrow> incoming" where
  "deliver E c q = \<lparr>in_method = req_method q,
     in_segments = filter (\<lambda>x. x \<noteq> []) (split_on (CHR ''/'') (drop (length (client_server c)) (req_url q))),
     in_json = True,
     in_body = (case req_body q of None \<Rightarrow> [] | Some j \<Rightarrow> json_text E j)\<rparr>"

definition wire :: "env \<Rightarrow> string \<Rightarrow> (rejection \<Rightarrow> http_reply) \<Rightarrow> sdk_client \<Rightarrow> (state \<times> agent_context) transport" where
  "wire E v refuse c = (\<lambda>q. serve_request E v refuse (deliver E c q))"

end
