(* ===== verification/UH_Remote.thy ===== *)
theory UH_Remote
  imports UH_Http UH_Updates
begin

text \<open>
  The agent as a client of its HTTP API sees it: the calls of \<open>updatehub-sdk/src/client.rs\<close> carried
  to \<open>http_api.rs\<close>, answered by the machine and read back.
\<close>

section \<open>The wire\<close>

text \<open>The documented behaviour of \<open>serde_json\<close> on the value at hand.\<close>

definition sent_ok :: "env \<Rightarrow> json \<Rightarrow> bool" where
  "sent_ok E j \<longleftrightarrow> json_parse E (json_text E j) = Inr j"

lemma segments_deliver [simp]:
  "in_segments (deliver E c (client_get c p)) = filter (\<lambda>x. x \<noteq> []) (split_on (CHR ''/'') p)"
  "in_segments (deliver E c (client_post c p b)) = filter (\<lambda>x. x \<noteq> []) (split_on (CHR ''/'') p)"
  by (simp_all add: deliver_def client_get_def client_post_def)

lemma method_deliver [simp]:
  "in_method (deliver E c (client_get c p)) = GET" "in_method (deliver E c (client_post c p b)) = POST"
  by (simp_all add: deliver_def client_get_def client_post_def)

lemma body_of_deliver [simp]:
  "sent_ok E j \<Longrightarrow> body_of E d (deliver E c (client_post c p (Some j))) = ok_or BadBody (d j)"
  by (simp add: body_of_def deliver_def client_post_def sent_ok_def)

lemma reply_json_ok: "sent_ok E j \<Longrightarrow> reply_json E d (json_reply E n j) = ok_or (SdkClient ''invalid value'') (d j)"
  by (simp add: reply_json_def json_reply_def sent_ok_def)

lemma reply_status_json [simp]: "reply_status (json_reply E n j) = n"
  by (simp add: json_reply_def)

lemma ok_or_simps [simp]: "ok_or e (Some x) = Inr x" "ok_or e None = Inl e"
  by (simp_all add: ok_or_def)

lemma route_calls:
  "route E (deliver E c (client_get c ''/info'')) = Inr (Ask MsgInfo)"
  "route E (deliver E c (client_get c ''/log'')) = Inr ReadLog"
  "route E (deliver E c (client_post c ''/update/download/abort'' b)) = Inr (Ask MsgAbortDownload)"
  "sent_ok E (enc_local_install \<lparr>install_file = f\<rparr>) \<Longrightarrow>
   route E (deliver E c (client_post c ''/local_install'' (Some (enc_local_install \<lparr>install_file = f\<rparr>)))) = Inr (Ask (MsgLocalInstall f))"
  "sent_ok E (enc_remote_install \<lparr>install_url = u\<rparr>) \<Longrightarrow>
   route E (deliver E c (client_post c ''/remote_install'' (Some (enc_remote_install \<lparr>install_url = u\<rparr>)))) = Inr (Ask (MsgRemoteInstall u))"
  "sent_ok E (enc_probe_request \<lparr>custom_server = a\<rparr>) \<Longrightarrow>
   route E (deliver E c (client_post c ''/probe'' (Some (enc_probe_request \<lparr>custom_server = a\<rparr>)))) = Inr (Ask (MsgProbe (Some a)))"
  by (simp_all add: route_def on_path_def res_bind_def local_install_codec.dec_enc
      remote_install_codec.dec_enc probe_request_codec.dec_enc)

lemma route_plain_probe:
  "is_ok (json_parse E []) = False \<Longrightarrow> route E (deliver E c (client_post c ''/probe'' None)) = Inr (Ask (MsgProbe None))"
  by (auto simp: route_def on_path_def body_of_def deliver_def client_post_def is_ok_def split: sum.splits)

section \<open>Answers of the machine\<close>

lemma communication_answers:
  assumes "request_result E st (rq_message rq) c = (Inr (resp, ns), d)" "rq_open rq"
  shows "handle_communication E st rq c = (Inr ns, d\<lparr>c_replies := c_replies d @ [(rq_id rq, Inr resp)]\<rparr>)"
  using assms by (simp add: handle_communication_def send_reply_def io_simps)

lemma client_call_eq: "send q s = (Inr r, t) \<Longrightarrow> client_call send q f s = (f r, t)"
  by (simp add: client_call_def io_simps split: sum.splits)

text \<open>A call the machine answers, from the client's request to the answer it reads.\<close>

lemma wire_call:
  assumes "route E (deliver E cl q) = Inr (Ask m)" "request_result E st m c = (Inr (resp, ns), d)"
    "ask E v m (Some (Inr resp)) = Inr r"
  shows "client_call (wire E v refuse cl) q g (st, c) = (g r, case ns of Some st' \<Rightarrow> st' | None \<Rightarrow> st,
     d\<lparr>c_replies := c_replies d @ [(length (c_replies c), Inr resp)]\<rparr>)"
proof -
  have "wire E v refuse cl q (st, c) = (Inr r, case ns of Some st' \<Rightarrow> st' | None \<Rightarrow> st,
     d\<lparr>c_replies := c_replies d @ [(length (c_replies c), Inr resp)]\<rparr>)"
    using assms communication_answers [of E st "\<lparr>rq_id = length (c_replies c), rq_message = m, rq_open = True\<rparr>" c resp ns d]
    by (simp add: wire_def serve_request_def)
  then show ?thesis by (rule client_call_eq)
qed

text \<open>How the client reads the state an answer names, if it can.\<close>

fun api_view :: "state \<Rightarrow> api_state option" where
  "api_view Park = Some ApiPark"
| "api_view Poll = Some ApiPoll"
| "api_view Probe = Some ApiProbe"
| "api_view (Validation _ _ _) = Some ApiValidation"
| "api_view (Download _ _) = Some ApiDownload"
| "api_view (Install _ _) = Some ApiInstall"
| "api_view (Reboot _) = Some ApiReboot"
| "api_view (ErrorState _) = Some ApiError"
| "api_view _ = None"

lemma dec_state_name: "dec_api_state (JStr (state_name st)) = api_view st"
  by (cases st) (simp_all add: dec_api_state_def api_states_def)

lemma reply_state_name:
  "sent_ok E (JStr (state_name st)) \<Longrightarrow>
   reply_json E dec_api_state (json_reply E n (JStr (state_name st))) = ok_or (SdkClient ''invalid value'') (api_view st)"
  by (simp add: reply_json_ok dec_state_name)

text \<open>A JSON library that knows some values: the text of one is as long as its place in the list.\<close>

definition example_wire_env :: "json list \<Rightarrow> env" where
  "example_wire_env js = example_env\<lparr>
     json_text := \<lambda>j. replicate (Suc (length (takeWhile (\<lambda>x. x \<noteq> j) js))) (CHR ''x''),
     json_parse := \<lambda>t. if t \<noteq> [] \<and> length t \<le> length js then Inr (js ! (length t - 1)) else Inl ''no value''\<rparr>"

lemma example_wire_sent: "j \<in> set js \<Longrightarrow> sent_ok (example_wire_env js) j"
proof -
  assume j: "j \<in> set js"
  let ?n = "length (takeWhile (\<lambda>x. x \<noteq> j) js)"
  have n: "?n < length js" "js ! ?n = j"
    using j by (induction js) auto
  then show ?thesis by (simp add: sent_ok_def example_wire_env_def del: replicate_Suc)
qed

section \<open>Calls to install\<close>

lemma local_install_call:
  assumes "c_waker c = 0" "sent_ok E (JStr (state_name st))" "sent_ok E (enc_local_install \<lparr>install_file = f\<rparr>)"
  shows "client_local_install E (wire E v refuse cl) cl f (st, c) =
    (if is_preemptive_state st
     then (ok_or (SdkClient ''invalid value'') (api_view st), PrepareLocalInstall f,
       c\<lparr>c_drain := start_logging (c_drain c), c_waker := 1,
         c_replies := c_replies c @ [(length (c_replies c), Inr (RespLocalInstall (RequestAccepted (state_name st))))]\<rparr>)
     else (case api_view st of None \<Rightarrow> Inl (SdkClient ''invalid value'') | Some s \<Rightarrow> Inl (AgentIsBusy s), st,
       c\<lparr>c_replies := c_replies c @ [(length (c_replies c), Inr (RespLocalInstall (InvalidState (state_name st))))]\<rparr>))"
proof (cases "is_preemptive_state st")
  case True
  then have "request_result E st (MsgLocalInstall f) c =
      (Inr (RespLocalInstall (RequestAccepted (state_name st)), Some (PrepareLocalInstall f)),
       c\<lparr>c_drain := start_logging (c_drain c), c_waker := 1\<rparr>)"
    using assms(1) by (simp add: answer_def handle_local_install_def send_wake_def set_drain_def io_simps)
  then show ?thesis using True assms
    by (simp add: client_local_install_def wire_call [OF route_calls(4)] local_install_answer_def
        reply_state_name res_bind_def)
next
  case False
  then have "request_result E st (MsgLocalInstall f) c = (Inr (RespLocalInstall (InvalidState (state_name st)), None), c)"
    by (simp add: answer_def handle_local_install_def io_simps)
  then show ?thesis using False assms
    by (simp add: client_local_install_def wire_call [OF route_calls(4)] local_install_answer_def
        busy_answer_def reply_state_name res_bind_def split: option.splits)
qed

lemma remote_install_call:
  assumes "c_waker c = 0" "sent_ok E (JStr (state_name st))" "sent_ok E (enc_remote_install \<lparr>install_url = u\<rparr>)"
  shows "client_remote_install E (wire E v refuse cl) cl u (st, c) =
    (if is_preemptive_state st
     then (ok_or (SdkClient ''invalid value'') (api_view st), DirectDownload u,
       c\<lparr>c_drain := start_logging (c_drain c), c_waker := 1,
         c_replies := c_replies c @ [(length (c_replies c), Inr (RespRemoteInstall (RequestAccepted (state_name st))))]\<rparr>)
     else (Inl (UnexpectedResponse 406), st,
       c\<lparr>c_replies := c_replies c @ [(length (c_replies c), Inr (RespRemoteInstall (InvalidState (state_name st))))]\<rparr>))"
proof (cases "is_preemptive_state st")
  case True
  then have "request_result E st (MsgRemoteInstall u) c =
      (Inr (RespRemoteInstall (RequestAccepted (state_name st)), Some (DirectDownload u)),
       c\<lparr>c_drain := start_logging (c_drain c), c_waker := 1\<rparr>)"
    using assms(1) by (simp add: answer_def handle_remote_install_def send_wake_def set_drain_def io_simps)
  then show ?thesis using True assms
    by (simp add: client_remote_install_def wire_call [OF route_calls(5)] remote_install_answer_def
        reply_state_name res_bind_def)
next
  case False
  then have "request_result E st (MsgRemoteInstall u) c = (Inr (RespRemoteInstall (InvalidState (state_name st)), None), c)"
    by (simp add: answer_def handle_remote_install_def io_simps)
  then show ?thesis using False assms
    by (simp add: client_remote_install_def wire_call [OF route_calls(5)] remote_install_answer_def res_bind_def)
qed

section \<open>Properties\<close>

text \<open>C21: A call to install a package, made while no wake message waits. The state is taken and the
  machine woken exactly when its state may be interrupted; the client learns the state the agent
  was in only if both name it alike, which they do not for the entry point, a direct download and
  the preparation of a local installation, and a refused remote installation is an unexpected
  response to it.\<close>

theorem install_calls:
  assumes "c_waker c = 0" "sent_ok E (JStr (state_name st))"
    and "sent_ok E (enc_local_install \<lparr>install_file = f\<rparr>)" "sent_ok E (enc_remote_install \<lparr>install_url = u\<rparr>)"
  shows "map_prod id fst (client_local_install E (wire E v refuse cl) cl f (st, c)) =
      (case api_view st of None \<Rightarrow> Inl (SdkClient ''invalid value'')
         | Some s \<Rightarrow> if is_preemptive_state st then Inr s else Inl (AgentIsBusy s),
       if is_preemptive_state st then PrepareLocalInstall f else st) \<and>
    map_prod id fst (client_remote_install E (wire E v refuse cl) cl u (st, c)) =
      (if \<not> is_preemptive_state st then Inl (UnexpectedResponse 406)
       else case api_view st of None \<Rightarrow> Inl (SdkClient ''invalid value'') | Some s \<Rightarrow> Inr s,
       if is_preemptive_state st then DirectDownload u else st) \<and>
    (let d = snd (snd (client_local_install E (wire E v refuse cl) cl f (st, c)));
         d' = snd (snd (client_remote_install E (wire E v refuse cl) cl u (st, c)))
     in c_waker d = (if is_preemptive_state st then 1 else 0) \<and> c_waker d' = c_waker d \<and>
        c_runtime d = c_runtime c \<and> c_runtime d' = c_runtime c \<and> c_sys d = c_sys c \<and> c_sys d' = c_sys c)"
  using assms by (cases "is_preemptive_state st"; cases "api_view st")
    (simp_all add: local_install_call remote_install_call Let_def)

theorem install_calls_witness:
  "let js = [JStr ''poll'', enc_local_install \<lparr>install_file = ''/p''\<rparr>, enc_remote_install \<lparr>install_url = ''http://h''\<rparr>];
       E = example_wire_env js
   in fst (client_local_install E (wire E ''1'' (\<lambda>_. \<lparr>reply_status = 404, reply_body = []\<rparr>) client_default) client_default
        ''/p'' (Poll, example_context)) = Inr ApiPoll"
proof -
  let ?js = "[JStr ''poll'', enc_local_install \<lparr>install_file = ''/p''\<rparr>, enc_remote_install \<lparr>install_url = ''http://h''\<rparr>]"
  let ?E = "example_wire_env ?js"
  have s: "sent_ok ?E j" if "j \<in> set ?js" for j using that by (rule example_wire_sent)
  have c: "c_waker example_context = 0" by (simp add: example_context_def)
  have "fst (map_prod id fst (client_local_install ?E (wire ?E ''1'' (\<lambda>_. \<lparr>reply_status = 404, reply_body = []\<rparr>) client_default)
      client_default ''/p'' (Poll, example_context))) = Inr ApiPoll"
    using install_calls [OF c, of ?E Poll "''/p''" "''http://h''"] s by simp
  then show ?thesis unfolding Let_def by simp
qed

text \<open>C28: A call to abort a download ends it exactly when one runs, and leaves everything else as it
  is otherwise; the client cannot read the answer that confirms it, so that to the client it
  failed.\<close>

theorem abort_call:
  assumes "sent_ok E (enc_abort_response \<lparr>abort_message = ''request accepted, download aborted''\<rparr>)"
    and "sent_ok E (enc_refused \<lparr>abort_error = ''there is no download to be aborted''\<rparr>)"
  shows "client_abort_download E (wire E v refuse cl) cl (st, c) =
    (if is_handling_download st
     then (Inl (SdkClient ''invalid value''), EntryPoint,
       c\<lparr>c_replies := c_replies c @ [(length (c_replies c), Inr (RespAbortDownload AbortAccepted))]\<rparr>)
     else (Inl (AbortDownloadRefused \<lparr>abort_error = ''there is no download to be aborted''\<rparr>), st,
       c\<lparr>c_replies := c_replies c @ [(length (c_replies c), Inr (RespAbortDownload AbortInvalidState))]\<rparr>))"
proof -
  let ?r = "if is_handling_download st then (AbortAccepted, Some EntryPoint) else (AbortInvalidState, None)"
  have m: "request_result E st MsgAbortDownload c = (Inr (RespAbortDownload (fst ?r), snd ?r), c)"
    by (simp add: answer_def handle_abort_download_def io_simps)
  have "dec_api_state (enc_abort_response x) = None" for x
    by (simp add: dec_api_state_def enc_abort_response_def)
  then show ?thesis
    using assms by (simp add: client_abort_download_def wire_call [OF route_calls(3) m] abort_answer_def
        reply_json_ok res_bind_def refused_codec.dec_enc)
qed

theorem abort_call_witness:
  "let E = example_wire_env [enc_abort_response \<lparr>abort_message = ''request accepted, download aborted''\<rparr>,
         enc_refused \<lparr>abort_error = ''there is no download to be aborted''\<rparr>];
       r = client_abort_download E (wire E ''1'' (\<lambda>_. \<lparr>reply_status = 404, reply_body = []\<rparr>) client_default)
         client_default (Download example_package None, example_context)
   in fst r = Inl (SdkClient ''invalid value'') \<and> fst (snd r) = EntryPoint"
  unfolding Let_def by (subst (1 2) abort_call) (simp_all add: example_wire_sent)

text \<open>C29: A call to probe brings the client what the agent found; of an agent that must not be
  interrupted it brings an error in reading the answer, not the one for a busy agent.\<close>

theorem probe_call:
  assumes "handle_probe E st server c = (Inr (r, ns), d)" "sent_ok E (probe_json r)"
    and "case server of None \<Rightarrow> \<not> is_ok (json_parse E []) | Some a \<Rightarrow> sent_ok E (enc_probe_request \<lparr>custom_server = a\<rparr>)"
  shows "client_probe E (wire E v refuse cl) cl server (st, c) =
    (case r of Available \<Rightarrow> Inr Updating | Unavailable \<Rightarrow> Inr NoUpdateNow
       | Delayed_for n \<Rightarrow> if in_i64 n then Inr (TryAgain n) else Inl (SdkClient ''invalid value'')
       | Busy _ \<Rightarrow> Inl (SdkClient ''invalid value''),
     case ns of Some st' \<Rightarrow> st' | None \<Rightarrow> st,
     d\<lparr>c_replies := c_replies d @ [(length (c_replies c), Inr (RespProbe r))]\<rparr>)"
proof -
  have m: "request_result E st (MsgProbe server) c = (Inr (RespProbe r, ns), d)"
    using assms(1) by (simp add: answer_def io_simps)
  have rt: "route E (deliver E cl (client_post cl ''/probe'' (map_option (\<lambda>a. enc_probe_request \<lparr>custom_server = a\<rparr>) server)))
      = Inr (Ask (MsgProbe server))"
    using assms(3) by (cases server) (simp_all add: route_plain_probe route_calls(6))
  have busy: "r = Busy s \<Longrightarrow> s = state_name st \<and> \<not> is_preemptive_state st" for s
    using assms(1) by (auto simp: handle_probe_def io_simps split: if_splits sum.splits probe_response.splits prod.splits)
  have "dec_probe_answer (JStr (state_name st)) = None" by (cases st) simp_all
  then show ?thesis
    using assms(2) busy by (cases r) (auto simp: client_probe_def wire_call [OF rt m] probe_answer_of_def probe_http_def
        reply_json_ok res_bind_def)
qed

theorem probe_call_witness:
  "let E = example_wire_env [JStr ''reboot''];
       r = client_probe E (wire E ''1'' (\<lambda>_. \<lparr>reply_status = 404, reply_body = []\<rparr>) client_default)
         client_default None (Reboot example_package, example_context)
   in fst r = Inl (SdkClient ''invalid value'') \<and> fst (snd r) = Reboot example_package"
proof -
  let ?E = "example_wire_env [JStr ''reboot'']"
  have h: "handle_probe ?E (Reboot example_package) None example_context = (Inr (Busy ''reboot'', None), example_context)"
    by (simp add: handle_probe_def io_simps)
  have j: "sent_ok ?E (probe_json (Busy ''reboot''))" by (simp add: example_wire_sent)
  have e: "\<not> is_ok (json_parse ?E [])" by (simp add: example_wire_env_def is_ok_def)
  show ?thesis unfolding Let_def
    using probe_call [OF h j, of "''1''" "\<lambda>_. \<lparr>reply_status = 404, reply_body = []\<rparr>" client_default] e by simp
qed

text \<open>C32: A call for information brings the client the state, settings, firmware metadata and runtime
  settings of the agent as they are, and changes none of them; what the texts of durations and times
  mean is taken at the documented behaviour of their libraries, on the values at hand.\<close>

theorem info_call:
  assumes "i = \<lparr>ai_state = state_name st, ai_version = v, ai_config = c_settings c,
       ai_firmware = c_firmware c, ai_runtime = c_runtime c\<rparr>"
    and "info_ok E i" "sent_ok E (enc_info E i)"
  shows "\<exists>answers. client_info E (wire E v refuse cl) cl (st, c) = (Inr i, st, c\<lparr>c_replies := c_replies c @ answers\<rparr>)"
proof -
  have m: "request_result E st MsgInfo c = (Inr (RespInfo \<lparr>ir_state = state_name st, ir_config = c_settings c,
     ir_firmware = c_firmware c, ir_runtime = c_runtime c\<rparr>, None), c)"
    by (simp add: answer_def handle_info_def io_simps)
  show ?thesis
    using assms by (auto simp: client_info_def wire_call [OF route_calls(1) m] info_answer_def info_http_def
        reply_json_ok res_bind_def info_codec.dec_enc)
qed

theorem info_call_witness:
  "let E = example_env\<lparr>duration_parse := \<lambda>_. Some 86400000, json_parse := \<lambda>_. Inr (enc_info example_env
         \<lparr>ai_state = ''poll'', ai_version = ''1'', ai_config = settings_default,
          ai_firmware = c_firmware example_context, ai_runtime = rs_default\<rparr>)\<rparr>
   in is_ok (fst (client_info E (wire E ''1'' (\<lambda>_. \<lparr>reply_status = 404, reply_body = []\<rparr>) client_default)
        client_default (Poll, example_context)))"
proof -
  let ?i = "\<lparr>ai_state = ''poll'', ai_version = ''1'', ai_config = settings_default,
    ai_firmware = c_firmware example_context, ai_runtime = rs_default\<rparr>"
  let ?E = "example_env\<lparr>duration_parse := \<lambda>_. Some 86400000, json_parse := \<lambda>_. Inr (enc_info example_env ?i)\<rparr>"
  have "enc_info ?E ?i = enc_info example_env ?i"
    by (simp add: enc_info_def enc_rs_def enc_polling_def example_env_def)
  then have s: "sent_ok ?E (enc_info ?E ?i)" by (simp add: sent_ok_def)
  have o: "info_ok ?E ?i"
    by (simp add: info_ok_def example_context_def mv_sorted_def rs_default_def settings_default_def
        duration_of_text_def seconds_def nanos_def example_env_def)
  have i: "?i = \<lparr>ai_state = state_name Poll, ai_version = ''1'', ai_config = c_settings example_context,
      ai_firmware = c_firmware example_context, ai_runtime = c_runtime example_context\<rparr>"
    by (simp add: example_context_def)
  show ?thesis unfolding Let_def
    using info_call [OF i o s, of "\<lambda>_. \<lparr>reply_status = 404, reply_body = []\<rparr>" client_default]
    by (auto simp: is_ok_def)
qed

text \<open>How an entry of the log in memory is read by a client.\<close>

definition reads_as :: "log_record \<Rightarrow> api_entry \<Rightarrow> bool" where
  "reads_as r e \<longleftrightarrow> map_of api_levels (level r) = Some (e_level e) \<and> e_message e = shown_message r \<and>
     e_time e = time r \<and> e_data e = map_of (data r)"

definition record_readable :: "log_record \<Rightarrow> bool" where
  "record_readable r \<longleftrightarrow> map_of api_levels (level r) \<noteq> None \<and> distinct (map fst (data r))"

lemma dec_str_map_strings: "distinct (map fst kvs) \<Longrightarrow>
  dec_str_map (JObj (map (\<lambda>(k, v). (k, JStr v)) kvs)) = Some (map_of kvs)"
proof -
  assume d: "distinct (map fst kvs)"
  have "map_option (Pair k) (dec_str (JStr v)) = Some (k, v)" for k v :: string by simp
  then have "(\<lambda>(k, v). map_option (Pair k) (dec_str v)) \<circ> (\<lambda>(k, v). (k, JStr v)) = (Some :: string \<times> string \<Rightarrow> _)"
    by (auto simp: fun_eq_iff)
  then show ?thesis using d map_of_inject_set [of "rev kvs" kvs] by (simp add: rev_map [symmetric])
qed

lemma dec_entry_record: "record_readable r \<Longrightarrow> \<exists>e. dec_entry (enc_record r) = Some e \<and> reads_as r e"
  by (auto simp: record_readable_def dec_entry_def enc_record_def struct_fields_def field_def reads_as_def
      dec_str_map_strings simp del: dec_str_map.simps)

lemma dec_entries_records:
  "list_all record_readable rs \<Longrightarrow> \<exists>es. dec_list dec_entry (JArr (map enc_record rs)) = Some es \<and> list_all2 reads_as rs es"
proof (induction rs)
  case (Cons r rs)
  then obtain e es where "dec_entry (enc_record r) = Some e" "reads_as r e"
    "dec_list dec_entry (JArr (map enc_record rs)) = Some es" "list_all2 reads_as rs es"
    using dec_entry_record [of r] by auto
  then show ?case by auto
qed simp

text \<open>C31: A call for the log brings the client every entry the agent holds, in order, with its level,
  time, data and message, a repeat count in the message, and the absolute index of the first; it
  changes nothing. The levels have to be those both sides name.\<close>

theorem log_call:
  assumes "sent_ok E (enc_drain (c_drain c))"
    and "list_all record_readable (entries (records (c_drain c)))" "UH_Log.first_index (records (c_drain c)) < 2 ^ 64"
  shows "\<exists>es. client_log E (wire E v refuse cl) cl (st, c) =
      (Inr \<lparr>log_entries = es, log_first = UH_Log.first_index (records (c_drain c))\<rparr>, st, c) \<and>
    list_all2 reads_as (entries (records (c_drain c))) es"
proof -
  obtain es where es: "dec_list dec_entry (JArr (map enc_record (entries (records (c_drain c))))) = Some es"
    "list_all2 reads_as (entries (records (c_drain c))) es"
    using dec_entries_records [OF assms(2)] by blast
  have "wire E v refuse cl (client_get cl ''/log'') (st, c) = (Inr (log_http E (c_drain c)), st, c)"
    by (simp add: wire_def serve_request_def route_calls)
  moreover have "dec_log (enc_drain (c_drain c)) = Some \<lparr>log_entries = es, log_first = UH_Log.first_index (records (c_drain c))\<rparr>"
    using es(1) assms(3) by (simp add: dec_log_def enc_drain_def struct_fields_def field_def default_field_def
        del: dec_list.simps)
  ultimately have "client_log E (wire E v refuse cl) cl (st, c) =
      (Inr \<lparr>log_entries = es, log_first = UH_Log.first_index (records (c_drain c))\<rparr>, st, c)"
    using assms(1) by (simp add: client_log_def client_call_eq log_answer_def log_http_def reply_json_ok)
  then show ?thesis using es(2) by blast
qed

theorem log_call_witness:
  "let c = example_context\<lparr>c_drain := \<lparr>records = \<lparr>entries = [\<lparr>level = ''info'', message = ''m'', time = ''t'', data = [],
         occurrences = 2\<rparr>], bytes = 134, inserted = 1\<rparr>, logging = True\<rparr>\<rparr>;
       E = example_wire_env [enc_drain (c_drain c)]
   in \<exists>e. fst (client_log E (wire E ''1'' (\<lambda>_. \<lparr>reply_status = 404, reply_body = []\<rparr>) client_default) client_default (Poll, c))
      = Inr \<lparr>log_entries = [e], log_first = 0\<rparr> \<and> e_message e = ''m (repeated 2 times)''"
proof -
  let ?c = "example_context\<lparr>c_drain := \<lparr>records = \<lparr>entries = [\<lparr>level = ''info'', message = ''m'', time = ''t'', data = [],
         occurrences = 2\<rparr>], bytes = 134, inserted = 1\<rparr>, logging = True\<rparr>\<rparr>"
  let ?E = "example_wire_env [enc_drain (c_drain ?c)]"
  have s: "sent_ok ?E (enc_drain (c_drain ?c))" by (rule example_wire_sent) simp
  have r: "list_all record_readable (entries (records (c_drain ?c)))"
    by (simp add: record_readable_def api_levels_def)
  have i: "UH_Log.first_index (records (c_drain ?c)) < 2 ^ 64" by (simp add: first_index_def)
  have m: "shown_message (hd (entries (records (c_drain ?c)))) = ''m (repeated 2 times)''" by code_simp
  show ?thesis unfolding Let_def
    using log_call [OF s r i, of "''1''" "\<lambda>_. \<lparr>reply_status = 404, reply_body = []\<rparr>" client_default Poll] m
    by (fastforce simp: list_all2_Cons1 reads_as_def first_index_def)
qed

text \<open>C40: Whatever the machine is asked and however it answers, the handler that asked receives one
  answer, of the kind it asks for: it replies or passes on the error of the transition, and never
  reaches the code that takes any other answer for impossible. Only an answer that never comes
  does.\<close>

theorem answers_match_requests:
  assumes "handle_communication E st rq c = (Inr ns, d)" "rq_open rq"
  shows "(\<exists>answer rs. c_replies d = rs @ [(rq_id rq, answer)] \<and>
      (case answer of Inl e \<Rightarrow> ask E v (rq_message rq) (Some answer) = Inl (Fails e)
        | Inr _ \<Rightarrow> is_ok (ask E v (rq_message rq) (Some answer)))) \<and>
    ask E v (rq_message rq) None = Inl Panics"
proof -
  have none: "ask E v m None = Inl Panics" for m by (cases m) (simp_all add: res_bind_def)
  have err: "ask E v m (Some (Inl e)) = Inl (Fails e)" for m e by (cases m) (simp_all add: res_bind_def)
  have kind: "request_result E st m x = (Inr (resp, n), y) \<Longrightarrow> is_ok (ask E v m (Some (Inr resp)))" for m x resp n y
    by (cases m) (auto simp: answer_def io_simps is_ok_def res_bind_def split: sum.splits prod.splits)
  show ?thesis
    using assms none err kind
    by (fastforce simp: handle_communication_def send_reply_def io_simps split: sum.splits stop.splits prod.splits)
qed

theorem answers_match_requests_witness:
  "let rq = \<lparr>rq_id = 0, rq_message = MsgAbortDownload, rq_open = True\<rparr>;
       c = example_context; r = handle_communication example_env Park rq c
   in r = (Inr None, c\<lparr>c_replies := [(0, Inr (RespAbortDownload AbortInvalidState))]\<rparr>) \<and>
      ask example_env ''1'' MsgAbortDownload None = Inl Panics"
proof -
  let ?rq = "\<lparr>rq_id = 0, rq_message = MsgAbortDownload, rq_open = True\<rparr>"
  have h: "handle_communication example_env Park ?rq example_context =
      (Inr None, example_context\<lparr>c_replies := [(0, Inr (RespAbortDownload AbortInvalidState))]\<rparr>)"
    by (simp add: handle_communication_def send_reply_def answer_def handle_abort_download_def io_simps example_context_def)
  show ?thesis unfolding Let_def using answers_match_requests [OF h, of "''1''"] h by simp
qed

end
