(* ===== verification/UH_Client.thy ===== *)
theory UH_Client
  imports UH_Remote
begin

text \<open>
  \<open>updatehub/src/main.rs\<close>: the command line client, from its parsed options to what it prints. The
  option parser and the texts of derived \<open>Debug\<close> and \<open>serde_json\<close> output are parameters.
\<close>

section \<open>Options\<close>

datatype client_command = CmdInfo | CmdLog bool | CmdProbe "string option" | CmdAbortDownload
  | CmdInstallPackage string

record client_options =
  command :: client_command
  daemon_address :: string
  json_output :: bool

text \<open>The level of the daemon's log; \<open>parse\<close> is \<open>slog\<close>'s.\<close>

definition verbosity_level :: "(string \<Rightarrow> 'l option) \<Rightarrow> string \<Rightarrow> string + 'l" where
  "verbosity_level parse value = ok_or (''failed to parse verbosity level: '' @ value) (parse value)"

section \<open>What is printed\<close>

text \<open>\<open>show_json\<close> and \<open>show_debug\<close>: the texts of an answer.\<close>

fun api_state_debug :: "api_state \<Rightarrow> string" where
  "api_state_debug ApiPark = ''Park''"
| "api_state_debug ApiEntryPoint = ''EntryPoint''"
| "api_state_debug ApiPoll = ''Poll''"
| "api_state_debug ApiProbe = ''Probe''"
| "api_state_debug ApiValidation = ''Validation''"
| "api_state_debug ApiDownload = ''Download''"
| "api_state_debug ApiInstall = ''Install''"
| "api_state_debug ApiReboot = ''Reboot''"
| "api_state_debug ApiDirectDownload = ''DirectDownload''"
| "api_state_debug ApiPrepareLocalInstall = ''PrepareLocalInstall''"
| "api_state_debug ApiError = ''Error''"

fun probe_line :: "probe_result \<Rightarrow> string" where
  "probe_line Updating = ''Update available. The update is running in background.''"
| "probe_line NoUpdateNow = ''There are no updates available.''"
| "probe_line (TryAgain t) = ''Server replied asking us to try again in '' @ show_int t @ '' seconds''"

record printer =
  json_info :: "api_info \<Rightarrow> string"
  debug_info :: "api_info \<Rightarrow> string"
  json_log :: "api_log \<Rightarrow> string"

definition install_lines :: "env \<Rightarrow> bool \<Rightarrow> api_state \<Rightarrow> string list" where
  "install_lines E js s = (if js then [json_text E (enc_api_state s)]
     else [''Local install request accepted from '' @ api_state_debug s @ '' state'',
           ''Run '' @ squote @ ''updatehub client log --watch'' @ squote @ '' to follow the log'' @ squote @ ''s progress''])"

definition is_remote_install :: "string \<Rightarrow> bool" where
  "is_remote_install a \<longleftrightarrow> starts_with ''http://'' a \<or> starts_with ''https://'' a"

definition is_absolute :: "string \<Rightarrow> bool" where
  "is_absolute p \<longleftrightarrow> starts_with ''/'' p"

definition install_path :: "string \<Rightarrow> string \<Rightarrow> string" where
  "install_path cwd a = (if is_absolute a then a else path_join cwd a)"

text \<open>
  The loop of \<open>log --watch\<close>, for at most \<open>n\<close> more requests; it ends earlier only by the error of
  one. The result is what was printed and the error, if any.
\<close>

fun watch_log :: "nat \<Rightarrow> nat \<Rightarrow> ('s, sdk_error, api_log) io \<Rightarrow> api_log \<Rightarrow> 's \<Rightarrow> (string list \<times> sdk_error option) \<times> 's" where
  "watch_log n nxt again log s =
     (let (shown, nxt') = watch_turn nxt (log_first log, log_entries log); lines = map entry_text shown
      in case n of 0 \<Rightarrow> ((lines, None), s)
       | Suc k \<Rightarrow> (case again s of
             (Inl e, t) \<Rightarrow> ((lines, Some e), t)
           | (Inr log', t) \<Rightarrow> (case watch_log k nxt' again log' t of ((rest, e), u) \<Rightarrow> ((lines @ rest, e), u))))"

declare watch_log.simps [simp del]

text \<open>A call whose answer is printed.\<close>

definition printed :: "('s, sdk_error, 'a) io \<Rightarrow> ('a \<Rightarrow> string list) \<Rightarrow> 's \<Rightarrow> (string list \<times> sdk_error option) \<times> 's" where
  "printed m show s = (case m s of (Inl e, t) \<Rightarrow> (([], Some e), t) | (Inr x, t) \<Rightarrow> ((show x, None), t))"

text \<open>\<open>cwd\<close>: the current directory; \<open>n\<close>: how often a watched log is asked for again.\<close>

definition client_main :: "env \<Rightarrow> printer \<Rightarrow> string \<Rightarrow> nat \<Rightarrow> (sdk_client \<Rightarrow> 's transport) \<Rightarrow> client_options \<Rightarrow> 's
    \<Rightarrow> (string list \<times> sdk_error option) \<times> 's" where
  "client_main E P cwd n net opts =
     (let cl = client_new (daemon_address opts); send = net cl; js = json_output opts in
      case command opts of
        CmdInfo \<Rightarrow> printed (client_info E send cl) (\<lambda>r. [if js then json_info P r else debug_info P r])
      | CmdLog watching \<Rightarrow> (\<lambda>s. case client_log E send cl s of
            (Inl e, t) \<Rightarrow> (([], Some e), t)
          | (Inr r, t) \<Rightarrow>
              if js then (([json_log P r], None), t)
              else if watching then watch_log n 0 (client_log E send cl) r t
              else (([log_text r], None), t))
      | CmdProbe server \<Rightarrow> printed (client_probe E send cl server)
          (\<lambda>r. [if js then json_text E (enc_probe_answer r) else probe_line r])
      | CmdAbortDownload \<Rightarrow> printed (client_abort_download E send cl)
          (\<lambda>r. [if js then json_text E (enc_api_state r) else api_state_debug r])
      | CmdInstallPackage a \<Rightarrow>
          (if is_remote_install a
           then printed (client_remote_install E send cl a) (install_lines E js)
           else printed (client_local_install E send cl (install_path cwd a)) (install_lines E js)))"

section \<open>Properties\<close>

text \<open>The command to install a package, given to an agent that may be interrupted and whose state
  both sides name alike: an HTTP or HTTPS address is downloaded by the agent, anything else is taken
  as a file, relative to the directory the command runs in; the agent is woken and the command
  reports the state it was in.\<close>

lemma install_command:
  assumes "c_waker c = 0" "is_preemptive_state st" "api_view st = Some s" "sent_ok E (JStr (state_name st))"
    and "sent_ok E (enc_local_install \<lparr>install_file = install_path cwd a\<rparr>)"
    and "sent_ok E (enc_remote_install \<lparr>install_url = a\<rparr>)"
  shows "let r = client_main E P cwd n (wire E v refuse) \<lparr>command = CmdInstallPackage a, daemon_address = d, json_output = js\<rparr> (st, c)
    in fst r = (install_lines E js s, None) \<and>
       fst (snd r) = (if is_remote_install a then DirectDownload a else PrepareLocalInstall (install_path cwd a)) \<and>
       c_waker (snd (snd r)) = 1"
  using assms by (simp add: client_main_def printed_def local_install_call remote_install_call Let_def)

lemma install_command_witness:
  "let js = [JStr ''poll'', enc_local_install \<lparr>install_file = ''/home/p''\<rparr>, enc_remote_install \<lparr>install_url = ''p''\<rparr>];
       E = example_wire_env js;
       P = \<lparr>json_info = \<lambda>_. [], debug_info = \<lambda>_. [], json_log = \<lambda>_. []\<rparr>;
       r = client_main E P ''/home'' 0 (wire E ''1'' (\<lambda>_. \<lparr>reply_status = 404, reply_body = []\<rparr>))
         \<lparr>command = CmdInstallPackage ''p'', daemon_address = ''localhost:8080'', json_output = False\<rparr> (Poll, example_context)
   in fst (snd r) = PrepareLocalInstall ''/home/p''"
proof -
  let ?js = "[JStr ''poll'', enc_local_install \<lparr>install_file = ''/home/p''\<rparr>, enc_remote_install \<lparr>install_url = ''p''\<rparr>]"
  let ?E = "example_wire_env ?js"
  have s: "sent_ok ?E j" if "j \<in> set ?js" for j using that by (rule example_wire_sent)
  have p: "install_path ''/home'' ''p'' = ''/home/p''" "is_remote_install ''p'' = False" by code_simp+
  show ?thesis unfolding Let_def
    using install_command [of example_context Poll ApiPoll ?E "''/home''" "''p''"
        "\<lparr>json_info = \<lambda>_. [], debug_info = \<lambda>_. [], json_log = \<lambda>_. []\<rparr>" 0 "''1''"
        "\<lambda>_. \<lparr>reply_status = 404, reply_body = []\<rparr>" "''localhost:8080''" False] s p
    by (simp add: Let_def example_context_def)
qed

end
