(* ===== verification/UH_Durable.thy ===== *)
theory UH_Durable
  imports UH_Progress
begin

text \<open>
  What holds whenever the machine is about to reboot: the update is on disk before the device is
  restarted, whatever happened before. And the way from the start of an agent to its probe.
\<close>

section \<open>What an installation leaves behind\<close>

text \<open>The scripts that swap the sets and the servers leave a file alone.\<close>

definition spares :: "env \<Rightarrow> string \<Rightarrow> bool" where
  "spares E f \<longleftrightarrow> (\<forall>s. node f (snd (run E GET_SCRIPT s)) = node f s) \<and>
     (\<forall>a s. node f (snd (run E (set_command a) s)) = node f s) \<and>
     (\<forall>q s. node f (snd (http E q s)) = node f s)"

definition stored_in :: "env \<Rightarrow> string \<Rightarrow> runtime_settings \<Rightarrow> sys \<Rightarrow> bool" where
  "stored_in E f r s \<longleftrightarrow> (persistent r \<and> rs_path r = f \<longrightarrow>
     (\<exists>n. node f s = Some n \<and> node_bytes n = Some (rs_serialize E r)))"

text \<open>The package is recorded, with a set as its target, and so it is in the file \<open>f\<close> of the
  runtime settings.\<close>

definition durable :: "env \<Rightarrow> string \<Rightarrow> state \<Rightarrow> agent_context \<Rightarrow> bool" where
  "durable E f st c \<longleftrightarrow> (\<forall>q. st = Reboot q \<longrightarrow>
     applied_package_uid (rs_update (c_runtime c)) = Some (package_uid E q) \<and>
     upgrade_to_installation (rs_update (c_runtime c)) \<noteq> None \<and> stored_in E f (c_runtime c) (c_sys c))"

lemma durable_same:
  "durable E f st c \<Longrightarrow> c_runtime d = c_runtime c \<Longrightarrow> node f (c_sys d) = node f (c_sys c) \<Longrightarrow> durable E f st d"
  by (simp add: durable_def stored_in_def)

lemma run_script_spares:
  assumes "\<And>s. node f (snd (run E k s)) = node f s"
  shows "io_rel (same (node f)) (run_script E k)"
proof -
  have "node f (snd (exec E k s)) = node f s" for s
    using assms [of s] by (cases "run E k s") (simp add: exec_def node_def)
  then have "io_rel (same (node f)) (exec E k)" by (simp add: io_rel_def same_def)
  then show ?thesis unfolding run_script_def by (intro frame) simp_all
qed

lemma swap_spares:
  assumes "spares E f" "swap_active E s = (r, t)"
  shows "node f t = node f s"
proof -
  have "io_rel (same (node f)) (swap_active E)"
    unfolding swap_active_def inactive_def active_def
    using assms(1) by (intro frame run_script_spares) (simp_all add: spares_def)
  then show ?thesis using assms(2) by (auto simp: same_def dest: io_relD)
qed

lemma report_spares:
  assumes "spares E f"
  shows "let d = snd (send_report E sv fw u n pr er lg c) in c_runtime d = c_runtime c \<and> node f (c_sys d) = node f (c_sys c)"
proof -
  have "node f (snd (http_send E q s)) = node f s" for q s
    using assms by (cases "http E q s") (simp add: http_send_def node_def spares_def, metis snd_conv)
  then have "io_rel (same (node f)) (http_send E q)" for q by (simp add: io_rel_def same_def)
  then have "io_rel (same (node f)) (report E sv n fw u pr er lg)"
    unfolding report_def by (intro frame) simp_all
  then show ?thesis
    by (cases "report E sv n fw u pr er lg (c_sys c)")
      (auto simp: send_report_def io_catch_def on_sys_def io_zoom_def say_def io_modify_def same_def Let_def
        dest: io_relD split: sum.splits)
qed

text \<open>An installation, reported or not, that ends in the reboot.\<close>

lemma install_durable:
  assumes "spares E f" "handle_install E p ctx c = (Inr (st', tr), d)"
  shows "durable E f st' d"
proof -
  obtain a c1 c2 s1 s2 s3 r1 r2 where
    "io_each (\<lambda>x. handler_act (install_object E ctx x)) (sort_objects (objects p a))
       (c1\<lparr>c_drain := log_line E ''info'' (''using installation set as target '' @ set_display a) (c_sys c1) (c_drain c1)\<rparr>) = (Inr (), c2)"
    and rec: "set_applied_package_uid E (package_uid E p) (c_runtime c2, c_sys c2) = (Inr (), (r1, s1))"
      "set_upgrading_to E a (r1, s1) = (Inr (), (r2, s2))"
    and swap: "swap_active E s2 = (Inr (), s3)" and r: "c_runtime d = r2" "c_sys d = s3"
    and out: "(st', tr) = (Reboot (with_objects a (sort_objects (objects p a)) p), Immediate)"
    using assms(2) by (rule handle_install_steps)
  have "rs_update r2 = \<lparr>upgrade_to_installation = Some a, applied_package_uid = Some (package_uid E p)\<rparr>"
    using stored_runtime(1) [OF rec(1)] stored_runtime(2) [OF rec(2)] by (simp add: upd_update_def)
  moreover have "stored_in E f r2 s2"
    using rec(2) rs_save_stored upgrading_set.in_memory [OF rec(2)]
    by (auto simp: stored_in_def upgrading_set.op_eq split: prod.splits)
  ultimately show ?thesis
    using out r swap_spares [OF assms(1) swap] by (auto simp: durable_def stored_in_def with_objects_def package_uid_def)
qed

lemma report_progress_durable:
  assumes "spares E f" "handle_and_report_progress E ab (Install p ctx) c = (Inr (st', tr), d)"
  shows "durable E f st' d"
proof -
  let ?rep = "\<lambda>n. send_report E (context_server c) (as_cloud_metadata (c_firmware c)) (package_uid E p) n None None None :: unit act"
  obtain e g where e: "handle_install E p ctx e = (Inr (st', tr), g)" and d: "d = snd (?rep ''installed'' g)"
    using assms(2)
    by (auto simp: handle_and_report_progress_def Let_def io_attempt_def io_return_def io_throw_def io_then_def
        elim!: io_bind_Inr_E split: sum.splits stop.splits prod.splits)
  show ?thesis
    using durable_same [OF install_durable [OF assms(1) e]] report_spares [OF assms(1)] unfolding d Let_def by metis
qed

lemma move_durable:
  assumes "spares E f" "goes_to_start ab" "move_to_next_state E ab st c = (Inr (st', tr), d)"
  shows "durable E f st' d"
proof (cases "\<exists>q. st' = Reboot q")
  case True
  moreover have "successor st st'" using yieldsD [OF leads_move [OF assms(2)] assms(3)] by simp
  ultimately obtain p ctx where st: "st = Install p ctx" by (cases st) (auto split: if_splits)
  obtain e where "handle_and_report_progress E ab (Install p ctx) e = (Inr (st', tr), d)"
    using assms(3) True unfolding st move_to_next_state.simps handle_with_callback_and_report_progress_def
    by (auto simp: io_return_def elim!: io_bind_Inr_E io_then_Inr_E split: transition.splits)
  then show ?thesis by (rule report_progress_durable [OF assms(1)])
qed (simp add: durable_def)

fun rebooting :: "state \<Rightarrow> bool" where
  "rebooting (Reboot _) = True"
| "rebooting _ = False"

lemma rebooting_iff: "rebooting st \<longleftrightarrow> (\<exists>q. st = Reboot q)"
  by (cases st) simp_all

lemma not_requested_rebooting: "requested (Some st) \<Longrightarrow> \<not> rebooting st"
  by (cases st) simp_all

text \<open>The reboot is entered from the installation, at once and with the update stored.\<close>

lemma turn_durable:
  assumes "turn E rqs pos st c = (Inr (st', tr), d)" "rebooting st'"
  shows "tr = Immediate \<and> (spares E f \<longrightarrow> durable E f st' d)"
  using assms(1)
proof (rule turn_cases)
  fix e s g assume "(\<exists>ab g. goes_to_start ab \<and> move_to_next_state E ab s g = (Inr (st', tr), d)) \<or> (\<exists>x. st' = ErrorState x \<and> tr = Immediate)"
  then obtain ab g where ab: "goes_to_start ab" and m: "move_to_next_state E ab s g = (Inr (st', tr), d)" using assms(2) by auto
  have "waits_when (st', tr)" using yieldsD [OF leads_move [OF ab] m] by simp
  then show ?thesis using assms(2) move_durable [OF _ ab m] by (cases tr) (auto simp: waits_when_def rebooting_iff)
qed

text \<open>On an environment that spares the file of the runtime settings; on others there is nothing to hold.\<close>

interpretation reboot: entered E rebooting "\<lambda>st c. spares E f \<longrightarrow> durable E f st c" for E f
proof
  show "turn E rqs pos st c = (Inr (st', tr), d) \<Longrightarrow> rebooting st' \<Longrightarrow> tr = Immediate \<and> (spares E f \<longrightarrow> durable E f st' d)"
    for rqs pos st c st' tr d by (rule turn_durable)
  show "spares E f \<longrightarrow> durable E f st c \<Longrightarrow> spares E f \<longrightarrow> durable E f st (c\<lparr>c_queue := rqs\<rparr>)" for st c rqs
    using durable_same [of E f st c "c\<lparr>c_queue := rqs\<rparr>"] by simp
  show "spares E f \<longrightarrow> durable E f st c \<Longrightarrow> spares E f \<longrightarrow> durable E f st (c\<lparr>c_sys := (c_sys c)\<lparr>clock := t\<rparr>\<rparr>)" for st c t
    using durable_same [of E f st c "c\<lparr>c_sys := (c_sys c)\<lparr>clock := t\<rparr>\<rparr>"] by (simp add: node_def)
qed (auto dest: not_requested_rebooting)

section \<open>From the start to the probe\<close>

text \<open>The time of the next probe has come.\<close>

definition poll_due :: "agent_context \<Rightarrow> bool" where
  "poll_due c \<longleftrightarrow> (let i = interval (polling (c_settings c));
     delay = i - (utc_now (c_sys c) - last_poll (rs_polling (c_runtime c))) in delay > i \<or> num_seconds delay < 0)"

text \<open>With no request waiting, no server given by a user and no update to finish, an agent that polls and
  whose time has come goes to the probe in two turns, and changes nothing but its log.\<close>

definition about_to_probe :: "agent_context \<Rightarrow> bool" where
  "about_to_probe c \<longleftrightarrow> c_queue c = [] \<and> \<not> is_polling_forced (c_runtime c) \<and> custom_server_address (c_runtime c) = None \<and>
     enabled (polling (c_settings c)) \<and> poll_due c"

lemma reset_transient_default: "custom_server_address r = None \<Longrightarrow> reset_transient_settings r = r"
  by (simp add: reset_transient_settings_def upd_polling_def custom_server_address_def split: server_address.splits)

lemma turns_to_probe:
  assumes "about_to_probe c"
  shows "map_option fst (turns E 1 EntryPoint c) = Some Poll \<and>
    (\<exists>l. \<forall>n. turns E (n + 2) EntryPoint c = turns E n Probe (c\<lparr>c_waker := 0, c_drain := l\<rparr>))"
proof -
  let ?c = "c\<lparr>c_waker := 0, c_drain := stop_logging (c_drain c)\<rparr>"
  have q: "c_queue c = []" "c_queue ?c = []" using assms by (simp_all add: about_to_probe_def)
  have "succeeds (move_to_next_state E None EntryPoint) (c\<lparr>c_waker := 0\<rparr>) (\<lambda>out t. out = (Poll, Immediate) \<and> t = ?c)"
    using assms by (simp add: handle_entry_point_def succeeds_def about_to_probe_def reset_transient_default
        io_simps set_drain_def set_runtime_def)
  from turns_Suc [OF turn_succeeds [OF q(1) this]] have 1: "turns E (Suc n) EntryPoint c = turns E n Poll ?c" for n by auto
  let ?d = "?c\<lparr>c_drain := log_line E ''info'' ''probing server as we are in time'' (c_sys c) (c_drain ?c)\<rparr>"
  have "poll_due c" using assms by (simp add: about_to_probe_def)
  then have "succeeds (move_to_next_state E None Poll) ?c (\<lambda>out t. out = (Probe, Immediate) \<and> t = ?d)"
    by (simp add: handle_poll_def succeeds_def io_return_def poll_due_def Let_def)
  moreover have "?c\<lparr>c_waker := 0\<rparr> = ?c" by simp
  ultimately have "succeeds (move_to_next_state E None Poll) (?c\<lparr>c_waker := 0\<rparr>) (\<lambda>out t. out = (Probe, Immediate) \<and> t = ?d)"
    by (simp only:)
  from turns_Suc [OF turn_succeeds [OF q(2) this]] have 2: "turns E (Suc n) Poll ?c = turns E n Probe ?d" for n by auto
  have "turns E (n + 2) EntryPoint c = turns E n Probe (c\<lparr>c_waker := 0, c_drain := c_drain ?d\<rparr>)" for n
    unfolding add_2_eq_Suc' by (simp only: 1 2) simp
  moreover have "map_option fst (turns E 1 EntryPoint c) = Some Poll" using 1 [of 0] by simp
  ultimately show ?thesis by blast
qed

lemma from_entry_point [simp]:
  "context_server (c\<lparr>c_waker := w, c_drain := l\<rparr>) = context_server c"
  "download_dir_of (c\<lparr>c_waker := w, c_drain := l\<rparr>) = download_dir_of c"
  "installer_context_for E (c\<lparr>c_waker := w, c_drain := l\<rparr>) p b = installer_context_for E c p b"
  "device_ready slot a J (c\<lparr>c_waker := w, c_drain := l\<rparr>) = device_ready slot a J c"
  by (auto simp: context_server_def download_dir_of_def installer_context_for_def device_ready_def callback_path_def
      metadata_dir_of_def intro!: ext split: option.split)

lemma favourable_from [simp]:
  "favourable E slot a J p g (c\<lparr>c_waker := w, c_drain := l\<rparr>) = favourable E slot a J p g c"
  "server_has E a body p (c\<lparr>c_waker := w, c_drain := l\<rparr>) = server_has E a body p c"
  "fst (send_probe E (c\<lparr>c_waker := w, c_drain := l\<rparr>)) = fst (send_probe E c)"
  by (simp_all add: favourable_def paths_apart_def package_fits_def own_path_def callback_path_def metadata_dir_of_def
      server_has_def send_probe_def on_sys_def io_zoom_def split: prod.split)

lemma from_sys:
  "context_server (c\<lparr>c_sys := s\<rparr>) = context_server c"
  "download_dir_of (c\<lparr>c_sys := s\<rparr>) = download_dir_of c"
  "metadata_dir_of (c\<lparr>c_sys := s\<rparr>) = metadata_dir_of c"
  "installer_context_for E (c\<lparr>c_sys := s\<rparr>) p b = installer_context_for E c p b"
  "callback_path (c\<lparr>c_sys := s\<rparr>) = callback_path c"
  "device_ready slot a J (c\<lparr>c_sys := s\<rparr>) = device_ready slot a J c"
  by (auto simp: context_server_def download_dir_of_def metadata_dir_of_def installer_context_for_def device_ready_def callback_path_def
      intro!: ext split: option.split)

lemma favourable_sys [simp]:
  "favourable E slot a J p g (c\<lparr>c_sys := s\<rparr>) = favourable E slot a J p g c"
  "server_has E a body p (c\<lparr>c_sys := s\<rparr>) = server_has E a body p c"
  by (simp_all add: favourable_def paths_apart_def package_fits_def own_path_def server_has_def from_sys)

text \<open>An update that nothing prevents, from the entry point.\<close>

lemma update_from_start:
  assumes "favourable E slot a J p g c" and "device_ready slot a J c (c_sys c)" and "about_to_probe c"
    and "fetchable E (download_dir_of c) (objects p a) (c_sys c)" and "fst (send_probe E c) = Inr (Update p g)"
    and "server_has E a body p c"
  shows "map (\<lambda>n. map_option fst (turns E n EntryPoint c)) [1, 2, 3, 4, 5, 6, 7] =
      map Some [Poll, Probe, Validation p g True, Download p g, Validation p g False, Install p (installer_context_for E c p False),
        Reboot (with_objects a (sort_objects (objects p a)) p)] \<and>
    (\<exists>d. turns E 7 EntryPoint c = Some (Reboot (with_objects a (sort_objects (objects p a)) p), d) \<and> arrived E slot a J p c d) \<and>
    (\<exists>d. turns E 8 EntryPoint c = Some (EntryPoint, d) \<and> arrived E slot a J p c d \<and> last (commands (c_sys d)) = ''reboot'')"
proof -
  obtain l where l: "\<And>n. turns E (n + 2) EntryPoint c = turns E n Probe (c\<lparr>c_waker := 0, c_drain := l\<rparr>)"
    and f: "map_option fst (turns E 1 EntryPoint c) = Some Poll"
    using turns_to_probe [OF assms(3), of E] by blast
  let ?c = "c\<lparr>c_waker := 0, c_drain := l\<rparr>"
  have "c_queue ?c = []" using assms(3) by (simp add: about_to_probe_def)
  from update_runs [of E slot a J p g ?c body, OF _ _ this]
  have u: "map (\<lambda>n. map_option fst (turns E n Probe ?c)) [1, 2, 3, 4, 5] =
      map Some [Validation p g True, Download p g, Validation p g False, Install p (installer_context_for E c p False),
        Reboot (with_objects a (sort_objects (objects p a)) p)]"
    "\<exists>d. turns E 5 Probe ?c = Some (Reboot (with_objects a (sort_objects (objects p a)) p), d) \<and> arrived E slot a J p ?c d"
    "\<exists>d. turns E 6 Probe ?c = Some (EntryPoint, d) \<and> arrived E slot a J p ?c d \<and> last (commands (c_sys d)) = ''reboot''"
    using assms by simp_all
  have a: "0 + 2 = (2 :: nat)" "1 + 2 = (3 :: nat)" "2 + 2 = (4 :: nat)" "3 + 2 = (5 :: nat)" "4 + 2 = (6 :: nat)"
    "5 + 2 = (7 :: nat)" "6 + 2 = (8 :: nat)" by simp_all
  have k: "turns E 2 EntryPoint c = turns E 0 Probe ?c" "turns E 3 EntryPoint c = turns E 1 Probe ?c" "turns E 4 EntryPoint c = turns E 2 Probe ?c"
    "turns E 5 EntryPoint c = turns E 3 Probe ?c" "turns E 6 EntryPoint c = turns E 4 Probe ?c" "turns E 7 EntryPoint c = turns E 5 Probe ?c"
    "turns E 8 EntryPoint c = turns E 6 Probe ?c"
    using l [of 0] l [of 1] l [of 2] l [of 3] l [of 4] l [of 5] l [of 6] by (simp_all only: a)
  have "arrived E slot a J p ?c d = arrived E slot a J p c d" for d
    by (simp add: arrived_def callback_path_def metadata_dir_of_def)
  with u f show ?thesis unfolding list.map k by (simp del: turns.simps add: turns.simps(1))
qed

section \<open>Properties\<close>

text \<open>C5: Whatever happened before, when the machine is about to reboot the package is recorded with a set
  as its target, and if the settings are kept on disk, a start after a loss of power at this point
  reads from the file what the agent has recorded.\<close>

theorem reboot_is_recorded:
  assumes "reachable E c0 (Turning, Reboot q, c)" and "spares E (rs_path (c_runtime c))"
    and "persistent (c_runtime c)" and "readable E (rs_path (c_runtime c)) (c_sys c)" and "text_round_trip E (c_runtime c)"
  shows "\<exists>a. rs_update (c_runtime c) = \<lparr>upgrade_to_installation = Some a, applied_package_uid = Some (package_uid E q)\<rparr> \<and>
    rs_load E (rs_path (c_runtime c)) (c_sys c) = (Inr ((c_runtime c)\<lparr>v1_content := None\<rparr>), c_sys c)"
proof -
  have d: "durable E (rs_path (c_runtime c)) (Reboot q) c"
    using reboot.held [OF assms(1), of "rs_path (c_runtime c)"] assms(2) by simp
  then obtain a where "upgrade_to_installation (rs_update (c_runtime c)) = Some a"
    "applied_package_uid (rs_update (c_runtime c)) = Some (package_uid E q)" by (auto simp: durable_def)
  then have "rs_update (c_runtime c) = \<lparr>upgrade_to_installation = Some a, applied_package_uid = Some (package_uid E q)\<rparr>" by simp
  moreover obtain n where n: "node (rs_path (c_runtime c)) (c_sys c) = Some n" "node_bytes n = Some (rs_serialize E (c_runtime c))"
    using d assms(3) by (auto simp: durable_def stored_in_def)
  moreover have "(c_runtime c)\<lparr>v1_content := None, rs_path := rs_path (c_runtime c)\<rparr> = (c_runtime c)\<lparr>v1_content := None\<rparr>" by simp
  ultimately show ?thesis using rs_load_stored [OF assms(4) n assms(5)] by metis
qed

text \<open>Two days after the last probe.\<close>

definition started_context :: agent_context where
  "started_context = update_context\<lparr>c_sys := (c_sys update_context)\<lparr>clock := seconds (48 * 60 * 60)\<rparr>\<rparr>"

lemma spares_scripts: "slot_scripts E slot \<Longrightarrow> (\<And>q s. snd (http E q s) = s) \<Longrightarrow> spares E f"
  by (auto simp: spares_def slot_scripts_def node_def) (metis snd_conv sys.select_convs(1) sys.surjective sys.update_convs(5))

lemma started:
  "favourable (update_env f) example_slot InstB update_J (served_package b) g started_context"
  "device_ready example_slot InstB update_J started_context (c_sys started_context)"
  "about_to_probe started_context"
  "fetchable (update_env f) (download_dir_of started_context) (objects (served_package ''a'') InstB) (c_sys started_context)"
  "fst (send_probe (update_env f) started_context) = Inr (Update (served_package ''a'') None)"
  "server_has (update_env f) InstB (\<lambda>_. \<lparr>status = 200, resp_headers = [], chunks = [''a''], broken = None\<rparr>) (served_package ''a'') started_context"
proof -
  show "favourable (update_env f) example_slot InstB update_J (served_package b) g started_context"
    using update_favourable by (simp add: started_context_def)
  have "storable r (s\<lparr>clock := t\<rparr>) = storable r s" for r s t by (simp add: storable_def node_def)
  then show "device_ready example_slot InstB update_J started_context (c_sys started_context)"
    using update_ready unfolding started_context_def from_sys by (simp add: device_ready_def update_J_def node_def)
  show "about_to_probe started_context" by code_simp
  show "fetchable (update_env f) (download_dir_of started_context) (objects (served_package ''a'') InstB) (c_sys started_context)"
    unfolding served_objects by code_simp
  show "fst (send_probe (update_env f) started_context) = Inr (Update (served_package ''a'') None)" by code_simp
  show "server_has (update_env f) InstB (\<lambda>_. \<lparr>status = 200, resp_headers = [], chunks = [''a''], broken = None\<rparr>) (served_package ''a'') started_context"
    using update_server_has by (simp add: started_context_def)
qed

theorem reboot_is_recorded_witness:
  "\<forall>f. \<exists>q c a. reachable (update_env f) started_context (Turning, Reboot q, c) \<and>
     rs_update (c_runtime c) = \<lparr>upgrade_to_installation = Some a, applied_package_uid = Some (package_uid (update_env f) q)\<rparr> \<and>
     rs_load (update_env f) ''/rs'' (c_sys c) = (Inr ((c_runtime c)\<lparr>v1_content := None\<rparr>), c_sys c)"
proof
  fix f
  let ?E = "update_env f" and ?p = "served_package ''a''"
  obtain c where c: "turns ?E 7 EntryPoint started_context = Some (Reboot (with_objects InstB (sort_objects (objects ?p InstB)) ?p), c)"
    "arrived ?E example_slot InstB update_J ?p started_context c"
    using update_from_start [OF started] by blast
  have r: "rs_path (c_runtime c) = ''/rs''" "persistent (c_runtime c)"
    using c(2) by (simp_all add: arrived_def started_context_def update_context_def)
  have "outside_helps ?E example_slot" using started(1) by (simp add: favourable_def)
  then have o: "fault_free ?E" "spares ?E ''/rs''"
    using spares_scripts [of ?E example_slot "''/rs''"] by (simp_all add: outside_helps_def)
  then have "readable ?E ''/rs'' (c_sys c)" by (simp add: readable_def)
  from reboot_is_recorded [OF turns_reachable [OF c(1)], unfolded r(1), OF o(2) r(2) this update_text_round_trip]
  show "\<exists>q c a. reachable ?E started_context (Turning, Reboot q, c) \<and>
     rs_update (c_runtime c) = \<lparr>upgrade_to_installation = Some a, applied_package_uid = Some (package_uid ?E q)\<rparr> \<and>
     rs_load ?E ''/rs'' (c_sys c) = (Inr ((c_runtime c)\<lparr>v1_content := None\<rparr>), c_sys c)"
    using turns_reachable [OF c(1)] by blast
qed

text \<open>The installation of the package with an object for each set, from the start of the agent.\<close>

lemma update_slot_law: "slot_law (update_env f) example_slot"
proof -
  have "outside_helps (update_env f) example_slot" using started(1) by (simp add: favourable_def)
  moreover have "slot_kept (update_env f) example_slot"
    using callback_env_kept [of f] by (simp add: slot_kept_def update_env_def update_run_def example_env_def)
  ultimately show ?thesis by (simp add: slot_law_def outside_helps_def)
qed

theorem installs_checked_packages_witness:
  "\<forall>f. \<exists>p ctx c x. reachable (update_env f) started_context (Turning, Install p ctx, c) \<and>
     objects p (install_target example_slot c) = [x] \<and> \<not> allow_remote_install x \<and>
     (\<exists>s t. check_requirements (update_env f) ctx x s = (Inr (), t)) \<and>
     (\<exists>s. files s = files (c_sys c) \<and> info_status (update_env f) ''/d'' x s = Inr Ready)"
proof
  fix f
  let ?E = "update_env f" and ?p = "served_package ''a''"
  let ?ctx = "installer_context_for ?E started_context ?p False"
  obtain c where c: "turns ?E 6 EntryPoint started_context = Some (Install ?p ?ctx, c)"
    using update_from_start [OF started] by (auto simp del: turns.simps)
  have r: "reachable ?E started_context (Turning, Install ?p ?ctx, c)" by (rule turns_reachable [OF c])
  have o: "objects ?p a = [Test (served_test ''61'')]" for a
    by (cases a) (simp_all add: objects_def served_package_def served_sum_def)
  have dir: "download_dir_of c = ''/d''"
    using configured_reachable [OF r] by (simp add: configured_def download_dir_of_def started_context_def update_context_def update_settings_def)
  have "\<not> allow_remote_install (Test (served_test ''61''))" by simp
  with installs_checked_packages [OF r update_slot_law refl]
  show "\<exists>p ctx c x. reachable ?E started_context (Turning, Install p ctx, c) \<and>
     objects p (install_target example_slot c) = [x] \<and> \<not> allow_remote_install x \<and>
     (\<exists>s t. check_requirements ?E ctx x s = (Inr (), t)) \<and>
     (\<exists>s. files s = files (c_sys c) \<and> info_status ?E ''/d'' x s = Inr Ready)"
    using r unfolding o dir
    by (intro exI [of _ ?p] exI [of _ ?ctx] exI [of _ c] exI [of _ "Test (served_test ''61'')"]) (simp add: o)
qed

end
