(* ===== verification/UH_Restart.thy ===== *)
theory UH_Restart
  imports UH_Durable
begin

text \<open>
  The start of the agent after an update: the runtime settings are read back, and the startup
  callbacks of \<open>states/mod.rs\<close> confirm the update or roll it back. The composition with the turns of
  \<open>UH_Progress\<close> takes an update from the probe that finds it to the start that decides on it.
\<close>

section \<open>The startup callbacks succeed\<close>

text \<open>The callbacks of the firmware on a device where nothing fails: the one that validates gives its
  verdict, the one that follows a rollback succeeds, and neither touches the files of the agent. \<open>J\<close> is
  what they need of the files.\<close>

definition callbacks_help :: "env \<Rightarrow> (sys \<Rightarrow> bool) \<Rightarrow> string \<Rightarrow> transition \<Rightarrow> bool" where
  "callbacks_help E J dir v \<longleftrightarrow>
     (\<forall>s. J s \<longrightarrow> (\<exists>t. validate_callback E dir s = (Inr v, t) \<and> files t = files s)) \<and>
     (\<forall>s. J s \<longrightarrow> (\<exists>t. rollback_callback E dir s = (Inr (), t) \<and> files t = files s))"

text \<open>A condition on files.\<close>

definition of_files :: "(sys \<Rightarrow> bool) \<Rightarrow> bool" where
  "of_files J \<longleftrightarrow> (\<forall>s t. files t = files s \<longrightarrow> J s \<longrightarrow> J t)"

lemma of_filesD: "of_files J \<Longrightarrow> J s \<Longrightarrow> files t = files s \<Longrightarrow> J t"
  by (auto simp: of_files_def)

lemma paths_apart_files:
  assumes "paths_apart c J"
  shows "of_files J"
  unfolding of_files_def
proof (intro allI impI)
  fix s t :: sys assume "files t = files s" "J s"
  then have "node q t = node q s" for q by (simp add: node_def)
  with \<open>J s\<close> assms show "J t" unfolding paths_apart_def by blast
qed

lemma on_disk_storable: "on_disk E r s \<Longrightarrow> storable r s"
  by (simp add: on_disk_def)

lemma storable_saved: "storable r s \<Longrightarrow> storable r (set_node (rs_path r) (Regular b) s)"
proof -
  assume a: "storable r s"
  show ?thesis
  proof (cases "persistent r")
    case True
    then obtain d where d: "path_parent (rs_path r) = Some d" "node d s = Some Directory"
      using a by (auto simp: storable_def)
    moreover have "d \<noteq> rs_path r" using path_parent_shorter [OF d(1)] by auto
    ultimately show ?thesis by (simp add: storable_def)
  qed (simp add: storable_def)
qed

lemma saved_on_disk:
  assumes "rs_save E r s = (Inr u, t)" "storable r t"
  shows "on_disk E r t"
proof (cases "persistent r")
  case True
  then obtain n where "node (rs_path r) t = Some n" "node_bytes n = Some (rs_serialize E r)"
    using rs_save_stored [OF assms(1)] by blast
  then show ?thesis using True assms(2) by (auto simp: on_disk_def storable_def node_bytes_def)
qed (simp add: on_disk_def assms(2))

lemma confirm_succeeds:
  assumes "fault_free E" "slot_scripts E slot" "on_disk E r s"
  shows "\<exists>t. io_then (startup_sys AeFirmware (validate_set E)) (startup_runtime (reset_installation_settings E)) (r, s) =
    (Inr (), (cleared_installation r, t)) \<and> slot (device t) = slot (device s) \<and> on_disk E (cleared_installation r) t"
proof -
  obtain d where d: "validate_set E s = (Inr (), s\<lparr>device := d, commands := commands s @ [VALIDATE_SCRIPT]\<rparr>)"
    using validate_set_scripts [OF assms(2), of s] by blast
  let ?s = "s\<lparr>device := d, commands := commands s @ [VALIDATE_SCRIPT]\<rparr>"
  have "storable (cleared_installation r) ?s"
    using on_disk_storable [OF assms(3)] by (simp add: storable_def node_def cleared_installation_eq)
  from rs_save_succeeds [OF assms(1) this] storable_saved [OF this] obtain t
    where t: "rs_save E (cleared_installation r) ?s = (Inr (), t)" "storable (cleared_installation r) t"
    using \<open>storable (cleared_installation r) ?s\<close> by metis
  then have "reset_installation_settings E (r, ?s) = (Inr (), (cleared_installation r, t))"
    using installation_reset.op_eq [of E r ?s] by simp
  then have m: "io_then (startup_sys AeFirmware (validate_set E)) (startup_runtime (reset_installation_settings E)) (r, s) =
      (Inr (), (cleared_installation r, t))"
    using d by (simp add: startup_sys_def startup_runtime_def io_simps io_zoom_def)
  with startup_confirm [OF assms(2) m] saved_on_disk [OF t] show ?thesis by blast
qed

lemma rollback_succeeds:
  assumes "outside_helps E slot" "slot_kept E slot" "\<not> v1_parsing E" "callbacks_help E J dir v" "of_files J" "J s" "on_disk E r s"
  shows "\<exists>t. startup_rollback E dir (r, s) = (Inr (), (r, t)) \<and> slot (device t) = other_set (slot (device s)) \<and>
    last (commands t) = ''reboot'' \<and> on_disk E r t \<and> files t = files s"
proof -
  have sl: "slot_scripts E slot" using assms(1) by (simp add: outside_helps_def)
  obtain d where d: "swap_active E s = (Inr (), s\<lparr>device := d, commands := commands s @ [GET_SCRIPT, set_command (other_set (slot (device s)))]\<rparr>)"
    using swap_active_scripts [OF sl, of s] by blast
  let ?s = "s\<lparr>device := d, commands := commands s @ [GET_SCRIPT, set_command (other_set (slot (device s)))]\<rparr>"
  obtain u where u: "rollback_callback E dir ?s = (Inr (), u)" "files u = files ?s" using assms(4) of_filesD [OF assms(5,6), of ?s] unfolding callbacks_help_def by auto
  obtain x where "run E ''reboot'' u = (Inr x, u)" using assms(1) unfolding outside_helps_def by blast
  then have e: "exec E ''reboot'' u = (Inr x, u\<lparr>commands := commands u @ [''reboot'']\<rparr>)" by (simp add: exec_def)
  have m: "startup_rollback E dir (r, s) = (Inr (), (r, u\<lparr>commands := commands u @ [''reboot'']\<rparr>))"
    using d u(1) e assms(3) by (simp add: startup_rollback_def startup_sys_def io_simps io_zoom_def)
  have "on_disk E r u" using on_disk_files [OF u(2)] assms(7) by simp
  with startup_rollback_slot [OF sl assms(2,3) m] m u(2) show ?thesis by simp
qed

text \<open>The first start with an upgrade to the set that is active, and one with that set no longer active.\<close>

lemma first_start:
  assumes out: "outside_helps E slot" and "slot_kept E slot" "\<not> v1_parsing E"
    and cb: "callbacks_help E J (metadata_dir (firmware cfg)) v" and j: "of_files J" "J s" and d: "on_disk E r s"
    and up: "upgrade_to_installation (rs_update r) = Some a" and act: "slot (device s) = a"
  shows "\<exists>q t. handle_startup_callbacks E cfg (r, s) = (Inr (), (q, t)) \<and>
    (case v of Continue \<Rightarrow> q = cleared_installation r \<and> slot (device t) = a \<and> on_disk E q t
     | Cancel \<Rightarrow> q = r \<and> slot (device t) = other_set a \<and> last (commands t) = ''reboot'' \<and> on_disk E r t \<and> files t = files s)"
proof -
  have sl: "slot_scripts E slot" and ff: "fault_free E" using out by (simp_all add: outside_helps_def)
  let ?s = "s\<lparr>commands := commands s @ [GET_SCRIPT]\<rparr>" and ?dir = "metadata_dir (firmware cfg)"
  obtain u where u: "validate_callback E ?dir ?s = (Inr v, u)" "files u = files ?s" 
    using cb of_filesD [OF j, of ?s] unfolding callbacks_help_def by auto
  have ju: "J u" using of_filesD [OF j, of u] u(2) by simp
  have su: "slot (device u) = a" using validate_callback_slot [OF assms(2) u(1)] act by simp
  have du: "on_disk E r u" using on_disk_files [OF u(2)] d by simp
  have w: "startup_sys AeFirmware (validate_callback E ?dir) (r, ?s) = (Inr v, (r, u))" by (simp add: startup_sys_Inr u(1))
  have e: "handle_startup_callbacks E cfg (r, s) = (case v of Cancel \<Rightarrow> startup_rollback E ?dir
      | Continue \<Rightarrow> io_then (startup_sys AeFirmware (validate_set E)) (startup_runtime (reset_installation_settings E))) (r, u)"
    using act by (simp add: startup_cases [OF sl up] Let_def io_bind_def w)
  show ?thesis
  proof (cases v)
    case Continue
    with e confirm_succeeds [OF ff sl du] su show ?thesis by auto
  next
    case Cancel
    with e rollback_succeeds [OF out assms(2,3) cb j(1) ju du] su u(2) show ?thesis by auto
  qed
qed

lemma second_start:
  assumes "outside_helps E slot" "on_disk E r s" "upgrade_to_installation (rs_update r) = Some a" "slot (device s) = other_set a"
  shows "\<exists>t. handle_startup_callbacks E cfg (r, s) = (Inr (), (cleared_installation r, t)) \<and> slot (device t) = other_set a \<and>
    on_disk E (cleared_installation r) t"
proof -
  have sl: "slot_scripts E slot" and ff: "fault_free E" using assms(1) by (simp_all add: outside_helps_def)
  have "a \<noteq> other_set a" by (cases a) simp_all
  then have "handle_startup_callbacks E cfg (r, s) =
      io_then (startup_sys AeFirmware (validate_set E)) (startup_runtime (reset_installation_settings E)) (r, s\<lparr>commands := commands s @ [GET_SCRIPT]\<rparr>)"
    using assms(4) by (simp add: startup_cases [OF sl assms(3)] Let_def)
  with confirm_succeeds [OF ff sl, of r "s\<lparr>commands := commands s @ [GET_SCRIPT]\<rparr>"] assms(2,4) show ?thesis by simp
qed

section \<open>Properties\<close>

text \<open>What is left of an update that is decided on: nothing but the order to probe at once.\<close>

definition decided :: "runtime_settings \<Rightarrow> bool" where
  "decided q \<longleftrightarrow> rs_update q = \<lparr>upgrade_to_installation = None, applied_package_uid = None\<rparr> \<and> is_polling_forced q"

lemma cleared_decided: "decided (cleared_installation r)"
  by (simp add: decided_def cleared_installation_eq is_polling_forced_def)

text \<open>An update carried through. When nothing prevents an update and the settings are kept on disk,
  the start after its reboot finds in the file that the update was installed. If the callback of the
  firmware accepts it, the updated set stays active and the update is forgotten; if not, that start
  makes the other set active again and reboots, and the start after that forgets the update.\<close>

lemma update_carried_through:
  assumes "favourable E slot a J p g c" and "device_ready slot a J c (c_sys c)" and "c_queue c = []"
    and "fetchable E (download_dir_of c) (objects p a) (c_sys c)" and "fst (send_probe E c) = Inr (Update p g)"
    and "server_has E a body p c"
    and "persistent (c_runtime c)" and "\<And>r. text_round_trip E r" and "slot_kept E slot" and "\<not> v1_parsing E"
    and "callbacks_help E J (metadata_dir_of c) v"
  shows "\<exists>d r q t. turns E 6 Probe c = Some (EntryPoint, d) \<and>
    rs_load E (rs_path (c_runtime c)) (c_sys d) = (Inr r, c_sys d) \<and>
    rs_update r = \<lparr>upgrade_to_installation = Some a, applied_package_uid = Some (package_uid E p)\<rparr> \<and>
    handle_startup_callbacks E (c_settings c) (enable_persistency r, c_sys d) = (Inr (), (q, t)) \<and>
    (case v of
       Continue \<Rightarrow> decided q \<and> slot (device t) = a
     | Cancel \<Rightarrow> q = enable_persistency r \<and> slot (device t) = other_set a \<and> last (commands t) = ''reboot'' \<and>
         (\<exists>q' t'. handle_startup_callbacks E (c_settings c) (q, t) = (Inr (), (q', t')) \<and> decided q' \<and> slot (device t') = other_set a))"
proof -
  have out: "outside_helps E slot" and ff: "fault_free E" using assms(1) by (simp_all add: favourable_def outside_helps_def)
  obtain d where d: "turns E 6 Probe c = Some (EntryPoint, d)" "arrived E slot a J p c d"
    using update_runs [OF assms(1-6)] by blast
  let ?f = "rs_path (c_runtime c)" and ?r = "(c_runtime d)\<lparr>v1_content := None\<rparr>"
  have f: "rs_path (c_runtime d) = ?f" "persistent (c_runtime d)" "on_disk E (c_runtime d) (c_sys d)" "slot (device (c_sys d)) = a"
    "rs_update (c_runtime d) = \<lparr>upgrade_to_installation = Some a, applied_package_uid = Some (package_uid E p)\<rparr>"
    using d(2) assms(7) by (simp_all add: arrived_def)
  have n: "node ?f (c_sys d) = Some (Regular (rs_serialize E (c_runtime d)))" using f(1-3) by (simp add: on_disk_def)
  have "readable E ?f (c_sys d)" using ff by (simp add: readable_def)
  from rs_load_stored [OF this n _ assms(8)] f(1) have l: "rs_load E ?f (c_sys d) = (Inr ?r, c_sys d)" by simp
  let ?e = "enable_persistency ?r"
  have "on_disk E ?e (c_sys d) = on_disk E (c_runtime d) (c_sys d)"
    using f(2) by (simp add: enable_persistency_def on_disk_def storable_def rs_serialize_def enc_rs_def)
  then have e: "upgrade_to_installation (rs_update ?e) = Some a" "on_disk E ?e (c_sys d)"
    using f(3,5) by (simp_all add: enable_persistency_def)
  have j: "of_files J" "J (c_sys d)"
    using paths_apart_files [of c J] assms(1) of_filesD d(2) by (auto simp: favourable_def arrived_def)
  have cb: "callbacks_help E J (metadata_dir (firmware (c_settings c))) v" using assms(11) by (simp add: metadata_dir_of_def)
  obtain q t where q: "handle_startup_callbacks E (c_settings c) (?e, c_sys d) = (Inr (), (q, t))"
    "case v of Continue \<Rightarrow> q = cleared_installation ?e \<and> slot (device t) = a \<and> on_disk E q t
     | Cancel \<Rightarrow> q = ?e \<and> slot (device t) = other_set a \<and> last (commands t) = ''reboot'' \<and> on_disk E ?e t \<and> files t = files (c_sys d)"
    using first_start [OF out assms(9,10) cb j e(2,1) f(4)] by blast
  have "\<exists>q' t'. handle_startup_callbacks E (c_settings c) (q, t) = (Inr (), (q', t')) \<and> decided q' \<and> slot (device t') = other_set a"
    if "v = Cancel"
    using second_start [OF out _ e(1), of t "c_settings c"] q(2) that cleared_decided by auto
  then have "case v of
       Continue \<Rightarrow> decided q \<and> slot (device t) = a
     | Cancel \<Rightarrow> q = ?e \<and> slot (device t) = other_set a \<and> last (commands t) = ''reboot'' \<and>
         (\<exists>q' t'. handle_startup_callbacks E (c_settings c) (q, t) = (Inr (), (q', t')) \<and> decided q' \<and> slot (device t') = other_set a)"
    using q(2) cleared_decided by (cases v) auto
  moreover have "rs_update ?r = \<lparr>upgrade_to_installation = Some a, applied_package_uid = Some (package_uid E p)\<rparr>" using f(5) by simp
  ultimately show ?thesis using d(1) l q(1) by blast
qed

lemma update_callbacks: "callbacks_help (update_env f) update_J (metadata_dir_of update_context) (if f then Cancel else Continue)"
proof -
  have j: "path_join (metadata_dir_of update_context) VALIDATE_CALLBACK = ''/usr/share/updatehub/validate-callback''"
    "path_join (metadata_dir_of update_context) ROLLBACK_CALLBACK = ''/usr/share/updatehub/rollback-callback''" by code_simp+
  have c: "''/usr/share/updatehub/validate-callback'' \<notin> {GET_SCRIPT, set_command InstA, set_command InstB}"
    "''/usr/share/updatehub/rollback-callback'' \<notin> {GET_SCRIPT, set_command InstA, set_command InstB}" by code_simp+
  show ?thesis unfolding callbacks_help_def validate_callback_def rollback_callback_def Let_def j
    using c by (auto simp: update_J_def fs_exists_def update_env_def update_run_def example_env_def callback_env_def example_run_def
        run_command_for_state_def exec_def io_map_err_def io_simps)
qed

lemma update_carried_through_witness:
  "\<forall>f. \<exists>d r. turns (update_env f) 6 Probe update_context = Some (EntryPoint, d) \<and>
     rs_load (update_env f) ''/rs'' (c_sys d) = (Inr r, c_sys d) \<and>
     (\<exists>q t. handle_startup_callbacks (update_env f) (c_settings update_context) (enable_persistency r, c_sys d) = (Inr (), (q, t)) \<and>
       example_slot (device t) = (if f then InstA else InstB))"
proof
  fix f
  have s: "c_queue update_context = []" "rs_path (c_runtime update_context) = ''/rs''" "persistent (c_runtime update_context)"
    by (simp_all add: update_context_def example_context_def)
  have f: "fetchable (update_env f) (download_dir_of update_context) (objects (served_package ''a'') InstB) (c_sys update_context)"
    unfolding served_objects by code_simp
  have p: "fst (send_probe (update_env f) update_context) = Inr (Update (served_package ''a'') None)" by code_simp
  have k: "slot_kept (update_env f) example_slot" "\<not> v1_parsing (update_env f)"
    using callback_env_kept [of f] by (simp_all add: slot_kept_def update_env_def update_run_def example_env_def)
  from update_carried_through [OF update_favourable update_ready s(1) f p update_server_has s(3) update_text_round_trip k update_callbacks]
  show "\<exists>d r. turns (update_env f) 6 Probe update_context = Some (EntryPoint, d) \<and>
     rs_load (update_env f) ''/rs'' (c_sys d) = (Inr r, c_sys d) \<and>
     (\<exists>q t. handle_startup_callbacks (update_env f) (c_settings update_context) (enable_persistency r, c_sys d) = (Inr (), (q, t)) \<and>
       example_slot (device t) = (if f then InstA else InstB))"
    unfolding s(2) by (cases f) fastforce+
qed

end
