(* ===== verification/UH_Daemon.thy ===== *)
theory UH_Daemon
  imports UH_Client UH_Restart
begin

text \<open>
  \<open>updatehub/src/main.rs\<close>: the daemon and the end of the program, and with them the whole life of an
  update: from the agent that starts on a device over the update it finds, the reboot and the starts
  after it to the probe that looks for the next one.
\<close>

section \<open>The program\<close>

text \<open>\<open>verbosity\<close> is a level of \<open>slog\<close>.\<close>

record 'l daemon_options =
  verbosity :: 'l
  config :: string

datatype 'l entry_points = Client client_options | Daemon "'l daemon_options"

text \<open>\<open>logger::init\<close>: the records that reach the log in memory. \<open>at_least\<close> is the order of \<open>slog\<close>'s levels: a record
  of the first passes a filter of the second.\<close>

definition logger_init :: "(string \<Rightarrow> 'l \<Rightarrow> bool) \<Rightarrow> 'l \<Rightarrow> env \<Rightarrow> env" where
  "logger_init at_least lvl E = E\<lparr>log_enabled := \<lambda>l. at_least l lvl\<rparr>"

text \<open>The daemon on a process whose logger is set up. The context is the one the machine starts with. With a socket that is no address the machine is created, but
  the program ends before it turns.\<close>

definition daemon_main :: "env \<Rightarrow> 'l daemon_options \<Rightarrow> (sys, agent_error stop, agent_context) io" where
  "daemon_main E cmd = io_bind (run_agent E (config cmd)) (\<lambda>(c, is_address).
     if is_address then io_return c else io_throw (Fails AeAddrParse))"

fun sdk_error_text :: "env \<Rightarrow> sdk_error \<Rightarrow> string" where
  "sdk_error_text E (AgentIsBusy s) = ''Agent is busy: '' @ api_state_debug s"
| "sdk_error_text E (AbortDownloadRefused r) =
     ''Abort download was refused: Refused { error: '' @ path_debug (abort_error r) @ '' }''"
| "sdk_error_text E (UnexpectedResponse n) = ''Unexpected response: '' @ status_text E n"
| "sdk_error_text E (SdkClient e) = e"
| "sdk_error_text E (SdkIo e) = io_text E e"
| "sdk_error_text E SdkEnv = fixed_text E ''VarError''"

text \<open>How the program goes on: it ends, with what it printed, what it reported as an error and its exit code;
  or it serves requests while the machine turns. A panic ends it with the exit code Rust gives it.\<close>

datatype program = Exits "string list" "string list" int | Serves agent_context | Hangs

definition reported :: "string list \<Rightarrow> string option \<Rightarrow> program" where
  "reported out e = (case e of None \<Rightarrow> Exits out [] 0 | Some m \<Rightarrow> Exits out [m] 1)"

fun daemon_end :: "env \<Rightarrow> agent_error stop + agent_context \<Rightarrow> program" where
  "daemon_end E (Inr c) = Serves c"
| "daemon_end E (Inl (Fails e)) = reported [] (Some (agent_error_text E e))"
| "daemon_end E (Inl Panics) = Exits [] [] 101"
| "daemon_end E (Inl Blocks) = Hangs"

text \<open>The client works on the network, the daemon on the device.\<close>

definition main :: "(string \<Rightarrow> 'l \<Rightarrow> bool) \<Rightarrow> env \<Rightarrow> printer \<Rightarrow> string \<Rightarrow> nat \<Rightarrow> (sdk_client \<Rightarrow> 's transport) \<Rightarrow> 'l entry_points \<Rightarrow>
    's \<times> sys \<Rightarrow> program \<times> ('s \<times> sys)" where
  "main at_least E P cwd n net entry_point = (\<lambda>(w, s). case entry_point of
      Client opts \<Rightarrow> (case client_main E P cwd n net opts w of
        ((out, e), w') \<Rightarrow> (reported out (map_option (sdk_error_text E) e), (w', s)))
    | Daemon cmd \<Rightarrow> (let E' = logger_init at_least (verbosity cmd) E
        in case daemon_main E' cmd s of (r, t) \<Rightarrow> (daemon_end E' r, (w, t))))"

section \<open>A start that succeeds\<close>

text \<open>The device after a restart: what is stored is there, the clock and what was running are not.\<close>

definition restarted :: "sys \<Rightarrow> sys \<Rightarrow> bool" where
  "restarted s t \<longleftrightarrow> files t = files s \<and> device t = device s"

text \<open>What the daemon reads when it starts, on files with \<open>J\<close>: its settings, with runtime settings that are
  kept in the file \<open>f\<close>, and some metadata; and settings with an address to listen on.\<close>

definition reads_settings :: "env \<Rightarrow> (sys \<Rightarrow> bool) \<Rightarrow> 'l daemon_options \<Rightarrow> settings \<Rightarrow> string \<Rightarrow> bool" where
  "reads_settings E J cmd cfg f \<longleftrightarrow>
     runtime_settings_file (storage cfg) = f \<and> \<not> read_only (storage cfg) \<and>
     (\<forall>s. J s \<longrightarrow> load_settings E (config cmd) s = (Inr cfg, s)) \<and>
     (\<forall>s. J s \<longrightarrow> (\<exists>fw t. metadata_from_path E (metadata_dir (firmware cfg)) s = (Inr fw, t) \<and> restarted s t))"

definition can_listen :: "env \<Rightarrow> settings \<Rightarrow> bool" where
  "can_listen E cfg \<longleftrightarrow> socket_ok E (replace_all ''localhost'' ''127.0.0.1'' (listen_socket (network cfg)))"

definition starts_with_settings :: "env \<Rightarrow> (sys \<Rightarrow> bool) \<Rightarrow> 'l daemon_options \<Rightarrow> settings \<Rightarrow> string \<Rightarrow> bool" where
  "starts_with_settings E J cmd cfg f \<longleftrightarrow> reads_settings E J cmd cfg f \<and> can_listen E cfg"

text \<open>The machine a start leads to.\<close>

definition started_with :: "env \<Rightarrow> settings \<Rightarrow> runtime_settings \<Rightarrow> agent_context \<Rightarrow> bool" where
  "started_with E cfg r c \<longleftrightarrow> c_settings c = cfg \<and> c_runtime c = r \<and> c_queue c = [] \<and> c_waker c = 0 \<and>
     c_drain c = start_logging drain_default"

lemma on_disk_restarted: "restarted s t \<Longrightarrow> on_disk E r s \<Longrightarrow> on_disk E r t"
  unfolding restarted_def using on_disk_files by blast

lemma on_disk_stored [simp]: "on_disk E (r\<lparr>v1_content := None\<rparr>) s = on_disk E r s"
  by (simp add: on_disk_def storable_def rs_serialize_def enc_rs_def)

lemma daemon_starts:
  assumes "reads_settings E J cmd cfg f" "J s" "fault_free E" "\<And>r. text_round_trip E r"
    and "on_disk E r s" "persistent r" "rs_path r = f"
    and "\<And>u. restarted s u \<Longrightarrow> \<exists>q t. handle_startup_callbacks E cfg (r\<lparr>v1_content := None\<rparr>, u) = (Inr (), (q, t)) \<and> P q t"
  shows "\<exists>c. daemon_main E cmd s = (if can_listen E cfg then Inr c else Inl (Fails AeAddrParse), c_sys c) \<and>
    started_with E cfg (c_runtime c) c \<and> P (c_runtime c) (c_sys c)"
proof -
  let ?r = "r\<lparr>v1_content := None\<rparr>"
  have l: "load_settings E (config cmd) s = (Inr cfg, s)" and w: "runtime_settings_file (storage cfg) = f" "\<not> read_only (storage cfg)"
    using assms(1,2) by (simp_all add: reads_settings_def)
  have n: "node f s = Some (Regular (rs_serialize E r))" using assms(5-7) by (simp add: on_disk_def)
  have "readable E f s" using assms(3) by (simp add: readable_def)
  from rs_load_stored [OF this n _ assms(4)] assms(7) have rs: "rs_load E f s = (Inr ?r, s)" by (simp add: node_bytes_def)
  obtain fw u where m: "metadata_from_path E (metadata_dir (firmware cfg)) s = (Inr fw, u)" "restarted s u"
    using assms(1,2) unfolding reads_settings_def by blast
  obtain q t where h: "handle_startup_callbacks E cfg (?r, u) = (Inr (), (q, t))" "P q t" using assms(8) [OF m(2)] by blast
  have e: "enable_persistency ?r = ?r" using assms(6) by (simp add: enable_persistency_def)
  let ?c = "\<lparr>c_settings = cfg, c_runtime = q, c_firmware = fw, c_waker = 0, c_queue = [], c_replies = [],
    c_drain = startup_log E (Inr ()) t, c_sys = t\<rparr>"
  have "daemon_main E cmd s = (if can_listen E cfg then Inr ?c else Inl (Fails AeAddrParse), t)"
    using l rs m(1) w h(1) e by (simp add: daemon_main_def run_agent_def io_simps io_map_err_def can_listen_def)
  then have "daemon_main E cmd s = (if can_listen E cfg then Inr ?c else Inl (Fails AeAddrParse), c_sys ?c) \<and>
    started_with E cfg (c_runtime ?c) ?c \<and> P (c_runtime ?c) (c_sys ?c)" using h(2) by (simp add: started_with_def startup_log_def)
  then show ?thesis by blast
qed

section \<open>After the update\<close>

text \<open>An agent whose update is decided on probes at once, and not a second time because of it.\<close>

definition resumed :: "env \<Rightarrow> ((string \<Rightarrow> string) \<Rightarrow> installation_set) \<Rightarrow> settings \<Rightarrow> installation_set \<Rightarrow> agent_context \<Rightarrow> bool" where
  "resumed E slot cfg a c \<longleftrightarrow> c_settings c = cfg \<and> slot (device (c_sys c)) = a \<and> decided (c_runtime c) \<and>
     (\<exists>d. turns E 1 EntryPoint c = Some (Probe, d) \<and> \<not> is_polling_forced (c_runtime d) \<and>
        rs_update (c_runtime d) = \<lparr>upgrade_to_installation = None, applied_package_uid = None\<rparr>)"

lemma forced_probe:
  assumes "fault_free E" "c_queue c = []" "decided (c_runtime c)" "storable (c_runtime c) (c_sys c)"
  shows "\<exists>d. turns E 1 EntryPoint c = Some (Probe, d) \<and> \<not> is_polling_forced (c_runtime d) \<and>
    rs_update (c_runtime d) = \<lparr>upgrade_to_installation = None, applied_package_uid = None\<rparr>"
proof -
  let ?r = "upd_polling (\<lambda>p. p\<lparr>poll_now := False\<rparr>) (c_runtime c)"
  have "storable ?r (c_sys c)" using assms(4) by (simp add: storable_def upd_polling_def)
  from rs_save_succeeds [OF assms(1) this] obtain t where "rs_save E ?r (c_sys c) = (Inr (), t)" by blast
  then have e: "disable_force_poll E (c_runtime c, c_sys c) = (Inr (), (?r, t))" by (simp add: force_poll_off.op_eq)
  have "succeeds (move_to_next_state E None EntryPoint) (c\<lparr>c_waker := 0\<rparr>) (\<lambda>out d. out = (Probe, Immediate) \<and> c_runtime d = ?r)"
  proof -
    let ?l = "log_line E ''info'' ''triggering Probe to finish update'' (c_sys c) (c_drain c)"
    have "handle_entry_point E (c\<lparr>c_waker := 0\<rparr>) =
        io_then (runtime_act (disable_force_poll E)) (io_return (Probe, Immediate)) (c\<lparr>c_waker := 0, c_drain := ?l\<rparr>)"
      using assms(3) by (simp add: handle_entry_point_def decided_def)
    then show ?thesis by (simp add: succeeds_def io_simps runtime_act_def on_runtime_def io_zoom_def io_map_err_def e)
  qed
  from turns_Suc [OF turn_succeeds [OF assms(2) this]] obtain d where d: "c_runtime d = ?r" "turns E (Suc 0) EntryPoint c = turns E 0 Probe d"
    by blast
  then show ?thesis using assms(3) by (auto simp: decided_def is_polling_forced_def upd_polling_def)
qed

lemma started_resumed:
  assumes "fault_free E" "started_with E cfg (cleared_installation r) c" "slot (device (c_sys c)) = a"
    and "on_disk E (cleared_installation r) (c_sys c)"
  shows "resumed E slot cfg a c"
  using on_disk_storable [OF assms(4)] forced_probe [OF assms(1), of c] assms(2-4) cleared_decided [of r] by (simp add: resumed_def started_with_def)

text \<open>The first start after the update, and the one after the update was rolled back.\<close>

lemma first_daemon:
  assumes out: "outside_helps E slot" and k: "slot_kept E slot" "\<not> v1_parsing E" and tr: "\<And>r. text_round_trip E r"
    and cb: "callbacks_help E J (metadata_dir (firmware cfg)) v" and st: "reads_settings E J cmd cfg f" "can_listen E cfg" and j: "of_files J" "J s"
    and d: "on_disk E r s" "persistent r" "rs_path r = f"
    and up: "upgrade_to_installation (rs_update r) = Some a" and act: "slot (device s) = a"
  shows "\<exists>e t. daemon_main E cmd s = (Inr e, t) \<and> (case v of
      Continue \<Rightarrow> resumed E slot cfg a e
    | Cancel \<Rightarrow> slot (device (c_sys e)) = other_set a \<and> last (commands (c_sys e)) = ''reboot'' \<and>
        on_disk E r (c_sys e) \<and> files (c_sys e) = files s)"
proof -
  have ff: "fault_free E" using out by (simp add: outside_helps_def)
  let ?r = "r\<lparr>v1_content := None\<rparr>"
  let ?P = "\<lambda>q t. case v of Continue \<Rightarrow> q = cleared_installation ?r \<and> slot (device t) = a \<and> on_disk E q t
     | Cancel \<Rightarrow> slot (device t) = other_set a \<and> last (commands t) = ''reboot'' \<and> on_disk E r t \<and> files t = files s"
  have "\<exists>q t. handle_startup_callbacks E cfg (?r, u) = (Inr (), (q, t)) \<and> ?P q t" if u: "restarted s u" for u
  proof -
    have f: "files u = files s" "device u = device s" using u by (simp_all add: restarted_def)
    have "J u" using of_filesD [OF j f(1)] .
    moreover have "on_disk E ?r u" using on_disk_restarted [OF u d(1)] by simp
    moreover have "upgrade_to_installation (rs_update ?r) = Some a" "slot (device u) = a" using up act f(2) by simp_all
    ultimately have "\<exists>q t. handle_startup_callbacks E cfg (?r, u) = (Inr (), (q, t)) \<and>
      (case v of Continue \<Rightarrow> q = cleared_installation ?r \<and> slot (device t) = a \<and> on_disk E q t
       | Cancel \<Rightarrow> q = ?r \<and> slot (device t) = other_set a \<and> last (commands t) = ''reboot'' \<and> on_disk E ?r t \<and> files t = files u)"
      by (rule first_start [OF out k cb j(1)])
    then show ?thesis using f(1) by (cases v) auto
  qed
  from daemon_starts [OF st(1) j(2) ff tr d this] st(2) obtain e where
    e: "daemon_main E cmd s = (Inr e, c_sys e)" "started_with E cfg (c_runtime e) e" "?P (c_runtime e) (c_sys e)" by auto
  show ?thesis
  proof (cases v)
    case Continue
    then have q: "c_runtime e = cleared_installation ?r" "slot (device (c_sys e)) = a" "on_disk E (cleared_installation ?r) (c_sys e)"
      using e(3) by auto
    have "resumed E slot cfg a e" using e(2) q(2,3) unfolding q(1) by (rule started_resumed [OF ff])
    then show ?thesis using e(1) Continue by auto
  next
    case Cancel
    then show ?thesis using e by auto
  qed
qed

lemma second_daemon:
  assumes out: "outside_helps E slot" and tr: "\<And>r. text_round_trip E r"
    and st: "reads_settings E J cmd cfg f" "can_listen E cfg" and j: "J s" and d: "on_disk E r s" "persistent r" "rs_path r = f"
    and up: "upgrade_to_installation (rs_update r) = Some a" and act: "slot (device s) = other_set a"
  shows "\<exists>e t. daemon_main E cmd s = (Inr e, t) \<and> resumed E slot cfg (other_set a) e"
proof -
  have ff: "fault_free E" using out by (simp add: outside_helps_def)
  let ?r = "r\<lparr>v1_content := None\<rparr>"
  have "\<exists>q t. handle_startup_callbacks E cfg (?r, u) = (Inr (), (q, t)) \<and>
      (q = cleared_installation ?r \<and> slot (device t) = other_set a \<and> on_disk E q t)" if u: "restarted s u" for u
    using second_start [OF out, of ?r u a cfg] on_disk_restarted [OF u d(1)] up act u by (auto simp: restarted_def)
  from daemon_starts [OF st(1) j ff tr d this] st(2) obtain e where
    "daemon_main E cmd s = (Inr e, c_sys e)" "started_with E cfg (c_runtime e) e"
    "c_runtime e = cleared_installation ?r" "slot (device (c_sys e)) = other_set a" "on_disk E (c_runtime e) (c_sys e)" by auto
  then show ?thesis using started_resumed [OF ff, of cfg ?r e slot "other_set a"] by auto
qed

section \<open>Properties\<close>

text \<open>C2: The life of an update. When nothing prevents an update, an agent whose next probe is due goes from
  its start over the probe, the download and the installation to the reboot in eight turns, with the set of
  the update active. The daemon of the restarted device goes on if the callback of the firmware accepts the
  update: the set stays active, the update is forgotten, and the machine probes at once for the next
  one. If not, that daemon makes the other set active and reboots, and the daemon after it forgets the update and goes on
  with the other set in the same way.\<close>

theorem update_cycle:
  assumes "favourable E slot a J p g c" and "device_ready slot a J c (c_sys c)" and "about_to_probe c"
    and "fetchable E (download_dir_of c) (objects p a) (c_sys c)" and "fst (send_probe E c) = Inr (Update p g)"
    and "server_has E a body p c"
    and "persistent (c_runtime c)" and "\<And>r. text_round_trip E r" and "slot_kept E slot" and "\<not> v1_parsing E"
    and "callbacks_help E J (metadata_dir_of c) v"
    and "starts_with_settings E J cmd (c_settings c) (rs_path (c_runtime c))"
  shows "map (\<lambda>n. map_option fst (turns E n EntryPoint c)) [1, 2, 3, 4, 5, 6, 7] =
      map Some [Poll, Probe, Validation p g True, Download p g, Validation p g False, Install p (installer_context_for E c p False),
        Reboot (with_objects a (sort_objects (objects p a)) p)] \<and>
    (\<exists>d. turns E 8 EntryPoint c = Some (EntryPoint, d) \<and>
    last (commands (c_sys d)) = ''reboot'' \<and> slot (device (c_sys d)) = a \<and>
    (\<forall>s. restarted (c_sys d) s \<longrightarrow> (\<exists>e t. daemon_main E cmd s = (Inr e, t) \<and> (case v of
         Continue \<Rightarrow> resumed E slot (c_settings c) a e
       | Cancel \<Rightarrow> slot (device (c_sys e)) = other_set a \<and> last (commands (c_sys e)) = ''reboot'' \<and>
           (\<forall>s'. restarted (c_sys e) s' \<longrightarrow> (\<exists>e' t'. daemon_main E cmd s' = (Inr e', t') \<and>
              resumed E slot (c_settings c) (other_set a) e'))))))"
proof -
  have out: "outside_helps E slot" and j: "of_files J"
    using assms(1) paths_apart_files [of c J] by (simp_all add: favourable_def)
  have st: "reads_settings E J cmd (c_settings c) (rs_path (c_runtime c))" "can_listen E (c_settings c)"
    using assms(12) by (simp_all add: starts_with_settings_def)
  obtain d where d: "turns E 8 EntryPoint c = Some (EntryPoint, d)" "arrived E slot a J p c d" "last (commands (c_sys d)) = ''reboot''"
    using update_from_start [OF assms(1-6)] by blast
  let ?r = "c_runtime d" and ?cfg = "c_settings c"
  have r: "rs_path ?r = rs_path (c_runtime c)" "persistent ?r" "on_disk E ?r (c_sys d)" "slot (device (c_sys d)) = a"
    "upgrade_to_installation (rs_update ?r) = Some a" and jd: "J (c_sys d)"
    using d(2) assms(7) of_filesD [OF j] by (auto simp: arrived_def)
  have cb: "callbacks_help E J (metadata_dir (firmware ?cfg)) v" using assms(11) by (simp add: metadata_dir_of_def)
  have "\<exists>e t. daemon_main E cmd s = (Inr e, t) \<and> (case v of
         Continue \<Rightarrow> resumed E slot ?cfg a e
       | Cancel \<Rightarrow> slot (device (c_sys e)) = other_set a \<and> last (commands (c_sys e)) = ''reboot'' \<and>
           (\<forall>s'. restarted (c_sys e) s' \<longrightarrow> (\<exists>e' t'. daemon_main E cmd s' = (Inr e', t') \<and> resumed E slot ?cfg (other_set a) e')))"
    if s: "restarted (c_sys d) s" for s
  proof -
    have f: "files s = files (c_sys d)" "slot (device s) = a" using s r(4) by (simp_all add: restarted_def)
    have js: "J s" using of_filesD [OF j jd f(1)] .
    from first_daemon [OF out assms(9,10,8) cb st j js on_disk_restarted [OF s r(3)] r(2,1,5) f(2)]
    obtain e t where e: "daemon_main E cmd s = (Inr e, t)" "case v of Continue \<Rightarrow> resumed E slot ?cfg a e
      | Cancel \<Rightarrow> slot (device (c_sys e)) = other_set a \<and> last (commands (c_sys e)) = ''reboot'' \<and>
          on_disk E ?r (c_sys e) \<and> files (c_sys e) = files s" by blast
    have "\<exists>e' t'. daemon_main E cmd s' = (Inr e', t') \<and> resumed E slot ?cfg (other_set a) e'"
      if "v = Cancel" "restarted (c_sys e) s'" for s'
    proof -
      have g: "files s' = files s" "slot (device s') = other_set a" "on_disk E ?r (c_sys e)"
        using that e(2) by (simp_all add: restarted_def)
      show ?thesis
        using second_daemon [OF out assms(8) st of_filesD [OF j js g(1)] on_disk_restarted [OF that(2) g(3)] r(2,1,5) g(2)] .
    qed
    then show ?thesis using e by (cases v) auto
  qed
  then show ?thesis using d(1,3) r(4) conjunct1 [OF update_from_start [OF assms(1-6)]] by blast
qed

text \<open>The daemon on the device of the example.\<close>

lemma update_dir_entries:
  assumes "update_J s"
  shows "dir_entries ''/usr/share/updatehub/device-identity.d'' s = [''/usr/share/updatehub/device-identity.d/id'']"
proof -
  let ?d = "''/usr/share/updatehub/device-identity.d''" and ?i = "''/usr/share/updatehub/device-identity.d/id''"
  have p: "path_parent ?i = Some ?d" by code_simp
  have "q \<in> set (map fst (files s)) \<longleftrightarrow> q = ?i" if "path_parent q = Some ?d" for q
  proof -
    have "q \<in> set (map fst (files s)) \<longleftrightarrow> node q s \<noteq> None" by (simp add: node_def map_of_eq_None_iff)
    then show ?thesis using assms that unfolding update_J_def by (cases "q = ?i") auto
  qed
  then have "set (dir_entries ?d s) = {?i}" using p by (auto simp: dir_entries_def)
  moreover have "distinct (dir_entries ?d s)" by (simp add: dir_entries_def)
  ultimately show ?thesis
    by (cases "dir_entries ?d s"; cases "tl (dir_entries ?d s)") (auto simp: insert_eq_iff)
qed

lemma update_metadata:
  assumes "update_J s"
  shows "\<exists>fw t. metadata_from_path (update_env f) ''/usr/share/updatehub'' s = (Inr fw, t) \<and> restarted s t"
proof -
  let ?E = "update_env f" and ?d = "''/usr/share/updatehub''"
  have p: "path_join ?d PRODUCT_UID_HOOK = ''/usr/share/updatehub/product-uid''" "path_join ?d VERSION_HOOK = ''/usr/share/updatehub/version''"
    "path_join ?d HARDWARE_HOOK = ''/usr/share/updatehub/hardware''" "path_join ?d DEVICE_IDENTITY_DIR = ''/usr/share/updatehub/device-identity.d''"
    "path_join ?d DEVICE_ATTRIBUTES_DIR = ''/usr/share/updatehub/device-attributes.d''" by code_simp+
  have e: "fs_exists ?E q u \<longleftrightarrow> node q u \<noteq> None" "guarded ?E op q m u = m u" for q u op and m :: "sys \<Rightarrow> (io_error + 'b) \<times> sys"
    by (simp_all add: fs_exists_def guarded_def update_env_def example_env_def)
  let ?s1 = "s\<lparr>commands := commands s @ [''/usr/share/updatehub/product-uid'']\<rparr>"
  let ?s2 = "s\<lparr>commands := commands s @ [''/usr/share/updatehub/product-uid'', ''/usr/share/updatehub/device-identity.d/id'']\<rparr>"
  have nc [simp]: "node q (u\<lparr>commands := cs\<rparr>) = node q u" for q u cs by (simp add: node_def)
  have i: "path_parent ''/usr/share/updatehub/device-identity.d/id'' = Some ''/usr/share/updatehub/device-identity.d''" by code_simp
  have n: "node ''/usr/share/updatehub/product-uid'' s \<noteq> None" "node ''/usr/share/updatehub/version'' s = None" "node ''/usr/share/updatehub/hardware'' s = None"
    "node ''/usr/share/updatehub/device-attributes.d'' s = None" "node ''/usr/share/updatehub/device-identity.d'' s \<noteq> None"
    using assms unfolding update_J_def by simp_all
  have ni: "node ''/usr/share/updatehub/device-identity.d/id'' s \<noteq> None" using assms i unfolding update_J_def by auto
  have r: "exec ?E ''/usr/share/updatehub/product-uid'' u = (Inr \<lparr>stdout = replicate 64 (CHR ''a''), stderr = []\<rparr>, u\<lparr>commands := commands u @ [''/usr/share/updatehub/product-uid'']\<rparr>)"
    "exec ?E ''/usr/share/updatehub/device-identity.d/id'' u = (Inr \<lparr>stdout = ''id=1'', stderr = []\<rparr>, u\<lparr>commands := commands u @ [''/usr/share/updatehub/device-identity.d/id'']\<rparr>)" for u
    by (simp_all add: exec_def update_env_def update_run_def)
  have t: "str_trim (replicate 64 (CHR ''a'')) = replicate 64 (CHR ''a'')" "str_trim ''id=1'' = ''id=1''"
    "metadata_value_from_str (str_join [newline] [''id=1'']) = Inr [(''id'', [''1''])]" by code_simp+
  have 1: "run_hook ?E ''/usr/share/updatehub/product-uid'' s = (Inr (replicate 64 (CHR ''a'')), ?s1)"
    unfolding run_hook_def run_script_def using n(1) by (simp only: e io_simps r t) (simp add: r t io_simps)
  have 2: "run_hook ?E ''/usr/share/updatehub/version'' ?s1 = (Inr [], ?s1)" "run_hook ?E ''/usr/share/updatehub/hardware'' ?s1 = (Inr [], ?s1)"
    unfolding run_hook_def using n(2,3) by (simp_all only: e nc) simp_all
  have "dir_entries ''/usr/share/updatehub/device-identity.d'' ?s1 = [''/usr/share/updatehub/device-identity.d/id'']"
    using update_dir_entries [OF assms] by (simp add: dir_entries_def)
  moreover have "run_hook ?E ''/usr/share/updatehub/device-identity.d/id'' ?s1 = (Inr ''id=1'', ?s2)"
    unfolding run_hook_def run_script_def using ni by (simp only: e io_simps r t nc) (simp add: r t io_simps)
  ultimately have 3: "run_hooks_from_dir ?E ''/usr/share/updatehub/device-identity.d'' ?s1 = (Inr [(''id'', [''1''])], ?s2)"
    unfolding run_hooks_from_dir_def using n(5) t(3)
    by (auto simp: io_bind_def io_map_err_def e io_return_def io_lift_def io_then_def)
  have 4: "run_hooks_from_dir ?E ''/usr/share/updatehub/device-attributes.d'' ?s2 = (Inl (FwWalkdir NotFound), ?s2)"
    unfolding run_hooks_from_dir_def using n(4) by (simp add: io_bind_def io_map_err_def e)
  show ?thesis
    unfolding metadata_from_path_def p
    by (simp add: io_simps 1 2 3 4 check_metadata_def restarted_def)
qed

definition example_daemon :: "unit daemon_options" where
  "example_daemon = \<lparr>verbosity = (), config = ''/c''\<rparr>"

lemma update_reads:
  assumes "cfg = (if b = [] then update_settings else homeless_settings)" "\<And>s. J s \<Longrightarrow> update_J s" "\<And>s. J s \<Longrightarrow> node g s = Some (Regular b)"
  shows "reads_settings (update_env f) J \<lparr>verbosity = (), config = g\<rparr> cfg ''/rs''"
proof -
  have "load_settings (update_env f) g s = (Inr cfg, s)" if "J s" for s
  proof -
    have n: "node g s = Some (Regular b)" using assms(3) [OF that] .
    have "interval (polling cfg) = seconds (24 * 60 * 60)"
      by (simp add: assms(1) homeless_settings_def update_settings_def settings_default_def)
    then have "duration_of_text (update_env f) (duration_text (interval (polling cfg))) = Some (interval (polling cfg))"
      by (simp add: duration_of_text_def update_env_def seconds_def nanos_def)
    from dec_enc_settings [OF this] have "toml_settings (update_env f) b = Inr cfg"
      using assms(1) by (simp add: toml_settings_def update_env_def res_bind_def ok_or_def)
    moreover have "check_settings update_settings = Inr update_settings" "check_settings homeless_settings = Inr homeless_settings" by code_simp+
    ultimately have "parse_settings (update_env f) b = Inr cfg" using assms(1) by (simp add: parse_settings_def res_bind_def)
    moreover have "fs_exists (update_env f) g s" "fs_read (update_env f) g s = (Inr b, s)"
      using n by (simp_all add: fs_exists_def fs_read_def guarded_def update_env_def example_env_def node_bytes_def)
    ultimately show ?thesis by (simp add: load_settings_def io_simps)
  qed
  moreover have "runtime_settings_file (storage cfg) = ''/rs''" "\<not> read_only (storage cfg)" "metadata_dir (firmware cfg) = ''/usr/share/updatehub''"
    by (simp_all add: assms(1) homeless_settings_def update_settings_def settings_default_def)
  ultimately show ?thesis unfolding reads_settings_def using update_metadata assms(2) by simp
qed

lemma update_starts: "starts_with_settings (update_env f) update_J example_daemon (c_settings started_context) (rs_path (c_runtime started_context))"
proof -
  have "c_settings started_context = update_settings" "rs_path (c_runtime started_context) = ''/rs''"
    by (simp_all add: started_context_def update_context_def)
  moreover have "can_listen (update_env f) update_settings" by code_simp
  moreover have "reads_settings (update_env f) update_J example_daemon update_settings ''/rs''"
    unfolding example_daemon_def by (rule update_reads [where b = "[]"]) (simp_all add: update_J_def)
  ultimately show ?thesis by (simp add: starts_with_settings_def)
qed

theorem update_cycle_witness:
  "\<forall>f. \<exists>d. turns (update_env f) 8 EntryPoint started_context = Some (EntryPoint, d) \<and>
     (\<exists>e t. daemon_main (update_env f) example_daemon (c_sys d) = (Inr e, t) \<and>
       (if f then \<exists>e' t'. daemon_main (update_env f) example_daemon (c_sys e) = (Inr e', t') \<and>
            resumed (update_env f) example_slot update_settings InstA e'
        else resumed (update_env f) example_slot update_settings InstB e))"
proof
  fix f
  have s: "persistent (c_runtime started_context)" "metadata_dir_of started_context = metadata_dir_of update_context"
    "c_settings started_context = update_settings"
    by (simp_all add: started_context_def update_context_def metadata_dir_of_def)
  have k: "slot_kept (update_env f) example_slot" "\<not> v1_parsing (update_env f)"
    using callback_env_kept [of f] by (simp_all add: slot_kept_def update_env_def update_run_def example_env_def)
  have r: "restarted (c_sys d) (c_sys d)" for d by (simp add: restarted_def)
  from update_cycle [OF started s(1) update_text_round_trip k update_callbacks [folded s(2)] update_starts] r
  show "\<exists>d. turns (update_env f) 8 EntryPoint started_context = Some (EntryPoint, d) \<and>
     (\<exists>e t. daemon_main (update_env f) example_daemon (c_sys d) = (Inr e, t) \<and>
       (if f then \<exists>e' t'. daemon_main (update_env f) example_daemon (c_sys e) = (Inr e', t') \<and>
            resumed (update_env f) example_slot update_settings InstA e'
        else resumed (update_env f) example_slot update_settings InstB e))"
    unfolding s(3) by (cases f) fastforce+
qed

text \<open>C18: An update can be confirmed by an agent that does not run. When the settings of the updated set give
  no address to listen on, the daemon still runs the callback, marks the set as good and stores that the
  update is over; only then it ends with an error, and no later start returns to the other set.\<close>

theorem confirmed_without_socket:
  assumes "E = logger_init at_least (verbosity cmd) E0"
    and "outside_helps E slot" and "slot_kept E slot" and "\<not> v1_parsing E" and "\<And>r. text_round_trip E r"
    and "callbacks_help E J (metadata_dir (firmware cfg)) Continue" and "reads_settings E J cmd cfg f" and "\<not> can_listen E cfg"
    and "of_files J" and "J s" and "on_disk E r s" and "persistent r" and "rs_path r = f"
    and "upgrade_to_installation (rs_update r) = Some (slot (device s))"
  shows "\<exists>q t. main at_least E0 P cwd n net (Daemon cmd) (w, s) = (Exits [] [fixed_text E ''AddrParse''] 1, (w, t)) \<and>
    slot (device t) = slot (device s) \<and> rs_load E f t = (Inr q, t) \<and> decided q"
proof -
  have ff: "fault_free E" using assms(2) by (simp add: outside_helps_def)
  let ?r = "r\<lparr>v1_content := None\<rparr>" and ?a = "slot (device s)"
  have "\<exists>q t. handle_startup_callbacks E cfg (?r, u) = (Inr (), (q, t)) \<and>
      (q = cleared_installation ?r \<and> slot (device t) = ?a \<and> on_disk E q t)" if u: "restarted s u" for u
  proof -
    have "J u" "slot (device u) = ?a" using of_filesD [OF assms(9,10)] u by (simp_all add: restarted_def)
    moreover have "on_disk E ?r u" using on_disk_restarted [OF u assms(11)] by simp
    moreover have "upgrade_to_installation (rs_update ?r) = Some ?a" using assms(14) by simp
    ultimately show ?thesis using first_start [OF assms(2-4,6,9), of u ?r ?a] by simp
  qed
  from daemon_starts [OF assms(7,10) ff assms(5,11-13) this] obtain c where
    m: "daemon_main E cmd s = (if can_listen E cfg then Inr c else Inl (Fails AeAddrParse), c_sys c)" and
    c: "c_runtime c = cleared_installation ?r" "slot (device (c_sys c)) = ?a" "on_disk E (c_runtime c) (c_sys c)" by blast
  have m: "daemon_main E cmd s = (Inl (Fails AeAddrParse), c_sys c)" using m assms(8) by simp
  let ?q = "c_runtime c"
  have q: "rs_path ?q = f" "persistent ?q" "v1_content ?q = None"
    using c(1) assms(12,13) by (simp_all add: cleared_installation_eq)
  then have "node f (c_sys c) = Some (Regular (rs_serialize E ?q))" using c(3) by (simp add: on_disk_def)
  moreover have "readable E f (c_sys c)" using ff by (simp add: readable_def)
  ultimately have "rs_load E f (c_sys c) = (Inr (?q\<lparr>v1_content := None, rs_path := f\<rparr>), c_sys c)"
    using rs_load_stored [OF _ _ _ assms(5), of f "c_sys c" _ ?q] by (simp add: node_bytes_def)
  moreover have "decided (?q\<lparr>v1_content := None, rs_path := f\<rparr>)" using cleared_decided [of ?r] c(1) by (simp add: decided_def is_polling_forced_def)
  ultimately show ?thesis using m c(2) unfolding assms(1) by (auto simp: main_def reported_def Let_def)
qed

definition homeless_sys :: sys where
  "homeless_sys = set_node ''/rs'' (Regular (rs_serialize (update_env False) ((c_runtime update_context)\<lparr>rs_update := \<lparr>
       upgrade_to_installation = Some InstA, applied_package_uid = None\<rparr>\<rparr>))) (c_sys update_context)"

theorem confirmed_without_socket_witness:
  "\<exists>q t. main (\<lambda>_ _. True) (update_env False) \<lparr>json_info = \<lambda>_. [], debug_info = \<lambda>_. [], json_log = \<lambda>_. []\<rparr> ''/'' 0 (\<lambda>_ q s. (Inl [], s))
       (Daemon \<lparr>verbosity = (), config = ''/v''\<rparr>) ((), homeless_sys) = (Exits [] [''AddrParse''] 1, ((), t)) \<and>
     example_slot (device t) = InstA \<and> rs_load (update_env False) ''/rs'' t = (Inr q, t) \<and> decided q"
proof -
  let ?E = "update_env False" and ?r = "(c_runtime update_context)\<lparr>rs_update := \<lparr>
       upgrade_to_installation = Some InstA, applied_package_uid = None\<rparr>\<rparr>"
  let ?J = "\<lambda>s. update_J s \<and> node ''/v'' s = Some (Regular ''b'')"
  have fav: "outside_helps ?E example_slot" "paths_apart update_context update_J"
    using update_favourable [of False] by (simp_all add: favourable_def)
  have k: "slot_kept ?E example_slot" "\<not> v1_parsing ?E"
    using callback_env_kept [of False] by (simp_all add: slot_kept_def update_env_def update_run_def example_env_def)
  have u: "c_runtime update_context = rs_default\<lparr>rs_path := ''/rs'', persistent := True\<rparr>" by (simp add: update_context_def)
  have s: "storable (c_runtime update_context) (c_sys update_context)" "update_J (c_sys update_context)"
    using update_ready by (simp_all add: device_ready_def)
  have j: "update_J homeless_sys"
  proof -
    have "own_path update_context ''/rs''" by (simp add: own_path_def u)
    then have "\<forall>q. \<not> own_path update_context q \<longrightarrow> node q homeless_sys = node q (c_sys update_context)"
      by (auto simp: homeless_sys_def)
    then show ?thesis using fav(2) s(2) unfolding paths_apart_def by blast
  qed
  have v: "node ''/v'' homeless_sys = Some (Regular ''b'')"
    by (simp add: homeless_sys_def) code_simp
  have of: "of_files ?J"
    using paths_apart_files [OF fav(2)] by (auto simp: of_files_def node_def)
  have cb: "callbacks_help ?E ?J (metadata_dir (firmware homeless_settings)) Continue"
    using update_callbacks [of False] by (simp add: callbacks_help_def metadata_dir_of_def update_context_def homeless_settings_def)
  have rd: "reads_settings ?E ?J \<lparr>verbosity = (), config = ''/v''\<rparr> homeless_settings ''/rs''"
    by (rule update_reads [where b = "''b''"]) simp_all
  have l: "\<not> can_listen ?E homeless_settings" by code_simp
  have d: "on_disk ?E ?r homeless_sys"
    using storable_saved [OF s(1), of "rs_serialize ?E ?r"] u
    by (simp add: on_disk_def storable_def homeless_sys_def)
  have a: "example_slot (device homeless_sys) = InstA" by (simp add: homeless_sys_def) code_simp
  have t: "fixed_text ?E ''AddrParse'' = ''AddrParse''" by (simp add: update_env_def example_env_def)
  have i: "?E = logger_init (\<lambda>_ _. True) (verbosity \<lparr>verbosity = (), config = ''/v''\<rparr>) ?E"
    by (simp add: logger_init_def update_env_def example_env_def)
  have r: "persistent ?r" "rs_path ?r = ''/rs''" "upgrade_to_installation (rs_update ?r) = Some (example_slot (device homeless_sys))"
    using u a by simp_all
  have h: "?J homeless_sys" using j v by simp
  show ?thesis by (rule confirmed_without_socket [OF i fav(1) k update_text_round_trip cb rd l of h d r, unfolded t a])
qed

end
