(* ===== verification/Spec2Isabelle.thy ===== *)
theory Spec2Isabelle
  imports UH_Local UH_Packages UH_Lifecycle UH_Listener UH_Daemon
begin

text \<open>
  A model of the UpdateHub agent (\<open>updatehub/src\<close>), of the client of the update server it uses
  (\<open>updatehub-cloud-sdk/src\<close>), of the schema of the packages it installs
  (\<open>updatehub-package-schema/src\<close>) and of the library that programs on the device use to talk to it
  (\<open>updatehub-sdk/src\<close>), with the properties that make them correct.

  The program. The agent runs on a device with two installation sets. Its state machine asks the
  server for an update, checks the package, downloads its objects into a directory, checks them
  again, installs them into the set that is not active, makes that set the active one and reboots.
  At the next start the update is confirmed or rolled back by the callbacks of the firmware. Clients
  on the device ask over HTTP for information, for a probe, for the installation of a package, or
  for the end of a download; the requests reach the machine by a channel and wake it by another.
  What has to survive a restart is in the runtime settings. Scripts of the firmware give its
  metadata, are told of the states that are entered, and may cancel them.

  The outside. \<open>UH_System\<close> has the record \<open>sys\<close>, the state of the device (files, links, clock, the
  programs started and the requests sent), and the record \<open>env\<close>, which collects as functions what is
  not code of the repository: programs, servers, the JSON, TOML, INI, time and regular expression
  libraries, archives, checksums, signatures and errors of the operating system. Every definition
  that uses one takes \<open>env\<close> as its argument \<open>E\<close>; a theorem that relies on one states what it relies
  on as a hypothesis. Operations of the standard library are defined on \<open>sys\<close>.

  Computations. An operation is a function from a state to a result (\<open>Inl\<close> an error, \<open>Inr\<close> a value)
  and a state (\<open>UH_Prelude\<close>, type \<open>io\<close>), so that the effects before an error are kept, as they are in
  the code. An asynchronous function is the sequence of its effects; where others can come between,
  there is a step relation. \<open>stop\<close> adds to an error the outcomes that have no value in the code: a
  panic and a send that waits for ever.

  The theories, in the order they build on each other:
  \<^item> \<open>UH_Prelude\<close>, \<open>UH_Strings\<close>, \<open>UH_System\<close>, \<open>UH_Serde\<close>: computations with their rules (collections
    \<open>io_simps\<close>, \<open>frame\<close>), strings and paths, the device, and what derived decoders do on JSON values.
  \<^item> \<open>UH_Settings\<close> (\<open>settings.rs\<close>), \<open>UH_Runtime_Settings\<close> (\<open>runtime_settings.rs\<close>), \<open>UH_Firmware\<close>
    (\<open>firmware/mod.rs\<close>, \<open>hook.rs\<close>, \<open>installation_set.rs\<close>), \<open>UH_Log\<close> (\<open>mem_drain.rs\<close>, \<open>logger.rs\<close>),
    \<open>UH_Schema\<close> (\<open>updatehub-package-schema\<close>): the data of the agent with its readers and writers.
  \<^item> \<open>UH_Devices\<close> (\<open>utils/fs.rs\<close>, \<open>mtd.rs\<close>, \<open>definitions.rs\<close>): disk space, mounted devices, formatting.
  \<^item> \<open>UH_Delta\<close> (\<open>utils/delta.rs\<close>): the update of a target in place, call by call of the library.
  \<^item> \<open>UH_Cloud\<close> (\<open>updatehub-cloud-sdk\<close>): probe, download with resume, report, signature.
  \<^item> \<open>UH_Objects\<close> (\<open>object/info.rs\<close>, \<open>update_package\<close>), \<open>UH_Installers\<close> (\<open>object/installer\<close>): the status
    of an object on disk, the checks and the installation of each kind.
  \<^item> \<open>UH_Errors\<close>, \<open>UH_States\<close> (\<open>states\<close>): the datatype \<open>state\<close> has one constructor for each state of the
    agent, \<open>agent_context\<close> is the context with its channels, \<open>handle_validation\<close> and the others are
    the \<open>handle\<close> functions, \<open>move_to_next_state\<close> puts callbacks and progress reports around them.
  \<^item> \<open>UH_Machine\<close> (\<open>states/machine\<close>): \<open>handle_communication\<close> answers a request, \<open>turn\<close> is a turn of the
    loop, \<open>mstep\<close> the steps of the machine: a request arrives, time passes, a turn, an answer while
    the machine waits, the ends of a wait, and the requests that are lost when a wait ends, before or after what they sent.
  \<^item> \<open>UH_Sdk\<close> (\<open>updatehub-sdk/src/api\<close>, \<open>client.rs\<close>), \<open>UH_Http\<close> (\<open>http_api.rs\<close>, \<open>address.rs\<close>),
    \<open>UH_Client\<close> (\<open>main.rs\<close>), \<open>UH_Listener\<close> (\<open>listener.rs\<close>): the agent's HTTP API from both sides, the
    command line client, and the listener of state changes.
  \<^item> \<open>UH_Daemon\<close> (\<open>main.rs\<close>): the daemon, the filter of its log (\<open>logger_init\<close>) and the end of the program
    (\<open>main\<close>, with the datatype \<open>program\<close> for how it goes on).

  What the lemmas show.
  \<^item> \<open>UH_Frames\<close> states what it is for an action to keep a relation between contexts (locale
    \<open>act_frame\<close>) and proves it for every state at once; \<open>UH_Safety\<close> interprets it for what the states
    leave alone, and gives the successors of each state, the bounds of the channels, and what holds in the
    states that only a transition enters (locale \<open>entered\<close>).
  \<^item> \<open>UH_Slots\<close>: on a device whose scripts do what is documented (\<open>slot_law\<close>) no check of a validation
    changes the active set, and the set an installation takes is \<open>install_target\<close>: that of a pending
    upgrade, or else the one that is not active.
  \<^item> \<open>UH_Requests\<close>: accepted requests wake the machine; busy states refuse; a download that a client
    aborts ends in the state the abort asks for; and the two requests that together stop the agent.
  \<^item> \<open>UH_Updates\<close>: the set that is installed is the one that was checked; the delays between probes, the
    outcome of an installation and the order of its effects, its confirmation or rollback at the next
    start, and the ways an update goes wrong.
  \<^item> \<open>UH_Storage\<close>: what clearing and downloading leave in the download directory, and what a raw
    object writes.
  \<^item> \<open>UH_Installing\<close>: a raw object is not written twice, what a copied file becomes, what a delta update reuses.
  \<^item> \<open>UH_Packages\<close>: properties of the state that every step keeps (locale \<open>state_property\<close>), and with it that
    an installed package is the one that was signed.
  \<^item> \<open>UH_Progress\<close>: when nothing prevents an update (\<open>favourable\<close>) it is carried out, turn by turn, from the
    probe to the reboot. \<open>succeeds\<close> says that a computation ends without an error in a state of
    which something holds, and the collection \<open>success\<close> has its rules.
  \<^item> \<open>UH_Local\<close>: what becomes of a local package, and when its objects are missed.
  \<^item> \<open>UH_Restart\<close>: the start after the reboot reads back what was recorded, and confirms the update or rolls
    it back; together with \<open>UH_Progress\<close>, an update from its probe to its end.
  \<^item> \<open>UH_Durable\<close>: before a reboot the update is on disk, whatever happened before. It also leads an
    agent from its start to the probe (\<open>about_to_probe\<close>).
  \<^item> \<open>UH_Daemon\<close>: the life of an update over two or three starts of the daemon, with what a restart of the
    device keeps (\<open>restarted\<close>), and what becomes of an update whose daemon cannot listen.
  \<^item> \<open>UH_Lifecycle\<close>: an abstract life cycle of an update and the proof (locale \<open>simulation\<close>) that
    every step of the machine is one step of it or none, with the order that this gives the stages of
    a run.
  \<^item> \<open>UH_Settings\<close>: both formats of the settings file are read for what they say. \<open>UH_Devices\<close>: the search
    for devices that share storage finds exactly those the text of \<open>/sys\<close> relates to a device (\<open>rests_on\<close>,
    \<open>shared_storage\<close>), and the check of a device in use reads the mount table as the kernel prints it.
  \<^item> \<open>UH_Remote\<close>: each call of the client carried to the machine and back, on every state.
  Interfaces are locales (\<open>act_frame\<close>, \<open>entered\<close>, \<open>state_property\<close>, \<open>object_info\<close>, \<open>json_codec\<close>,
  \<open>simulation\<close> and those of the log and the settings), each interpreted on the definitions of the model.

  Bounds and fuel. Sizes, offsets and retries are 64-bit words, so that their products and sums wrap
  as in a release build; counters that only count entries of the log are natural numbers. \<open>mkdirs\<close>
  has fuel one more than the length of the path, and every parent is shorter. The search for related
  devices ends by a measure, without fuel. \<open>watch_log\<close> has the number of requests as an argument,
  since the loop it models only ends by an error. The loop of the agent is a relation, and its
  executions are of any length.

  Concurrency. The machine is one task. Requests that arrive during a download are given to \<open>turn\<close>
  as a list, with the point at which the download is dropped if one of them asks for another state
  (\<open>dropped\<close>: that point and that state, in which the download then ends); they touch nothing the
  download works on. Requests that arrive in other states wait in the channel.

  Not modelled. The parser of the command line, the terminal drain and the locks of the log, the readers and writers with a timeout
  (\<open>utils/io.rs\<close>), the formatting of errors in log lines (\<open>utils/log.rs\<close>), the version text of the
  build: libraries do the work there, and the code has no state of its own. The log of the model has the
  lines that the states and the start of the agent write; it leaves out those at the levels debug and
  trace, and those written by operations that do not see the context (settings, runtime settings,
  hooks, startup callbacks, the operations on objects). The HTTP server and client, the format of delta archives and
  where their chunks go, decompression, mounting and the ioctl of flash devices are parameters. Files have no hard links
  and no permissions that prevent reading, except by the errors \<open>env\<close> gives; an operation that fails
  has no effect. Test modules and mocks are left out.
\<close>

end
